(* ===== verification/Prelude.thy ===== *)
theory Prelude
  imports Main "HOL-Library.Sublist"
begin

text \<open>
  The shared vocabulary of the development.

  \<^item> Go errors, and the three ways a Go call ends: it returns a value, it returns a
    non-nil error, or it panics (a nil dereference, a write to a nil map, an index out of
    range). Calls that change the world take the state and return it.
  \<^item> 64-bit \<open>time.Duration\<close> arithmetic on \<open>int\<close> with the wrap-around written out, and
    instants as nanoseconds since the Unix epoch.
  \<^item> The parts of the \<open>strings\<close> package the operator uses.
  \<^item> Keyed lists: the "first element with this key" reads and in-place writes that the
    conditions and the histories of an UpgradeConfig share, as a locale.
\<close>

text \<open>
  The collection \<open>env_eval\<close> evaluates reads of the environment, of the configuration and of the stored
  UpgradeConfig on concrete services; the components add to it what they read.
\<close>

named_theorems env_eval

section \<open>Errors and outcomes\<close>

text \<open>
  Sentinel errors are compared by identity in the source and are constructors of their
  own; an error that the API server returned is told apart by \<open>errors.IsNotFound\<close>.
\<close>

datatype goerr =
    ApiNotFound string
  | ApiError string
  | Errorf string
  | ErrMissingOperatorNamespace
  | ErrUpgradeConfigNotFound
  | ErrRetrievingUpgradeConfigs
  | ErrProviderSpecPull
  | ErrRemovingUpgradeConfig
  | ErrNotConfigured
  | ErrNoConfigManagerDefined
  | ErrNoSpecProviderConfig
  | ErrInvalidSpecProvider
  | ErrNoNotifierConfigured
  | ErrClusterIdNotFound
  | ErrProviderUnavailable
  | ErrRetrievingPolicies
  | ErrProcessingPolicies
  | ScaleTimeOutError string
  | DrainTimeOutError string
  | MultiError "goerr list"

text \<open>\<open>errors.IsNotFound\<close> of the API machinery.\<close>

definition IsNotFound :: "goerr \<Rightarrow> bool" where
  "IsNotFound e \<longleftrightarrow> (case e of ApiNotFound _ \<Rightarrow> True | _ \<Rightarrow> False)"

datatype 'a outcome = Ok 'a | Err goerr | Panic

type_synonym ('s, 'a) op = "'s \<Rightarrow> 'a outcome \<times> 's"

text \<open>Go's \<open>if err != nil { return ..., err }\<close>; a panic unwinds the caller too.\<close>

definition bindO :: "'a outcome \<times> 's \<Rightarrow> ('a \<Rightarrow> ('s, 'b) op) \<Rightarrow> 'b outcome \<times> 's" where
  "bindO r f = (case r of
      (Ok a, s) \<Rightarrow> f a s
    | (Err e, s) \<Rightarrow> (Err e, s)
    | (Panic, s) \<Rightarrow> (Panic, s))"

lemma bindO_simps [simp]:
  "bindO (Ok a, s) f = f a s"
  "bindO (Err e, s) f = (Err e, s)"
  "bindO (Panic, s) f = (Panic, s)"
  by (simp_all add: bindO_def)

lemma bindO_assoc: "bindO (bindO r f) g = bindO r (\<lambda>a s. bindO (f a s) g)"
  by (simp add: bindO_def split: prod.splits outcome.splits)

lemma bindO_split:
  "P (bindO r f) \<longleftrightarrow>
     (\<forall>a s. r = (Ok a, s) \<longrightarrow> P (f a s)) \<and>
     (\<forall>e s. r = (Err e, s) \<longrightarrow> P (Err e, s)) \<and>
     (\<forall>s. r = (Panic, s) \<longrightarrow> P (Panic, s))"
  by (auto simp: bindO_def split: prod.splits outcome.splits)

lemma bindO_split_asm:
  "P (bindO r f) \<longleftrightarrow>
     \<not> ((\<exists>a s. r = (Ok a, s) \<and> \<not> P (f a s)) \<or>
        (\<exists>e s. r = (Err e, s) \<and> \<not> P (Err e, s)) \<or>
        (\<exists>s. r = (Panic, s) \<and> \<not> P (Panic, s)))"
  by (auto simp: bindO_def split: prod.splits outcome.splits)

lemmas bindO_splits = bindO_split bindO_split_asm

lemma bindO_Ok_iff:
  "bindO r f = (Ok b, t) \<longleftrightarrow> (\<exists>a s. r = (Ok a, s) \<and> f a s = (Ok b, t))"
  by (auto simp: bindO_def split: prod.splits outcome.splits)

text \<open>A call under \<open>src/\<close> that cannot panic, or an external one, yields a sum.\<close>

fun ret :: "goerr + 'a \<Rightarrow> 'a outcome" where
  "ret (Inl e) = Err e"
| "ret (Inr a) = Ok a"

lemma ret_not_Panic [simp]: "ret r \<noteq> Panic"
  by (cases r) simp_all

lemma ret_eq_iff [simp]:
  "ret r = Ok a \<longleftrightarrow> r = Inr a"
  "ret r = Err e \<longleftrightarrow> r = Inl e"
  by (cases r; simp)+

text \<open>A call of code outside the repository, which returns a sum and a new state.\<close>

type_synonym ('s, 'a) ext_op = "'s \<Rightarrow> (goerr + 'a) \<times> 's"

definition call :: "('s, 'a) ext_op \<Rightarrow> ('s, 'a) op" where
  "call f s = (let (r, s') = f s in (ret r, s'))"

lemma call_eq_iff [simp]:
  "call f s = (Ok a, s') \<longleftrightarrow> f s = (Inr a, s')"
  "call f s = (Err e, s') \<longleftrightarrow> f s = (Inl e, s')"
  "call f s \<noteq> (Panic, s')"
  by (auto simp: call_def split: prod.splits)

lemma call_cases:
  obtains (ok) a s' where "f s = (Inr a, s')" "call f s = (Ok a, s')"
    | (err) e s' where "f s = (Inl e, s')" "call f s = (Err e, s')"
proof (cases "f s")
  case (Pair r s')
  then show thesis
    using that by (cases r) auto
qed

text \<open>\<open>me.ErrorOrNil()\<close> of a multierror: nil when nothing was appended.\<close>

definition ErrorOrNil :: "goerr list \<Rightarrow> goerr option" where
  "ErrorOrNil es = (if es = [] then None else Some (MultiError es))"

section \<open>Instants and durations\<close>

type_synonym duration = int
type_synonym instant = int

definition wrap64 :: "int \<Rightarrow> int" where
  "wrap64 x = (x + 2 ^ 63) mod 2 ^ 64 - 2 ^ 63"

definition wrap32 :: "int \<Rightarrow> int" where
  "wrap32 x = (x + 2 ^ 31) mod 2 ^ 32 - 2 ^ 31"

text \<open>\<open>Time.Sub\<close> saturates instead of wrapping.\<close>

definition sat64 :: "int \<Rightarrow> int" where
  "sat64 x = max (- (2 ^ 63)) (min (2 ^ 63 - 1) x)"

abbreviation Second :: duration where "Second \<equiv> 1000000000"
abbreviation Minute :: duration where "Minute \<equiv> 60000000000"
abbreviation Hour :: duration where "Hour \<equiv> 3600000000000"

text \<open>\<open>time.Duration(n) * time.Minute\<close> and the same with seconds.\<close>

definition minutes :: "int \<Rightarrow> duration" where
  "minutes n = wrap64 (n * Minute)"

definition seconds :: "int \<Rightarrow> duration" where
  "seconds n = wrap64 (n * Second)"

text \<open>The zero \<open>time.Time\<close>, 1 January of year 1.\<close>

definition zero_time :: instant where
  "zero_time = - 62135596800 * Second"

definition IsZero :: "instant \<Rightarrow> bool" where
  "IsZero t \<longleftrightarrow> t = zero_time"

lemma wrap64_bounds: "- (2 ^ 63) \<le> wrap64 x" "wrap64 x < 2 ^ 63"
  by (simp_all add: wrap64_def)

lemma wrap64_id [simp]: "- (2 ^ 63) \<le> x \<Longrightarrow> x < 2 ^ 63 \<Longrightarrow> wrap64 x = x"
  by (simp add: wrap64_def)

lemma wrap64_small: "\<bar>x\<bar> < 2 ^ 63 \<Longrightarrow> wrap64 x = x"
  by (simp add: wrap64_def)

lemma wrap64_wrap64 [simp]: "wrap64 (wrap64 x) = wrap64 x"
  using wrap64_bounds by (intro wrap64_id) auto

lemma minutes_small: "\<bar>n\<bar> \<le> 153722867 \<Longrightarrow> minutes n = n * Minute"
  unfolding minutes_def by (rule wrap64_small) simp

lemma sat64_id [simp]: "- (2 ^ 63) \<le> x \<Longrightarrow> x < 2 ^ 63 \<Longrightarrow> sat64 x = x"
  by (simp add: sat64_def)

lemma sat64_pos [simp]: "0 < sat64 x \<longleftrightarrow> 0 < x"
  by (auto simp: sat64_def min_def max_def)

lemma sat64_nonneg [simp]: "0 \<le> sat64 x \<longleftrightarrow> 0 \<le> x"
  by (auto simp: sat64_def min_def max_def)

section \<open>Strings\<close>

definition HasPrefix :: "string \<Rightarrow> string \<Rightarrow> bool" where
  "HasPrefix s p \<longleftrightarrow> prefix p s"

definition HasSuffix :: "string \<Rightarrow> string \<Rightarrow> bool" where
  "HasSuffix s p \<longleftrightarrow> suffix p s"

fun Contains :: "string \<Rightarrow> string \<Rightarrow> bool" where
  "Contains [] sub \<longleftrightarrow> sub = []"
| "Contains (c # s) sub \<longleftrightarrow> prefix sub (c # s) \<or> Contains s sub"

fun Join :: "string list \<Rightarrow> string \<Rightarrow> string" where
  "Join [] sep = []"
| "Join [x] sep = x"
| "Join (x # y # xs) sep = x @ sep @ Join (y # xs) sep"

definition to_upper_char :: "char \<Rightarrow> char" where
  "to_upper_char c = (if 97 \<le> (of_char c :: nat) \<and> (of_char c :: nat) \<le> 122
                      then char_of ((of_char c :: nat) - 32) else c)"

definition to_lower_char :: "char \<Rightarrow> char" where
  "to_lower_char c = (if 65 \<le> (of_char c :: nat) \<and> (of_char c :: nat) \<le> 90
                      then char_of ((of_char c :: nat) + 32) else c)"

definition ToUpper :: "string \<Rightarrow> string" where
  "ToUpper = map to_upper_char"

definition ToLower :: "string \<Rightarrow> string" where
  "ToLower = map to_lower_char"

definition digit_char :: "nat \<Rightarrow> char" where
  "digit_char d = char_of (48 + d)"

text \<open>Decimal digits; on \<open>int\<close>, so that they evaluate.\<close>

function show_pos :: "int \<Rightarrow> string" where
  "show_pos n = (if n < 10 then [digit_char (nat n)]
                 else show_pos (n div 10) @ [digit_char (nat (n mod 10))])"
  by auto
termination by (relation "measure nat") auto

declare show_pos.simps [simp del]

definition show_int :: "int \<Rightarrow> string" where
  "show_int i = (if i < 0 then CHR ''-'' # show_pos (- i) else show_pos i)"

definition pad_left :: "nat \<Rightarrow> string \<Rightarrow> string" where
  "pad_left n ds = replicate (n - length ds) (CHR ''0'') @ ds"

lemma Contains_iff_sublist: "Contains s sub \<longleftrightarrow> sublist sub s"
proof (induction s)
  case Nil
  then show ?case by simp
next
  case (Cons c s)
  then show ?case by (simp add: sublist_Cons_right)
qed

lemma Contains_refl [simp]: "Contains s s"
  by (simp add: Contains_iff_sublist)

section \<open>Keyed lists\<close>

text \<open>
  \<open>GetCondition\<close> and \<open>GetHistory\<close> return (a copy of) the first element with the key;
  \<open>SetCondition\<close> and \<open>SetHistory\<close> overwrite that element in place, or put the new one in
  front.
\<close>

primrec first_with :: "('a \<Rightarrow> bool) \<Rightarrow> 'a list \<Rightarrow> 'a option" where
  "first_with P [] = None"
| "first_with P (x # xs) = (if P x then Some x else first_with P xs)"

primrec replace_first :: "('a \<Rightarrow> bool) \<Rightarrow> 'a \<Rightarrow> 'a list \<Rightarrow> 'a list" where
  "replace_first P y [] = []"
| "replace_first P y (x # xs) = (if P x then y # xs else x # replace_first P y xs)"

primrec remove_first :: "('a \<Rightarrow> bool) \<Rightarrow> 'a list \<Rightarrow> 'a list" where
  "remove_first P [] = []"
| "remove_first P (x # xs) = (if P x then xs else x # remove_first P xs)"

lemma first_with_None: "first_with P xs = None \<longleftrightarrow> (\<forall>x \<in> set xs. \<not> P x)"
  by (induction xs) auto

lemma first_with_SomeD: "first_with P xs = Some x \<Longrightarrow> x \<in> set xs \<and> P x"
  by (induction xs) (auto split: if_splits)

lemma first_with_find: "first_with P xs = find P xs"
  by (induction xs) auto

lemma replace_first_id: "first_with P xs = None \<Longrightarrow> replace_first P y xs = xs"
  by (induction xs) (auto split: if_splits)

lemma first_with_replace_other:
  "(\<And>x. P x \<Longrightarrow> \<not> Q x) \<Longrightarrow> \<not> Q y \<Longrightarrow> first_with Q (replace_first P y xs) = first_with Q xs"
  by (induction xs) auto

lemma first_with_replace_same:
  "first_with P xs \<noteq> None \<Longrightarrow> P y \<Longrightarrow> first_with P (replace_first P y xs) = Some y"
  by (induction xs) auto

lemma map_replace_first:
  "(\<And>x. P x \<Longrightarrow> f x = f y) \<Longrightarrow> map f (replace_first P y xs) = map f xs"
  by (induction xs) auto

lemma length_replace_first [simp]: "length (replace_first P y xs) = length xs"
  by (induction xs) auto

lemma set_replace_first: "set (replace_first P y xs) \<subseteq> insert y (set xs)"
  by (induction xs) auto

section \<open>Semantic versions\<close>

text \<open>
  \<open>blang/semver\<close> is a parameter. The source reads the major and the minor number of a parsed
  version and compares whole versions; what else the library keeps of a version is \<open>svRest\<close>.
\<close>

record semver =
  Major :: nat
  Minor :: nat
  svRest :: string

record semver_lib =
  semver_Parse :: "string \<Rightarrow> goerr + semver"
  semver_Compare :: "semver \<Rightarrow> semver \<Rightarrow> int"

text \<open>The documented result of a comparison: -1, 0 or 1.\<close>

definition semver_lib_ok :: "semver_lib \<Rightarrow> bool" where
  "semver_lib_ok lib \<longleftrightarrow> (\<forall>a b. semver_Compare lib a b \<in> {-1, 0, 1})"

end
