(* ===== verification/Api_Types.thy ===== *)
theory Api_Types
  imports Prelude
begin

text \<open>
  The UpgradeConfig custom resource (\<open>api/v1alpha1/upgradeconfig_types.go\<close>): its spec,
  its status history, and the operations on conditions and histories. A Go pointer to a
  time is an \<open>instant option\<close>. \<open>SetCondition\<close> reads the clock twice; the two readings are
  its first arguments.
\<close>

section \<open>Data\<close>

datatype UpgradeType = OSD | ARO | OtherType string

datatype UpgradePhase = New | Pending | Upgrading | Upgraded | Failed | UnknownPhase

datatype ConditionStatus = CTrue | CFalse | CUnknown

type_synonym UpgradeConditionType = string

record Update =
  dVersion :: string
  dChannel :: string
  dImage :: string

record UpgradeConfigSpec =
  Desired :: Update
  UpgradeAt :: string
  PDBForceDrainTimeout :: int
  UType :: UpgradeType
  CapacityReservation :: bool

record UpgradeCondition =
  CType :: UpgradeConditionType
  CStatus :: ConditionStatus
  LastProbeTime :: "instant option"
  LastTransitionTime :: "instant option"
  CStartTime :: "instant option"
  CCompleteTime :: "instant option"
  CReason :: string
  CMessage :: string

type_synonym Conditions = "UpgradeCondition list"

record UpgradeHistory =
  Version :: string
  PrecedingVersion :: string
  Phase :: UpgradePhase
  HConditions :: Conditions
  StartTime :: "instant option"
  CompleteTime :: "instant option"
  WorkerStartTime :: "instant option"
  WorkerCompleteTime :: "instant option"

type_synonym UpgradeHistories = "UpgradeHistory list"

record UpgradeConfig =
  ucName :: string
  ucNamespace :: string
  Spec :: UpgradeConfigSpec
  History :: UpgradeHistories

text \<open>\<open>uc.Spec.Desired.Version\<close>, read throughout the operator.\<close>

abbreviation desired_version :: "UpgradeConfig \<Rightarrow> string" where
  "desired_version uc \<equiv> dVersion (Desired (Spec uc))"

text \<open>The string of a phase, as the metrics label it.\<close>

fun phase_string :: "UpgradePhase \<Rightarrow> string" where
  "phase_string New = ''New''"
| "phase_string Pending = ''Pending''"
| "phase_string Upgrading = ''Upgrading''"
| "phase_string Upgraded = ''Upgraded''"
| "phase_string Failed = ''Failed''"
| "phase_string UnknownPhase = ''Unknown''"

definition GetPDBDrainTimeoutDuration :: "UpgradeConfig \<Rightarrow> duration" where
  "GetPDBDrainTimeoutDuration uc = minutes (PDBForceDrainTimeout (Spec uc))"

definition GetHealthCheckDuration :: "UpgradeConfig \<Rightarrow> duration" where
  "GetHealthCheckDuration uc = 2 * Hour"

text \<open>The condition types of the upgrade steps.\<close>

definition SendStartedNotification_t :: UpgradeConditionType where
  "SendStartedNotification_t = ''StartedNotificationSent''"
definition UpgradePreHealthCheck_t :: UpgradeConditionType where
  "UpgradePreHealthCheck_t = ''ClusterHealthyBeforeUpgrade''"
definition ExtDepAvailabilityCheck_t :: UpgradeConditionType where
  "ExtDepAvailabilityCheck_t = ''ExternalDependenciesAvailable''"
definition UpgradeScaleUpExtraNodes_t :: UpgradeConditionType where
  "UpgradeScaleUpExtraNodes_t = ''ComputeCapacityReserved''"
definition ControlPlaneMaintWindow_t :: UpgradeConditionType where
  "ControlPlaneMaintWindow_t = ''ControlPlaneMaintenanceWindowCreated''"
definition CommenceUpgrade_t :: UpgradeConditionType where
  "CommenceUpgrade_t = ''UpgradeCommenced''"
definition ControlPlaneUpgraded_t :: UpgradeConditionType where
  "ControlPlaneUpgraded_t = ''ControlPlaneUpgraded''"
definition RemoveControlPlaneMaintWindow_t :: UpgradeConditionType where
  "RemoveControlPlaneMaintWindow_t = ''ControlPlaneMaintenanceWindowRemoved''"
definition WorkersMaintWindow_t :: UpgradeConditionType where
  "WorkersMaintWindow_t = ''WorkersMaintenanceWindowCreated''"
definition AllWorkerNodesUpgraded_t :: UpgradeConditionType where
  "AllWorkerNodesUpgraded_t = ''WorkerNodesUpgraded''"
definition RemoveExtraScaledNodes_t :: UpgradeConditionType where
  "RemoveExtraScaledNodes_t = ''ComputeCapacityRemoved''"
definition RemoveMaintWindow_t :: UpgradeConditionType where
  "RemoveMaintWindow_t = ''WorkersMaintenanceWindowRemoved''"
definition PostClusterHealthCheck_t :: UpgradeConditionType where
  "PostClusterHealthCheck_t = ''ClusterHealthyAfterUpgrade''"
definition PostUpgradeProcedures_t :: UpgradeConditionType where
  "PostUpgradeProcedures_t = ''PostUpgradeTasksCompleted''"
definition SendCompletedNotification_t :: UpgradeConditionType where
  "SendCompletedNotification_t = ''CompletedNotificationSent''"
definition IsClusterUpgradable_t :: UpgradeConditionType where
  "IsClusterUpgradable_t = ''IsClusterUpgradable''"

lemmas condition_type_defs =
  SendStartedNotification_t_def UpgradePreHealthCheck_t_def ExtDepAvailabilityCheck_t_def
  UpgradeScaleUpExtraNodes_t_def ControlPlaneMaintWindow_t_def CommenceUpgrade_t_def
  ControlPlaneUpgraded_t_def RemoveControlPlaneMaintWindow_t_def WorkersMaintWindow_t_def
  AllWorkerNodesUpgraded_t_def RemoveExtraScaledNodes_t_def RemoveMaintWindow_t_def
  PostClusterHealthCheck_t_def PostUpgradeProcedures_t_def SendCompletedNotification_t_def
  IsClusterUpgradable_t_def

definition PreHealthCheckFeatureGate :: string where
  "PreHealthCheckFeatureGate = ''PreHealthCheck''"
definition ServiceLogNotificationFeatureGate :: string where
  "ServiceLogNotificationFeatureGate = ''ServiceLogNotification''"

section \<open>Operations\<close>

definition IsTrue :: "UpgradeCondition \<Rightarrow> bool" where
  "IsTrue c \<longleftrightarrow> CStatus c = CTrue"
definition IsFalse :: "UpgradeCondition \<Rightarrow> bool" where
  "IsFalse c \<longleftrightarrow> CStatus c = CFalse"
definition IsUnknown :: "UpgradeCondition \<Rightarrow> bool" where
  "IsUnknown c \<longleftrightarrow> CStatus c = CUnknown"

fun IsTrueFor :: "Conditions \<Rightarrow> UpgradeConditionType \<Rightarrow> bool" where
  "IsTrueFor [] t = False"
| "IsTrueFor (c # cs) t = (if CType c = t then IsTrue c else IsTrueFor cs t)"

fun IsFalseFor :: "Conditions \<Rightarrow> UpgradeConditionType \<Rightarrow> bool" where
  "IsFalseFor [] t = False"
| "IsFalseFor (c # cs) t = (if CType c = t then IsFalse c else IsFalseFor cs t)"

fun IsUnknownFor :: "Conditions \<Rightarrow> UpgradeConditionType \<Rightarrow> bool" where
  "IsUnknownFor [] t = True"
| "IsUnknownFor (c # cs) t = (if CType c = t then IsUnknown c else IsUnknownFor cs t)"

definition GetCondition :: "Conditions \<Rightarrow> UpgradeConditionType \<Rightarrow> UpgradeCondition option" where
  "GetCondition cs t = first_with (\<lambda>c. CType c = t) cs"

text \<open>
  The result is the changed flag and the new list. A condition whose status stays the same
  keeps the old transition time.
\<close>

definition SetCondition ::
    "instant \<Rightarrow> instant \<Rightarrow> UpgradeCondition \<Rightarrow> Conditions \<Rightarrow> bool \<times> Conditions" where
  "SetCondition now1 now2 newCond cs =
     (let c1 = newCond\<lparr>LastTransitionTime := Some now1, LastProbeTime := Some now2\<rparr>
      in case GetCondition cs (CType newCond) of
           Some old \<Rightarrow>
             (let c2 = (if CStatus old = CStatus newCond
                        then c1\<lparr>LastTransitionTime := LastTransitionTime old\<rparr> else c1);
                  changed = (CStatus old \<noteq> CStatus newCond \<or> CReason old \<noteq> CReason newCond \<or>
                             CMessage old \<noteq> CMessage newCond)
              in (changed, replace_first (\<lambda>c. CType c = CType newCond) c2 cs))
         | None \<Rightarrow> (True, c1 # cs))"

definition RemoveCondition :: "UpgradeConditionType \<Rightarrow> Conditions \<Rightarrow> bool \<times> Conditions" where
  "RemoveCondition t cs =
     (case GetCondition cs t of
        Some _ \<Rightarrow> (True, remove_first (\<lambda>c. CType c = t) cs)
      | None \<Rightarrow> (False, cs))"

text \<open>\<open>NewConditions\<close> sets the given conditions one after the other, each at its own times.\<close>

fun NewConditions :: "(instant \<times> instant \<times> UpgradeCondition) list \<Rightarrow> Conditions \<Rightarrow> Conditions" where
  "NewConditions [] acc = acc"
| "NewConditions ((t1, t2, c) # rest) acc = NewConditions rest (snd (SetCondition t1 t2 c acc))"

definition GetHistory :: "UpgradeHistories \<Rightarrow> string \<Rightarrow> UpgradeHistory option" where
  "GetHistory hs v = first_with (\<lambda>h. Version h = v) hs"

definition SetHistory :: "UpgradeHistory \<Rightarrow> UpgradeHistories \<Rightarrow> UpgradeHistories" where
  "SetHistory h hs =
     (case GetHistory hs (Version h) of
        Some _ \<Rightarrow> replace_first (\<lambda>x. Version x = Version h) h hs
      | None \<Rightarrow> h # hs)"

section \<open>The keyed-store interface\<close>

text \<open>
  What the runner and the controllers rely on when they read and write conditions (keyed by
  type) and histories (keyed by version): a write is visible under its own key only, it
  never duplicates a key, and it puts a new key in front.
\<close>

locale keyed_store =
  fixes key :: "'a \<Rightarrow> 'k"
    and get :: "'a list \<Rightarrow> 'k \<Rightarrow> 'a option"
    and put :: "'a \<Rightarrow> 'a list \<Rightarrow> 'a list"
  assumes get_None: "get xs k = None \<longleftrightarrow> k \<notin> key ` set xs"
    and get_key: "get xs k = Some x \<Longrightarrow> key x = k"
    and get_put_other: "k \<noteq> key x \<Longrightarrow> get (put x xs) k = get xs k"
    and keys_put: "map key (put x xs) =
          (if get xs (key x) = None then key x # map key xs else map key xs)"
begin

lemma put_present: "\<exists>y. get (put x xs) (key x) = Some y \<and> key y = key x"
proof -
  have "key x \<in> set (map key (put x xs))"
    by (auto simp: keys_put get_None image_iff)
  then have "get (put x xs) (key x) \<noteq> None"
    by (simp add: get_None)
  then show ?thesis
    using get_key by blast
qed

lemma keys_set_put: "key ` set (put x xs) = insert (key x) (key ` set xs)"
proof -
  have "key ` set (put x xs) = set (map key (put x xs))" by simp
  then show ?thesis
    by (simp only: keys_put) (auto simp: get_None image_iff)
qed

lemma distinct_put: "distinct (map key xs) \<Longrightarrow> distinct (map key (put x xs))"
  by (auto simp: keys_put get_None)

lemma keys_put_present: "get xs (key x) \<noteq> None \<Longrightarrow> map key (put x xs) = map key xs"
  by (simp add: keys_put)

lemma keys_put_put: "key y = key x \<Longrightarrow> map key (put y (put x xs)) = map key (put x xs)"
  using put_present [of x xs] by (auto simp: keys_put [of y])

lemma get_put_other_put: "k \<noteq> key x \<Longrightarrow> key y = key x \<Longrightarrow> get (put y (put x xs)) k = get xs k"
  by (simp add: get_put_other)

lemma keys_fold_put: "key ` set (fold put ys xs) = key ` set ys \<union> key ` set xs"
  by (induction ys arbitrary: xs) (auto simp: keys_set_put)

end

lemma GetCondition_SetCondition_other:
  "t \<noteq> CType c \<Longrightarrow> GetCondition (snd (SetCondition t1 t2 c cs)) t = GetCondition cs t"
  by (auto simp: SetCondition_def GetCondition_def Let_def first_with_replace_other split: option.splits)

lemma types_SetCondition:
  "map CType (snd (SetCondition t1 t2 c cs)) =
     (if GetCondition cs (CType c) = None then CType c # map CType cs else map CType cs)"
  by (auto simp: SetCondition_def Let_def map_replace_first split: option.splits)

lemma GetCondition_None: "GetCondition cs t = None \<longleftrightarrow> t \<notin> CType ` set cs"
  by (auto simp: GetCondition_def first_with_None)

lemma GetCondition_type: "GetCondition cs t = Some c \<Longrightarrow> CType c = t"
  by (auto simp: GetCondition_def dest: first_with_SomeD)

interpretation cond: keyed_store CType GetCondition "\<lambda>c cs. snd (SetCondition t1 t2 c cs)"
  for t1 t2
  by unfold_locales
    (simp_all add: GetCondition_None GetCondition_type GetCondition_SetCondition_other
       types_SetCondition)

interpretation hist: keyed_store Version GetHistory SetHistory
  by unfold_locales
    (auto simp: GetHistory_def SetHistory_def first_with_None first_with_replace_other
          map_replace_first dest: first_with_SomeD split: option.splits)

lemma GetHistory_SetHistory [simp]: "GetHistory (SetHistory h hs) (Version h) = Some h"
  by (auto simp: GetHistory_def SetHistory_def first_with_replace_same split: option.splits)

lemma GetHistory_SetHistory_other:
  "v \<noteq> Version h \<Longrightarrow> GetHistory (SetHistory h hs) v = GetHistory hs v"
  by (rule hist.get_put_other)

lemma GetHistory_Version: "GetHistory hs v = Some h \<Longrightarrow> Version h = v"
  by (rule hist.get_key)

text \<open>What a write leaves under its own key.\<close>

lemma GetCondition_SetCondition:
  "GetCondition (snd (SetCondition t1 t2 c cs)) (CType c) =
     Some (c\<lparr>LastProbeTime := Some t2,
             LastTransitionTime :=
               (case GetCondition cs (CType c) of
                  Some old \<Rightarrow> if CStatus old = CStatus c then LastTransitionTime old else Some t1
                | None \<Rightarrow> Some t1)\<rparr>)"
  by (auto simp: SetCondition_def Let_def GetCondition_def first_with_replace_same split: option.splits)

lemma IsTrueFor_GetCondition:
  "IsTrueFor cs t \<longleftrightarrow> (\<exists>c. GetCondition cs t = Some c \<and> IsTrue c)"
  by (induction cs) (auto simp: GetCondition_def)

lemma IsFalseFor_GetCondition:
  "IsFalseFor cs t \<longleftrightarrow> (\<exists>c. GetCondition cs t = Some c \<and> IsFalse c)"
  by (induction cs) (auto simp: GetCondition_def)

lemma IsUnknownFor_GetCondition:
  "IsUnknownFor cs t \<longleftrightarrow> (\<forall>c. GetCondition cs t = Some c \<longrightarrow> IsUnknown c)"
  by (induction cs) (auto simp: GetCondition_def)

lemma distinct_NewConditions:
  "distinct (map CType acc) \<Longrightarrow> distinct (map CType (NewConditions cs acc))"
  by (induction cs acc rule: NewConditions.induct) (auto simp: cond.distinct_put)

section \<open>Properties\<close>

text \<open>
  Setting a condition makes it the one found under its type, with the probe time of the call and
  the old transition time when the status did not change; a condition of any other type is found as
  before, and the types in the list are the old ones with a new type put in front.
\<close>

theorem SetCondition_lookup:
  "GetCondition (snd (SetCondition now1 now2 c cs)) t =
     (if t = CType c
      then Some (c\<lparr>LastProbeTime := Some now2,
                   LastTransitionTime :=
                     (case GetCondition cs t of
                        Some old \<Rightarrow> if CStatus old = CStatus c then LastTransitionTime old else Some now1
                      | None \<Rightarrow> Some now1)\<rparr>)
      else GetCondition cs t) \<and>
   map CType (snd (SetCondition now1 now2 c cs)) =
     (if GetCondition cs (CType c) = None then CType c # map CType cs else map CType cs)"
  by (simp add: GetCondition_SetCondition GetCondition_SetCondition_other types_SetCondition)

text \<open>
  Storing a history makes it the one found under its version, leaves the history found under any
  other version alone, and puts a version that is new in front of the others.
\<close>

theorem SetHistory_lookup:
  "GetHistory (SetHistory h hs) v = (if v = Version h then Some h else GetHistory hs v) \<and>
   map Version (SetHistory h hs) =
     (if GetHistory hs (Version h) = None then Version h # map Version hs else map Version hs)"
  by (simp add: GetHistory_SetHistory_other hist.keys_put)

end
