(* ===== verification/Steps.thy ===== *)
theory Steps
  imports Api_Types
begin

text \<open>
  The step runner (\<open>pkg/upgradesteps\<close>). A step is a name and an action; the action sees the
  UpgradeConfig as the runner has left it and returns done or not done, an error, or panics.
  The runner writes one condition per step name into the history of the desired version.
  The clock and the text of an error (\<open>err.Error()\<close>) are in the \<open>runtime\<close> parameter.
\<close>

section \<open>Model\<close>

record 's runtime =
  time_now :: "'s \<Rightarrow> instant \<times> 's"
  error_string :: "goerr \<Rightarrow> string"

record 's actionStep =
  step_name :: string
  step_f :: "UpgradeConfig \<Rightarrow> ('s, bool) op"

definition Action :: "string \<Rightarrow> (UpgradeConfig \<Rightarrow> ('s, bool) op) \<Rightarrow> 's actionStep" where
  "Action n f = \<lparr>step_name = n, step_f = f\<rparr>"

definition newUpgradeCondition ::
    "string \<Rightarrow> string \<Rightarrow> UpgradeConditionType \<Rightarrow> ConditionStatus \<Rightarrow> UpgradeCondition" where
  "newUpgradeCondition reason msg t st =
     \<lparr>CType = t, CStatus = st, LastProbeTime = None, LastTransitionTime = None,
      CStartTime = None, CCompleteTime = None, CReason = reason, CMessage = msg\<rparr>"

text \<open>
  \<open>history.Conditions.SetCondition(c)\<close> followed by \<open>Status.History.SetHistory(*history)\<close>,
  the way each of the three setters below ends.
\<close>

definition store_condition ::
    "'s runtime \<Rightarrow> UpgradeHistory \<Rightarrow> UpgradeCondition \<Rightarrow> UpgradeConfig \<times> 's \<Rightarrow> UpgradeConfig \<times> 's" where
  "store_condition rt h c = (\<lambda>(uc, s).
     let (t1, s) = time_now rt s; (t2, s) = time_now rt s;
         h' = h\<lparr>HConditions := snd (SetCondition t1 t2 c (HConditions h))\<rparr>
     in (uc\<lparr>History := SetHistory h' (History uc)\<rparr>, s))"

definition setConditionStart :: "'s runtime \<Rightarrow> string \<Rightarrow> (UpgradeConfig \<times> 's, unit) op" where
  "setConditionStart rt n = (\<lambda>(uc, s).
     case GetHistory (History uc) (desired_version uc) of
       None \<Rightarrow> (Panic, uc, s)
     | Some h \<Rightarrow>
         (case GetCondition (HConditions h) n of
            Some _ \<Rightarrow> (Ok (), uc, s)
          | None \<Rightarrow>
              let c = newUpgradeCondition (n @ '' not done'') (n @ '' has started'') n CFalse;
                  (t, s) = time_now rt s
              in (Ok (), store_condition rt h (c\<lparr>CStartTime := Some t\<rparr>) (uc, s))))"

definition setConditionInProgress ::
    "'s runtime \<Rightarrow> string \<Rightarrow> string \<Rightarrow> (UpgradeConfig \<times> 's, unit) op" where
  "setConditionInProgress rt n msg = (\<lambda>(uc, s).
     case GetHistory (History uc) (desired_version uc) of
       None \<Rightarrow> (Panic, uc, s)
     | Some h \<Rightarrow>
         (case GetCondition (HConditions h) n of
            None \<Rightarrow> (Ok (), uc, s)
          | Some c \<Rightarrow>
              (Ok (), store_condition rt h
                 (c\<lparr>CMessage := msg, CStatus := CFalse, CCompleteTime := None\<rparr>) (uc, s))))"

definition setConditionComplete :: "'s runtime \<Rightarrow> string \<Rightarrow> (UpgradeConfig \<times> 's, unit) op" where
  "setConditionComplete rt n = (\<lambda>(uc, s).
     case GetHistory (History uc) (desired_version uc) of
       None \<Rightarrow> (Panic, uc, s)
     | Some h \<Rightarrow>
         (case GetCondition (HConditions h) n of
            None \<Rightarrow> (Ok (), uc, s)
          | Some c \<Rightarrow>
              let c1 = c\<lparr>CReason := n @ '' done'', CMessage := n @ '' is completed'',
                         CStatus := CTrue\<rparr>;
                  (c2, s) = (case CCompleteTime c of
                               Some _ \<Rightarrow> (c1, s)
                             | None \<Rightarrow> let (t, s) = time_now rt s
                                       in (c1\<lparr>CCompleteTime := Some t\<rparr>, s))
              in (Ok (), store_condition rt h c2 (uc, s))))"

text \<open>
  The result is the phase with the error the step returned; the changed UpgradeConfig is part
  of the state.
\<close>

type_synonym run_result = "UpgradePhase \<times> goerr option"

fun Run :: "'s runtime \<Rightarrow> 's actionStep list \<Rightarrow> (UpgradeConfig \<times> 's, run_result) op" where
  "Run rt [] us = (Ok (Upgraded, None), us)"
| "Run rt (st # steps) us =
     bindO (setConditionStart rt (step_name st) us) (\<lambda>_ (uc, s).
       case step_f st uc s of
         (Panic, s) \<Rightarrow> (Panic, uc, s)
       | (Err e, s) \<Rightarrow>
           bindO (setConditionInProgress rt (step_name st) (error_string rt e) (uc, s))
             (\<lambda>_ us. (Ok (Upgrading, Some e), us))
       | (Ok False, s) \<Rightarrow>
           bindO (setConditionInProgress rt (step_name st) (step_name st @ '' still in progress'') (uc, s))
             (\<lambda>_ us. (Ok (Upgrading, None), us))
       | (Ok True, s) \<Rightarrow>
           bindO (setConditionComplete rt (step_name st) (uc, s)) (\<lambda>_ us. Run rt steps us))"

section \<open>The history the runner works on\<close>

text \<open>The history record of the desired version.\<close>

abbreviation current_history :: "UpgradeConfig \<Rightarrow> UpgradeHistory option" where
  "current_history uc \<equiv> GetHistory (History uc) (desired_version uc)"

definition condition_of :: "UpgradeConfig \<Rightarrow> string \<Rightarrow> UpgradeCondition option" where
  "condition_of uc n = Option.bind (current_history uc) (\<lambda>h. GetCondition (HConditions h) n)"

text \<open>
  What the runner never touches: everything but the conditions of the current history.
\<close>

definition same_but_conditions :: "UpgradeConfig \<Rightarrow> UpgradeConfig \<Rightarrow> bool" where
  "same_but_conditions uc uc' \<longleftrightarrow>
     ucName uc' = ucName uc \<and> ucNamespace uc' = ucNamespace uc \<and> Spec uc' = Spec uc \<and>
     map Version (History uc') = map Version (History uc) \<and>
     (\<forall>v. v \<noteq> desired_version uc \<longrightarrow> GetHistory (History uc') v = GetHistory (History uc) v) \<and>
     (\<exists>h cs. current_history uc = Some h \<and> current_history uc' = Some (h\<lparr>HConditions := cs\<rparr>))"

lemma same_but_conditions_refl [simp]:
  "same_but_conditions uc uc \<longleftrightarrow> current_history uc \<noteq> None"
  by (auto simp: same_but_conditions_def intro: exI [of _ "HConditions _"])
     (metis UpgradeHistory.surjective UpgradeHistory.update_convs(4))

lemma same_but_conditions_trans:
  "same_but_conditions uc uc' \<Longrightarrow> same_but_conditions uc' uc'' \<Longrightarrow> same_but_conditions uc uc''"
  by (auto simp: same_but_conditions_def)

lemma same_but_conditionsD:
  assumes "same_but_conditions uc uc'"
  shows "Spec uc' = Spec uc" "current_history uc' \<noteq> None"
  using assms by (auto simp: same_but_conditions_def)

lemma store_condition_effect:
  assumes h: "current_history uc = Some h"
    and st: "store_condition rt h c (uc, s) = (uc', s')"
  shows "same_but_conditions uc uc'"
    and "n \<noteq> CType c \<Longrightarrow> condition_of uc' n = condition_of uc n"
    and "\<exists>pt lt. condition_of uc' (CType c) =
           Some (c\<lparr>LastProbeTime := pt, LastTransitionTime := lt\<rparr>)"
proof -
  obtain t1 t2 where uc': "uc' = uc\<lparr>History := SetHistory
        (h\<lparr>HConditions := snd (SetCondition t1 t2 c (HConditions h))\<rparr>) (History uc)\<rparr>"
    using st by (auto simp: store_condition_def Let_def split: prod.splits)
  have v: "Version h = desired_version uc" using h by (rule GetHistory_Version)
  let ?h' = "h\<lparr>HConditions := snd (SetCondition t1 t2 c (HConditions h))\<rparr>"
  have cur: "current_history uc' = Some ?h'"
    using GetHistory_SetHistory [of ?h' "History uc"] v by (simp add: uc')
  show "same_but_conditions uc uc'"
    using cur h hist.keys_put_present [of "History uc" ?h']
    by (auto simp: same_but_conditions_def uc' v GetHistory_SetHistory_other)
  show "n \<noteq> CType c \<Longrightarrow> condition_of uc' n = condition_of uc n"
    using cur h by (simp add: condition_of_def GetCondition_SetCondition_other)
  show "\<exists>pt lt. condition_of uc' (CType c) =
           Some (c\<lparr>LastProbeTime := pt, LastTransitionTime := lt\<rparr>)"
    using cur by (auto simp: condition_of_def GetCondition_SetCondition)
qed

text \<open>A step's condition as the runner leaves it: finished, or not (yet) finished.\<close>

definition completed :: "UpgradeConfig \<Rightarrow> string \<Rightarrow> bool" where
  "completed uc n \<longleftrightarrow>
     (\<exists>c. condition_of uc n = Some c \<and> IsTrue c \<and> CCompleteTime c \<noteq> None \<and>
          CReason c = n @ '' done'' \<and> CMessage c = n @ '' is completed'')"

definition in_progress :: "UpgradeConfig \<Rightarrow> string \<Rightarrow> string \<Rightarrow> bool" where
  "in_progress uc n msg \<longleftrightarrow>
     (\<exists>c. condition_of uc n = Some c \<and> IsFalse c \<and> CCompleteTime c = None \<and> CMessage c = msg)"

text \<open>The start time of a condition that exists is never rewritten.\<close>

definition keeps_starts :: "UpgradeConfig \<Rightarrow> UpgradeConfig \<Rightarrow> bool" where
  "keeps_starts uc uc' \<longleftrightarrow>
     (\<forall>n c. condition_of uc n = Some c \<longrightarrow>
        (\<exists>c'. condition_of uc' n = Some c' \<and> CStartTime c' = CStartTime c))"

lemma keeps_starts_refl [simp]: "keeps_starts uc uc"
  by (auto simp: keeps_starts_def)

lemma keeps_starts_trans: "keeps_starts uc uc' \<Longrightarrow> keeps_starts uc' uc'' \<Longrightarrow> keeps_starts uc uc''"
  unfolding keeps_starts_def by metis

text \<open>One setter, seen from outside: it touches the condition of its own step only.\<close>

definition touches_only :: "string set \<Rightarrow> UpgradeConfig \<Rightarrow> UpgradeConfig \<Rightarrow> bool" where
  "touches_only ns uc uc' \<longleftrightarrow>
     same_but_conditions uc uc' \<and> keeps_starts uc uc' \<and>
     (\<forall>n. n \<notin> ns \<longrightarrow> condition_of uc' n = condition_of uc n)"

lemma touches_only_refl: "current_history uc \<noteq> None \<Longrightarrow> touches_only ns uc uc"
  by (simp add: touches_only_def)

lemma touches_only_trans:
  assumes "touches_only ms uc uc'" "touches_only ns uc' uc''" "ms \<subseteq> ks" "ns \<subseteq> ks"
  shows "touches_only ks uc uc''"
proof -
  have "n \<notin> ks \<Longrightarrow> condition_of uc'' n = condition_of uc n" for n
    using assms unfolding touches_only_def by (metis subsetD)
  then show ?thesis
    using assms same_but_conditions_trans [of uc uc' uc''] keeps_starts_trans [of uc uc' uc'']
    by (simp add: touches_only_def)
qed

lemma touches_only_mono: "touches_only ms uc uc' \<Longrightarrow> ms \<subseteq> ns \<Longrightarrow> touches_only ns uc uc'"
  by (auto simp: touches_only_def)

lemma touches_only_history: "touches_only ns uc uc' \<Longrightarrow> current_history uc' \<noteq> None"
  using same_but_conditionsD(2) by (auto simp: touches_only_def)

lemma store_condition_touches:
  assumes "current_history uc = Some h" "store_condition rt h c (uc, s) = (uc', s')"
    and "\<And>c0. condition_of uc (CType c) = Some c0 \<Longrightarrow> CStartTime c = CStartTime c0"
  shows "touches_only {CType c} uc uc'"
proof -
  have "keeps_starts uc uc'"
    unfolding keeps_starts_def
  proof (intro allI impI)
    fix n c0 assume c0: "condition_of uc n = Some c0"
    show "\<exists>c'. condition_of uc' n = Some c' \<and> CStartTime c' = CStartTime c0"
    proof (cases "n = CType c")
      case True
      then show ?thesis
        using store_condition_effect(3) [OF assms(1,2)] assms(3) c0 by auto
    next
      case False
      then show ?thesis
        using store_condition_effect(2) [OF assms(1,2)] c0 by auto
    qed
  qed
  then show ?thesis
    using store_condition_effect(1,2) [OF assms(1,2)] by (auto simp: touches_only_def)
qed

lemma condition_of_current:
  "current_history uc = Some h \<Longrightarrow> condition_of uc n = GetCondition (HConditions h) n"
  by (simp add: condition_of_def)

lemma condition_of_type: "condition_of uc n = Some c \<Longrightarrow> CType c = n"
  by (auto simp: condition_of_def GetCondition_type split: bind_splits)

lemma setConditionStart_effect:
  assumes "current_history uc \<noteq> None"
  obtains uc' s' where "setConditionStart rt n (uc, s) = (Ok (), uc', s')"
    and "touches_only {n} uc uc'" and "condition_of uc' n \<noteq> None"
proof -
  obtain h where h: "current_history uc = Some h" using assms by auto
  show thesis
  proof (cases "condition_of uc n")
    case (Some c)
    then show thesis
      using that [of uc s] h assms
      by (simp add: setConditionStart_def condition_of_current touches_only_refl)
  next
    case None
    let ?c = "newUpgradeCondition (n @ '' not done'') (n @ '' has started'') n CFalse"
    obtain t s1 where t: "time_now rt s = (t, s1)" by fastforce
    obtain uc' s' where st: "store_condition rt h (?c\<lparr>CStartTime := Some t\<rparr>) (uc, s1) = (uc', s')"
      by fastforce
    have n: "CType (?c\<lparr>CStartTime := Some t\<rparr>) = n" by (simp add: newUpgradeCondition_def)
    show thesis
    proof (rule that)
      show "setConditionStart rt n (uc, s) = (Ok (), uc', s')"
        using None h t st by (simp add: setConditionStart_def condition_of_current)
      show "touches_only {n} uc uc'"
        using store_condition_touches [OF h st] None n by simp
      show "condition_of uc' n \<noteq> None"
        using store_condition_effect(3) [OF h st] n by auto
    qed
  qed
qed

lemma setConditionInProgress_effect:
  assumes "condition_of uc n \<noteq> None"
  obtains uc' s' where "setConditionInProgress rt n msg (uc, s) = (Ok (), uc', s')"
    and "touches_only {n} uc uc'" and "in_progress uc' n msg"
proof -
  obtain h c where h: "current_history uc = Some h" and c: "condition_of uc n = Some c"
    using assms by (auto simp: condition_of_def split: bind_splits)
  let ?c = "c\<lparr>CMessage := msg, CStatus := CFalse, CCompleteTime := None\<rparr>"
  obtain uc' s' where st: "store_condition rt h ?c (uc, s) = (uc', s')" by fastforce
  have n: "CType ?c = n" using condition_of_type [OF c] by simp
  show thesis
  proof (rule that)
    show "setConditionInProgress rt n msg (uc, s) = (Ok (), uc', s')"
      using c h st by (simp add: setConditionInProgress_def condition_of_current)
    show "touches_only {n} uc uc'"
      using store_condition_touches [OF h st] c n by simp
    show "in_progress uc' n msg"
      using store_condition_effect(3) [OF h st] n by (auto simp: in_progress_def IsFalse_def)
  qed
qed

lemma setConditionComplete_effect:
  assumes "condition_of uc n \<noteq> None"
  obtains uc' s' where "setConditionComplete rt n (uc, s) = (Ok (), uc', s')"
    and "touches_only {n} uc uc'" and "completed uc' n"
proof -
  obtain h c where h: "current_history uc = Some h" and c: "condition_of uc n = Some c"
    using assms by (auto simp: condition_of_def split: bind_splits)
  let ?c = "c\<lparr>CReason := n @ '' done'', CMessage := n @ '' is completed'', CStatus := CTrue\<rparr>"
  obtain ct s1 where ct: "(case CCompleteTime c of Some _ \<Rightarrow> (?c, s)
        | None \<Rightarrow> let (t, s) = time_now rt s in (?c\<lparr>CCompleteTime := Some t\<rparr>, s))
        = (?c\<lparr>CCompleteTime := Some ct\<rparr>, s1)"
    by (cases c; cases "CCompleteTime c"; cases "time_now rt s") auto
  let ?d = "?c\<lparr>CCompleteTime := Some ct\<rparr>"
  obtain uc' s' where st: "store_condition rt h ?d (uc, s1) = (uc', s')" by fastforce
  have n: "CType ?d = n" using condition_of_type [OF c] by simp
  show thesis
  proof (rule that)
    show "setConditionComplete rt n (uc, s) = (Ok (), uc', s')"
      using c h st ct by (simp add: setConditionComplete_def condition_of_current Let_def)
    show "touches_only {n} uc uc'"
      using store_condition_touches [OF h st] c n by simp
    show "completed uc' n"
      using store_condition_effect(3) [OF h st] n by (auto simp: completed_def IsTrue_def)
  qed
qed

section \<open>The runner\<close>

lemma completed_frame:
  "touches_only ns uc uc' \<Longrightarrow> n \<notin> ns \<Longrightarrow> completed uc' n = completed uc n"
  by (simp add: completed_def touches_only_def)

text \<open>
  What one run has achieved: either every step is complete, or the steps split at the one
  that did not finish, and the later ones were not started.
\<close>

definition run_progress ::
    "string list \<Rightarrow> run_result \<Rightarrow> UpgradeConfig \<Rightarrow> UpgradeConfig \<Rightarrow> bool" where
  "run_progress ns r uc uc' \<longleftrightarrow>
     (r = (Upgraded, None) \<and> (\<forall>n \<in> set ns. completed uc' n)) \<or>
     (\<exists>pre n post msg. ns = pre @ n # post \<and> fst r = Upgrading \<and> in_progress uc' n msg \<and>
        (\<forall>m \<in> set pre. m \<noteq> n \<longrightarrow> completed uc' m) \<and>
        (\<forall>m \<in> set post. m \<notin> set pre \<union> {n} \<longrightarrow> condition_of uc' m = condition_of uc m))"

lemma run_progress_stop:
  assumes "touches_only {n} uc uc'" "in_progress uc' n msg"
  shows "run_progress (n # ns) (Upgrading, e) uc uc'"
  unfolding run_progress_def using assms
  by (intro disjI2 exI [of _ "[]"] exI [of _ n] exI [of _ ns] exI [of _ msg])
     (simp add: touches_only_def)

lemma run_progress_Cons:
  assumes first: "touches_only {n} uc uc1" "completed uc1 n"
    and rest: "touches_only (set ns) uc1 uc'" "run_progress ns r uc1 uc'"
  shows "run_progress (n # ns) r uc uc'"
proof -
  consider "r = (Upgraded, None)" "\<forall>m \<in> set ns. completed uc' m"
    | pre m post msg where "ns = pre @ m # post" "fst r = Upgrading" "in_progress uc' m msg"
        "\<forall>k \<in> set pre. k \<noteq> m \<longrightarrow> completed uc' k"
        "\<forall>k \<in> set post. k \<notin> set pre \<union> {m} \<longrightarrow> condition_of uc' k = condition_of uc1 k"
    using rest(2) unfolding run_progress_def by blast
  then show ?thesis
  proof cases
    case 1
    then have "completed uc' n"
      using first(2) completed_frame [OF rest(1), of n] by blast
    then show ?thesis using 1 by (simp add: run_progress_def)
  next
    case 2
    have "completed uc' n" if "n \<noteq> m"
    proof (cases "n \<in> set ns")
      case False
      then show ?thesis using first(2) completed_frame [OF rest(1)] by blast
    next
      case True
      then have "n \<in> set pre \<or> n \<notin> set pre \<and> n \<in> set post" using 2(1) that by auto
      then show ?thesis
        using 2(4,5) that first(2) by (auto simp: completed_def)
    qed
    moreover have "condition_of uc' k = condition_of uc k"
      if "k \<in> set post" "k \<notin> set (n # pre) \<union> {m}" for k
      using 2(5) that first(1) by (auto simp: touches_only_def)
    ultimately show ?thesis
      unfolding run_progress_def using 2(1-4)
      by (intro disjI2 exI [of _ "n # pre"] exI [of _ m] exI [of _ post] exI [of _ msg]) auto
  qed
qed

lemma Run_effect:
  assumes "Run rt steps (uc, s) = (r, uc', s')" "current_history uc \<noteq> None"
  shows "touches_only (step_name ` set steps) uc uc' \<and>
         (\<forall>v. r = Ok v \<longrightarrow> run_progress (map step_name steps) v uc uc') \<and>
         (\<forall>e. r \<noteq> Err e) \<and> (r = Panic \<longrightarrow> (\<exists>st \<in> set steps. \<exists>uc s. fst (step_f st uc s) = Panic))"
  using assms
proof (induction steps arbitrary: uc s)
  case Nil
  then show ?case by (auto simp: run_progress_def touches_only_refl)
next
  case (Cons st steps)
  let ?n = "step_name st"
  obtain uc1 s1 where start: "setConditionStart rt ?n (uc, s) = (Ok (), uc1, s1)"
      "touches_only {?n} uc uc1" "condition_of uc1 ?n \<noteq> None"
    using Cons.prems(2) by (rule setConditionStart_effect)
  obtain o1 s2 where act: "step_f st uc1 s1 = (o1, s2)" by fastforce
  consider (panic) "o1 = Panic" | (err) e where "o1 = Err e"
    | (busy) "o1 = Ok False" | (ok) "o1 = Ok True"
    by (cases o1) auto
  then show ?case
  proof cases
    case panic
    then have "r = Panic \<and> uc' = uc1" "fst (step_f st uc1 s1) = Panic"
      using Cons.prems(1) start(1) act by auto
    then show ?thesis
      using touches_only_mono [OF start(2), of "step_name ` set (st # steps)"]
      by (simp del: fst_conv) blast
  next
    case err
    obtain uc2 s3 where "setConditionInProgress rt ?n (error_string rt e) (uc1, s2) = (Ok (), uc2, s3)"
        "touches_only {?n} uc1 uc2" "in_progress uc2 ?n (error_string rt e)"
      using start(3) by (rule setConditionInProgress_effect)
    then show ?thesis
      using Cons.prems err start act touches_only_trans [OF start(2), of "{?n}" uc2]
      by (auto intro: run_progress_stop)
  next
    case busy
    obtain uc2 s3 where "setConditionInProgress rt ?n (?n @ '' still in progress'') (uc1, s2) = (Ok (), uc2, s3)"
        "touches_only {?n} uc1 uc2" "in_progress uc2 ?n (?n @ '' still in progress'')"
      using start(3) by (rule setConditionInProgress_effect)
    then show ?thesis
      using Cons.prems busy start act touches_only_trans [OF start(2), of "{?n}" uc2]
      by (auto intro: run_progress_stop)
  next
    case ok
    obtain uc2 s3 where c: "setConditionComplete rt ?n (uc1, s2) = (Ok (), uc2, s3)"
        "touches_only {?n} uc1 uc2" "completed uc2 ?n"
      using start(3) by (rule setConditionComplete_effect)
    have t: "touches_only {?n} uc uc2"
      using touches_only_trans [OF start(2) c(2)] by simp
    have run: "Run rt steps (uc2, s3) = (r, uc', s')"
      using Cons.prems(1) ok start(1) act c(1) by simp
    note IH = Cons.IH [OF run touches_only_history [OF t]]
    have "touches_only (step_name ` set (st # steps)) uc uc'"
      by (rule touches_only_trans [OF t conjunct1 [OF IH]]) auto
    then show ?thesis
      using IH run_progress_Cons [OF t c(3)] by auto
  qed
qed

text \<open>
  Running a concatenation is running the first part and, only if it completed, the rest.
\<close>

lemma Run_append:
  "Run rt (xs @ ys) us =
     bindO (Run rt xs us) (\<lambda>r us'. if r = (Upgraded, None) then Run rt ys us' else (Ok r, us'))"
proof (induction xs arbitrary: us)
  case Nil
  then show ?case by simp
next
  case (Cons st xs)
  have IH: "Run rt (xs @ ys) = (\<lambda>us. bindO (Run rt xs us)
      (\<lambda>r us'. if r = (Upgraded, None) then Run rt ys us' else (Ok r, us')))"
    using Cons.IH by blast
  obtain o1 uc1 s1 where start: "setConditionStart rt (step_name st) us = (o1, uc1, s1)"
    by (metis prod.exhaust)
  obtain o2 s2 where act: "step_f st uc1 s1 = (o2, s2)" by fastforce
  show ?case
    by (cases o1; cases o2) (auto simp: start act IH bindO_assoc split: bool.splits)
qed

section \<open>The answers of the steps\<close>

text \<open>
  What the actions answered: every step of the list done, in order, each on what the one before it left, its
  condition started before its action and completed after it; and a step that stops the run because its action
  answered not done or an error.
\<close>

fun steps_finished :: "'s runtime \<Rightarrow> 's actionStep list \<Rightarrow> UpgradeConfig \<times> 's \<Rightarrow> UpgradeConfig \<times> 's \<Rightarrow> bool" where
  "steps_finished rt [] us us' \<longleftrightarrow> us' = us"
| "steps_finished rt (st # steps) us us' \<longleftrightarrow>
     (\<exists>uc1 s1 s2 us2. setConditionStart rt (step_name st) us = (Ok (), uc1, s1) \<and> step_f st uc1 s1 = (Ok True, s2) \<and>
        setConditionComplete rt (step_name st) (uc1, s2) = (Ok (), us2) \<and> steps_finished rt steps us2 us')"

definition step_stops ::
    "'s runtime \<Rightarrow> 's actionStep \<Rightarrow> UpgradeConfig \<times> 's \<Rightarrow> run_result \<Rightarrow> UpgradeConfig \<times> 's \<Rightarrow> bool" where
  "step_stops rt st us r us' \<longleftrightarrow>
     (\<exists>uc1 s1 a s2. setConditionStart rt (step_name st) us = (Ok (), uc1, s1) \<and> step_f st uc1 s1 = (a, s2) \<and>
        (a = Ok False \<and> r = (Upgrading, None) \<and>
           setConditionInProgress rt (step_name st) (step_name st @ '' still in progress'') (uc1, s2) = (Ok (), us') \<or>
         (\<exists>e. a = Err e \<and> r = (Upgrading, Some e) \<and>
           setConditionInProgress rt (step_name st) (error_string rt e) (uc1, s2) = (Ok (), us'))))"

lemma Run_finished_prefix: "steps_finished rt steps us us' \<Longrightarrow> Run rt (steps @ post) us = Run rt post us'"
  by (induction steps arbitrary: us) auto

lemma Run_stopped: "step_stops rt st us r us' \<Longrightarrow> Run rt (st # post) us = (Ok r, us')"
  by (auto simp: step_stops_def)

lemma Run_Ok_cases:
  assumes "Run rt steps us = (Ok r, us')"
  shows "r = (Upgraded, None) \<and> steps_finished rt steps us us' \<or>
    (\<exists>pre st post us1. steps = pre @ st # post \<and> steps_finished rt pre us us1 \<and> step_stops rt st us1 r us')"
  using assms
proof (induction steps arbitrary: us)
  case (Cons st steps)
  obtain o1 uc1 s1 where start: "setConditionStart rt (step_name st) us = (o1, uc1, s1)" by (metis prod.exhaust)
  with Cons.prems have "o1 = Ok ()" by (cases o1) auto
  note start = start [unfolded this]
  obtain a s2 where act: "step_f st uc1 s1 = (a, s2)" by fastforce
  show ?case
  proof (cases "a = Ok True")
    case True
    then obtain us2 where c: "setConditionComplete rt (step_name st) (uc1, s2) = (Ok (), us2)" and run: "Run rt steps us2 = (Ok r, us')"
      using Cons.prems start act by (auto simp: bindO_Ok_iff)
    have one: "steps_finished rt (st # steps') us us''" if "steps_finished rt steps' us2 us''" for steps' us''
      using that start act True c by (cases us2) auto
    from Cons.IH [OF run] show ?thesis
    proof (elim disjE exE conjE)
      fix pre st' post us1
      assume "steps = pre @ st' # post" "steps_finished rt pre us2 us1" "step_stops rt st' us1 r us'"
      then show ?thesis
        using one [of pre us1] by (intro disjI2 exI [of _ "st # pre"] exI [of _ st'] exI [of _ post] exI [of _ us1]) simp
    qed (use one in blast)
  next
    case False
    then have "step_stops rt st us r us'"
      using Cons.prems start act
      by (cases a) (auto simp: step_stops_def bindO_Ok_iff split: bool.splits)
    then show ?thesis
      by (intro disjI2 exI [of _ "[]"] exI [of _ st] exI [of _ steps] exI [of _ us]) simp
  qed
qed simp

lemma Run_finished_iff: "Run rt steps us = (Ok (Upgraded, None), us') \<longleftrightarrow> steps_finished rt steps us us'"
  using Run_Ok_cases [of rt steps us "(Upgraded, None)" us'] Run_finished_prefix [of rt steps us us' "[]"]
  by (auto simp: step_stops_def)

lemma Run_Ok_iff:
  "Run rt steps us = (Ok r, us') \<longleftrightarrow>
     r = (Upgraded, None) \<and> steps_finished rt steps us us' \<or>
     (\<exists>pre st post us1. steps = pre @ st # post \<and> steps_finished rt pre us us1 \<and> step_stops rt st us1 r us')"
proof
  assume "r = (Upgraded, None) \<and> steps_finished rt steps us us' \<or>
     (\<exists>pre st post us1. steps = pre @ st # post \<and> steps_finished rt pre us us1 \<and> step_stops rt st us1 r us')"
  then show "Run rt steps us = (Ok r, us')"
    by (elim disjE exE conjE) (simp_all add: Run_finished_iff Run_finished_prefix Run_stopped del: Run.simps(2))
qed (rule Run_Ok_cases)

section \<open>Times of the conditions\<close>

text \<open>A condition with a start time and, when it is true, a completion time, as the scrapes rely on.\<close>

definition timed :: "UpgradeCondition \<Rightarrow> bool" where
  "timed c \<longleftrightarrow> CStartTime c \<noteq> None \<and> (IsTrue c \<longrightarrow> CCompleteTime c \<noteq> None)"

definition timed_conditions :: "UpgradeConfig \<Rightarrow> bool" where
  "timed_conditions uc \<longleftrightarrow> (\<forall>h. current_history uc = Some h \<longrightarrow> (\<forall>c \<in> set (HConditions h). timed c))"

lemma timed_update [simp]: "timed (c\<lparr>LastTransitionTime := x\<rparr>) = timed c" "timed (c\<lparr>LastProbeTime := x\<rparr>) = timed c"
  by (simp_all add: timed_def IsTrue_def)

lemma replace_first_all: "P y \<Longrightarrow> \<forall>x \<in> set xs. P x \<Longrightarrow> \<forall>x \<in> set (replace_first Q y xs). P x"
  by (induction xs) auto

lemma set_SetCondition_timed:
  assumes "timed c" "\<forall>d \<in> set cs. timed d"
  shows "\<forall>d \<in> set (snd (SetCondition t1 t2 c cs)). timed d"
proof (cases "GetCondition cs (CType c)")
  case (Some old)
  then show ?thesis
    by (simp add: SetCondition_def Let_def) (intro conjI impI replace_first_all; simp add: assms)
qed (use assms in \<open>simp add: SetCondition_def Let_def\<close>)

lemma store_condition_timed:
  assumes "current_history uc = Some h" "store_condition rt h c (uc, s) = (uc', s')" "timed c" "timed_conditions uc"
  shows "timed_conditions uc'"
proof -
  obtain t1 t2 where uc': "uc' = uc\<lparr>History := SetHistory
        (h\<lparr>HConditions := snd (SetCondition t1 t2 c (HConditions h))\<rparr>) (History uc)\<rparr>"
    using assms(2) by (auto simp: store_condition_def Let_def split: prod.splits)
  let ?h' = "h\<lparr>HConditions := snd (SetCondition t1 t2 c (HConditions h))\<rparr>"
  have "current_history uc' = Some ?h'"
    using GetHistory_SetHistory [of ?h' "History uc"] GetHistory_Version [OF assms(1)] by (simp add: uc')
  moreover have "\<forall>d \<in> set (snd (SetCondition t1 t2 c (HConditions h))). timed d"
    by (rule set_SetCondition_timed) (use assms(1,3,4) in \<open>auto simp: timed_conditions_def\<close>)
  ultimately show ?thesis
    by (simp add: timed_conditions_def)
qed

text \<open>A property of the UpgradeConfig that the three setters keep is kept by a run.\<close>

lemma Run_preserves:
  assumes "\<And>n uc s r uc' s'. setConditionStart rt n (uc, s) = (r, uc', s') \<Longrightarrow> P uc \<Longrightarrow> P uc'"
    and "\<And>n m uc s r uc' s'. setConditionInProgress rt n m (uc, s) = (r, uc', s') \<Longrightarrow> P uc \<Longrightarrow> P uc'"
    and "\<And>n uc s r uc' s'. setConditionComplete rt n (uc, s) = (r, uc', s') \<Longrightarrow> P uc \<Longrightarrow> P uc'"
  shows "Run rt steps (uc, s) = (r, uc', s') \<Longrightarrow> P uc \<Longrightarrow> P uc'"
proof (induction steps arbitrary: uc s)
  case (Cons st steps)
  obtain o1 uc1 s1 where start: "setConditionStart rt (step_name st) (uc, s) = (o1, uc1, s1)" by (metis prod.exhaust)
  then have P1: "P uc1" using assms(1) Cons.prems(2) by blast
  obtain o2 s2 where act: "step_f st uc1 s1 = (o2, s2)" by fastforce
  have busy: "P uc'" if "bindO (setConditionInProgress rt n m (uc1, s2)) (\<lambda>_ us. (Ok v, us)) = (r, uc', s')" for n m v
    using that assms(2) [OF _ P1] by (cases "setConditionInProgress rt n m (uc1, s2)"; cases "fst (setConditionInProgress rt n m (uc1, s2))") auto
  have rest: "P uc'" if "bindO (setConditionComplete rt n (uc1, s2)) (\<lambda>_ us. Run rt steps us) = (r, uc', s')" for n
    using that assms(3) [OF _ P1] Cons.IH
    by (cases "setConditionComplete rt n (uc1, s2)"; cases "fst (setConditionComplete rt n (uc1, s2))") auto
  show ?case
    using Cons.prems(1) P1 busy rest
    by (cases o1; cases o2) (auto simp: start act split: bool.splits)
qed simp

lemma GetCondition_in_set: "GetCondition cs t = Some c \<Longrightarrow> c \<in> set cs"
  by (auto simp: GetCondition_def dest: first_with_SomeD)

lemma Run_timed:
  assumes "Run rt steps (uc, s) = (r, uc', s')" "timed_conditions uc"
  shows "timed_conditions uc'"
proof (rule Run_preserves [where P = timed_conditions, OF _ _ _ assms])
  fix n uc s r uc' s' assume run: "setConditionStart rt n (uc, s) = (r, uc', s')" and t: "timed_conditions uc"
  show "timed_conditions uc'"
  proof (cases "\<exists>h. current_history uc = Some h \<and> GetCondition (HConditions h) n = None")
    case True
    then obtain h c s1 where h: "current_history uc = Some h" "store_condition rt h c (uc, s1) = (uc', s')" "timed c"
      using run by (auto simp: setConditionStart_def Let_def newUpgradeCondition_def timed_def IsTrue_def split: prod.splits)
    from store_condition_timed [OF this t] show ?thesis .
  qed (use run t in \<open>auto simp: setConditionStart_def split: option.splits\<close>)
next
  fix n m uc s r uc' s' assume run: "setConditionInProgress rt n m (uc, s) = (r, uc', s')" and t: "timed_conditions uc"
  show "timed_conditions uc'"
  proof (cases "\<exists>h d. current_history uc = Some h \<and> GetCondition (HConditions h) n = Some d")
    case True
    then obtain h d where h: "current_history uc = Some h" "GetCondition (HConditions h) n = Some d" by blast
    have st: "store_condition rt h (d\<lparr>CMessage := m, CStatus := CFalse, CCompleteTime := None\<rparr>) (uc, s) = (uc', s')"
      using run h by (simp add: setConditionInProgress_def)
    have "timed d" using t h GetCondition_in_set by (auto simp: timed_conditions_def)
    then show ?thesis using store_condition_timed [OF h(1) st _ t] by (simp add: timed_def IsTrue_def)
  qed (use run t in \<open>auto simp: setConditionInProgress_def split: option.splits\<close>)
next
  fix n uc s r uc' s' assume run: "setConditionComplete rt n (uc, s) = (r, uc', s')" and t: "timed_conditions uc"
  show "timed_conditions uc'"
  proof (cases "\<exists>h d. current_history uc = Some h \<and> GetCondition (HConditions h) n = Some d")
    case True
    then obtain h d where h: "current_history uc = Some h" "GetCondition (HConditions h) n = Some d" by blast
    have d: "timed d" using t h GetCondition_in_set by (auto simp: timed_conditions_def)
    from run h d obtain c s1 where "store_condition rt h c (uc, s1) = (uc', s')" "timed c"
      by (auto simp: setConditionComplete_def Let_def timed_def IsTrue_def split: option.splits prod.splits)
    from store_condition_timed [OF h(1) this t] show ?thesis .
  qed (use run t in \<open>auto simp: setConditionComplete_def split: option.splits\<close>)
qed

section \<open>Properties\<close>

text \<open>An UpgradeConfig with a history for its desired version, a clock that stands still, and two steps.\<close>

definition sample_uc :: UpgradeConfig where
  "sample_uc =
     \<lparr>ucName = ''managed-upgrade-config'', ucNamespace = ''muo'',
      Spec = \<lparr>Desired = \<lparr>dVersion = ''4.14.2'', dChannel = ''stable-4.14'', dImage = []\<rparr>,
              UpgradeAt = ''1970-01-01T00:10:00Z'', PDBForceDrainTimeout = 60, UType = OSD,
              CapacityReservation = True\<rparr>,
      History = [\<lparr>Version = ''4.14.2'', PrecedingVersion = ''4.14.1'', Phase = Upgrading, HConditions = [],
                  StartTime = None, CompleteTime = None, WorkerStartTime = None, WorkerCompleteTime = None\<rparr>]\<rparr>"

definition still_clock :: "unit runtime" where
  "still_clock = \<lparr>time_now = (\<lambda>s. (7, s)), error_string = (\<lambda>_. ''error'')\<rparr>"

definition sample_steps :: "unit actionStep list" where
  "sample_steps = [Action ''A'' (\<lambda>_ s. (Ok True, s)), Action ''B'' (\<lambda>_ s. (Ok False, s)),
                   Action ''C'' (\<lambda>_ s. (Panic, s))]"

lemmas sample_defs = sample_uc_def still_clock_def sample_steps_def Action_def

text \<open>
  C3: A run of the steps that returns either completes every step, and then says Upgraded without an error,
  or stops at one step that it leaves in progress with the reason as its message: the steps before
  it are complete, the later ones keep the condition they had, and the phase is Upgrading. The
  run writes nothing else of the UpgradeConfig, and no condition that exists loses its start time.
\<close>
theorem Run_progress:
  assumes "Run rt steps (uc, s) = (Ok r, uc', s')" "current_history uc \<noteq> None"
  shows "run_progress (map step_name steps) r uc uc' \<and> touches_only (step_name ` set steps) uc uc'"
  using Run_effect [OF assms] by blast

theorem Run_progress_witness:
  "run_progress [''A'', ''B'', ''C''] (Upgrading, None) sample_uc
     (fst (snd (Run still_clock sample_steps (sample_uc, ()))))"
proof -
  obtain uc' s' where r: "Run still_clock sample_steps (sample_uc, ()) = (Ok (Upgrading, None), uc', s')"
    by (simp add: sample_defs setConditionStart_def setConditionInProgress_def setConditionComplete_def
        store_condition_def newUpgradeCondition_def GetHistory_def SetHistory_def GetCondition_def SetCondition_def
        Let_def)
  have h: "current_history sample_uc \<noteq> None" by (simp add: sample_uc_def GetHistory_def)
  show ?thesis
    using Run_progress [OF r h] r by (simp add: sample_steps_def Action_def)
qed


end
