(* ===== verification/Cluster_Version.thy ===== *)
theory Cluster_Version
  imports Steps
begin

text \<open>
  The ClusterVersion client (\<open>pkg/clusterversion/cv.go\<close>). The Kubernetes API is the parameter
  \<open>cv_api\<close>: reading the ClusterVersion object, patching it, listing the cluster operators.
  The merge patches the client sends are the constructors of \<open>cv_patch\<close>; \<open>merge_patch\<close> is what
  a JSON merge patch does to the object, and \<open>cv_store\<close> is the hypothesis that the API server
  applies it and serves it to later reads.
\<close>

section \<open>Data\<close>

datatype UpdateState = CompletedUpdate | PartialUpdate

record UpdateHistory =
  uhState :: UpdateState
  uhVersion :: string
  uhStartedTime :: instant
  uhCompletionTime :: "instant option"

record Release =
  rVersion :: string
  rImage :: string

record StatusCondition =
  scType :: string
  scStatus :: ConditionStatus
  scReason :: string
  scMessage :: string

record ClusterVersion =
  cvClusterID :: string
  cvUpstream :: string
  cvChannel :: string
  cvDesiredUpdate :: "Release option"
  cvDesired :: Release
  cvHistory :: "UpdateHistory list"
  cvAvailableUpdates :: "Release list"
  cvConditionalUpdates :: "Release list"
  cvConditions :: "StatusCondition list"

record ClusterOperator =
  coName :: string
  coConditions :: "StatusCondition list"

datatype cv_patch =
    PatchDesiredImage string
  | PatchChannel string
  | PatchDesiredVersion string "string option"

record 's cv_api =
  get_cv :: "('s, ClusterVersion) ext_op"
  patch_cv :: "cv_patch \<Rightarrow> ('s, unit) ext_op"
  list_clusteroperators :: "('s, ClusterOperator list) ext_op"

datatype upgrade_source = UpgradeWithImage | UpgradeWithChannelVersion

section \<open>Operations\<close>

definition GetClusterVersion :: "'s cv_api \<Rightarrow> ('s, ClusterVersion) op" where
  "GetClusterVersion api = call (get_cv api)"

definition checkUpgradeSource :: "UpgradeConfig \<Rightarrow> upgrade_source outcome" where
  "checkUpgradeSource uc =
     (if dImage (Desired (Spec uc)) \<noteq> [] then Ok UpgradeWithImage
      else if dChannel (Desired (Spec uc)) \<noteq> [] \<and> desired_version uc \<noteq> []
      then Ok UpgradeWithChannelVersion
      else Err (Errorf ''cannot find the correct upgrade spec source''))"

definition isEqualVersion :: "ClusterVersion \<Rightarrow> UpgradeConfig \<Rightarrow> bool" where
  "isEqualVersion cv uc \<longleftrightarrow>
     (case cvDesiredUpdate cv of None \<Rightarrow> False | Some u \<Rightarrow> rVersion u = desired_version uc)"

definition isEqualImage :: "ClusterVersion \<Rightarrow> UpgradeConfig \<Rightarrow> bool" where
  "isEqualImage cv uc \<longleftrightarrow>
     (case cvDesiredUpdate cv of None \<Rightarrow> False | Some u \<Rightarrow> rImage u = dImage (Desired (Spec uc)))"

definition HasUpgradeCommenced :: "'s cv_api \<Rightarrow> UpgradeConfig \<Rightarrow> ('s, bool) op" where
  "HasUpgradeCommenced api uc s =
     bindO (GetClusterVersion api s) (\<lambda>cv s.
     bindO (checkUpgradeSource uc, s) (\<lambda>src s.
       case src of
         UpgradeWithImage \<Rightarrow> (Ok (isEqualImage cv uc), s)
       | UpgradeWithChannelVersion \<Rightarrow> (Ok (isEqualVersion cv uc), s)))"

definition runUpgradeWithImage ::
    "'s cv_api \<Rightarrow> ClusterVersion \<Rightarrow> UpgradeConfig \<Rightarrow> ('s, bool) op" where
  "runUpgradeWithImage api cv uc s =
     (let image = dImage (Desired (Spec uc))
      in if (case cvDesiredUpdate cv of None \<Rightarrow> True | Some u \<Rightarrow> rImage u \<noteq> image)
         then bindO (call (patch_cv api (PatchDesiredImage image)) s) (\<lambda>_ s. (Ok True, s))
         else (Ok True, s))"

text \<open>
  The last conditional update with the version and an image decides the image; a plain
  available update only makes the version available.
\<close>

definition update_available :: "ClusterVersion \<Rightarrow> string \<Rightarrow> bool" where
  "update_available cv v \<longleftrightarrow>
     (\<exists>u \<in> set (cvAvailableUpdates cv @ cvConditionalUpdates cv). rVersion u = v \<and> rImage u \<noteq> [])"

definition conditional_image :: "ClusterVersion \<Rightarrow> string \<Rightarrow> string" where
  "conditional_image cv v =
     fold (\<lambda>u image. if rVersion u = v \<and> rImage u \<noteq> [] then rImage u else image)
       (cvConditionalUpdates cv) []"

definition runUpgradeWithChannelVersion ::
    "'s cv_api \<Rightarrow> ClusterVersion \<Rightarrow> UpgradeConfig \<Rightarrow> ('s, bool) op" where
  "runUpgradeWithChannelVersion api cv uc s =
     (let desired = Desired (Spec uc)
      in bindO
          (if cvChannel cv \<noteq> dChannel desired
           then bindO (call (patch_cv api (PatchChannel (dChannel desired))) s)
                  (\<lambda>_ s. GetClusterVersion api s)
           else (Ok cv, s))
          (\<lambda>cv s.
            if \<not> update_available cv (dVersion desired) then (Ok False, s)
            else
              let image = conditional_image cv (dVersion desired);
                  patch = PatchDesiredVersion (dVersion desired)
                            (if image \<noteq> [] then Some image else None)
              in bindO (call (patch_cv api patch) s) (\<lambda>_ s. (Ok True, s))))"

definition EnsureDesiredConfig :: "'s cv_api \<Rightarrow> UpgradeConfig \<Rightarrow> ('s, bool) op" where
  "EnsureDesiredConfig api uc s =
     bindO (GetClusterVersion api s) (\<lambda>cv s.
     bindO (checkUpgradeSource uc, s) (\<lambda>src s.
       case src of
         UpgradeWithImage \<Rightarrow> runUpgradeWithImage api cv uc s
       | UpgradeWithChannelVersion \<Rightarrow> runUpgradeWithChannelVersion api cv uc s))"

definition HasUpgradeCompleted :: "ClusterVersion \<Rightarrow> UpgradeConfig \<Rightarrow> bool" where
  "HasUpgradeCompleted cv uc =
     fold (\<lambda>h done. if uhVersion h = desired_version uc \<and> uhState h = CompletedUpdate
                    then True else done) (cvHistory cv) False"

definition operator_degraded :: "StatusCondition \<Rightarrow> bool" where
  "operator_degraded c \<longleftrightarrow>
     (scType c = ''Degraded'' \<and> scStatus c = CTrue) \<or>
     (scType c = ''Available'' \<and> scStatus c = CFalse)"

definition HasDegradedOperators :: "'s cv_api \<Rightarrow> ('s, string list) op" where
  "HasDegradedOperators api s =
     bindO (call (list_clusteroperators api) s) (\<lambda>cos s.
       (Ok (map coName (filter (\<lambda>co. list_ex operator_degraded (coConditions co)) cos)), s))"

text \<open>\<open>GetClusterId\<close> swallows the error.\<close>

definition GetClusterId :: "'s cv_api \<Rightarrow> 's \<Rightarrow> string \<times> 's" where
  "GetClusterId api s =
     (case GetClusterVersion api s of
        (Ok cv, s) \<Rightarrow> (if cvClusterID cv = [] then ''unknown'' else cvClusterID cv, s)
      | (_, s) \<Rightarrow> (''unknown'', s))"

definition cv_GetHistory :: "ClusterVersion \<Rightarrow> string \<Rightarrow> UpdateHistory option" where
  "cv_GetHistory cv v = first_with (\<lambda>h. uhVersion h = v) (cvHistory cv)"

fun preceding_loop :: "string \<Rightarrow> UpdateHistory list \<Rightarrow> string option" where
  "preceding_loop v [] = None"
| "preceding_loop v (h # hs) =
     (if uhState h = CompletedUpdate \<and> uhVersion h \<noteq> [] \<and> uhVersion h \<noteq> v
      then Some (uhVersion h) else preceding_loop v hs)"

definition GetPrecedingVersion :: "ClusterVersion \<Rightarrow> UpgradeConfig \<Rightarrow> string" where
  "GetPrecedingVersion cv uc =
     (if rVersion (cvDesired cv) = desired_version uc
      then case preceding_loop (desired_version uc) (cvHistory cv) of
             Some v \<Rightarrow> v | None \<Rightarrow> rVersion (cvDesired cv)
      else rVersion (cvDesired cv))"

text \<open>
  The loop of \<open>GetCurrentVersion\<close>. A completed entry with no completion time is taken when
  nothing was taken before it and makes \<open>CompletionTime.After\<close> panic otherwise.
\<close>

fun current_loop ::
    "string \<Rightarrow> instant option \<Rightarrow> UpdateHistory list \<Rightarrow> string outcome" where
  "current_loop got latest [] = Ok got"
| "current_loop got latest (h # hs) =
     (if uhState h = CompletedUpdate then
        (case latest of
           None \<Rightarrow> current_loop (uhVersion h) (uhCompletionTime h) hs
         | Some l \<Rightarrow>
             (case uhCompletionTime h of
                None \<Rightarrow> Panic
              | Some t \<Rightarrow> if l < t then current_loop (uhVersion h) (Some t) hs
                          else current_loop got latest hs))
      else current_loop got latest hs)"

definition GetCurrentVersion :: "ClusterVersion \<Rightarrow> string outcome" where
  "GetCurrentVersion cv =
     (case current_loop [] None (cvHistory cv) of
        Ok v \<Rightarrow> if v = [] then Err (Errorf ''failed to get current version'') else Ok v
      | r \<Rightarrow> r)"

text \<open>
  \<open>sort.Slice\<close> is the parameter \<open>sort_slice\<close>, given the \<open>less\<close> function. The pointers the code
  compares for identity are the positions in the history, and every pointer is dereferenced
  by the sort when there are at least two.
\<close>

definition completed_times :: "UpdateHistory list \<Rightarrow> (nat \<times> instant option) list" where
  "completed_times hs =
     [(i, uhCompletionTime h). (i, h) \<leftarrow> enumerate 0 hs, uhState h = CompletedUpdate]"

definition GetCurrentVersionMinusOne ::
    "((nat \<times> instant \<Rightarrow> nat \<times> instant \<Rightarrow> bool) \<Rightarrow> (nat \<times> instant) list \<Rightarrow> (nat \<times> instant) list) \<Rightarrow>
     ClusterVersion \<Rightarrow> string outcome" where
  "GetCurrentVersionMinusOne sort_slice cv =
     (let ts = completed_times (cvHistory cv)
      in if length ts \<le> 1 then Err (Errorf ''cluster has only one version available'')
         else if list_ex (\<lambda>(i, t). t = None) ts then Panic
         else let sorted_ts = sort_slice (\<lambda>(_, t) (_, u). u < t) (map (\<lambda>(i, t). (i, the t)) ts);
                  v = uhVersion (cvHistory cv ! fst (sorted_ts ! 1))
              in if v = [] then Err (Errorf ''failed to get current version - 1'') else Ok v)"

section \<open>The API server\<close>

fun merge_patch :: "cv_patch \<Rightarrow> ClusterVersion \<Rightarrow> ClusterVersion" where
  "merge_patch (PatchDesiredImage img) cv = cv\<lparr>cvDesiredUpdate := Some \<lparr>rVersion = [], rImage = img\<rparr>\<rparr>"
| "merge_patch (PatchChannel ch) cv = cv\<lparr>cvChannel := ch\<rparr>"
| "merge_patch (PatchDesiredVersion v img) cv =
     cv\<lparr>cvDesiredUpdate := Some \<lparr>rVersion = v, rImage = (case img of None \<Rightarrow> [] | Some i \<Rightarrow> i)\<rparr>\<rparr>"

text \<open>
  The object in the store of state \<open>s\<close> is \<open>view s\<close>; reading does not change it and a patch that
  succeeds is applied. Any call may still fail.
\<close>

definition cv_store :: "'s cv_api \<Rightarrow> ('s \<Rightarrow> ClusterVersion) \<Rightarrow> bool" where
  "cv_store api view \<longleftrightarrow>
     (\<forall>s r s'. get_cv api s = (r, s') \<longrightarrow> view s' = view s \<and> (\<forall>cv. r = Inr cv \<longrightarrow> cv = view s)) \<and>
     (\<forall>p s s'. patch_cv api p s = (Inr (), s') \<longrightarrow> view s' = merge_patch p (view s))"

lemma GetClusterVersion_view:
  assumes "cv_store api view" "GetClusterVersion api s = (r, s')"
  shows "view s' = view s" "r = Ok cv \<Longrightarrow> cv = view s"
  using assms
  by (auto simp: cv_store_def GetClusterVersion_def call_def split: prod.splits)

lemma patch_view:
  "cv_store api view \<Longrightarrow> call (patch_cv api p) s = (Ok (), s') \<Longrightarrow> view s' = merge_patch p (view s)"
  by (simp add: cv_store_def)

lemma checkUpgradeSource_image:
  "checkUpgradeSource uc = Ok UpgradeWithImage \<longleftrightarrow> dImage (Desired (Spec uc)) \<noteq> []"
  by (simp add: checkUpgradeSource_def)

lemma checkUpgradeSource_not_Panic [simp]: "checkUpgradeSource uc \<noteq> Panic"
  by (simp add: checkUpgradeSource_def)

text \<open>Whether the object asks for the release the UpgradeConfig wants.\<close>

definition commenced :: "ClusterVersion \<Rightarrow> UpgradeConfig \<Rightarrow> bool" where
  "commenced cv uc \<longleftrightarrow>
     (case checkUpgradeSource uc of
        Ok UpgradeWithImage \<Rightarrow> isEqualImage cv uc
      | Ok UpgradeWithChannelVersion \<Rightarrow> isEqualVersion cv uc
      | _ \<Rightarrow> False)"

lemma HasUpgradeCommenced_Ok:
  assumes "cv_store api view" "HasUpgradeCommenced api uc s = (Ok b, s')"
  shows "b = commenced (view s) uc" "view s' = view s"
proof -
  from assms(2) obtain cv s1 src where 1: "GetClusterVersion api s = (Ok cv, s1)"
      "checkUpgradeSource uc = Ok src"
      "(case src of UpgradeWithImage \<Rightarrow> (Ok (isEqualImage cv uc), s1)
                  | UpgradeWithChannelVersion \<Rightarrow> (Ok (isEqualVersion cv uc), s1)) = (Ok b, s')"
    by (auto simp: HasUpgradeCommenced_def bindO_Ok_iff)
  note v = GetClusterVersion_view [OF assms(1) 1(1)]
  show "b = commenced (view s) uc" "view s' = view s"
    using 1 v by (cases src; auto simp: commenced_def)+
qed

lemma EnsureDesiredConfig_commences:
  assumes st: "cv_store api view" and e: "EnsureDesiredConfig api uc s = (Ok True, s')"
  shows "commenced (view s') uc"
proof -
  from e obtain cv s1 src where 1: "GetClusterVersion api s = (Ok cv, s1)"
      "checkUpgradeSource uc = Ok src"
      "(case src of UpgradeWithImage \<Rightarrow> runUpgradeWithImage api cv uc s1
                  | UpgradeWithChannelVersion \<Rightarrow> runUpgradeWithChannelVersion api cv uc s1)
         = (Ok True, s')"
    by (auto simp: EnsureDesiredConfig_def bindO_Ok_iff)
  have cv: "view s1 = cv"
    using GetClusterVersion_view [OF st 1(1)] by auto
  show ?thesis
  proof (cases src)
    case UpgradeWithImage
    then show ?thesis
      using 1 cv patch_view [OF st]
      by (auto simp: commenced_def isEqualImage_def runUpgradeWithImage_def Let_def bindO_Ok_iff
               simp del: call_eq_iff split: option.splits if_splits)
  next
    case UpgradeWithChannelVersion
    then obtain cv2 s2 p where "call (patch_cv api p) s2 = (Ok (), s')"
        "\<exists>img. p = PatchDesiredVersion (desired_version uc) img"
      using 1(3)
      by (auto simp: runUpgradeWithChannelVersion_def Let_def bindO_Ok_iff split: if_splits)
    then show ?thesis
      using UpgradeWithChannelVersion 1(2) patch_view [OF st]
      by (auto simp: commenced_def isEqualVersion_def simp del: call_eq_iff)
  qed
qed

text \<open>Nothing but the channel is changed unless the cluster offers the version.\<close>

lemma runUpgradeWithChannelVersion_unavailable:
  assumes st: "cv_store api view" and "view s = cv"
    and "\<not> update_available cv (desired_version uc)"
    and r: "runUpgradeWithChannelVersion api cv uc s = (Ok b, s')"
  shows "b = False \<and> cvDesiredUpdate (view s') = cvDesiredUpdate cv"
proof (cases "cvChannel cv = dChannel (Desired (Spec uc))")
  case True
  then show ?thesis
    using assms by (simp add: runUpgradeWithChannelVersion_def)
next
  case False
  let ?ch = "dChannel (Desired (Spec uc))"
  from False r obtain cv2 s1 s2 where p: "call (patch_cv api (PatchChannel ?ch)) s = (Ok (), s1)"
      "GetClusterVersion api s1 = (Ok cv2, s2)"
      "\<not> update_available cv2 (desired_version uc) \<longrightarrow> b = False \<and> s' = s2"
    by (auto simp: runUpgradeWithChannelVersion_def Let_def bindO_Ok_iff simp del: call_eq_iff
             split: if_splits)
  have v1: "view s1 = cv\<lparr>cvChannel := ?ch\<rparr>"
    using patch_view [OF st p(1)] assms(2) by simp
  note g = GetClusterVersion_view [OF st p(2)]
  have "cv2 = cv\<lparr>cvChannel := ?ch\<rparr>" using g(2) [of cv2] v1 by simp
  moreover from this have "\<not> update_available cv2 (desired_version uc)"
    using assms(3) by (simp add: update_available_def)
  ultimately show ?thesis
    using p(3) g(1) v1 by auto
qed

section \<open>The current version\<close>

text \<open>The completed entries, and the latest of them.\<close>

definition completed_entries :: "ClusterVersion \<Rightarrow> UpdateHistory list" where
  "completed_entries cv = filter (\<lambda>h. uhState h = CompletedUpdate) (cvHistory cv)"

definition is_latest :: "UpdateHistory \<Rightarrow> UpdateHistory list \<Rightarrow> bool" where
  "is_latest h hs \<longleftrightarrow> h \<in> set hs \<and>
     (\<forall>k \<in> set hs. the (uhCompletionTime k) \<le> the (uhCompletionTime h))"

lemma completed_entries_Completed: "h \<in> set (completed_entries cv) \<Longrightarrow> uhState h = CompletedUpdate"
  by (simp add: completed_entries_def)

lemma current_loop_filter:
  "current_loop got latest hs = current_loop got latest (filter (\<lambda>h. uhState h = CompletedUpdate) hs)"
  by (induction got latest hs rule: current_loop.induct) (auto split: option.splits)

lemma current_loop_latest:
  assumes "\<forall>h \<in> set (g # hs). uhState h = CompletedUpdate \<and> uhCompletionTime h \<noteq> None"
  shows "\<exists>h. is_latest h (g # hs) \<and> current_loop (uhVersion g) (uhCompletionTime g) hs = Ok (uhVersion h)"
  using assms
proof (induction hs arbitrary: g)
  case Nil
  then show ?case by (simp add: is_latest_def)
next
  case (Cons k hs)
  obtain l t where lt: "uhCompletionTime g = Some l" "uhCompletionTime k = Some t"
    using Cons.prems by auto
  let ?g = "if l < t then k else g"
  have "\<forall>h \<in> set (?g # hs). uhState h = CompletedUpdate \<and> uhCompletionTime h \<noteq> None"
    using Cons.prems by (cases "l < t") auto
  from Cons.IH [OF this] obtain h where h: "is_latest h (?g # hs)"
      "current_loop (uhVersion ?g) (uhCompletionTime ?g) hs = Ok (uhVersion h)"
    by blast
  have "is_latest h (g # k # hs)"
    using h(1) lt by (auto simp: is_latest_def split: if_splits)
  moreover have "current_loop (uhVersion g) (uhCompletionTime g) (k # hs) = Ok (uhVersion h)"
    using h(2) lt Cons.prems by (auto split: if_splits)
  ultimately show ?case by blast
qed

lemma GetCurrentVersion_latest:
  assumes "\<forall>h \<in> set (completed_entries cv). uhCompletionTime h \<noteq> None"
  shows "completed_entries cv = [] \<and> GetCurrentVersion cv = Err (Errorf ''failed to get current version'') \<or>
         (\<exists>h. is_latest h (completed_entries cv) \<and>
              GetCurrentVersion cv = (if uhVersion h = [] then Err (Errorf ''failed to get current version'')
                                      else Ok (uhVersion h)))"
proof -
  have f: "current_loop [] None (cvHistory cv) = current_loop [] None (completed_entries cv)"
    unfolding completed_entries_def by (rule current_loop_filter)
  show ?thesis
  proof (cases "completed_entries cv")
    case Nil
    then show ?thesis using f by (simp add: GetCurrentVersion_def)
  next
    case (Cons g hs)
    have "\<forall>h \<in> set (g # hs). uhState h = CompletedUpdate \<and> uhCompletionTime h \<noteq> None"
      using assms Cons completed_entries_Completed [of _ cv] by simp
    from current_loop_latest [OF this] obtain h where
      "is_latest h (g # hs)" "current_loop (uhVersion g) (uhCompletionTime g) hs = Ok (uhVersion h)"
      by blast
    moreover have "uhState g = CompletedUpdate"
      using Cons completed_entries_Completed [of g cv] by simp
    ultimately show ?thesis
      using Cons f by (intro disjI2 exI [of _ h]) (simp add: GetCurrentVersion_def)
  qed
qed

lemma HasUpgradeCompleted_iff:
  "HasUpgradeCompleted cv uc \<longleftrightarrow>
     (\<exists>h \<in> set (completed_entries cv). uhVersion h = desired_version uc)"
proof -
  have "fold (\<lambda>h done. if uhVersion h = v \<and> uhState h = CompletedUpdate then True else done) hs b
        = (b \<or> (\<exists>h \<in> set hs. uhVersion h = v \<and> uhState h = CompletedUpdate))" for v hs b
    by (induction hs arbitrary: b) auto
  note loop = this [of "desired_version uc" "cvHistory cv" False]
  show ?thesis
    unfolding HasUpgradeCompleted_def loop by (auto simp: completed_entries_def)
qed

lemma preceding_loop_spec:
  "preceding_loop v hs = None \<longleftrightarrow>
     (\<forall>h \<in> set hs. uhState h = CompletedUpdate \<longrightarrow> uhVersion h = [] \<or> uhVersion h = v)"
  "preceding_loop v hs = Some w \<Longrightarrow>
     w \<noteq> v \<and> w \<noteq> [] \<and> (\<exists>h \<in> set hs. uhState h = CompletedUpdate \<and> uhVersion h = w)"
  by (induction v hs rule: preceding_loop.induct) (auto split: if_splits)

section \<open>Properties\<close>

text \<open>An API server that holds one ClusterVersion and applies every patch.\<close>

definition mem_cv :: "ClusterVersion cv_api" where
  "mem_cv = \<lparr>get_cv = (\<lambda>s. (Inr s, s)), patch_cv = (\<lambda>p s. (Inr (), merge_patch p s)),
             list_clusteroperators = (\<lambda>s. (Inr [], s))\<rparr>"

definition sample_cv :: ClusterVersion where
  "sample_cv =
     \<lparr>cvClusterID = ''c1'', cvUpstream = [], cvChannel = ''stable-4.13'', cvDesiredUpdate = None,
      cvDesired = \<lparr>rVersion = ''4.14.1'', rImage = ''i1''\<rparr>,
      cvHistory = [\<lparr>uhState = CompletedUpdate, uhVersion = ''4.14.1'', uhStartedTime = 5, uhCompletionTime = Some 9\<rparr>,
                   \<lparr>uhState = CompletedUpdate, uhVersion = ''4.13.7'', uhStartedTime = 1, uhCompletionTime = Some 3\<rparr>],
      cvAvailableUpdates = [\<lparr>rVersion = ''4.14.2'', rImage = ''i2''\<rparr>],
      cvConditionalUpdates = [], cvConditions = []\<rparr>"

lemma mem_cv_store: "cv_store mem_cv (\<lambda>s. s)"
  by (simp add: cv_store_def mem_cv_def)

lemmas mem_cv_run =
  mem_cv_def sample_cv_def sample_uc_def EnsureDesiredConfig_def HasUpgradeCommenced_def GetClusterVersion_def
  checkUpgradeSource_def runUpgradeWithChannelVersion_def update_available_def conditional_image_def isEqualVersion_def
  call_def

text \<open>
  C6: When \<open>EnsureDesiredConfig\<close> reports that the cluster was told to upgrade, \<open>HasUpgradeCommenced\<close> of the
  same UpgradeConfig sees it afterwards, for image and for version upgrades; so the steps that ask this
  question skip their work from then on.
\<close>

theorem upgrade_request_commences:
  assumes "cv_store api view" "EnsureDesiredConfig api uc s = (Ok True, s1)"
    and "HasUpgradeCommenced api uc s1 = (Ok b, s2)"
  shows "b \<and> view s2 = view s1"
  using EnsureDesiredConfig_commences [OF assms(1,2)] HasUpgradeCommenced_Ok [OF assms(1,3)] by simp

theorem upgrade_request_commences_witness:
  "\<exists>s1 s2. EnsureDesiredConfig mem_cv sample_uc sample_cv = (Ok True, s1) \<and>
           HasUpgradeCommenced mem_cv sample_uc s1 = (Ok True, s2) \<and> s2 = s1 \<and> s1 \<noteq> sample_cv"
proof -
  obtain s1 where 1: "EnsureDesiredConfig mem_cv sample_uc sample_cv = (Ok True, s1)" "s1 \<noteq> sample_cv"
    by (simp add: mem_cv_run)
  obtain b s2 where 2: "HasUpgradeCommenced mem_cv sample_uc s1 = (Ok b, s2)"
    by (simp add: HasUpgradeCommenced_def GetClusterVersion_def call_def mem_cv_def checkUpgradeSource_def sample_uc_def)
  show ?thesis
    using upgrade_request_commences [OF mem_cv_store 1(1) 2] 1 2 by auto
qed

text \<open>
  C7: A version upgrade never asks the cluster for a release it does not offer: unless the version, with an
  image, is among the available or conditional updates, \<open>EnsureDesiredConfig\<close> returns false and leaves
  the desired update of the ClusterVersion as it was (it may still have switched the channel).
\<close>

theorem unavailable_version_not_requested:
  assumes "cv_store api view" "dImage (Desired (Spec uc)) = []"
    and "\<not> update_available (view s) (desired_version uc)"
    and "EnsureDesiredConfig api uc s = (Ok b, s')"
  shows "\<not> b \<and> cvDesiredUpdate (view s') = cvDesiredUpdate (view s)"
proof -
  from assms(4) obtain cv s1 src where 1: "GetClusterVersion api s = (Ok cv, s1)"
      "checkUpgradeSource uc = Ok src"
      "(case src of UpgradeWithImage \<Rightarrow> runUpgradeWithImage api cv uc s1
                  | UpgradeWithChannelVersion \<Rightarrow> runUpgradeWithChannelVersion api cv uc s1) = (Ok b, s')"
    by (auto simp: EnsureDesiredConfig_def bindO_Ok_iff)
  have src: "src = UpgradeWithChannelVersion"
    using 1(2) assms(2) by (auto simp: checkUpgradeSource_def split: if_splits)
  note v = GetClusterVersion_view [OF assms(1) 1(1)]
  have r: "runUpgradeWithChannelVersion api cv uc s1 = (Ok b, s')"
    using 1(3) src by simp
  show ?thesis
    using runUpgradeWithChannelVersion_unavailable [OF assms(1) _ _ r] v assms(3) by simp
qed

theorem unavailable_version_not_requested_witness:
  "let cv = sample_cv\<lparr>cvAvailableUpdates := []\<rparr>; (r, cv') = EnsureDesiredConfig mem_cv sample_uc cv
   in r = Ok False \<and> cvDesiredUpdate cv' = None \<and> cvChannel cv' = ''stable-4.14''"
proof -
  let ?cv = "sample_cv\<lparr>cvAvailableUpdates := []\<rparr>"
  obtain cv' where 1: "EnsureDesiredConfig mem_cv sample_uc ?cv = (Ok False, cv')" "cvChannel cv' = ''stable-4.14''"
    by (simp add: mem_cv_run)
  have "dImage (Desired (Spec sample_uc)) = []" "\<not> update_available ?cv (desired_version sample_uc)"
    by (simp_all add: sample_uc_def update_available_def sample_cv_def)
  from unavailable_version_not_requested [OF mem_cv_store this 1(1)] show ?thesis
    using 1 by (simp add: sample_cv_def)
qed

text \<open>
  The current version is that of the completed update that finished last, wherever it stands in the
  history, and an error exactly when there is none or its version is empty.
\<close>

theorem GetCurrentVersion_is_latest:
  assumes "\<forall>h \<in> set (completed_entries cv). uhCompletionTime h \<noteq> None"
  shows "completed_entries cv = [] \<and> GetCurrentVersion cv = Err (Errorf ''failed to get current version'') \<or>
         (\<exists>h. is_latest h (completed_entries cv) \<and>
              GetCurrentVersion cv = (if uhVersion h = [] then Err (Errorf ''failed to get current version'')
                                      else Ok (uhVersion h)))"
  using GetCurrentVersion_latest [OF assms] .

theorem GetCurrentVersion_is_latest_witness:
  "\<exists>h. is_latest h (completed_entries sample_cv) \<and> GetCurrentVersion sample_cv = Ok (uhVersion h)"
proof -
  have a: "\<forall>h \<in> set (completed_entries sample_cv). uhCompletionTime h \<noteq> None"
    and v: "\<forall>h \<in> set (completed_entries sample_cv). uhVersion h \<noteq> []" and "completed_entries sample_cv \<noteq> []"
    by (simp_all add: completed_entries_def sample_cv_def)
  with GetCurrentVersion_is_latest [OF a] show ?thesis
    by (auto simp: is_latest_def)
qed

text \<open>
  The preceding version is never the desired one when the history has another completed version: it is
  the version the cluster is at, or, once the cluster is at the desired version, the first completed
  version of the history that is another one.
\<close>

theorem GetPrecedingVersion_differs:
  assumes "h \<in> set (completed_entries cv)" "uhVersion h \<noteq> []" "uhVersion h \<noteq> desired_version uc"
  shows "GetPrecedingVersion cv uc \<noteq> desired_version uc \<and>
         (GetPrecedingVersion cv uc = rVersion (cvDesired cv) \<or>
          (\<exists>g \<in> set (completed_entries cv). GetPrecedingVersion cv uc = uhVersion g))"
proof (cases "preceding_loop (desired_version uc) (cvHistory cv)")
  case None
  then show ?thesis
    using assms by (auto simp: preceding_loop_spec(1) completed_entries_def)
next
  case (Some w)
  then show ?thesis
    using preceding_loop_spec(2) [OF Some] by (auto simp: GetPrecedingVersion_def completed_entries_def)
qed

theorem GetPrecedingVersion_differs_witness:
  "let cv = sample_cv\<lparr>cvDesired := \<lparr>rVersion = ''4.14.2'', rImage = ''i2''\<rparr>\<rparr>
   in GetPrecedingVersion cv sample_uc \<noteq> ''4.14.2'' \<and> GetPrecedingVersion cv sample_uc = ''4.14.1''"
  using GetPrecedingVersion_differs [of "hd (cvHistory sample_cv)" "sample_cv\<lparr>cvDesired := \<lparr>rVersion = ''4.14.2'', rImage = ''i2''\<rparr>\<rparr>" sample_uc]
  by (simp add: completed_entries_def sample_cv_def sample_uc_def GetPrecedingVersion_def)

end
