(* ===== verification/Config_Manager.thy ===== *)
theory Config_Manager
  imports Cluster_Version Steps
begin

text \<open>
  Configuration (\<open>pkg/configmanager\<close>, \<open>config\<close>, \<open>util/namespace.go\<close>) and the UpgradeConfig as
  the API server stores it (\<open>Get\<close> of \<open>pkg/upgradeconfigmanager\<close>). The environment of the
  process, the ConfigMap, the YAML decoder and the API server are parameters.
\<close>

section \<open>Environment and configuration\<close>

text \<open>The process environment is read-only: \<open>os.LookupEnv\<close> is a map.\<close>

type_synonym environ = "string \<rightharpoonup> string"

definition GetOperatorNamespace :: "environ \<Rightarrow> string outcome" where
  "GetOperatorNamespace env =
     (case env ''OPERATOR_NAMESPACE'' of
        None \<Rightarrow> Err (Errorf ''OPERATOR_NAMESPACE must be set'')
      | Some ns \<Rightarrow> Ok ns)"

definition Getenv :: "environ \<Rightarrow> string \<Rightarrow> string" where
  "Getenv env k = (case env k of None \<Rightarrow> [] | Some v \<Rightarrow> v)"

definition UseRoutes :: "environ \<Rightarrow> bool" where
  "UseRoutes env \<longleftrightarrow> Getenv env ''ROUTES'' = ''true''"

record Target =
  tName :: string
  tNamespace :: string
  tConfigKey :: string

text \<open>\<open>NewCMTarget\<close> fills in the defaults; the namespace comes from the environment.\<close>

definition NewCMTarget :: "environ \<Rightarrow> Target \<Rightarrow> Target outcome" where
  "NewCMTarget env c =
     (let name = (if tName c = [] then ''managed-upgrade-operator-config'' else tName c);
          key = (if tConfigKey c = [] then ''config.yaml'' else tConfigKey c)
      in if tNamespace c = []
         then (case GetOperatorNamespace env of
                 Ok ns \<Rightarrow> Ok \<lparr>tName = name, tNamespace = ns, tConfigKey = key\<rparr>
               | Err e \<Rightarrow> Err e
               | Panic \<Rightarrow> Panic)
         else Ok \<lparr>tName = name, tNamespace = tNamespace c, tConfigKey = key\<rparr>)"

abbreviation default_target :: Target where
  "default_target \<equiv> \<lparr>tName = [], tNamespace = [], tConfigKey = []\<rparr>"

text \<open>A ConfigMap is its data; \<open>cfgMap.Data[ck]\<close> of a missing key is the empty string.\<close>

record 's cm_api =
  environ :: environ
  get_configmap :: "string \<Rightarrow> string \<Rightarrow> ('s, string \<rightharpoonup> string) ext_op"

definition Into ::
    "'s runtime \<Rightarrow> 's cm_api \<Rightarrow> Target \<Rightarrow> (string \<Rightarrow> goerr + 'c) \<Rightarrow> ('c \<Rightarrow> unit outcome) \<Rightarrow> ('s, 'c) op" where
  "Into rt api t unmarshal isValid s =
     bindO (call (get_configmap api (tName t) (tNamespace t)) s) (\<lambda>data s.
       let yml = (case data (tConfigKey t) of None \<Rightarrow> [] | Some v \<Rightarrow> v)
       in case unmarshal yml of
            Inl e \<Rightarrow> (Err (Errorf (''check config map '' @ tName t @ '' for incorrect yaml formatting ''
                       @ error_string rt e)), s)
          | Inr cfg \<Rightarrow> bindO (isValid cfg, s) (\<lambda>_ s. (Ok cfg, s)))"

text \<open>
  The readers of the components' configurations (\<open>readSpecProviderConfig\<close>,
  \<open>readNotifierConfig\<close>, \<open>readConfigManagerConfig\<close>, ...) are this one shape: target, \<open>Into\<close>, and
  \<open>IsValid\<close> a second time.
\<close>

definition read_config ::
    "'s runtime \<Rightarrow> 's cm_api \<Rightarrow> (string \<Rightarrow> goerr + 'c) \<Rightarrow> ('c \<Rightarrow> unit outcome) \<Rightarrow> ('s, 'c) op" where
  "read_config rt api unmarshal isValid s =
     bindO (NewCMTarget (environ api) default_target, s) (\<lambda>t s.
     bindO (Into rt api t unmarshal isValid s) (\<lambda>cfg s.
     bindO (isValid cfg, s) (\<lambda>_ s. (Ok cfg, s))))"

lemma read_config_valid:
  "read_config rt api un valid s = (Ok cfg, s') \<Longrightarrow> valid cfg = Ok ()"
  by (auto simp: read_config_def bindO_Ok_iff)

section \<open>The UpgradeConfig in the API server\<close>

definition UPGRADECONFIG_CR_NAME :: string where
  "UPGRADECONFIG_CR_NAME = ''managed-upgrade-config''"

text \<open>
  \<open>update_uc\<close> is \<open>client.Update\<close> and \<open>update_uc_status\<close> is \<open>client.Status().Update\<close>: they return
  the object the server now holds, which the Go client writes over its argument.
\<close>

record 's uc_api =
  get_uc :: "string \<Rightarrow> string \<Rightarrow> ('s, UpgradeConfig) ext_op"
  list_ucs :: "string \<Rightarrow> string \<Rightarrow> ('s, UpgradeConfig list) ext_op"
  create_uc :: "UpgradeConfig \<Rightarrow> ('s, unit) ext_op"
  delete_uc :: "UpgradeConfig \<Rightarrow> ('s, unit) ext_op"
  update_uc :: "UpgradeConfig \<Rightarrow> ('s, UpgradeConfig) ext_op"
  update_uc_status :: "UpgradeConfig \<Rightarrow> ('s, UpgradeConfig) ext_op"

definition ucm_Get :: "environ \<Rightarrow> 's uc_api \<Rightarrow> ('s, UpgradeConfig) op" where
  "ucm_Get env api s =
     (case GetOperatorNamespace env of
        Ok ns \<Rightarrow>
          (case call (get_uc api UPGRADECONFIG_CR_NAME ns) s of
             (Ok uc, s) \<Rightarrow> (Ok uc, s)
           | (Err e, s) \<Rightarrow>
               if IsNotFound e then (Err ErrUpgradeConfigNotFound, s)
               else (Err ErrRetrievingUpgradeConfigs, s)
           | (Panic, s) \<Rightarrow> (Panic, s))
      | _ \<Rightarrow> (Err ErrMissingOperatorNamespace, s))"

lemma ucm_Get_errors:
  assumes "ucm_Get env api s = (Err e, s')"
  shows "e \<in> {ErrUpgradeConfigNotFound, ErrRetrievingUpgradeConfigs, ErrMissingOperatorNamespace}"
  using assms by (auto simp: ucm_Get_def split: outcome.splits prod.splits if_splits)

lemma ucm_Get_not_Panic: "fst (ucm_Get env api s) \<noteq> Panic"
  by (auto simp: ucm_Get_def split: outcome.splits prod.splits)

declare call_def [env_eval] GetOperatorNamespace_def [env_eval] NewCMTarget_def [env_eval] Into_def [env_eval]
  read_config_def [env_eval] ucm_Get_def [env_eval]

end
