(* ===== verification/Rfc3339.thy ===== *)
theory Rfc3339
  imports Prelude
begin

text \<open>
  \<open>time.Parse(time.RFC3339, s)\<close> of Go's standard library, which reads \<open>spec.upgradeAt\<close>. The
  general layout parser is written out: it takes one or two digits for the hour, a fraction
  of a second after a period or a comma though the layout has none (nine digits are kept),
  and zone offsets of up to 24 hours and 60 minutes. \<open>None\<close> stands for the parse error.
\<close>

definition isDigit :: "char \<Rightarrow> bool" where
  "isDigit c \<longleftrightarrow> 48 \<le> (of_char c :: nat) \<and> (of_char c :: nat) \<le> 57"

definition digit_val :: "char \<Rightarrow> int" where
  "digit_val c = int (of_char c) - 48"

fun digits_val :: "string \<Rightarrow> int \<Rightarrow> int" where
  "digits_val [] acc = acc"
| "digits_val (c # cs) acc = digits_val cs (10 * acc + digit_val c)"

text \<open>\<open>getnum(s, fixed)\<close>: two digits, or one when not \<open>fixed\<close>.\<close>

fun getnum :: "string \<Rightarrow> bool \<Rightarrow> (int \<times> string) option" where
  "getnum [] fixed = None"
| "getnum [c] fixed = (if isDigit c \<and> \<not> fixed then Some (digit_val c, []) else None)"
| "getnum (c # d # s) fixed =
     (if \<not> isDigit c then None
      else if isDigit d then Some (10 * digit_val c + digit_val d, s)
      else if fixed then None else Some (digit_val c, d # s))"

text \<open>\<open>skip\<close> of a one-character literal of the layout.\<close>

fun skip :: "char \<Rightarrow> string \<Rightarrow> string option" where
  "skip c [] = None"
| "skip c (d # s) = (if c = d then Some s else None)"

definition get_year :: "string \<Rightarrow> (int \<times> string) option" where
  "get_year s = (if 4 \<le> length s \<and> list_all isDigit (take 4 s)
                 then Some (digits_val (take 4 s) 0, drop 4 s) else None)"

text \<open>The fraction of a second: at least one digit, of which the first nine count.\<close>

definition get_frac :: "string \<Rightarrow> int \<times> string" where
  "get_frac s =
     (case s of
        p # d # rest \<Rightarrow>
          if (p = CHR ''.'' \<or> p = CHR '','') \<and> isDigit d
          then let ds = takeWhile isDigit (d # rest); used = take 9 ds
               in (digits_val used 0 * 10 ^ (9 - length used), dropWhile isDigit (d # rest))
          else (0, s)
      | _ \<Rightarrow> (0, s))"

text \<open>The zone: \<open>Z\<close>, or a signed \<open>hh:mm\<close>; the result is the offset in seconds.\<close>

definition get_zone :: "string \<Rightarrow> (int \<times> string) option" where
  "get_zone s =
     (case s of
        c # rest \<Rightarrow>
          if c = CHR ''Z'' then Some (0, rest)
          else (case rest of
                  h1 # h2 # col # m1 # m2 # rest' \<Rightarrow>
                    if col \<noteq> CHR '':'' then None
                    else (case (getnum [h1, h2] True, getnum [m1, m2] True) of
                            (Some (hr, _), Some (mm, _)) \<Rightarrow>
                              if hr > 24 \<or> mm > 60 then None
                              else let off = (hr * 60 + mm) * 60
                                   in if c = CHR ''+'' then Some (off, rest')
                                      else if c = CHR ''-'' then Some (- off, rest')
                                      else None
                          | _ \<Rightarrow> None)
                | _ \<Rightarrow> None)
      | [] \<Rightarrow> None)"

definition isLeap :: "int \<Rightarrow> bool" where
  "isLeap y \<longleftrightarrow> y mod 4 = 0 \<and> (y mod 100 \<noteq> 0 \<or> y mod 400 = 0)"

definition daysIn :: "int \<Rightarrow> int \<Rightarrow> int" where
  "daysIn m y = (if m = 2 then (if isLeap y then 29 else 28)
                 else if m = 4 \<or> m = 6 \<or> m = 9 \<or> m = 11 then 30 else 31)"

text \<open>Days since 1 January 1970, in the proleptic Gregorian calendar.\<close>

definition days_before_year :: "int \<Rightarrow> int" where
  "days_before_year y = 365 * (y - 1) + (y - 1) div 4 - (y - 1) div 100 + (y - 1) div 400 - 719162"

definition days_before_month :: "int \<Rightarrow> int \<Rightarrow> int" where
  "days_before_month m y = sum_list (map (\<lambda>k. daysIn k y) (map int [1 ..< nat m]))"

definition Date :: "int \<Rightarrow> int \<Rightarrow> int \<Rightarrow> int \<Rightarrow> int \<Rightarrow> int \<Rightarrow> int \<Rightarrow> instant" where
  "Date y mo d h mi sec nsec =
     ((((days_before_year y + days_before_month mo y + d - 1) * 24 + h) * 60 + mi) * 60 + sec) * Second + nsec"

definition Parse_RFC3339 :: "string \<Rightarrow> instant option" where
  "Parse_RFC3339 s =
     Option.bind (get_year s) (\<lambda>(y, s).
     Option.bind (skip (CHR ''-'') s) (\<lambda>s.
     Option.bind (getnum s True) (\<lambda>(mo, s).
     if mo \<le> 0 \<or> 12 < mo then None else
     Option.bind (skip (CHR ''-'') s) (\<lambda>s.
     Option.bind (getnum s True) (\<lambda>(d, s).
     Option.bind (skip (CHR ''T'') s) (\<lambda>s.
     Option.bind (getnum s False) (\<lambda>(h, s).
     if 24 \<le> h then None else
     Option.bind (skip (CHR '':'') s) (\<lambda>s.
     Option.bind (getnum s True) (\<lambda>(mi, s).
     if 60 \<le> mi then None else
     Option.bind (skip (CHR '':'') s) (\<lambda>s.
     Option.bind (getnum s True) (\<lambda>(sec, s).
     if 60 \<le> sec then None else
     case get_frac s of (nsec, s) \<Rightarrow>
     Option.bind (get_zone s) (\<lambda>(off, s).
     if s \<noteq> [] \<or> d < 1 \<or> daysIn mo y < d then None
     else Some (Date y mo d h mi sec nsec - off * Second)))))))))))))"

section \<open>Canonical time stamps\<close>

definition two_digits :: "nat \<Rightarrow> string" where
  "two_digits n = [digit_char (n div 10), digit_char (n mod 10)]"

definition four_digits :: "nat \<Rightarrow> string" where
  "four_digits n = two_digits (n div 100) @ two_digits (n mod 100)"

definition rfc3339_utc :: "nat \<Rightarrow> nat \<Rightarrow> nat \<Rightarrow> nat \<Rightarrow> nat \<Rightarrow> nat \<Rightarrow> string" where
  "rfc3339_utc y mo d h mi sec =
     four_digits y @ ''-'' @ two_digits mo @ ''-'' @ two_digits d @ ''T'' @ two_digits h @ '':''
       @ two_digits mi @ '':'' @ two_digits sec @ ''Z''"

lemma isDigit_digit_char [simp]: "n < 10 \<Longrightarrow> isDigit (digit_char n)"
  by (simp add: isDigit_def digit_char_def)

lemma digit_val_digit_char [simp]: "n < 10 \<Longrightarrow> digit_val (digit_char n) = int n"
  by (simp add: digit_val_def digit_char_def)

lemma int_div_mod: "int n = int k * int (n div k) + int (n mod k)"
  by (simp flip: of_nat_mult of_nat_add)

lemma getnum_two_digits [simp]:
  assumes "n < 100"
  shows "getnum (two_digits n @ s) b = Some (int n, s)"
proof -
  have d: "n div 10 < 10" using assms by simp
  have "10 * int (n div 10) + int (n mod 10) = int n" using int_div_mod [of n 10] by simp
  then show ?thesis using d by (simp add: two_digits_def)
qed

lemma get_year_digits:
  "a < 10 \<Longrightarrow> b < 10 \<Longrightarrow> c < 10 \<Longrightarrow> d < 10 \<Longrightarrow>
   get_year (digit_char a # digit_char b # digit_char c # digit_char d # s) =
     Some (10 * (10 * (10 * int a + int b) + int c) + int d, s)"
  by (simp add: get_year_def)

lemma get_year_four_digits [simp]:
  assumes "n < 10000"
  shows "get_year (four_digits n @ s) = Some (int n, s)"
proof -
  have d: "n div 100 div 10 < 10" "n div 100 mod 10 < 10" "n mod 100 div 10 < 10" "n mod 100 mod 10 < 10"
    using assms by simp_all
  have ten: "int k = 10 * int (k div 10) + int (k mod 10)" for k :: nat
    using int_div_mod [of k 10] by simp
  have hundred: "int n = 100 * int (n div 100) + int (n mod 100)"
    using int_div_mod [of n 100] by simp
  have comb: "N = 100 * A + B \<Longrightarrow> A = 10 * x + y \<Longrightarrow> B = 10 * z + w \<Longrightarrow> 10 * (10 * (10 * x + y) + z) + w = N"
    for N A B x y z w :: int by simp
  have "10 * (10 * (10 * int (n div 100 div 10) + int (n div 100 mod 10)) + int (n mod 100 div 10))
          + int (n mod 100 mod 10) = int n"
    by (rule comb [OF hundred ten ten])
  then show ?thesis
    by (simp only: four_digits_def two_digits_def append.simps get_year_digits [OF d])
qed

lemma Parse_RFC3339_utc:
  assumes "y < 10000" "1 \<le> mo" "mo \<le> 12" "1 \<le> d" "int d \<le> daysIn (int mo) (int y)"
    and "h < 24" "mi < 60" "sec < 60"
  shows "Parse_RFC3339 (rfc3339_utc y mo d h mi sec) =
         Some (Date (int y) (int mo) (int d) (int h) (int mi) (int sec) 0)"
proof -
  have "d < 100" using assms(5) by (simp add: daysIn_def split: if_splits)
  then show ?thesis
    using assms by (simp add: Parse_RFC3339_def rfc3339_utc_def get_frac_def get_zone_def isDigit_def)
qed

section \<open>Formatting\<close>

text \<open>
  \<open>t.Format(time.RFC3339)\<close>: the year is the last one that begins on or before the day; the
  month is found by subtracting month lengths. A time carries the offset of its zone.
\<close>

lemma div_pred_step:
  assumes "0 < (n :: int)"
  shows "y div n = (y - 1) div n + (if y mod n = 0 then 1 else 0)"
proof -
  let ?q = "(y - 1) div n" and ?r = "(y - 1) mod n"
  have y: "y = n * ?q + (?r + 1)"
    using arg_cong [OF mult_div_mod_eq [of n "y - 1"], of "\<lambda>x. x + 1"]
    by (simp only: add.assoc diff_add_cancel)
  have r: "0 \<le> ?r" "?r < n" using assms by simp_all
  show ?thesis
  proof (cases "?r + 1 = n")
    case True
    then have "y = n * (?q + 1) + 0" using y by (simp add: algebra_simps)
    then show ?thesis
      using int_div_pos_eq [of y n "?q + 1" 0] int_mod_pos_eq [of y n "?q + 1" 0] assms by simp
  next
    case False
    then show ?thesis
      using int_div_pos_eq [OF y] int_mod_pos_eq [OF y] r by simp
  qed
qed

lemma leap_mods: "(y :: int) mod 400 = 0 \<Longrightarrow> y mod 100 = 0" "(y :: int) mod 100 = 0 \<Longrightarrow> y mod 4 = 0"
  using mod_mod_cancel [of 100 400 y] mod_mod_cancel [of 4 100 y] by (simp_all split: if_splits)

lemma days_before_year_step: "days_before_year (y + 1) = days_before_year y + (if isLeap y then 366 else 365)"
proof -
  have comb: "365 * y + a - b + c - k = 365 * (y - 1) + a' - b' + c' - k + (if P \<and> (\<not> Q \<or> R) then 366 else 365)"
    if "a = a' + (if P then 1 else 0)" "b = b' + (if Q then 1 else 0)" "c = c' + (if R then 1 else 0)"
      "R \<Longrightarrow> Q" "Q \<Longrightarrow> P"
    for a b c a' b' c' k :: int and P Q R
    using that by (cases P; cases Q; cases R) simp_all
  show ?thesis
    unfolding days_before_year_def isLeap_def add_diff_cancel_right'
    by (rule comb [OF div_pred_step div_pred_step div_pred_step leap_mods]) (rule zero_less_numeral | assumption)+
qed

lemma days_before_year_less: "days_before_year y < days_before_year (y + 1)"
  by (simp add: days_before_year_step)

function year_from :: "int \<Rightarrow> int \<Rightarrow> int" where
  "year_from days y = (if days_before_year (y + 1) \<le> days then year_from days (y + 1) else y)"
  by auto
termination
  by (relation "measure (\<lambda>(days, y). nat (days - days_before_year y))")
     (auto intro: order.strict_trans2 [OF days_before_year_less])

declare year_from.simps [simp del]

definition year_of :: "int \<Rightarrow> int" where
  "year_of days = year_from days (1970 + (if 0 \<le> days then days div 366 else days div 365))"

function month_from :: "int \<Rightarrow> int \<Rightarrow> int \<Rightarrow> int \<times> int" where
  "month_from y m rem =
     (if 12 \<le> m \<or> rem < daysIn m y then (m, rem + 1) else month_from y (m + 1) (rem - daysIn m y))"
  by auto
termination by (relation "measure (\<lambda>(y, m, rem). nat (12 - m))") auto

declare month_from.simps [simp del]

definition civil_from_days :: "int \<Rightarrow> int \<times> int \<times> int" where
  "civil_from_days days =
     (let y = year_of days; (m, d) = month_from y 1 (days - days_before_year y) in (y, m, d))"

definition format_year :: "int \<Rightarrow> string" where
  "format_year y = (if y < 0 then CHR ''-'' # pad_left 4 (show_pos (- y)) else pad_left 4 (show_pos y))"

definition format2 :: "int \<Rightarrow> string" where
  "format2 n = two_digits (nat n)"

definition format_zone :: "int \<Rightarrow> string" where
  "format_zone off =
     (if off = 0 then ''Z''
      else let z = \<bar>off\<bar> div 60
           in (if off \<le> - 60 then CHR ''-'' else CHR ''+'') # format2 (z div 60) @ '':'' @ format2 (z mod 60))"

definition Format_RFC3339 :: "instant \<Rightarrow> int \<Rightarrow> string" where
  "Format_RFC3339 t off =
     (let secs = t div Second + off; (y, m, d) = civil_from_days (secs div 86400); tod = secs mod 86400
      in format_year y @ ''-'' @ format2 m @ ''-'' @ format2 d @ ''T'' @ format2 (tod div 3600) @ '':''
           @ format2 (tod mod 3600 div 60) @ '':'' @ format2 (tod mod 60) @ format_zone off)"

text \<open>
  \<open>UTC().Format(time.UnixDate)\<close>, the layout \<open>Mon Jan _2 15:04:05 MST 2006\<close>: the day of the month is padded with a
  space. The first of January 1970 was a Thursday.
\<close>

definition weekday_name :: "int \<Rightarrow> string" where
  "weekday_name days = [''Thu'', ''Fri'', ''Sat'', ''Sun'', ''Mon'', ''Tue'', ''Wed''] ! nat (days mod 7)"

definition month_name :: "int \<Rightarrow> string" where
  "month_name m =
     [''Jan'', ''Feb'', ''Mar'', ''Apr'', ''May'', ''Jun'', ''Jul'', ''Aug'', ''Sep'', ''Oct'', ''Nov'', ''Dec''] ! nat (m - 1)"

definition Format_UnixDate :: "instant \<Rightarrow> string" where
  "Format_UnixDate t =
     (let secs = t div Second; days = secs div 86400; (y, m, d) = civil_from_days days; tod = secs mod 86400
      in weekday_name days @ '' '' @ month_name m @ '' '' @ (if d < 10 then '' '' else []) @ show_int d @ '' ''
           @ format2 (tod div 3600) @ '':'' @ format2 (tod mod 3600 div 60) @ '':'' @ format2 (tod mod 60)
           @ '' UTC '' @ format_year y)"

lemma year_from_bracket:
  "days_before_year y \<le> days \<Longrightarrow>
     days_before_year (year_from days y) \<le> days \<and> days < days_before_year (year_from days y + 1)"
proof (induction days y rule: year_from.induct)
  case (1 days y)
  then show ?case
    by (cases "days_before_year (y + 1) \<le> days") (simp_all add: year_from.simps [of days y])
qed

lemma days_before_year_guess_pos: "0 \<le> k \<Longrightarrow> days_before_year (1970 + k) \<le> 366 * k"
proof (induction k rule: int_ge_induct)
  case base
  then show ?case by (simp add: days_before_year_def)
next
  case (step k)
  then show ?case
    using days_before_year_step [of "1970 + k"] by (simp add: add.assoc split: if_splits)
qed

lemma days_before_year_guess_neg: "k \<le> 0 \<Longrightarrow> days_before_year (1970 + k) \<le> 365 * k"
proof (induction k rule: int_le_induct)
  case base
  then show ?case by (simp add: days_before_year_def)
next
  case (step k)
  then show ?case
    using days_before_year_step [of "1970 + (k - 1)"] by (simp add: algebra_simps split: if_splits)
qed

lemma year_of_bracket:
  "days_before_year (year_of days) \<le> days \<and> days < days_before_year (year_of days + 1)"
proof -
  have "days_before_year (1970 + (if 0 \<le> days then days div 366 else days div 365)) \<le> days"
  proof (cases "0 \<le> days")
    case True
    have "366 * (days div 366) \<le> days" "0 \<le> days div 366"
      using True by (auto simp: pos_imp_zdiv_nonneg_iff intro: div_times_less_eq_dividend)
    then show ?thesis using True days_before_year_guess_pos [of "days div 366"] by simp
  next
    case False
    have "days div 365 \<le> 0" using False by presburger
    moreover have "365 * (days div 365) \<le> days" by presburger
    ultimately show ?thesis using False days_before_year_guess_neg [of "days div 365"] by simp
  qed
  then show ?thesis
    unfolding year_of_def by (rule year_from_bracket)
qed

lemma daysIn_pos: "0 < daysIn m y"
  by (simp add: daysIn_def)

lemma days_before_month_step:
  assumes "1 \<le> m"
  shows "days_before_month (m + 1) y = days_before_month m y + daysIn m y"
proof -
  have "nat (m + 1) = Suc (nat m)" "1 \<le> nat m" using assms by simp_all
  then show ?thesis using assms by (simp add: days_before_month_def)
qed

lemma days_before_month_1 [simp]: "days_before_month 1 y = 0"
  by (simp add: days_before_month_def)

lemma year_length: "days_before_month 12 y + daysIn 12 y = (if isLeap y then 366 else 365)"
  using days_before_month_step [of 1 y] days_before_month_step [of 2 y] days_before_month_step [of 3 y]
    days_before_month_step [of 4 y] days_before_month_step [of 5 y] days_before_month_step [of 6 y]
    days_before_month_step [of 7 y] days_before_month_step [of 8 y] days_before_month_step [of 9 y]
    days_before_month_step [of 10 y] days_before_month_step [of 11 y]
  by (simp add: daysIn_def)

lemma month_from_correct:
  assumes "1 \<le> m" "m \<le> 12" "0 \<le> rem" "days_before_month m y + rem < (if isLeap y then 366 else 365)"
  shows "case month_from y m rem of (m', d) \<Rightarrow>
           1 \<le> m' \<and> m' \<le> 12 \<and> 1 \<le> d \<and> d \<le> daysIn m' y \<and>
           days_before_month m' y + d - 1 = days_before_month m y + rem"
  using assms
proof (induction y m rem rule: month_from.induct)
  case (1 y m rem)
  show ?case
  proof (cases "rem < daysIn m y")
    case True
    then show ?thesis using 1 by (simp add: month_from.simps [of y m rem])
  next
    case False
    then have "m \<noteq> 12" using 1(5) year_length [of y] by auto
    then show ?thesis
      using 1 False days_before_month_step [of m y]
      by (simp add: month_from.simps [of y m rem] split: prod.splits)
  qed
qed

lemma civil_from_days_correct:
  assumes "civil_from_days days = (y, m, d)"
  shows "1 \<le> m" "m \<le> 12" "1 \<le> d" "d \<le> daysIn m y"
    and "days_before_year y + days_before_month m y + d - 1 = days"
    and "y = year_of days"
proof -
  let ?r = "days - days_before_year (year_of days)"
  have y: "y = year_of days" and md: "month_from y 1 ?r = (m, d)"
    using assms by (auto simp: civil_from_days_def Let_def split: prod.splits)
  have "0 \<le> ?r" "?r < (if isLeap y then 366 else 365)"
    using year_of_bracket [of days] days_before_year_step [of "year_of days"] y by auto
  then have "1 \<le> m \<and> m \<le> 12 \<and> 1 \<le> d \<and> d \<le> daysIn m y \<and> days_before_month m y + d - 1 = ?r"
    using month_from_correct [of 1 ?r y] md y by simp
  then show "1 \<le> m" "m \<le> 12" "1 \<le> d" "d \<le> daysIn m y"
    and "days_before_year y + days_before_month m y + d - 1 = days" and "y = year_of days"
    using y by auto
qed

text \<open>
  Round trip: what \<open>Format\<close> writes for a year of at most four digits, \<open>Parse\<close> reads back, up
  to the fraction of the second.
\<close>

lemma format2_parse [simp]:
  "0 \<le> n \<Longrightarrow> n < 100 \<Longrightarrow> getnum (format2 n @ s) b = Some (n, s)"
  by (simp add: format2_def nat_less_iff)

primrec fixed_digits :: "nat \<Rightarrow> int \<Rightarrow> string" where
  "fixed_digits 0 n = []"
| "fixed_digits (Suc k) n = fixed_digits k (n div 10) @ [digit_char (nat (n mod 10))]"

lemma fixed_digits_0: "fixed_digits k 0 = replicate k (CHR ''0'')"
proof (induction k)
  case (Suc k)
  have "digit_char 0 = CHR ''0''" by code_simp
  then show ?case using Suc by (simp flip: replicate_append_same)
qed simp

lemma pad_left_show_pos:
  "0 \<le> n \<Longrightarrow> n < 10 ^ Suc k \<Longrightarrow> pad_left (Suc k) (show_pos n) = fixed_digits (Suc k) n"
proof (induction k arbitrary: n)
  case 0
  then show ?case by (simp add: show_pos.simps [of n] pad_left_def)
next
  case (Suc k)
  show ?case
  proof (cases "n < 10")
    case True
    then show ?thesis
      using Suc.prems fixed_digits_0 [of "Suc k"]
      by (simp add: show_pos.simps [of n] pad_left_def)
  next
    case False
    have "pad_left (Suc k) (show_pos (n div 10)) = fixed_digits (Suc k) (n div 10)"
      using Suc False by simp
    then show ?thesis
      using False by (simp add: show_pos.simps [of n] pad_left_def)
  qed
qed

lemma get_year_format:
  assumes "0 \<le> y" "y < 10000"
  shows "get_year (format_year y @ s) = Some (y, s)"
proof -
  define a b c d where "a = y div 10 div 10 div 10" and "b = y div 10 div 10 mod 10"
    and "c = y div 10 mod 10" and "d = y mod 10"
  have r: "0 \<le> a" "a < 10" "0 \<le> b" "b < 10" "0 \<le> c" "c < 10" "0 \<le> d" "d < 10"
    using assms by (simp_all add: a_def b_def c_def d_def)
  have "y div 10 div 10 div 10 mod 10 = a" using r(1,2) by (simp only: a_def mod_pos_pos_trivial)
  then have "fixed_digits 4 y = [digit_char (nat a), digit_char (nat b), digit_char (nat c), digit_char (nat d)]"
    by (simp only: numeral_eq_Suc pred_numeral_simps BitM.simps fixed_digits.simps b_def c_def d_def append.simps)
  moreover have "format_year y = fixed_digits 4 y"
    using assms pad_left_show_pos [of y 3] by (simp add: format_year_def)
  moreover have "10 * (10 * (10 * a + b) + c) + d = y"
    unfolding a_def b_def c_def d_def by (simp only: mult_div_mod_eq)
  ultimately show ?thesis
    using get_year_digits [of "nat a" "nat b" "nat c" "nat d" s] r by simp
qed

lemma get_frac_none: "s = [] \<or> \<not> (hd s = CHR ''.'' \<or> hd s = CHR '','') \<Longrightarrow> get_frac s = (0, s)"
  by (cases s) (auto simp: get_frac_def split: list.splits)

lemma format2_pair: "0 \<le> n \<Longrightarrow> n < 100 \<Longrightarrow> \<exists>a b. format2 n = [a, b]"
  by (simp add: format2_def two_digits_def)

lemma get_zone_signed:
  assumes "0 \<le> h" "h \<le> 24" "0 \<le> m" "m \<le> 60" "c = CHR ''+'' \<or> c = CHR ''-''"
  shows "get_zone (c # format2 h @ '':'' @ format2 m) =
         Some (if c = CHR ''+'' then (h * 60 + m) * 60 else - ((h * 60 + m) * 60), [])"
proof -
  obtain h1 h2 where h2: "format2 h = [h1, h2]" using format2_pair [of h] assms by auto
  obtain m1 m2 where m2: "format2 m = [m1, m2]" using format2_pair [of m] assms by auto
  have "getnum [h1, h2] True = Some (h, [])" "getnum [m1, m2] True = Some (m, [])"
    using format2_parse [of h "[]" True] format2_parse [of m "[]" True] assms h2 m2 by simp_all
  then show ?thesis
    using assms h2 m2 by (auto simp: get_zone_def Let_def)
qed

lemma get_zone_format:
  assumes "off mod 60 = 0" "\<bar>off\<bar> < 25 * 3600"
  shows "get_zone (format_zone off) = Some (off, [])"
proof (cases "off = 0")
  case True
  then show ?thesis by (simp add: format_zone_def get_zone_def)
next
  case False
  define z where "z = \<bar>off\<bar> div 60"
  have "60 dvd \<bar>off\<bar>" using assms(1) by (simp add: mod_0_imp_dvd)
  then have z: "z * 60 = \<bar>off\<bar>" by (simp add: z_def)
  have h: "0 \<le> z div 60" "z div 60 \<le> 24" using z assms(2) by simp_all
  have m: "0 \<le> z mod 60" "z mod 60 \<le> 60" by (simp_all add: order.strict_implies_order)
  have e: "(z div 60 * 60 + z mod 60) * 60 = \<bar>off\<bar>" using z by (simp only: div_mult_mod_eq)
  have sgn: "off \<le> - 60 \<longleftrightarrow> off < 0" using z False by presburger
  define c where "c = (if off \<le> - 60 then CHR ''-'' else CHR ''+'')"
  have "format_zone off = c # format2 (z div 60) @ '':'' @ format2 (z mod 60)"
    using False by (simp add: format_zone_def Let_def z_def c_def)
  moreover have "c = CHR ''+'' \<or> c = CHR ''-''" by (simp add: c_def)
  ultimately have "get_zone (format_zone off) = Some (if c = CHR ''+'' then \<bar>off\<bar> else - \<bar>off\<bar>, [])"
    using get_zone_signed [OF h m] e by simp
  then show ?thesis using sgn by (auto simp: c_def)
qed

lemma format_zone_not_frac: "hd (format_zone off) \<noteq> CHR ''.'' \<and> hd (format_zone off) \<noteq> CHR '',''"
  by (simp add: format_zone_def Let_def)

lemma time_of_day:
  fixes tod :: int
  assumes "0 \<le> tod" "tod < 86400"
  shows "tod div 3600 < 24" "tod mod 3600 div 60 < 60"
    and "(tod div 3600 * 60 + tod mod 3600 div 60) * 60 + tod mod 60 = tod"
proof -
  show "tod div 3600 < 24" using assms by simp
  show "tod mod 3600 div 60 < 60" by simp
  have "tod mod 3600 mod 60 = tod mod 60" by (rule mod_mod_cancel) simp
  then have "tod mod 3600 = 60 * (tod mod 3600 div 60) + tod mod 60"
    using mult_div_mod_eq [of 60 "tod mod 3600"] by simp
  moreover have comb: "A * 3600 + M = T \<Longrightarrow> M = 60 * B + C \<Longrightarrow> (A * 60 + B) * 60 + C = T"
    for A B C M T :: int by simp
  ultimately show "(tod div 3600 * 60 + tod mod 3600 div 60) * 60 + tod mod 60 = tod"
    using div_mult_mod_eq [of tod 3600] by (intro comb)
qed

lemma Parse_fields:
  assumes "0 \<le> y" "y < 10000" "1 \<le> mo" "mo \<le> 12" "1 \<le> d" "d \<le> daysIn mo y"
    and "0 \<le> h" "h < 24" "0 \<le> mi" "mi < 60" "0 \<le> sec" "sec < 60"
    and "get_frac z = (0, z)" "get_zone z = Some (off, [])"
  shows "Parse_RFC3339 (format_year y @ ''-'' @ format2 mo @ ''-'' @ format2 d @ ''T'' @ format2 h @ '':''
           @ format2 mi @ '':'' @ format2 sec @ z) = Some (Date y mo d h mi sec 0 - off * Second)"
proof -
  have "d < 100" using assms(6) by (simp add: daysIn_def split: if_splits)
  then show ?thesis
    using assms by (simp add: Parse_RFC3339_def get_year_format)
qed

lemma Parse_Format:
  assumes off: "off mod 60 = 0" "\<bar>off\<bar> < 25 * 3600"
    and y: "0 \<le> year_of ((t div Second + off) div 86400)" "year_of ((t div Second + off) div 86400) < 10000"
  shows "Parse_RFC3339 (Format_RFC3339 t off) = Some (t - t mod Second)"
proof -
  define secs where "secs = t div Second + off"
  define tod where "tod = secs mod 86400"
  obtain yy m d where c: "civil_from_days (secs div 86400) = (yy, m, d)"
    by (cases "civil_from_days (secs div 86400)")
  note cc = civil_from_days_correct [OF c]
  have td0: "0 \<le> tod" "tod < 86400" by (simp_all add: tod_def)
  note td = time_of_day [OF this]
  have pos: "0 \<le> tod div 3600" "0 \<le> tod mod 3600 div 60" "0 \<le> tod mod 60" "tod mod 60 < 60"
    using td0 by (simp_all add: pos_imp_zdiv_nonneg_iff)
  have yy: "0 \<le> yy" "yy < 10000" using y cc(6) by (simp_all only: secs_def)
  have fr: "get_frac (format_zone off) = (0, format_zone off)"
    using format_zone_not_frac by (intro get_frac_none) simp
  have parse: "Parse_RFC3339 (Format_RFC3339 t off) =
      Some (Date yy m d (tod div 3600) (tod mod 3600 div 60) (tod mod 60) 0 - off * Second)"
    unfolding Format_RFC3339_def Let_def secs_def [symmetric] c prod.case tod_def [symmetric]
    by (rule Parse_fields [OF yy cc(1-4) pos(1) td(1) pos(2) td(2) pos(3,4) fr get_zone_format [OF off]])
  have split: "((((D * 24 + h) * 60 + mi) * 60 + sec) * Second + 0 :: int) =
      (D * 86400 + ((h * 60 + mi) * 60 + sec)) * Second" for D h mi sec
    by simp
  have "Date yy m d (tod div 3600) (tod mod 3600 div 60) (tod mod 60) 0 =
      (secs div 86400 * 86400 + tod) * Second"
    unfolding Date_def split cc(5) td(3) ..
  also have "\<dots> = secs * Second" unfolding tod_def by (simp only: div_mult_mod_eq)
  finally have "Parse_RFC3339 (Format_RFC3339 t off) = Some (t div Second * Second)"
    using parse by (simp add: secs_def distrib_right)
  then show ?thesis
    by (simp only: minus_mod_eq_div_mult)
qed

end
