(* ===== verification/Notifier.thy ===== *)
theory Notifier
  imports Config_Manager Rfc3339
begin

text \<open>
  The notifiers (\<open>pkg/notifier\<close>). The OCM client the notifier holds is the record \<open>OcmClient\<close>,
  one field per method of the Go interface. Go iterates over a map in an unspecified order,
  so \<open>mapState\<close> takes the entries in the order of the iteration.
\<close>

section \<open>Data\<close>

datatype MuoState =
    MuoStatePending | MuoStateStarted | MuoStateCompleted | MuoStateDelayed | MuoStateFailed
  | MuoStateCancelled | MuoStateScheduled | MuoStateScaleSkipped | MuoStateSkipped
  | MuoStateHealthCheckSL | MuoStatePreHealthCheckSL | MuoStateControlPlaneUpgradeStartedSL
  | MuoStateControlPlaneUpgradeFinishedSL | MuoStateWorkerPlaneUpgradeFinishedSL

fun toString :: "MuoState \<Rightarrow> string" where
  "toString MuoStatePending = ''StatePending''"
| "toString MuoStateStarted = ''StateStarted''"
| "toString MuoStateCompleted = ''StateCompleted''"
| "toString MuoStateDelayed = ''StateDelayed''"
| "toString MuoStateFailed = ''StateFailed''"
| "toString MuoStateCancelled = ''StateCancelled''"
| "toString MuoStateScheduled = ''StateScheduled''"
| "toString MuoStateScaleSkipped = ''StateScaleSkipped''"
| "toString MuoStateSkipped = ''StateSkipped''"
| "toString MuoStateHealthCheckSL = ''StateHealthCheckSL''"
| "toString MuoStatePreHealthCheckSL = ''StatePreHealthCheckSL''"
| "toString MuoStateControlPlaneUpgradeStartedSL = ''StateControlPlaneStartedSL''"
| "toString MuoStateControlPlaneUpgradeFinishedSL = ''StateControlPlaneFinishedSL''"
| "toString MuoStateWorkerPlaneUpgradeFinishedSL = ''StateWorkerPlaneFinishedSL''"

type_synonym OcmState = string

definition OcmStateDelayed :: OcmState where
  "OcmStateDelayed = ''delayed''"

text \<open>The map from the operator's states to OCM's, as the list of its entries.\<close>

definition stateMap :: "(MuoState \<times> OcmState) list" where
  "stateMap =
     [(MuoStatePending, ''pending''), (MuoStateCancelled, ''cancelled''), (MuoStateStarted, ''started''),
      (MuoStateCompleted, ''completed''), (MuoStateDelayed, ''delayed''), (MuoStateFailed, ''failed''),
      (MuoStateScheduled, ''scheduled''), (MuoStateSkipped, ''delayed''),
      (MuoStateScaleSkipped, ''delayed'')]"

record ServiceLog =
  slSeverity :: string
  slServiceName :: string
  slSummary :: string
  slDescription :: string
  slInternalOnly :: bool
  slDocReferences :: string

definition info_log :: "string \<Rightarrow> ServiceLog" where
  "info_log summary =
     \<lparr>slSeverity = ''Info'', slServiceName = [], slSummary = summary, slDescription = [], slInternalOnly = False,
      slDocReferences = []\<rparr>"

definition serviceLogMap :: "(MuoState \<times> ServiceLog) list" where
  "serviceLogMap =
     [(MuoStateControlPlaneUpgradeStartedSL, info_log ''Cluster is starting with control and worker plane upgrade''),
      (MuoStateControlPlaneUpgradeFinishedSL, info_log ''Cluster has finished control plane upgrade''),
      (MuoStateWorkerPlaneUpgradeFinishedSL, info_log ''Cluster has finished with worker plane upgrade''),
      (MuoStateHealthCheckSL, info_log ''Cluster has encountered healthcheck failure during upgrade''),
      (MuoStatePreHealthCheckSL, info_log ''Cluster has encountered pre-upgrade healthcheck failure'')]"

text \<open>The SDK's types. A time carries the offset of its location, for \<open>Format\<close>.\<close>

record UpgradePolicy =
  pID :: string
  pVersion :: string
  pNextRun :: instant
  pNextRunZone :: int

text \<open>A page of policies: the number of policies there are, and the items of the page.\<close>

record UpgradePolicies =
  upTotal :: int
  upItems :: "UpgradePolicy list"

record UpgradePolicyState =
  psValue :: string
  psDescription :: string

record OcmCluster =
  ocID :: string
  ocChannelGroup :: string
  ocNodeDrainGracePeriod :: int

record 's OcmClient =
  GetCluster :: "('s, OcmCluster) op"
  GetClusterUpgradePolicies :: "string \<Rightarrow> ('s, UpgradePolicies) op"
  GetClusterUpgradePolicyState :: "string \<Rightarrow> string \<Rightarrow> ('s, UpgradePolicyState) op"
  PostServiceLog :: "ServiceLog \<Rightarrow> string \<Rightarrow> ('s, unit) op"
  SetState :: "string \<Rightarrow> string \<Rightarrow> string \<Rightarrow> string \<Rightarrow> ('s, unit) op"

section \<open>Operations\<close>

fun mapState :: "OcmState \<Rightarrow> (MuoState \<times> OcmState) list \<Rightarrow> MuoState option" where
  "mapState os [] = None"
| "mapState os ((k, v) # rest) = (if v = os then Some k else mapState os rest)"

fun mapSLState :: "MuoState \<Rightarrow> (MuoState \<times> ServiceLog) list \<Rightarrow> ServiceLog option" where
  "mapSLState ms [] = None"
| "mapSLState ms ((k, v) # rest) = (if k = ms then Some v else mapSLState ms rest)"

definition validateStateTransition :: "MuoState \<Rightarrow> MuoState \<Rightarrow> bool" where
  "validateStateTransition from to =
     (case from of
        MuoStatePending \<Rightarrow> False
      | MuoStateScheduled \<Rightarrow> (case to of MuoStateStarted \<Rightarrow> True | _ \<Rightarrow> False)
      | MuoStateStarted \<Rightarrow>
          (case to of MuoStateScaleSkipped \<Rightarrow> True | MuoStateDelayed \<Rightarrow> True
                    | MuoStateCompleted \<Rightarrow> True | MuoStateFailed \<Rightarrow> True | _ \<Rightarrow> False)
      | MuoStateScaleSkipped \<Rightarrow>
          (case to of MuoStateDelayed \<Rightarrow> True | MuoStateFailed \<Rightarrow> True
                    | MuoStateSkipped \<Rightarrow> True | MuoStateCompleted \<Rightarrow> True | _ \<Rightarrow> False)
      | MuoStateDelayed \<Rightarrow>
          (case to of MuoStateCompleted \<Rightarrow> True | MuoStateFailed \<Rightarrow> True
                    | MuoStateSkipped \<Rightarrow> True | _ \<Rightarrow> False)
      | MuoStateSkipped \<Rightarrow>
          (case to of MuoStateCompleted \<Rightarrow> True | MuoStateFailed \<Rightarrow> True | _ \<Rightarrow> False)
      | MuoStateCompleted \<Rightarrow> False
      | MuoStateFailed \<Rightarrow> False
      | _ \<Rightarrow> False)"

text \<open>
  The environment of a notifier: clock and error texts, process environment, API server.
\<close>

record 's notifier_env =
  n_rt :: "'s runtime"
  n_env :: environ
  n_uc :: "'s uc_api"

definition wrap_err :: "'s runtime \<Rightarrow> string \<Rightarrow> 'a outcome \<times> 't \<Rightarrow> 'a outcome \<times> 't" where
  "wrap_err rt msg r =
     (case r of (Err e, s) \<Rightarrow> (Err (Errorf (msg @ error_string rt e)), s) | _ \<Rightarrow> r)"

definition getPolicyIdForUpgradeConfig ::
    "'s notifier_env \<Rightarrow> 's OcmClient \<Rightarrow> string \<Rightarrow> ('s, string) op" where
  "getPolicyIdForUpgradeConfig ne ocm clusterId s =
     bindO (ucm_Get (n_env ne) (n_uc ne) s) (\<lambda>uc s.
     bindO (GetClusterUpgradePolicies ocm clusterId s) (\<lambda>policies s.
       case first_with (\<lambda>p. pVersion p = desired_version uc \<and>
                            Format_RFC3339 (pNextRun p) (pNextRunZone p) = UpgradeAt (Spec uc)) (upItems policies) of
         None \<Rightarrow> (Err (Errorf ''no policy matches the current UpgradeConfig''), s)
       | Some p \<Rightarrow> (Ok (pID p), s)))"

text \<open>
  The state OCM reports, as the operator's: \<open>delayed\<close> stands for two of them, told apart by
  the description.
\<close>

definition muo_current :: "(MuoState \<times> OcmState) list \<Rightarrow> UpgradePolicyState \<Rightarrow> MuoState option" where
  "muo_current order ps =
     (if psValue ps = OcmStateDelayed
      then Some (if Contains (psDescription ps) ''retry'' then MuoStateDelayed else MuoStateSkipped)
      else mapState (psValue ps) order)"

definition ocm_NotifyState ::
    "'s notifier_env \<Rightarrow> 's OcmClient \<Rightarrow> bool \<Rightarrow> (MuoState \<times> OcmState) list \<Rightarrow>
     MuoState \<Rightarrow> string \<Rightarrow> ('s, unit) op" where
  "ocm_NotifyState ne ocm notifications order state description s =
     bindO (wrap_err (n_rt ne) ''failed to retrieve internal ocm cluster ID: '' (GetCluster ocm s)) (\<lambda>cluster s.
     bindO
       (if notifications \<and> HasSuffix (toString state) ''SL''
        then case mapSLState state serviceLogMap of
               None \<Rightarrow> (Err (Errorf (''failed to map the servicelog state for MUO state '' @ toString state)), s)
             | Some sl \<Rightarrow>
                 let sl' = (if state = MuoStateHealthCheckSL \<or> state = MuoStatePreHealthCheckSL
                            then sl\<lparr>slDocReferences := ''https://access.redhat.com/solutions/7081505''\<rparr>
                            else sl)
                 in wrap_err (n_rt ne) ''failed to send servicelog notification: ''
                      (PostServiceLog ocm sl' description s)
        else (Ok (), s)) (\<lambda>_ s.
     bindO (wrap_err (n_rt ne) ''can't determine policy ID to notify for: ''
              (getPolicyIdForUpgradeConfig ne ocm (ocID cluster) s)) (\<lambda>policyId s.
     bindO (wrap_err (n_rt ne) ''can't determine policy state: ''
              (GetClusterUpgradePolicyState ocm policyId (ocID cluster) s)) (\<lambda>currentState s.
       case muo_current order currentState of
         None \<Rightarrow> (Err (Errorf ''failed to convert OCM state''), s)
       | Some muoCurrent \<Rightarrow>
           if \<not> validateStateTransition muoCurrent state then (Ok (), s)
           else wrap_err (n_rt ne) ''can't send notification: ''
                  (SetState ocm (case map_of stateMap state of None \<Rightarrow> [] | Some v \<Rightarrow> v)
                     description policyId (ocID cluster) s)))))"

definition log_NotifyState :: "MuoState \<Rightarrow> string \<Rightarrow> ('s, unit) op" where
  "log_NotifyState state description s = (Ok (), s)"

section \<open>The notifier's configuration\<close>

definition NotifierConfig_IsValid :: "string \<Rightarrow> unit outcome" where
  "NotifierConfig_IsValid source =
     (if source = [] then Ok ()
      else if ToUpper source = ''OCM'' \<or> ToUpper source = ''LOCAL'' then Ok ()
      else Err ErrNoNotifierConfigured)"

definition isOCMFeatureEnabled :: "string list \<Rightarrow> string \<Rightarrow> bool" where
  "isOCMFeatureEnabled enabled feature \<longleftrightarrow> length enabled > 0 \<and> list_ex (\<lambda>f. f = feature) enabled"

section \<open>Lemmas\<close>

text \<open>Progress of an upgrade as OCM sees it; every allowed transition moves forward.\<close>

fun state_rank :: "MuoState \<Rightarrow> nat" where
  "state_rank MuoStateScheduled = 0"
| "state_rank MuoStateStarted = 1"
| "state_rank MuoStateScaleSkipped = 2"
| "state_rank MuoStateDelayed = 3"
| "state_rank MuoStateSkipped = 4"
| "state_rank _ = 5"

lemma validateStateTransition_rank:
  "validateStateTransition frm to \<Longrightarrow> state_rank frm < state_rank to"
  by (cases frm; cases to) (simp_all add: validateStateTransition_def)

lemma validateStateTransition_target:
  "validateStateTransition frm to \<Longrightarrow> \<exists>v. map_of stateMap to = Some v \<and> v \<noteq> []"
  by (cases frm; cases to) (simp_all add: validateStateTransition_def stateMap_def)

lemma validateStateTransition_terminal:
  "\<not> validateStateTransition MuoStateCompleted to" "\<not> validateStateTransition MuoStateFailed to"
  by (simp_all add: validateStateTransition_def)

lemma SL_states: "HasSuffix (toString st) ''SL'' \<longleftrightarrow> mapSLState st serviceLogMap \<noteq> None"
  by (cases st; hypsubst_thin; code_simp)

lemma SL_no_transition:
  "mapSLState to serviceLogMap \<noteq> None \<Longrightarrow> \<not> validateStateTransition frm to"
  by (cases frm; cases to) (simp_all add: validateStateTransition_def serviceLogMap_def)

lemma mapState_Some_in: "mapState v xs = Some k \<Longrightarrow> (k, v) \<in> set xs"
  by (induction v xs rule: mapState.induct) (auto split: if_splits)

lemma mapState_None: "mapState v xs = None \<longleftrightarrow> v \<notin> snd ` set xs"
  by (induction v xs rule: mapState.induct) auto

lemma stateMap_inverse:
  assumes "(k, v) \<in> set stateMap" "(k', v) \<in> set stateMap" "v \<noteq> OcmStateDelayed"
  shows "k = k'"
  using assms by (auto simp: stateMap_def OcmStateDelayed_def)

text \<open>The order of the iteration does not matter outside \<open>delayed\<close>.\<close>

lemma mapState_order:
  assumes "set order = set stateMap" "v \<noteq> OcmStateDelayed"
  shows "mapState v order = mapState v stateMap"
proof -
  have none: "mapState v order = None \<longleftrightarrow> mapState v stateMap = None"
    unfolding mapState_None assms(1) ..
  show ?thesis
  proof (cases "mapState v order")
    case None
    then show ?thesis using none by simp
  next
    case (Some k)
    with none obtain k' where k': "mapState v stateMap = Some k'" by fastforce
    have "k = k'"
      using mapState_Some_in [OF Some] mapState_Some_in [OF k'] unfolding assms(1)
      by (rule stateMap_inverse [OF _ _ assms(2)])
    then show ?thesis using Some k' by simp
  qed
qed

lemma muo_current_order:
  "set order = set stateMap \<Longrightarrow> muo_current order ps = muo_current stateMap ps"
  using mapState_order [of order "psValue ps"] by (simp add: muo_current_def)

section \<open>Properties\<close>

text \<open>The policy states a call of \<open>NotifyState\<close> was told, through any answer of OCM.\<close>

lemma wrap_err_Ok_iff [simp]: "wrap_err rt m r = (Ok a, s) \<longleftrightarrow> r = (Ok a, s)"
  by (auto simp: wrap_err_def split: prod.splits outcome.splits)

lemma wrap_err_simps [simp]:
  "wrap_err rt m (Ok a, s) = (Ok a, s)"
  "wrap_err rt m (Panic, s) = (Panic, s)"
  "wrap_err rt m (Err e, s) = (Err (Errorf (m @ error_string rt e)), s)"
  by (simp_all add: wrap_err_def)

lemma bindO_wrap_err_cases:
  assumes "bindO (wrap_err rt m r) f \<noteq> bindO (wrap_err rt m r) g"
  obtains a s where "r = (Ok a, s)" "f a s \<noteq> g a s"
  using assms by (cases r; cases "fst r") (auto simp: wrap_err_def)

lemma bindO_cases:
  assumes "bindO r f \<noteq> bindO r g"
  obtains a s where "r = (Ok a, s)" "f a s \<noteq> g a s"
  using assms by (cases r; cases "fst r") auto

lemma getPolicyId_SetState [simp]:
  "getPolicyIdForUpgradeConfig ne (ocm\<lparr>SetState := f\<rparr>) = getPolicyIdForUpgradeConfig ne ocm"
  by (intro ext) (simp add: getPolicyIdForUpgradeConfig_def)

lemma OcmClient_SetState_update:
  "GetCluster (ocm\<lparr>SetState := f\<rparr>) = GetCluster ocm"
  "PostServiceLog (ocm\<lparr>SetState := f\<rparr>) = PostServiceLog ocm"
  "GetClusterUpgradePolicyState (ocm\<lparr>SetState := f\<rparr>) = GetClusterUpgradePolicyState ocm"
  "SetState (ocm\<lparr>SetState := f\<rparr>) = f"
  by simp_all

text \<open>An OCM service with the one policy of \<open>sample_uc\<close>, which counts the writes of its state.\<close>

definition sample_ne :: "nat notifier_env" where
  "sample_ne =
     \<lparr>n_rt = \<lparr>time_now = (\<lambda>s. (7, s)), error_string = (\<lambda>_. ''error'')\<rparr>,
      n_env = [''OPERATOR_NAMESPACE'' \<mapsto> ''muo''],
      n_uc = \<lparr>get_uc = (\<lambda>_ _ s. (Inr sample_uc, s)), list_ucs = (\<lambda>_ _ s. (Inr [sample_uc], s)),
              create_uc = (\<lambda>_ s. (Inr (), s)), delete_uc = (\<lambda>_ s. (Inr (), s)),
              update_uc = (\<lambda>uc s. (Inr uc, s)), update_uc_status = (\<lambda>uc s. (Inr uc, s))\<rparr>\<rparr>"

definition sample_policy :: UpgradePolicy where
  "sample_policy = \<lparr>pID = ''p1'', pVersion = ''4.14.2'', pNextRun = 600 * Second, pNextRunZone = 0\<rparr>"

definition sample_ocm :: "OcmState \<Rightarrow> nat OcmClient" where
  "sample_ocm v =
     \<lparr>GetCluster = (\<lambda>s. (Ok \<lparr>ocID = ''c1'', ocChannelGroup = ''stable'', ocNodeDrainGracePeriod = 60\<rparr>, s)),
      GetClusterUpgradePolicies = (\<lambda>_ s. (Ok \<lparr>upTotal = 1, upItems = [sample_policy]\<rparr>, s)),
      GetClusterUpgradePolicyState = (\<lambda>_ _ s. (Ok \<lparr>psValue = v, psDescription = []\<rparr>, s)),
      PostServiceLog = (\<lambda>_ _ s. (Ok (), s)),
      SetState = (\<lambda>_ _ _ _ s. (Ok (), Suc s))\<rparr>"

text \<open>
  The OCM notifier writes the state of the upgrade policy only to move it forward: where the outcome of
  \<open>NotifyState\<close> depends on \<open>SetState\<close> at all, the policy state OCM reported is one from which the new
  state may be reached, that new state ranks strictly higher and is no service-log-only state. So
  \<open>completed\<close> and \<open>failed\<close> are never overwritten, whatever OCM does.
\<close>

theorem NotifyState_forward:
  assumes "ocm_NotifyState ne (ocm\<lparr>SetState := f\<rparr>) notifications order st d s \<noteq>
           ocm_NotifyState ne (ocm\<lparr>SetState := g\<rparr>) notifications order st d s"
  shows "\<exists>pid cid s1 ps s2 cur.
           GetClusterUpgradePolicyState ocm pid cid s1 = (Ok ps, s2) \<and> muo_current order ps = Some cur \<and>
           validateStateTransition cur st \<and> state_rank cur < state_rank st \<and>
           cur \<notin> {MuoStateCompleted, MuoStateFailed} \<and> mapSLState st serviceLogMap = None"
proof -
  note neq = assms [unfolded ocm_NotifyState_def OcmClient_SetState_update getPolicyId_SetState]
  from neq have "\<exists>pid cid s1 ps s2 cur. GetClusterUpgradePolicyState ocm pid cid s1 = (Ok ps, s2) \<and>
                  muo_current order ps = Some cur \<and> validateStateTransition cur st"
  proof (elim bindO_wrap_err_cases bindO_cases)
    fix cluster s0 u s1 pid s2 ps s3
    assume g: "GetClusterUpgradePolicyState ocm pid (ocID cluster) s2 = (Ok ps, s3)"
      and d: "(case muo_current order ps of
           None \<Rightarrow> (Err (Errorf ''failed to convert OCM state''), s3)
         | Some muoCurrent \<Rightarrow>
             if \<not> validateStateTransition muoCurrent st then (Ok (), s3)
             else wrap_err (n_rt ne) ''can't send notification: ''
                    (f (case map_of stateMap st of None \<Rightarrow> [] | Some v \<Rightarrow> v) d pid (ocID cluster) s3)) \<noteq>
        (case muo_current order ps of
           None \<Rightarrow> (Err (Errorf ''failed to convert OCM state''), s3)
         | Some muoCurrent \<Rightarrow>
             if \<not> validateStateTransition muoCurrent st then (Ok (), s3)
             else wrap_err (n_rt ne) ''can't send notification: ''
                    (g (case map_of stateMap st of None \<Rightarrow> [] | Some v \<Rightarrow> v) d pid (ocID cluster) s3))"
    from d obtain cur where "muo_current order ps = Some cur" "validateStateTransition cur st"
      by (cases "muo_current order ps") (auto split: if_splits)
    with g show ?thesis by blast
  qed
  then show ?thesis
    using validateStateTransition_rank validateStateTransition_terminal SL_no_transition by blast
qed

theorem NotifyState_forward_witness:
  "ocm_NotifyState sample_ne (sample_ocm ''started'') True stateMap MuoStateCompleted ''done'' 0 = (Ok (), 1) \<and>
   (\<exists>cur. validateStateTransition cur MuoStateCompleted \<and> state_rank cur < state_rank MuoStateCompleted)"
proof -
  have at: "Format_RFC3339 600000000000 0 = ''1970-01-01T00:10:00Z''"
    by code_simp
  have sl: "\<not> HasSuffix ''StateCompleted'' ''SL''"
    by code_simp
  have run: "ocm_NotifyState sample_ne (sample_ocm ''started''\<lparr>SetState := f\<rparr>) True stateMap MuoStateCompleted ''done'' 0
      = wrap_err (n_rt sample_ne) ''can't send notification: '' (f ''completed'' ''done'' ''p1'' ''c1'' 0)" for f
    by (simp add: ocm_NotifyState_def sample_ocm_def getPolicyIdForUpgradeConfig_def env_eval
        sample_ne_def sample_policy_def sample_uc_def at sl muo_current_def
        stateMap_def OcmStateDelayed_def validateStateTransition_def)
  have "(\<lambda>_ _ _ _ s. (Ok (), Suc s)) = SetState (sample_ocm ''started'')" by (simp add: sample_ocm_def)
  then have up: "sample_ocm ''started''\<lparr>SetState := (\<lambda>_ _ _ _ s. (Ok (), Suc s))\<rparr> = sample_ocm ''started''" by simp
  show ?thesis
    using run [of "\<lambda>_ _ _ _ s. (Ok (), Suc s)"] run [of "\<lambda>_ _ _ _ s. (Ok (), s)"]
      NotifyState_forward [where ne = sample_ne and ocm = "sample_ocm ''started''" and st = MuoStateCompleted
        and f = "\<lambda>_ _ _ _ s. (Ok (), Suc s)" and g = "\<lambda>_ _ _ _ s. (Ok (), s)" and notifications = True
        and order = stateMap and d = "''done''" and s = 0]
    by (auto simp: up)
qed

text \<open>
  Go's random iteration over the state map does not matter: \<open>NotifyState\<close> behaves the same for every
  order of the entries, although \<open>delayed\<close> occurs twice in the map.
\<close>

theorem NotifyState_map_order:
  assumes "set order = set stateMap"
  shows "ocm_NotifyState ne ocm notifications order st d s = ocm_NotifyState ne ocm notifications stateMap st d s"
  unfolding ocm_NotifyState_def muo_current_order [OF assms] ..

theorem NotifyState_map_order_witness:
  "ocm_NotifyState sample_ne (sample_ocm ''started'') True (rev stateMap) MuoStateCompleted ''done'' 0 =
   ocm_NotifyState sample_ne (sample_ocm ''started'') True stateMap MuoStateCompleted ''done'' 0"
  by (rule NotifyState_map_order) simp

end
