(* ===== verification/Scheduler.thy ===== *)
theory Scheduler
  imports Api_Types Rfc3339 Steps
begin

text \<open>
  The scheduler (\<open>pkg/scheduler\<close>) and the configuration of the upgradeconfig controller
  (\<open>controllers/upgradeconfig/config.go\<close>).
\<close>

section \<open>Model\<close>

record upgradeWindow =
  TimeOut :: int
  DelayTrigger :: int

record config =
  UpgradeWindow :: upgradeWindow
  FeatureGate :: "string list"

definition config_IsValid :: "config \<Rightarrow> unit outcome" where
  "config_IsValid cfg =
     (if TimeOut (UpgradeWindow cfg) < 0 then Err (Errorf ''config upgrade window time out is invalid'')
      else if DelayTrigger (UpgradeWindow cfg) < 0
      then Err (Errorf ''config upgrade window delay trigger is invalid'')
      else Ok ())"

definition GetUpgradeWindowTimeOutDuration :: "upgradeWindow \<Rightarrow> duration" where
  "GetUpgradeWindowTimeOutDuration w = minutes (TimeOut w)"

definition GetUpgradeWindowDelayTriggerDuration :: "upgradeWindow \<Rightarrow> duration" where
  "GetUpgradeWindowDelayTriggerDuration w = minutes (DelayTrigger w)"

definition IsFeatureEnabled :: "string list \<Rightarrow> string \<Rightarrow> bool" where
  "IsFeatureEnabled enabled feature \<longleftrightarrow> length enabled > 0 \<and> list_ex (\<lambda>f. f = feature) enabled"

record SchedulerResult =
  IsReady :: bool
  IsBreached :: bool
  TimeUntilUpgrade :: duration

definition IsReadyToUpgrade ::
    "'s runtime \<Rightarrow> UpgradeConfig \<Rightarrow> duration \<Rightarrow> 's \<Rightarrow> SchedulerResult \<times> 's" where
  "IsReadyToUpgrade rt uc timeOut s =
     (case Parse_RFC3339 (UpgradeAt (Spec uc)) of
        None \<Rightarrow> (\<lparr>IsReady = False, IsBreached = False, TimeUntilUpgrade = 0\<rparr>, s)
      | Some upgradeTime \<Rightarrow>
          let (now, s) = time_now rt s
          in if upgradeTime < now then
               (if now < upgradeTime + timeOut
                then (\<lparr>IsReady = True, IsBreached = False, TimeUntilUpgrade = 0\<rparr>, s)
                else (\<lparr>IsReady = True, IsBreached = True, TimeUntilUpgrade = 0\<rparr>, s))
             else (\<lparr>IsReady = False, IsBreached = False, TimeUntilUpgrade = sat64 (upgradeTime - now)\<rparr>, s))"

section \<open>Lemmas\<close>

lemma IsFeatureEnabled_iff: "IsFeatureEnabled fs f \<longleftrightarrow> f \<in> set fs"
  by (auto simp: IsFeatureEnabled_def list_ex_iff)

lemma IsReadyToUpgrade_ready:
  assumes "IsReadyToUpgrade rt uc w s = (r, s')" "IsReady r"
  shows "\<exists>t now. Parse_RFC3339 (UpgradeAt (Spec uc)) = Some t \<and> time_now rt s = (now, s') \<and> t < now \<and>
           (IsBreached r \<longleftrightarrow> t + w \<le> now)"
  using assms by (auto simp: IsReadyToUpgrade_def Let_def split: option.splits prod.splits if_splits)

lemma IsReadyToUpgrade_not_ready:
  assumes "IsReadyToUpgrade rt uc w s = (r, s')" "\<not> IsReady r"
  shows "\<not> IsBreached r \<and> 0 \<le> TimeUntilUpgrade r"
  using assms by (auto simp: IsReadyToUpgrade_def Let_def split: option.splits prod.splits if_splits)

end
