(* ===== verification/Metrics.thy ===== *)
theory Metrics
  imports Scheduler
begin

text \<open>
  The metrics component (\<open>pkg/metrics/metrics.go\<close>). The process keeps one gauge vector per
  metric; a gauge is addressed by its label values, in the order in which the vector
  declares its labels. Prometheus is queried over HTTP, which is the parameter \<open>prom_api\<close>.
  The state of the whole operator is a \<open>sys\<close>: the gauges and the world \<open>ext\<close> outside.
\<close>

section \<open>Gauges\<close>

datatype metric =
    MValidationFailed | MScalingFailed | MUpgradeWindowBreached | MUpgradeControlPlaneTimeout
  | MHealthcheckFailed | MUpgradeWorkerTimeout | MNodeDrainFailed | MUpgradeNotification
  | MUpgradeResult | MUpgradeNotificationFailed | MUpgradeConfigSyncTimestamp
  | MUpgradeStartedTimestamp | MUpgradeCompletedTimestamp
  | MControlplaneUpgradeStartedTimestamp | MControlplaneUpgradeCompletedTimestamp
  | MWorkernodeUpgradeStartedTimestamp | MWorkernodeUpgradeCompletedTimestamp

type_synonym gauge_state = "metric \<Rightarrow> string list \<rightharpoonup> int"

record 'w sys =
  gauges :: gauge_state
  ext :: 'w

text \<open>An operation of the outside world, seen as one of the whole state.\<close>

definition lift :: "('w \<Rightarrow> 'a \<times> 'w) \<Rightarrow> 'w sys \<Rightarrow> 'a \<times> 'w sys" where
  "lift f s = (let (r, w) = f (ext s) in (r, s\<lparr>ext := w\<rparr>))"

definition lift_runtime :: "'w runtime \<Rightarrow> 'w sys runtime" where
  "lift_runtime rt = \<lparr>time_now = lift (time_now rt), error_string = error_string rt\<rparr>"

definition set_gauge :: "metric \<Rightarrow> string list \<Rightarrow> int \<Rightarrow> 'w sys \<Rightarrow> 'w sys" where
  "set_gauge m ls v s = s\<lparr>gauges := (gauges s)(m := (gauges s m)(ls \<mapsto> v))\<rparr>"

definition reset_gauge :: "metric \<Rightarrow> 'w sys \<Rightarrow> 'w sys" where
  "reset_gauge m s = s\<lparr>gauges := (gauges s)(m := Map.empty)\<rparr>"

text \<open>\<open>Time.Unix\<close>.\<close>

definition Unix :: "instant \<Rightarrow> int" where
  "Unix t = t div Second"

definition ephemeralMetrics :: "metric list" where
  "ephemeralMetrics =
     [MValidationFailed, MScalingFailed, MUpgradeWindowBreached, MUpgradeControlPlaneTimeout,
      MHealthcheckFailed, MUpgradeWorkerTimeout, MNodeDrainFailed, MUpgradeNotification,
      MUpgradeConfigSyncTimestamp, MUpgradeNotificationFailed, MUpgradeStartedTimestamp,
      MUpgradeCompletedTimestamp, MControlplaneUpgradeStartedTimestamp,
      MControlplaneUpgradeCompletedTimestamp, MWorkernodeUpgradeStartedTimestamp,
      MWorkernodeUpgradeCompletedTimestamp]"

definition persistentMetrics :: "metric list" where
  "persistentMetrics = [MUpgradeResult]"

definition metricsList :: "metric list" where
  "metricsList = ephemeralMetrics @ persistentMetrics"

definition UpdateMetricValidationFailed :: "string \<Rightarrow> 'w sys \<Rightarrow> 'w sys" where
  "UpdateMetricValidationFailed n = set_gauge MValidationFailed [n] 1"

definition UpdateMetricValidationSucceeded :: "string \<Rightarrow> 'w sys \<Rightarrow> 'w sys" where
  "UpdateMetricValidationSucceeded n = set_gauge MValidationFailed [n] 0"

definition UpdateMetricHealthcheckSucceeded :: "string \<Rightarrow> string \<Rightarrow> string \<Rightarrow> string \<Rightarrow> 'w sys \<Rightarrow> 'w sys" where
  "UpdateMetricHealthcheckSucceeded n reason v state = set_gauge MHealthcheckFailed [n, state, v, reason] 0"

definition UpdateMetricScalingFailed :: "string \<Rightarrow> 'w sys \<Rightarrow> 'w sys" where
  "UpdateMetricScalingFailed n = set_gauge MScalingFailed [n] 1"

definition UpdateMetricScalingSucceeded :: "string \<Rightarrow> 'w sys \<Rightarrow> 'w sys" where
  "UpdateMetricScalingSucceeded n = set_gauge MScalingFailed [n] 0"

definition UpdateMetricUpgradeConfigSyncTimestamp :: "string \<Rightarrow> instant \<Rightarrow> 'w sys \<Rightarrow> 'w sys" where
  "UpdateMetricUpgradeConfigSyncTimestamp n t = set_gauge MUpgradeConfigSyncTimestamp [n] (Unix t)"

definition UpdateMetricUpgradeControlPlaneTimeout :: "string \<Rightarrow> string \<Rightarrow> 'w sys \<Rightarrow> 'w sys" where
  "UpdateMetricUpgradeControlPlaneTimeout n v = set_gauge MUpgradeControlPlaneTimeout [n, v] 1"

definition ResetMetricUpgradeControlPlaneTimeout :: "string \<Rightarrow> string \<Rightarrow> 'w sys \<Rightarrow> 'w sys" where
  "ResetMetricUpgradeControlPlaneTimeout n v = set_gauge MUpgradeControlPlaneTimeout [n, v] 0"

definition UpdateMetricHealthcheckFailed :: "string \<Rightarrow> string \<Rightarrow> string \<Rightarrow> string \<Rightarrow> 'w sys \<Rightarrow> 'w sys" where
  "UpdateMetricHealthcheckFailed n reason v state = set_gauge MHealthcheckFailed [n, state, v, reason] 1"

definition UpdateMetricUpgradeWorkerTimeout :: "string \<Rightarrow> string \<Rightarrow> 'w sys \<Rightarrow> 'w sys" where
  "UpdateMetricUpgradeWorkerTimeout n v = set_gauge MUpgradeWorkerTimeout [n, v] 1"

definition ResetMetricUpgradeWorkerTimeout :: "string \<Rightarrow> string \<Rightarrow> 'w sys \<Rightarrow> 'w sys" where
  "ResetMetricUpgradeWorkerTimeout n v = set_gauge MUpgradeWorkerTimeout [n, v] 0"

definition UpdateMetricNodeDrainFailed :: "string \<Rightarrow> 'w sys \<Rightarrow> 'w sys" where
  "UpdateMetricNodeDrainFailed node = set_gauge MNodeDrainFailed [node] 1"

definition ResetMetricNodeDrainFailed :: "string \<Rightarrow> 'w sys \<Rightarrow> 'w sys" where
  "ResetMetricNodeDrainFailed node = set_gauge MNodeDrainFailed [node] 0"

definition UpdateMetricUpgradeWindowNotBreached :: "string \<Rightarrow> 'w sys \<Rightarrow> 'w sys" where
  "UpdateMetricUpgradeWindowNotBreached n = set_gauge MUpgradeWindowBreached [n] 0"

definition UpdateMetricUpgradeWindowBreached :: "string \<Rightarrow> 'w sys \<Rightarrow> 'w sys" where
  "UpdateMetricUpgradeWindowBreached n = set_gauge MUpgradeWindowBreached [n] 1"

definition UpdateMetricNotificationEventSent :: "string \<Rightarrow> string \<Rightarrow> string \<Rightarrow> 'w sys \<Rightarrow> 'w sys" where
  "UpdateMetricNotificationEventSent n event v = set_gauge MUpgradeNotification [n, event, v] 1"

definition UpdatemetricUpgradeNotificationFailed :: "string \<Rightarrow> string \<Rightarrow> 'w sys \<Rightarrow> 'w sys" where
  "UpdatemetricUpgradeNotificationFailed n event = set_gauge MUpgradeNotificationFailed [n, event] 1"

definition UpdatemetricUpgradeNotificationSucceeded :: "string \<Rightarrow> string \<Rightarrow> 'w sys \<Rightarrow> 'w sys" where
  "UpdatemetricUpgradeNotificationSucceeded n event = set_gauge MUpgradeNotificationFailed [n, event] 0"

definition UpdateMetricUpgradeStartedTimestamp :: "string \<Rightarrow> string \<Rightarrow> string \<Rightarrow> instant \<Rightarrow> 'w sys \<Rightarrow> 'w sys" where
  "UpdateMetricUpgradeStartedTimestamp cid n v t = set_gauge MUpgradeStartedTimestamp [cid, n, v] (Unix t)"

definition UpdateMetricUpgradeCompletedTimestamp :: "string \<Rightarrow> string \<Rightarrow> string \<Rightarrow> instant \<Rightarrow> 'w sys \<Rightarrow> 'w sys" where
  "UpdateMetricUpgradeCompletedTimestamp cid n v t = set_gauge MUpgradeCompletedTimestamp [cid, n, v] (Unix t)"

definition UpdateMetricControlplaneUpgradeStartedTimestamp :: "string \<Rightarrow> string \<Rightarrow> string \<Rightarrow> instant \<Rightarrow> 'w sys \<Rightarrow> 'w sys" where
  "UpdateMetricControlplaneUpgradeStartedTimestamp cid n v t = set_gauge MControlplaneUpgradeStartedTimestamp [cid, n, v] (Unix t)"

definition UpdateMetricControlplaneUpgradeCompletedTimestamp :: "string \<Rightarrow> string \<Rightarrow> string \<Rightarrow> instant \<Rightarrow> 'w sys \<Rightarrow> 'w sys" where
  "UpdateMetricControlplaneUpgradeCompletedTimestamp cid n v t = set_gauge MControlplaneUpgradeCompletedTimestamp [cid, n, v] (Unix t)"

definition UpdateMetricWorkernodeUpgradeStartedTimestamp :: "string \<Rightarrow> string \<Rightarrow> string \<Rightarrow> instant \<Rightarrow> 'w sys \<Rightarrow> 'w sys" where
  "UpdateMetricWorkernodeUpgradeStartedTimestamp cid n v t = set_gauge MWorkernodeUpgradeStartedTimestamp [cid, n, v] (Unix t)"

definition UpdateMetricWorkernodeUpgradeCompletedTimestamp :: "string \<Rightarrow> string \<Rightarrow> string \<Rightarrow> instant \<Rightarrow> 'w sys \<Rightarrow> 'w sys" where
  "UpdateMetricWorkernodeUpgradeCompletedTimestamp cid n v t = set_gauge MWorkernodeUpgradeCompletedTimestamp [cid, n, v] (Unix t)"

definition ResetAllMetricNodeDrainFailed :: "'w sys \<Rightarrow> 'w sys" where
  "ResetAllMetricNodeDrainFailed = reset_gauge MNodeDrainFailed"

definition UpdateMetricUpgradeResult ::
    "string \<Rightarrow> string \<Rightarrow> string \<Rightarrow> string \<Rightarrow> string list \<Rightarrow> 'w sys \<Rightarrow> 'w sys" where
  "UpdateMetricUpgradeResult n precedingVersion v stream alerts =
     set_gauge MUpgradeResult [n, precedingVersion, stream, v, Join alerts '','']
       (if length alerts > 0 then 0 else 1)"

definition ResetEphemeralMetrics :: "'w sys \<Rightarrow> 'w sys" where
  "ResetEphemeralMetrics s = fold reset_gauge ephemeralMetrics s"

definition failureMetricsList :: "metric list" where
  "failureMetricsList =
     [MValidationFailed, MScalingFailed, MUpgradeControlPlaneTimeout, MHealthcheckFailed,
      MUpgradeWorkerTimeout, MNodeDrainFailed, MUpgradeNotification, MUpgradeNotificationFailed,
      MUpgradeStartedTimestamp]"

definition ResetFailureMetrics :: "'w sys \<Rightarrow> 'w sys" where
  "ResetFailureMetrics s = fold reset_gauge failureMetricsList s"

lemmas gauge_update_defs =
  UpdateMetricValidationFailed_def
  UpdateMetricValidationSucceeded_def
  UpdateMetricHealthcheckSucceeded_def
  UpdateMetricScalingFailed_def
  UpdateMetricScalingSucceeded_def
  UpdateMetricUpgradeConfigSyncTimestamp_def
  UpdateMetricUpgradeControlPlaneTimeout_def
  ResetMetricUpgradeControlPlaneTimeout_def
  UpdateMetricHealthcheckFailed_def
  UpdateMetricUpgradeWorkerTimeout_def
  ResetMetricUpgradeWorkerTimeout_def
  UpdateMetricNodeDrainFailed_def
  ResetMetricNodeDrainFailed_def
  UpdateMetricUpgradeWindowNotBreached_def
  UpdateMetricUpgradeWindowBreached_def
  UpdateMetricNotificationEventSent_def
  UpdatemetricUpgradeNotificationFailed_def
  UpdatemetricUpgradeNotificationSucceeded_def
  UpdateMetricUpgradeStartedTimestamp_def
  UpdateMetricUpgradeCompletedTimestamp_def
  UpdateMetricControlplaneUpgradeStartedTimestamp_def
  UpdateMetricControlplaneUpgradeCompletedTimestamp_def
  UpdateMetricWorkernodeUpgradeStartedTimestamp_def
  UpdateMetricWorkernodeUpgradeCompletedTimestamp_def
  UpdateMetricUpgradeResult_def ResetAllMetricNodeDrainFailed_def

section \<open>Durations as text\<close>

text \<open>\<open>Duration.String\<close>: hours, minutes and seconds, the fraction without trailing zeros.\<close>

definition strip_zeros :: "string \<Rightarrow> string" where
  "strip_zeros ds = rev (dropWhile (\<lambda>c. c = CHR ''0'') (rev ds))"

definition fmtFrac :: "int \<Rightarrow> nat \<Rightarrow> string" where
  "fmtFrac v prec =
     (let ds = strip_zeros (pad_left prec (show_pos (v mod 10 ^ prec)))
      in if v mod 10 ^ prec = 0 then [] else CHR ''.'' # ds)"

definition Duration_String :: "duration \<Rightarrow> string" where
  "Duration_String d =
     (let u = \<bar>d\<bar>;
          body =
            (if u = 0 then ''0s''
             else if u < 1000 then show_pos u @ ''ns''
             else if u < 1000000 then show_pos (u div 1000) @ fmtFrac u 3 @ [CHR 0xC2, CHR 0xB5] @ ''s''
             else if u < 1000000000 then show_pos (u div 1000000) @ fmtFrac u 6 @ ''ms''
             else let sec = u div 1000000000; mi = sec div 60; h = mi div 60
                  in (if h > 0 then show_pos h @ ''h'' else []) @
                     (if mi > 0 then show_pos (mi mod 60) @ ''m'' else []) @
                     show_pos (sec mod 60) @ fmtFrac u 9 @ ''s'')
      in if d < 0 then CHR ''-'' # body else body)"

text \<open>\<open>Duration.Truncate\<close> rounds toward zero.\<close>

definition Truncate :: "duration \<Rightarrow> duration \<Rightarrow> duration" where
  "Truncate d m = (if m \<le> 0 then d else if 0 \<le> d then d - d mod m else - ((- d) - (- d) mod m))"

section \<open>Queries\<close>

text \<open>
  An HTTP exchange either fails, or delivers a body, or fails while the body is read; the
  JSON decoder of the response is a parameter too.
\<close>

datatype http_body = HttpBody string | HttpReadError goerr

record AlertResult =
  AMetric :: "(string \<times> string) list"

record 's Counter =
  promTarget :: string
  request_error :: "string \<Rightarrow> goerr option"
  prom_do :: "string \<Rightarrow> string \<Rightarrow> ('s, http_body) ext_op"
  json_alerts :: "string \<Rightarrow> goerr + AlertResult list"

definition Query :: "'s runtime \<Rightarrow> 's Counter \<Rightarrow> string \<Rightarrow> ('s, AlertResult list) op" where
  "Query rt c q s =
     (let url = ''https://'' @ promTarget c @ ''/api/v1/query''
      in case request_error c url of
           Some e \<Rightarrow> (Err (Errorf (''could not query prometheus: '' @ error_string rt e)), s)
         | None \<Rightarrow>
             bindO (call (prom_do c url q) s) (\<lambda>resp s.
               case resp of
                 HttpReadError e \<Rightarrow> (Err (Errorf (''error when querying prometheus: '' @ error_string rt e)), s)
               | HttpBody b \<Rightarrow> (ret (json_alerts c b), s)))"

text \<open>A missing label of the \<open>metric\<close> map reads as the empty string.\<close>

definition label_of :: "AlertResult \<Rightarrow> string \<Rightarrow> string" where
  "label_of r k = (case map_of (AMetric r) k of None \<Rightarrow> [] | Some v \<Rightarrow> v)"

definition quoted :: "string \<Rightarrow> string" where
  "quoted v = CHR 0x22 # v @ [CHR 0x22]"

definition IsMetricNotificationEventSentSet ::
    "'s runtime \<Rightarrow> 's Counter \<Rightarrow> string \<Rightarrow> string \<Rightarrow> string \<Rightarrow> ('s, bool) op" where
  "IsMetricNotificationEventSentSet rt c n event v s =
     bindO (Query rt c (''upgradeoperator_upgrade_notification{upgradeconfig_name='' @ quoted n @
              '',event='' @ quoted event @ '',version='' @ quoted v @ ''}'') s)
       (\<lambda>rs s. (Ok (length rs > 0), s))"

definition IsClusterVersionAtVersion :: "'s runtime \<Rightarrow> 's Counter \<Rightarrow> string \<Rightarrow> ('s, bool) op" where
  "IsClusterVersionAtVersion rt c v s =
     bindO (Query rt c (''cluster_version{version='' @ quoted v @ '',type='' @ quoted ''current'' @ ''}'') s)
       (\<lambda>rs s. (Ok (length rs > 0), s))"

definition pagingAlerts :: "string list" where
  "pagingAlerts =
     [''UpgradeConfigValidationFailedSRE'', ''UpgradeClusterCheckFailedSRE'',
      ''UpgradeControlPlaneUpgradeTimeoutSRE'', ''UpgradeNodeUpgradeTimeoutSRE'',
      ''UpgradeNodeDrainFailedSRE'']"

definition AlertsFromUpgrade ::
    "'s runtime \<Rightarrow> 's Counter \<Rightarrow> instant \<Rightarrow> instant \<Rightarrow> ('s, string list) op" where
  "AlertsFromUpgrade rt c upgradeStart upgradeEnd s =
     (let (now, s) = time_now rt s;
          timeSinceUpgrade = Truncate (sat64 (now - upgradeEnd)) Second;
          upgradeDuration = sat64 (upgradeEnd - upgradeStart)
      in bindO (Query rt c (''sum by (alertname) (max_over_time(ALERTS{alertstate='' @ quoted ''firing'' @
                  '',severity='' @ quoted ''critical'' @ '',alertname=~'' @ quoted (Join pagingAlerts ''|'') @
                  ''}['' @ Duration_String upgradeDuration @ ''] offset '' @
                  Duration_String timeSinceUpgrade @ ''))'') s)
           (\<lambda>rs s. (Ok (map (\<lambda>r. label_of r ''alertname'') rs), s)))"

definition IsAlertFiring ::
    "'s runtime \<Rightarrow> 's Counter \<Rightarrow> string \<Rightarrow> string list \<Rightarrow> string list \<Rightarrow> ('s, bool) op" where
  "IsAlertFiring rt c alert checkedNS ignoredNS s =
     bindO (Query rt c (''ALERTS{alertstate='' @ quoted ''firing'' @ '',alertname='' @ quoted alert @
              '',namespace=~'' @ quoted (''^$|'' @ Join checkedNS ''|'') @
              '',namespace!='' @ quoted (Join ignoredNS ''|'') @ ''}'') s)
       (\<lambda>rs s. (Ok (length rs > 0), s))"

section \<open>Lemmas\<close>

lemma gauges_set_gauge [simp]:
  "gauges (set_gauge m ls v s) = (gauges s)(m := (gauges s m)(ls \<mapsto> v))"
  "ext (set_gauge m ls v s) = ext s"
  by (simp_all add: set_gauge_def)

lemma gauges_reset_gauge [simp]:
  "gauges (reset_gauge m s) = (gauges s)(m := Map.empty)"
  "ext (reset_gauge m s) = ext s"
  by (simp_all add: reset_gauge_def)

lemma ext_fold_reset [simp]: "ext (fold reset_gauge ms s) = ext s"
  by (induction ms arbitrary: s) simp_all

lemma gauges_fold_reset:
  "gauges (fold reset_gauge ms s) m = (if m \<in> set ms then Map.empty else gauges s m)"
  by (induction ms arbitrary: s) auto

lemma distinct_metricsList: "distinct metricsList"
  by (simp add: metricsList_def ephemeralMetrics_def persistentMetrics_def)

lemma metricsList_complete: "m \<in> set metricsList"
  by (cases m) (simp_all add: metricsList_def ephemeralMetrics_def persistentMetrics_def)

lemma ResetEphemeralMetrics_gauges:
  "gauges (ResetEphemeralMetrics s) m = (if m = MUpgradeResult then gauges s m else Map.empty)"
  by (cases m) (simp_all add: ResetEphemeralMetrics_def gauges_fold_reset ephemeralMetrics_def)

lemma ext_ResetEphemeralMetrics [simp]: "ext (ResetEphemeralMetrics s) = ext s"
  by (simp add: ResetEphemeralMetrics_def)

lemma ext_ResetFailureMetrics [simp]: "ext (ResetFailureMetrics s) = ext s"
  by (simp add: ResetFailureMetrics_def)

lemma lift_eq_iff: "lift f s = (r, s') \<longleftrightarrow> f (ext s) = (r, ext s') \<and> s' = s\<lparr>ext := ext s'\<rparr>"
  by (auto simp: lift_def split: prod.splits)

lemma lift_fst: "fst (lift f s) = fst (f (ext s))"
  by (simp add: lift_def split: prod.split)

lemma lift_eq: "f (ext s) = (r, w) \<Longrightarrow> lift f s = (r, s\<lparr>ext := w\<rparr>)"
  by (simp add: lift_def)

lemma gauges_lift: "lift f s = (r, s') \<Longrightarrow> gauges s' = gauges s"
  by (auto simp: lift_def split: prod.splits)

section \<open>Properties\<close>

text \<open>
  \<open>ResetEphemeralMetrics\<close> clears every gauge vector except the upgrade results, of which it keeps
  every value; no gauge vector is in both lists and every one is in one of them, and nothing outside
  the process is touched.
\<close>

theorem ResetEphemeralMetrics_clears:
  "gauges (ResetEphemeralMetrics s) m = (if m = MUpgradeResult then gauges s m else Map.empty) \<and>
   ext (ResetEphemeralMetrics s) = ext s \<and> distinct metricsList \<and> set metricsList = UNIV"
  using metricsList_complete distinct_metricsList by (auto simp: ResetEphemeralMetrics_gauges)

end
