(* ===== verification/Event_Manager.thy ===== *)
theory Event_Manager
  imports Notifier Metrics
begin

text \<open>
  The event manager (\<open>pkg/eventmanager\<close>): it sends each notification of an upgrade once, and
  describes a delay or a failure by the first incomplete condition of the current history.
  The notifier it holds is any implementation of the \<open>Notifier\<close> interface.
\<close>

section \<open>Descriptions\<close>

definition UPGRADE_PRECHECK_FAILED_DESC :: "string \<Rightarrow> string" where
  "UPGRADE_PRECHECK_FAILED_DESC v =
     ''Cluster upgrade to version '' @ v @ '' was cancelled as the cluster did not pass its pre-upgrade verification checks. '' @
     ''Automated upgrades will be retried on their next scheduling cycle. If you have '' @
     ''manually scheduled an upgrade instead, it must now be rescheduled''"

definition UPGRADE_PREHEALTHCHECK_FAILED_DESC :: "string \<Rightarrow> string" where
  "UPGRADE_PREHEALTHCHECK_FAILED_DESC v =
     ''Cluster upgrade to version '' @ v @ '' was cancelled during the Pre-Health Check step. Health alerts are firing in the '' @
     ''cluster which could impact the upgrade's operation, so the upgrade did not '' @
     ''proceed. Automated upgrades will be retried on their next scheduling cycle. If '' @
     ''you have manually scheduled an upgrade instead, it must now be rescheduled''"

definition UPGRADE_EXTDEPCHECK_FAILED_DESC :: "string \<Rightarrow> string" where
  "UPGRADE_EXTDEPCHECK_FAILED_DESC v =
     ''Cluster upgrade to version '' @ v @ '' was cancelled during the External Dependency Availability Check step. A '' @
     ''required external dependency of the upgrade was unavailable, so the upgrade did '' @
     ''not proceed. Automated upgrades will be retried on their next scheduling cycle. '' @
     ''If you have manually scheduled an upgrade instead, it must now be rescheduled''"

definition UPGRADE_SCALE_FAILED_DESC :: "string \<Rightarrow> string" where
  "UPGRADE_SCALE_FAILED_DESC v =
     ''Cluster upgrade to version '' @ v @ '' was cancelled during the Scale-Up Worker Node step. A temporary additional '' @
     ''worker node was unable to be created to temporarily house workloads, so the '' @
     ''upgrade did not proceed. Automated upgrades will be retried on their next '' @
     ''scheduling cycle. If you have manually scheduled an upgrade instead, it must '' @
     ''now be rescheduled''"

definition UPGRADE_SCALE_SKIP_DESC :: "string \<Rightarrow> string" where
  "UPGRADE_SCALE_SKIP_DESC v =
     ''Cluster upgrade to version '' @ v @ '' has skipped Scale-Up additional Worker Node step for compute capacity '' @
     ''reservation. This is an informational notification and no action is required by '' @
     ''you''"

definition UPGRADE_DEFAULT_DELAY_DESC :: "string \<Rightarrow> string" where
  "UPGRADE_DEFAULT_DELAY_DESC v =
     ''Cluster upgrade to version '' @ v @ '' is experiencing a delay whilst it performs necessary pre-upgrade procedures. '' @
     ''The upgrade will continue to retry. This is an informational notification and '' @
     ''no action is required''"

definition UPGRADE_PREHEALTHCHECK_DELAY_DESC :: "string \<Rightarrow> string" where
  "UPGRADE_PREHEALTHCHECK_DELAY_DESC v =
     ''Cluster upgrade to version '' @ v @ '' is experiencing a delay as health alerts are firing in the cluster which could '' @
     ''impact the upgrade's operation. The upgrade will continue to retry. This is an '' @
     ''informational notification and no action is required by you''"

definition UPGRADE_EXTDEPCHECK_DELAY_DESC :: "string \<Rightarrow> string" where
  "UPGRADE_EXTDEPCHECK_DELAY_DESC v =
     ''Cluster upgrade to version '' @ v @ '' is experiencing a delay as an external dependency of the upgrade is currently '' @
     ''unavailable. The upgrade will continue to retry. This is an informational '' @
     ''notification and no action is required by you''"

definition UPGRADE_SCALE_DELAY_DESC :: "string \<Rightarrow> string" where
  "UPGRADE_SCALE_DELAY_DESC v =
     ''Cluster upgrade to version '' @ v @ '' is experiencing a delay attempting to scale up an additional worker node. The '' @
     ''upgrade will continue to retry. This is an informational notification and no '' @
     ''action is required by you''"

definition UPGRADE_SCALE_DELAY_SKIP_DESC :: "string \<Rightarrow> string" where
  "UPGRADE_SCALE_DELAY_SKIP_DESC v =
     ''Cluster upgrade to version '' @ v @ '' has experienced an issue during capacity reservation efforts. This could be '' @
     ''caused by cloud service provider quota limitations or temporary connectivity '' @
     ''issues to/from the new worker node. The upgrade will continue without extra '' @
     ''compute. This is an informational notification and no action is required by you''"

definition UPGRADE_HEALTHCHECK_DELAY_DESC :: "string \<Rightarrow> string \<Rightarrow> string" where
  "UPGRADE_HEALTHCHECK_DELAY_DESC v r =
     ''Cluster upgrade to version '' @ v @ '' may experience a delay as following healthcheck(s): '' @ r @ '' are failing for the cluster which could impact the upgrade's operation.''"

definition UPGRADE_PREHEALTHCHECK_WARNING_DESC :: "string \<Rightarrow> string \<Rightarrow> string" where
  "UPGRADE_PREHEALTHCHECK_WARNING_DESC v r =
     ''Cluster upgrade to version '' @ v @ '' has been scheduled for more than 2 hours, cluster pre-upgrade health check has '' @
     ''identified the following points which may impact the upgrade process: '' @ r @ ''. Please take actions to review and fix the issues before the upgrade begins to '' @
     ''have seamless upgrade experience''"

definition UPGRADE_CONTROL_PLANE_STARTED_DESC :: "string \<Rightarrow> string" where
  "UPGRADE_CONTROL_PLANE_STARTED_DESC v =
     ''Cluster upgrade to version '' @ v @ '' is starting with control and worker plane upgrade. This is an informational '' @
     ''notification and no action is required''"

definition UPGRADE_CONTROL_PLANE_FINISHED_DESC :: "string \<Rightarrow> string" where
  "UPGRADE_CONTROL_PLANE_FINISHED_DESC v =
     ''Cluster upgrade to version '' @ v @ '' has finished control plane upgrade. This is an informational notification and '' @
     ''no action is required''"

definition UPGRADE_WORKER_PLANE_FINISHED_DESC :: "string \<Rightarrow> string" where
  "UPGRADE_WORKER_PLANE_FINISHED_DESC v =
     ''Cluster upgrade to version '' @ v @ '' has finished worker plane upgrade. This is an informational notification and no '' @
     ''action is required.''"

text \<open>The first incomplete condition of the history of the desired version.\<close>

definition incomplete_condition :: "UpgradeConfig \<Rightarrow> UpgradeCondition option" where
  "incomplete_condition uc =
     (case GetHistory (History uc) (desired_version uc) of
        None \<Rightarrow> None
      | Some h \<Rightarrow> if length (HConditions h) = 0 then None else first_with IsFalse (HConditions h))"

definition createFailureDescription :: "UpgradeConfig \<Rightarrow> string" where
  "createFailureDescription uc =
     (let v = desired_version uc; description = UPGRADE_PRECHECK_FAILED_DESC v
      in case incomplete_condition uc of
           None \<Rightarrow> description
         | Some c \<Rightarrow>
             if CType c = IsClusterUpgradable_t then CMessage c
             else if CType c = UpgradePreHealthCheck_t then UPGRADE_PREHEALTHCHECK_FAILED_DESC v
             else if CType c = ExtDepAvailabilityCheck_t then UPGRADE_EXTDEPCHECK_FAILED_DESC v
             else if CType c = UpgradeScaleUpExtraNodes_t then UPGRADE_SCALE_FAILED_DESC v
             else description)"

definition createDelayedDescription :: "UpgradeConfig \<Rightarrow> string" where
  "createDelayedDescription uc =
     (let v = desired_version uc; description = UPGRADE_DEFAULT_DELAY_DESC v
      in case incomplete_condition uc of
           None \<Rightarrow> description
         | Some c \<Rightarrow>
             if CType c = UpgradePreHealthCheck_t then UPGRADE_PREHEALTHCHECK_DELAY_DESC v
             else if CType c = ExtDepAvailabilityCheck_t then UPGRADE_EXTDEPCHECK_DELAY_DESC v
             else if CType c = UpgradeScaleUpExtraNodes_t then UPGRADE_SCALE_DELAY_DESC v
             else description)"

section \<open>Operations\<close>

record 'w eventManager =
  em_rt :: "'w runtime"
  em_env :: environ
  em_uc :: "'w uc_api"
  em_metrics :: "'w Counter"
  em_NotifyState :: "MuoState \<Rightarrow> string \<Rightarrow> ('w, unit) op"

text \<open>The description of a state \<open>Notify\<close> knows.\<close>

fun notify_description :: "UpgradeConfig \<Rightarrow> MuoState \<Rightarrow> string option" where
  "notify_description uc MuoStateStarted =
     Some (''Cluster is currently being upgraded to version '' @ desired_version uc)"
| "notify_description uc MuoStateScaleSkipped = Some (UPGRADE_SCALE_SKIP_DESC (desired_version uc))"
| "notify_description uc MuoStateDelayed = Some (createDelayedDescription uc)"
| "notify_description uc MuoStateSkipped = Some (UPGRADE_SCALE_DELAY_SKIP_DESC (desired_version uc))"
| "notify_description uc MuoStateCompleted =
     Some (''Cluster has been successfully upgraded to version '' @ desired_version uc)"
| "notify_description uc MuoStateFailed = Some (createFailureDescription uc)"
| "notify_description uc MuoStateControlPlaneUpgradeStartedSL =
     Some (UPGRADE_CONTROL_PLANE_STARTED_DESC (desired_version uc))"
| "notify_description uc MuoStateControlPlaneUpgradeFinishedSL =
     Some (UPGRADE_CONTROL_PLANE_FINISHED_DESC (desired_version uc))"
| "notify_description uc MuoStateWorkerPlaneUpgradeFinishedSL =
     Some (UPGRADE_WORKER_PLANE_FINISHED_DESC (desired_version uc))"
| "notify_description uc _ = None"

fun result_description :: "UpgradeConfig \<Rightarrow> string \<Rightarrow> MuoState \<Rightarrow> string option" where
  "result_description uc r MuoStateHealthCheckSL = Some (UPGRADE_HEALTHCHECK_DELAY_DESC (desired_version uc) r)"
| "result_description uc r MuoStatePreHealthCheckSL =
     Some (UPGRADE_PREHEALTHCHECK_WARNING_DESC (desired_version uc) r)"
| "result_description uc r _ = None"

text \<open>
  What both methods do before and after the description: find the UpgradeConfig, ask
  Prometheus whether this event was sent, send it, and record the outcome with \<open>failed\<close> or
  \<open>sent\<close>.
\<close>

definition notify_with ::
    "'w eventManager \<Rightarrow> MuoState \<Rightarrow> (UpgradeConfig \<Rightarrow> string option) \<Rightarrow>
     (UpgradeConfig \<Rightarrow> 'w sys \<Rightarrow> 'w sys) \<Rightarrow> (UpgradeConfig \<Rightarrow> 'w sys \<Rightarrow> 'w sys) \<Rightarrow> ('w sys, unit) op" where
  "notify_with em state describe failed sent s =
     (case lift (ucm_Get (em_env em) (em_uc em)) s of
        (Panic, s) \<Rightarrow> (Panic, s)
      | (Err e, s) \<Rightarrow>
          if e = ErrUpgradeConfigNotFound then (Ok (), s)
          else (Err (Errorf (''unable to find UpgradeConfig: '' @ error_string (em_rt em) e)), s)
      | (Ok uc, s) \<Rightarrow>
          bindO (wrap_err (em_rt em) ''can't check cluster metric NotificationSent: ''
                   (lift (IsMetricNotificationEventSentSet (em_rt em) (em_metrics em) (ucName uc)
                            (toString state) (desired_version uc)) s)) (\<lambda>isNotified s.
            if isNotified then (Ok (), s)
            else
              case describe uc of
                None \<Rightarrow> (Err (Errorf (''state '' @ toString state @ '' not yet implemented'')), s)
              | Some description \<Rightarrow>
                  (case lift (em_NotifyState em state description) s of
                     (Panic, s) \<Rightarrow> (Panic, s)
                   | (Err e, s) \<Rightarrow>
                       (Err (Errorf (''can't send notification '' @ [CHR 0x27] @ toString state @ [CHR 0x27] @
                          '': '' @ error_string (em_rt em) e)), failed uc s)
                   | (Ok _, s) \<Rightarrow> (Ok (), sent uc s))))"

definition Notify :: "'w eventManager \<Rightarrow> MuoState \<Rightarrow> ('w sys, unit) op" where
  "Notify em state =
     notify_with em state (\<lambda>uc. notify_description uc state)
       (\<lambda>uc. UpdatemetricUpgradeNotificationFailed (ucName uc) (toString state))
       (\<lambda>uc s. UpdateMetricNotificationEventSent (ucName uc) (toString state) (desired_version uc)
                (UpdatemetricUpgradeNotificationSucceeded (ucName uc) (toString state) s))"

definition NotifyResult :: "'w eventManager \<Rightarrow> MuoState \<Rightarrow> string \<Rightarrow> ('w sys, unit) op" where
  "NotifyResult em state result =
     notify_with em state (\<lambda>uc. result_description uc result state)
       (\<lambda>uc s. s)
       (\<lambda>uc. UpdateMetricNotificationEventSent (ucName uc) (toString state) (desired_version uc))"

section \<open>Properties\<close>

lemma lift_gauges [simp]: "gauges (snd (lift f s)) = gauges s"
  by (simp add: lift_def split: prod.splits)

lemma wrap_err_state [simp]: "snd (wrap_err rt m r) = snd r"
  by (simp add: wrap_err_def split: prod.splits outcome.splits)

text \<open>What a notification leaves in the gauges, for any way of recording its outcome.\<close>

lemma notify_with_gauges:
  assumes "notify_with em st describe failed sent s = (r, s')"
  shows "gauges s' = gauges s \<or>
    (\<exists>uc d t. describe uc = Some d \<and> gauges t = gauges s \<and>
       ((\<exists>e. r = Err e \<and> s' = failed uc t) \<or> (r = Ok () \<and> s' = sent uc t)))"
proof -
  obtain g t1 where g: "lift (ucm_Get (em_env em) (em_uc em)) s = (g, t1)" by fastforce
  then have t1: "gauges t1 = gauges s" by (rule gauges_lift)
  show ?thesis
  proof (cases g)
    case (Ok uc)
    let ?q = "wrap_err (em_rt em) ''can't check cluster metric NotificationSent: ''
                (lift (IsMetricNotificationEventSentSet (em_rt em) (em_metrics em) (ucName uc) (toString st)
                         (desired_version uc)) t1)"
    obtain q t2 where q: "?q = (q, t2)" by fastforce
    have t2: "gauges t2 = gauges s"
      using arg_cong [OF q, of "\<lambda>x. gauges (snd x)"] t1 by simp
    show ?thesis
    proof (cases "q = Ok False \<and> describe uc \<noteq> None")
      case True
      then obtain d where d: "describe uc = Some d" by auto
      obtain n t3 where n: "lift (em_NotifyState em st d) t2 = (n, t3)" by fastforce
      then have t3: "gauges t3 = gauges s" using gauges_lift [OF n] t2 by simp
      have run: "notify_with em st describe failed sent s =
          (case n of
             Panic \<Rightarrow> (Panic, t3)
           | Err e \<Rightarrow> (Err (Errorf (''can't send notification '' @ [CHR 0x27] @ toString st @ [CHR 0x27] @
                         '': '' @ error_string (em_rt em) e)), failed uc t3)
           | Ok _ \<Rightarrow> (Ok (), sent uc t3))"
        using g q True d n Ok by (cases n) (simp_all add: notify_with_def)
      show ?thesis
      proof (cases n)
        case (Ok x)
        then have "r = Ok () \<and> s' = sent uc t3" using run assms(1) by simp
        with d t3 show ?thesis by blast
      next
        case (Err e)
        then have "(\<exists>e. r = Err e) \<and> s' = failed uc t3" using run assms(1) by auto
        with d t3 show ?thesis by blast
      next
        case Panic
        then show ?thesis using run assms(1) t3 by simp
      qed
    next
      case False
      then show ?thesis
        using assms(1) g q t2 Ok by (cases q) (auto simp: notify_with_def split: if_splits option.splits)
    qed
  qed (use assms(1) g t1 in \<open>auto simp: notify_with_def split: if_splits\<close>)
qed

text \<open>
  \<open>Notify\<close> changes the gauges only when it has tried to send: after a successful send the event is
  marked sent and not failed, after a failed send it is marked failed and the error is returned; on
  every other path (no UpgradeConfig, already sent, state not known, Prometheus down) no gauge changes.
\<close>

theorem Notify_gauges:
  assumes "Notify em st s = (r, s')"
  shows "gauges s' = gauges s \<or>
    (\<exists>uc. notify_description uc st \<noteq> None \<and>
       (let failed = [ucName uc, toString st]; sent = [ucName uc, toString st, desired_version uc]
        in (\<exists>e. r = Err e \<and> gauges s' MUpgradeNotificationFailed failed = Some 1 \<and>
              (\<forall>m ls. (m, ls) \<noteq> (MUpgradeNotificationFailed, failed) \<longrightarrow> gauges s' m ls = gauges s m ls)) \<or>
           (r = Ok () \<and> gauges s' MUpgradeNotification sent = Some 1 \<and>
              gauges s' MUpgradeNotificationFailed failed = Some 0 \<and>
              (\<forall>m ls. (m, ls) \<noteq> (MUpgradeNotificationFailed, failed) \<longrightarrow> (m, ls) \<noteq> (MUpgradeNotification, sent) \<longrightarrow>
                 gauges s' m ls = gauges s m ls))))"
  using notify_with_gauges [OF assms [unfolded Notify_def]]
  by (fastforce simp: gauge_update_defs Let_def)

text \<open>An event manager that finds \<open>sample_uc\<close>, was never asked to notify, and whose notifier succeeds.\<close>

definition sample_em :: "nat eventManager" where
  "sample_em =
     \<lparr>em_rt = n_rt sample_ne, em_env = n_env sample_ne, em_uc = n_uc sample_ne,
      em_metrics = \<lparr>promTarget = ''prometheus'', request_error = (\<lambda>_. None),
                    prom_do = (\<lambda>_ _ s. (Inr (HttpBody []), s)), json_alerts = (\<lambda>_. Inr [])\<rparr>,
      em_NotifyState = (\<lambda>_ _ s. (Ok (), Suc s))\<rparr>"

definition no_gauges :: "'w \<Rightarrow> 'w sys" where
  "no_gauges w = \<lparr>gauges = (\<lambda>_. Map.empty), ext = w\<rparr>"

theorem Notify_gauges_witness:
  "let (r, s') = Notify sample_em MuoStateStarted (no_gauges 0)
   in r = Ok () \<and> ext s' = 1 \<and> gauges s' \<noteq> gauges (no_gauges (0::nat)) \<and>
      (\<exists>n v. gauges s' MUpgradeNotification [n, ''StateStarted'', v] = Some 1)"
proof -
  define s' where "s' = snd (Notify sample_em MuoStateStarted (no_gauges 0))"
  have r: "Notify sample_em MuoStateStarted (no_gauges 0) = (Ok (), s')" "ext s' = 1"
      "gauges s' MUpgradeNotification [ucName sample_uc, ''StateStarted'', desired_version sample_uc] = Some 1"
    by (simp_all add: s'_def Notify_def notify_with_def sample_em_def sample_ne_def no_gauges_def lift_def env_eval
        IsMetricNotificationEventSentSet_def Query_def gauge_update_defs)
  have "gauges s' \<noteq> gauges (no_gauges (0::nat))"
    using r(3) by (auto simp: no_gauges_def)
  with Notify_gauges [OF r(1)] show ?thesis
    using r(1,2) by (auto simp: Let_def)
qed

end
