(* ===== verification/Machinery.thy ===== *)
theory Machinery
  imports Event_Manager
begin

text \<open>
  Nodes and machine config pools (\<open>pkg/machinery\<close>) and pods (\<open>pkg/pod\<close>). The Kubernetes API is
  the parameter \<open>node_api\<close>. Pod predicates may panic, because one of them compiles a regular
  expression.
\<close>

section \<open>Nodes and pools\<close>

record Taint =
  taintKey :: string
  taintEffect :: string
  taintTimeAdded :: "instant option"

record Node =
  nodeName :: string
  nodeLabels :: "string \<rightharpoonup> string"
  nodeAnnotations :: "string \<rightharpoonup> string"
  nodeUnschedulable :: bool
  nodeTaints :: "Taint list"
  nodeConditions :: "(string \<times> ConditionStatus) list"
  nodeDeletionTimestamp :: "instant option"

record MachineConfigPool =
  mcpName :: string
  mcpMachineCount :: int
  mcpUpdatedMachineCount :: int

record UpgradingResult =
  IsUpgrading :: bool
  UpdatedCount :: int
  MachineCount :: int

record IsCordonedResult =
  IsCordoned :: bool
  AddedAt :: "instant option"

definition mcp_IsUpgrading ::
    "(string \<Rightarrow> ('s, MachineConfigPool) ext_op) \<Rightarrow> string \<Rightarrow> ('s, UpgradingResult) op" where
  "mcp_IsUpgrading get_mcp nodeType s =
     bindO (call (get_mcp nodeType) s) (\<lambda>p s.
       (Ok \<lparr>IsUpgrading = (mcpMachineCount p \<noteq> mcpUpdatedMachineCount p),
            UpdatedCount = mcpUpdatedMachineCount p, MachineCount = mcpMachineCount p\<rparr>, s))"

text \<open>The last unschedulable taint with effect \<open>NoSchedule\<close> gives the time.\<close>

definition IsNodeCordoned :: "Node \<Rightarrow> IsCordonedResult" where
  "IsNodeCordoned node =
     (if nodeUnschedulable node \<and> length (nodeTaints node) > 0
      then fold (\<lambda>n r. if taintEffect n = ''NoSchedule'' \<and> taintKey n = ''node.kubernetes.io/unschedulable''
                       then \<lparr>IsCordoned = True, AddedAt = taintTimeAdded n\<rparr> else r)
             (nodeTaints node) \<lparr>IsCordoned = False, AddedAt = None\<rparr>
      else \<lparr>IsCordoned = False, AddedAt = None\<rparr>)"

definition IsNodeUpgrading :: "Node \<Rightarrow> bool" where
  "IsNodeUpgrading node \<longleftrightarrow>
     nodeAnnotations node ''machineconfiguration.openshift.io/state'' = Some ''Working''"

fun has_taint :: "string \<Rightarrow> Taint list \<Rightarrow> bool" where
  "has_taint k [] = False"
| "has_taint k (n # ns) = (if taintEffect n = ''NoSchedule'' \<and> taintKey n = k then True else has_taint k ns)"

definition HasMemoryPressure :: "Node \<Rightarrow> bool" where
  "HasMemoryPressure node =
     (if length (nodeTaints node) > 0 then has_taint ''node.kubernetes.io/memory-pressure'' (nodeTaints node) else False)"

definition HasDiskPressure :: "Node \<Rightarrow> bool" where
  "HasDiskPressure node =
     (if length (nodeTaints node) > 0 then has_taint ''node.kubernetes.io/disk-pressure'' (nodeTaints node) else False)"

definition HasPidPressure :: "Node \<Rightarrow> bool" where
  "HasPidPressure node =
     (if length (nodeTaints node) > 0 then has_taint ''node.kubernetes.io/pid-pressure'' (nodeTaints node) else False)"

lemma cordon_loop:
  "IsCordoned (fold (\<lambda>n r. if P n then \<lparr>IsCordoned = True, AddedAt = f n\<rparr> else r) ts r0) \<longleftrightarrow>
     IsCordoned r0 \<or> (\<exists>t \<in> set ts. P t)"
  by (induction ts arbitrary: r0) auto

lemma IsNodeCordoned_iff:
  "IsCordoned (IsNodeCordoned node) \<longleftrightarrow>
     nodeUnschedulable node \<and>
     (\<exists>t \<in> set (nodeTaints node). taintEffect t = ''NoSchedule'' \<and> taintKey t = ''node.kubernetes.io/unschedulable'')"
  by (auto simp: IsNodeCordoned_def cordon_loop)

lemma cordon_loop_AddedAt:
  "AddedAt (fold (\<lambda>n r. if P n then \<lparr>IsCordoned = True, AddedAt = f n\<rparr> else r) ts r0) = Some t \<Longrightarrow>
   AddedAt r0 = None \<Longrightarrow>
   IsCordoned (fold (\<lambda>n r. if P n then \<lparr>IsCordoned = True, AddedAt = f n\<rparr> else r) ts r0)"
proof (induction ts arbitrary: r0)
  case (Cons t ts)
  then show ?case by (cases "P t") (auto simp: cordon_loop)
qed simp

lemma IsNodeCordoned_AddedAt: "AddedAt (IsNodeCordoned node) \<noteq> None \<Longrightarrow> IsCordoned (IsNodeCordoned node)"
  by (auto simp: IsNodeCordoned_def intro: cordon_loop_AddedAt split: if_splits)

section \<open>Pods\<close>

record Pod =
  podName :: string
  podNamespace :: string
  podNodeName :: string
  podOwnerKinds :: "string list"
  podLabels :: "string \<rightharpoonup> string"
  podFinalizers :: "string list"
  podDeletionTimestamp :: "instant option"

type_synonym PodPredicate = "Pod \<Rightarrow> bool outcome"

record 's pod_api =
  parse_selector :: "string \<Rightarrow> goerr option"
  list_pods :: "string \<Rightarrow> ('s, Pod list) ext_op"
  delete_pod :: "Pod \<Rightarrow> ('s, unit) ext_op"
  update_pod :: "Pod \<Rightarrow> ('s, unit) ext_op"

fun matches :: "PodPredicate list \<Rightarrow> PodPredicate" where
  "matches [] p = Ok True"
| "matches (q # qs) p = (case q p of Ok True \<Rightarrow> matches qs p | r \<Rightarrow> r)"

fun FilterPods :: "PodPredicate list \<Rightarrow> Pod list \<Rightarrow> Pod list outcome" where
  "FilterPods qs [] = Ok []"
| "FilterPods qs (p # ps) =
     (case matches qs p of
        Ok b \<Rightarrow> (case FilterPods qs ps of Ok rest \<Rightarrow> Ok (if b then p # rest else rest) | r \<Rightarrow> r)
      | Err e \<Rightarrow> Err e
      | Panic \<Rightarrow> Panic)"

text \<open>
  \<open>DeletePods\<close> goes on after a failed delete and returns the errors, the newest first; the
  result is the names marked for deletion.
\<close>

fun delete_loop ::
    "'s pod_api \<Rightarrow> bool \<Rightarrow> Pod list \<Rightarrow> string list \<Rightarrow> goerr list \<Rightarrow> 's \<Rightarrow> (string list \<times> goerr list) \<times> 's" where
  "delete_loop api ign [] marked me s = ((marked, me), s)"
| "delete_loop api ign (p # ps) marked me s =
     (if \<not> ign \<or> podDeletionTimestamp p = None
      then case delete_pod api p s of
             (Inl e, s) \<Rightarrow> delete_loop api ign ps marked (e # me) s
           | (Inr _, s) \<Rightarrow> delete_loop api ign ps (marked @ [podName p]) me s
      else delete_loop api ign ps marked me s)"

record DeleteResult =
  drMessage :: string
  NumMarkedForDeletion :: nat

definition DeletePods :: "'s pod_api \<Rightarrow> Pod list \<Rightarrow> bool \<Rightarrow> ('s, DeleteResult) op" where
  "DeletePods api pl ignoreAlreadyDeleting s =
     (let ((marked, me), s) = delete_loop api ignoreAlreadyDeleting pl [] [] s
      in case ErrorOrNil me of
           Some e \<Rightarrow> (Err e, s)
         | None \<Rightarrow> (Ok \<lparr>drMessage = ''Pod(s) '' @ Join marked '','' @ '' have been marked for deletion'',
                        NumMarkedForDeletion = length marked\<rparr>, s))"

fun finalizer_loop ::
    "'s pod_api \<Rightarrow> Pod list \<Rightarrow> string list \<Rightarrow> goerr list \<Rightarrow> 's \<Rightarrow> (string list \<times> goerr list) \<times> 's" where
  "finalizer_loop api [] removed me s = ((removed, me), s)"
| "finalizer_loop api (p # ps) removed me s =
     (if length (podFinalizers p) \<noteq> 0
      then case update_pod api (p\<lparr>podFinalizers := []\<rparr>) s of
             (Inl e, s) \<Rightarrow> finalizer_loop api ps removed (e # me) s
           | (Inr _, s) \<Rightarrow> finalizer_loop api ps (removed @ [podName p]) me s
      else finalizer_loop api ps removed me s)"

record RemoveFinalizersResult =
  rfMessage :: string
  NumRemoved :: nat

definition RemoveFinalizersFromPod :: "'s pod_api \<Rightarrow> Pod list \<Rightarrow> ('s, RemoveFinalizersResult) op" where
  "RemoveFinalizersFromPod api pl s =
     (let ((removed, me), s) = finalizer_loop api pl [] [] s
      in case ErrorOrNil me of
           Some e \<Rightarrow> (Err e, s)
         | None \<Rightarrow> (Ok \<lparr>rfMessage = ''Finalizers removed for pods: '' @ Join removed '','',
                        NumRemoved = length removed\<rparr>, s))"

definition GetPodList :: "'s pod_api \<Rightarrow> Node \<Rightarrow> PodPredicate list \<Rightarrow> ('s, Pod list) op" where
  "GetPodList api n filters s =
     (case parse_selector api (''spec.nodeName='' @ nodeName n) of
        Some e \<Rightarrow> (Err e, s)
      | None \<Rightarrow> bindO (call (list_pods api (''spec.nodeName='' @ nodeName n)) s)
                 (\<lambda>ps s. (FilterPods filters ps, s)))"

lemma matches_Ok_True: "matches qs p = Ok True \<longleftrightarrow> (\<forall>q \<in> set qs. q p = Ok True)"
  by (induction qs) (auto split: outcome.splits bool.splits)

lemma FilterPods_Ok: "FilterPods qs ps = Ok rs \<Longrightarrow> rs = filter (\<lambda>p. matches qs p = Ok True) ps"
  by (induction ps arbitrary: rs) (auto split: outcome.splits)

lemma FilterPods_sound:
  "FilterPods qs ps = Ok rs \<Longrightarrow> p \<in> set rs \<Longrightarrow> p \<in> set ps \<and> (\<forall>q \<in> set qs. q p = Ok True)"
  by (auto dest!: FilterPods_Ok simp: matches_Ok_True)

end
