(* ===== verification/Drain.thy ===== *)
theory Drain
  imports Machinery
begin

text \<open>
  Draining a node (\<open>pkg/drain\<close>): the pod predicates, the three strategies, the timed
  strategies of a node, and when a drain has failed. Regular expressions (\<open>regexp\<close>) are the
  parameter \<open>regex\<close>: \<open>None\<close> when the pattern does not compile, for which \<open>MustCompile\<close> panics.
\<close>

section \<open>Pod predicates\<close>

datatype IntOrString = IntVal int | StrVal string

record PodDisruptionBudget =
  pdbName :: string
  pdbNamespace :: string
  pdbMatchLabels :: "(string \<times> string) list option"
  pdbMaxUnavailable :: "IntOrString option"
  pdbMinAvailable :: "IntOrString option"

definition containsMatchLabel :: "Pod \<Rightarrow> PodDisruptionBudget list \<Rightarrow> bool" where
  "containsMatchLabel p pdbs =
     fold (\<lambda>pdb found.
       case pdbMatchLabels pdb of
         None \<Rightarrow> found
       | Some mls \<Rightarrow> if list_ex (\<lambda>(k, v). podLabels p k = Some v) mls then True else found) pdbs False"

definition isPdbPod :: "PodDisruptionBudget list \<Rightarrow> PodPredicate" where
  "isPdbPod pdbs p = Ok (containsMatchLabel p pdbs)"

definition isNotPdbPod :: "PodDisruptionBudget list \<Rightarrow> PodPredicate" where
  "isNotPdbPod pdbs p = Ok (\<not> containsMatchLabel p pdbs)"

definition isOnNode :: "Node \<Rightarrow> PodPredicate" where
  "isOnNode n p = Ok (podNodeName p = nodeName n)"

definition isDaemonSet :: "Pod \<Rightarrow> bool" where
  "isDaemonSet p =
     (if length (podOwnerKinds p) > 0
      then fold (\<lambda>kind d. if kind = ''DaemonSet'' then True else d) (podOwnerKinds p) False
      else False)"

definition isNotDaemonSet :: PodPredicate where
  "isNotDaemonSet p = Ok (\<not> isDaemonSet p)"

definition hasFinalizers :: PodPredicate where
  "hasFinalizers p = Ok (length (podFinalizers p) > 0)"

definition hasNoFinalizers :: PodPredicate where
  "hasNoFinalizers p = Ok (length (podFinalizers p) = 0)"

definition isTerminating :: PodPredicate where
  "isTerminating p = Ok (podDeletionTimestamp p \<noteq> None)"

type_synonym regex_lib = "string \<Rightarrow> (string \<Rightarrow> bool) option"

text \<open>Despite its name in the source, it is true for a namespace that no pattern matches.\<close>

fun containsIgnoredNamespace :: "regex_lib \<Rightarrow> Pod \<Rightarrow> string list \<Rightarrow> bool outcome" where
  "containsIgnoredNamespace regex p [] = Ok True"
| "containsIgnoredNamespace regex p (pat # pats) =
     (case regex pat of
        None \<Rightarrow> Panic
      | Some match \<Rightarrow> if match (podNamespace p) then Ok False else containsIgnoredNamespace regex p pats)"

definition isAllowedNamespace :: "regex_lib \<Rightarrow> string list \<Rightarrow> PodPredicate" where
  "isAllowedNamespace regex pats p = containsIgnoredNamespace regex p pats"

section \<open>Strategies\<close>

record DrainStrategyResult =
  dsMessage :: string
  HasExecuted :: bool

definition delete_result :: "DeleteResult \<Rightarrow> DrainStrategyResult" where
  "delete_result r = \<lparr>dsMessage = drMessage r, HasExecuted = NumMarkedForDeletion r > 0\<rparr>"

definition podDeletion_Execute :: "'s pod_api \<Rightarrow> PodPredicate list \<Rightarrow> Node \<Rightarrow> ('s, DrainStrategyResult) op" where
  "podDeletion_Execute api filters node s =
     bindO (GetPodList api node (isOnNode node # filters) s) (\<lambda>pods s.
     bindO (DeletePods api pods True s) (\<lambda>r s. (Ok (delete_result r), s)))"

definition podDeletion_IsValid :: "'s pod_api \<Rightarrow> PodPredicate list \<Rightarrow> Node \<Rightarrow> ('s, bool) op" where
  "podDeletion_IsValid api filters node s =
     bindO (GetPodList api node (isOnNode node # filters) s) (\<lambda>pods s. (Ok (length pods > 0), s))"

definition removeFinalizers_Execute :: "'s pod_api \<Rightarrow> PodPredicate list \<Rightarrow> Node \<Rightarrow> ('s, DrainStrategyResult) op" where
  "removeFinalizers_Execute api filters node s =
     bindO (GetPodList api node ([isOnNode node, hasFinalizers] @ filters) s) (\<lambda>pods s.
     bindO (RemoveFinalizersFromPod api pods s) (\<lambda>r s.
       (Ok \<lparr>dsMessage = rfMessage r, HasExecuted = NumRemoved r > 0\<rparr>, s)))"

definition removeFinalizers_IsValid :: "'s pod_api \<Rightarrow> PodPredicate list \<Rightarrow> Node \<Rightarrow> ('s, bool) op" where
  "removeFinalizers_IsValid api filters node s =
     bindO (GetPodList api node ([isOnNode node, hasFinalizers] @ filters) s)
       (\<lambda>pods s. (Ok (length pods > 0), s))"

definition stuckTerminating_Execute :: "'s pod_api \<Rightarrow> PodPredicate list \<Rightarrow> Node \<Rightarrow> ('s, DrainStrategyResult) op" where
  "stuckTerminating_Execute api filters node s =
     bindO (GetPodList api node ([isOnNode node, hasNoFinalizers, isTerminating] @ filters) s) (\<lambda>pods s.
     bindO (DeletePods api pods False s) (\<lambda>r s. (Ok (delete_result r), s)))"

definition stuckTerminating_IsValid :: "'s pod_api \<Rightarrow> PodPredicate list \<Rightarrow> Node \<Rightarrow> ('s, bool) op" where
  "stuckTerminating_IsValid api filters node s =
     bindO (GetPodList api node ([isOnNode node, hasNoFinalizers, isTerminating] @ filters) s)
       (\<lambda>pods s. (Ok (length pods > 0), s))"

text \<open>The implementations of \<open>DrainStrategy\<close>, and the dispatch on them.\<close>

datatype DrainStrategy =
    podDeletionStrategy "PodPredicate list"
  | removeFinalizersStrategy "PodPredicate list"
  | stuckTerminatingStrategy "PodPredicate list"

fun strategy_Execute :: "'s pod_api \<Rightarrow> DrainStrategy \<Rightarrow> Node \<Rightarrow> ('s, DrainStrategyResult) op" where
  "strategy_Execute api (podDeletionStrategy fs) = podDeletion_Execute api fs"
| "strategy_Execute api (removeFinalizersStrategy fs) = removeFinalizers_Execute api fs"
| "strategy_Execute api (stuckTerminatingStrategy fs) = stuckTerminating_Execute api fs"

fun strategy_IsValid :: "'s pod_api \<Rightarrow> DrainStrategy \<Rightarrow> Node \<Rightarrow> ('s, bool) op" where
  "strategy_IsValid api (podDeletionStrategy fs) = podDeletion_IsValid api fs"
| "strategy_IsValid api (removeFinalizersStrategy fs) = removeFinalizers_IsValid api fs"
| "strategy_IsValid api (stuckTerminatingStrategy fs) = stuckTerminating_IsValid api fs"

section \<open>Timed strategies\<close>

record NodeDrain =
  DisableDrainStrategies :: bool
  Timeout :: int
  ExpectedNodeDrainTime :: int
  IgnoredNamespacePatterns :: "string list"

definition GetTimeOutDuration :: "NodeDrain \<Rightarrow> duration" where
  "GetTimeOutDuration nd = minutes (Timeout nd)"

definition GetExpectedDrainDuration :: "NodeDrain \<Rightarrow> duration" where
  "GetExpectedDrainDuration nd = minutes (ExpectedNodeDrainTime nd)"

record timedStrategy =
  tsName :: string
  tsDescription :: string
  waitDuration :: duration
  tsStrategy :: DrainStrategy

definition newTimedStrategy :: "string \<Rightarrow> string \<Rightarrow> duration \<Rightarrow> DrainStrategy \<Rightarrow> timedStrategy" where
  "newTimedStrategy n d w st = \<lparr>tsName = n, tsDescription = d, waitDuration = w, tsStrategy = st\<rparr>"

definition isAfter :: "'s runtime \<Rightarrow> instant option \<Rightarrow> duration \<Rightarrow> 's \<Rightarrow> bool \<times> 's" where
  "isAfter rt t d s =
     (case t of None \<Rightarrow> (False, s)
      | Some t \<Rightarrow> let (now, s) = time_now rt s in (t + d < now, s))"

text \<open>
  \<open>sort.Slice\<close> on at most twelve elements is insertion sort: \<open>less\<close> is asked about positions.
  The \<open>less\<close> that \<open>sortDuration\<close> passes looks the positions up in the unsorted argument, not in
  the slice being sorted.
\<close>

fun sift :: "(nat \<Rightarrow> nat \<Rightarrow> bool) \<Rightarrow> nat \<Rightarrow> 'a list \<Rightarrow> 'a list" where
  "sift lt 0 xs = xs"
| "sift lt (Suc j) xs =
     (if lt (Suc j) j then sift lt j (xs[Suc j := xs ! j, j := xs ! Suc j]) else xs)"

definition insertion_sort :: "(nat \<Rightarrow> nat \<Rightarrow> bool) \<Rightarrow> 'a list \<Rightarrow> 'a list" where
  "insertion_sort lt xs = fold (sift lt) [1 ..< length xs] xs"

definition sortDuration :: "timedStrategy list \<Rightarrow> timedStrategy list" where
  "sortDuration ts = insertion_sort (\<lambda>i j. waitDuration (ts ! i) < waitDuration (ts ! j)) ts"

record 'w osdDrainStrategy =
  ds_rt :: "'w runtime"
  ds_pods :: "'w pod_api"
  ds_cfg :: NodeDrain
  timedDrainStrategies :: "timedStrategy list"
  ds_uc :: UpgradeConfig
  ds_NotifyState :: "MuoState \<Rightarrow> string \<Rightarrow> ('w, unit) op"
  ds_metrics :: "'w Counter"

definition pdbPodDeleteName :: string where
  "pdbPodDeleteName = ''PDB-DELETE''"

text \<open>
  An entry of the result list: the strategy, the node, the start of the drain, the expected
  time and the strategy's message, which the source renders into one text.
\<close>

type_synonym executed = "string \<times> string \<times> instant \<times> instant \<times> string"

text \<open>The notification after a PDB delete: at most one per upgrade.\<close>

definition notify_pdb_delay :: "'w osdDrainStrategy \<Rightarrow> ('w sys, unit) op" where
  "notify_pdb_delay ds s =
     (let n = ucName (ds_uc ds); v = desired_version (ds_uc ds); st = toString MuoStateDelayed
      in bindO (wrap_err (ds_rt ds) ''can't check cluster metric NotificationSent: ''
                  (lift (IsMetricNotificationEventSentSet (ds_rt ds) (ds_metrics ds) n st v) s)) (\<lambda>isNotified s.
           if isNotified then (Ok (), s)
           else bindO (lift (ds_NotifyState ds MuoStateDelayed
                  (''Node drain grace period might be impacting cluster upgrade. '' @
                   ''Please refer to the article for further details https://access.redhat.com/solutions/7075425'')) s)
                  (\<lambda>_ s. (Ok (), UpdateMetricNotificationEventSent n st v s))))"

fun execute_loop ::
    "'w osdDrainStrategy \<Rightarrow> Node \<Rightarrow> instant \<Rightarrow> timedStrategy list \<Rightarrow> ('w sys, executed list) op" where
  "execute_loop ds node addedAt [] s = (Ok [], s)"
| "execute_loop ds node addedAt (tds # rest) s =
     (case lift (isAfter (ds_rt ds) (Some addedAt) (waitDuration tds)) s of
        (False, s) \<Rightarrow> execute_loop ds node addedAt rest s
      | (True, s) \<Rightarrow>
          bindO (lift (strategy_Execute (ds_pods ds) (tsStrategy tds) node) s) (\<lambda>r s.
            if HasExecuted r then
              bindO (if tsName tds = pdbPodDeleteName then notify_pdb_delay ds s else (Ok (), s)) (\<lambda>_ s.
              bindO (execute_loop ds node addedAt rest s) (\<lambda>res s.
                (Ok ((tsName tds, nodeName node, addedAt, addedAt + waitDuration tds, dsMessage r) # res), s)))
            else execute_loop ds node addedAt rest s))"

definition drain_Execute :: "'w osdDrainStrategy \<Rightarrow> Node \<Rightarrow> ('w sys, executed list) op" where
  "drain_Execute ds node s =
     (let result = IsNodeCordoned node
      in if IsCordoned result then
           (case AddedAt result of
              None \<Rightarrow> (Err (Errorf (''cannot determine drain commencement time for node '' @ nodeName node)), s)
            | Some t \<Rightarrow> execute_loop ds node t (timedDrainStrategies ds) s)
         else (Ok [], s))"

fun executed_loop ::
    "'s runtime \<Rightarrow> instant \<Rightarrow> timedStrategy list \<Rightarrow> 's \<Rightarrow> timedStrategy list \<times> 's" where
  "executed_loop rt addedAt [] s = ([], s)"
| "executed_loop rt addedAt (t # ts) s =
     (let (after, s) = isAfter rt (Some addedAt) (waitDuration t) s;
          (rest, s) = executed_loop rt addedAt ts s
      in (if after then t # rest else rest, s))"

fun valid_loop :: "'s pod_api \<Rightarrow> Node \<Rightarrow> timedStrategy list \<Rightarrow> ('s, timedStrategy list) op" where
  "valid_loop api node [] s = (Ok [], s)"
| "valid_loop api node (t # ts) s =
     bindO (strategy_IsValid api (tsStrategy t) node s) (\<lambda>v s.
     bindO (valid_loop api node ts s) (\<lambda>rest s. (Ok (if v then t # rest else rest), s)))"

definition drain_HasFailed :: "'w osdDrainStrategy \<Rightarrow> Node \<Rightarrow> ('w, bool) op" where
  "drain_HasFailed ds node s =
     (let addedAt = AddedAt (IsNodeCordoned node); cfg = ds_cfg ds; rt = ds_rt ds
      in case addedAt of
           None \<Rightarrow> (Ok False, s)
         | Some t \<Rightarrow>
             if length (timedDrainStrategies ds) = 0
             then (let (b, s) = isAfter rt addedAt (GetTimeOutDuration cfg) s in (Ok b, s))
             else
               let sorted = sortDuration (timedDrainStrategies ds);
                   (executed, s) = executed_loop rt t sorted s
               in bindO (valid_loop (ds_pods ds) node (drop (length executed) sorted) s) (\<lambda>validPending s.
                    if length validPending > 0 then (Ok False, s)
                    else
                      let wait = (if length executed > 0
                                  then wrap64 (waitDuration (last executed) + GetExpectedDrainDuration cfg)
                                  else 0)
                      in if length executed > 0 \<and> wait > GetTimeOutDuration cfg
                         then (let (b, s) = isAfter rt addedAt wait s in (Ok b, s))
                         else (let (b, s) = isAfter rt addedAt (GetTimeOutDuration cfg) s in (Ok b, s))))"

section \<open>The builder\<close>

text \<open>
  The five strategies of \<open>NewNodeDrainStrategy\<close>. Their notifier and metrics client come from
  the builders of those components, which are arguments here.
\<close>

definition osd_strategies ::
    "regex_lib \<Rightarrow> PodDisruptionBudget list \<Rightarrow> UpgradeConfig \<Rightarrow> NodeDrain \<Rightarrow> timedStrategy list" where
  "osd_strategies regex pdbs uc cfg =
     (let allowed = isAllowedNamespace regex (IgnoredNamespacePatterns cfg);
          defaultDuration = GetTimeOutDuration cfg;
          pdbDuration = wrap64 (GetPDBDrainTimeoutDuration uc + GetExpectedDrainDuration cfg);
          notPdb = [isNotDaemonSet, isNotPdbPod pdbs, allowed];
          pdb = [isNotDaemonSet, isPdbPod pdbs, allowed]
      in [newTimedStrategy ''DELETE'' ''Default pod deletion'' defaultDuration (podDeletionStrategy notPdb),
          newTimedStrategy ''DEFAULT-FINALIZER'' ''Default pod finalizer removal'' defaultDuration
            (removeFinalizersStrategy notPdb),
          newTimedStrategy ''POD-STUCK-TERMINATING'' ''Pod stuck terminating removal'' defaultDuration
            (stuckTerminatingStrategy notPdb),
          newTimedStrategy pdbPodDeleteName ''PDB pod deletion'' pdbDuration (podDeletionStrategy pdb),
          newTimedStrategy ''PDB-FINALIZER'' ''PDB Pod finalizer removal'' pdbDuration
            (removeFinalizersStrategy pdb)])"

record 'w drain_env =
  de_rt :: "'w runtime"
  de_pods :: "'w pod_api"
  de_regex :: regex_lib
  list_pdbs :: "('w, PodDisruptionBudget list) ext_op"
  new_notifier :: "('w, MuoState \<Rightarrow> string \<Rightarrow> ('w, unit) op) op"
  new_metrics :: "('w, 'w Counter) op"

definition new_strategy ::
    "'w drain_env \<Rightarrow> timedStrategy list \<Rightarrow> UpgradeConfig \<Rightarrow> NodeDrain \<Rightarrow> ('w, 'w osdDrainStrategy) op" where
  "new_strategy de ts uc cfg s =
     bindO (new_notifier de s) (\<lambda>notify s.
     bindO (new_metrics de s) (\<lambda>m s.
       (Ok \<lparr>ds_rt = de_rt de, ds_pods = de_pods de, ds_cfg = cfg, timedDrainStrategies = ts, ds_uc = uc,
            ds_NotifyState = notify, ds_metrics = m\<rparr>, s)))"

definition NewNodeDrainStrategy ::
    "'w drain_env \<Rightarrow> UpgradeConfig \<Rightarrow> NodeDrain \<Rightarrow> ('w, 'w osdDrainStrategy) op" where
  "NewNodeDrainStrategy de uc cfg s =
     (case list_pdbs de s of
        (Inr pdbs, s) \<Rightarrow> new_strategy de (osd_strategies (de_regex de) pdbs uc cfg) uc cfg s
      | (Inl e, s) \<Rightarrow>
          if IsNotFound e then new_strategy de (osd_strategies (de_regex de) [] uc cfg) uc cfg s
          else (Err e, s))"

definition NewDefaultNodeDrainStrategy ::
    "'w drain_env \<Rightarrow> UpgradeConfig \<Rightarrow> NodeDrain \<Rightarrow> ('w, 'w osdDrainStrategy) op" where
  "NewDefaultNodeDrainStrategy de uc cfg = new_strategy de [] uc cfg"

section \<open>What a strategy may touch\<close>

text \<open>
  A property of the world that survives listing pods, and deleting or stripping the
  finalizers of the pods in \<open>tgt\<close>.
\<close>

definition pod_safe :: "'s pod_api \<Rightarrow> ('s \<Rightarrow> bool) \<Rightarrow> (Pod \<Rightarrow> bool) \<Rightarrow> bool" where
  "pod_safe api I tgt \<longleftrightarrow>
     (\<forall>sel s. I s \<longrightarrow> I (snd (list_pods api sel s))) \<and>
     (\<forall>p s. tgt p \<longrightarrow> I s \<longrightarrow> I (snd (delete_pod api p s)) \<and>
                              I (snd (update_pod api (p\<lparr>podFinalizers := []\<rparr>) s)))"

lemma pod_safe_mono: "pod_safe api I tgt \<Longrightarrow> (\<And>p. tgt' p \<Longrightarrow> tgt p) \<Longrightarrow> pod_safe api I tgt'"
  by (auto simp: pod_safe_def)

lemma delete_loop_safe:
  "pod_safe api I tgt \<Longrightarrow> (\<And>p. p \<in> set ps \<Longrightarrow> tgt p) \<Longrightarrow> I s \<Longrightarrow>
   I (snd (delete_loop api ign ps marked me s))"
  by (induction api ign ps marked me s rule: delete_loop.induct)
     (auto simp: pod_safe_def split: prod.splits sum.splits, (metis snd_conv)+)

lemma finalizer_loop_safe:
  "pod_safe api I tgt \<Longrightarrow> (\<And>p. p \<in> set ps \<Longrightarrow> tgt p) \<Longrightarrow> I s \<Longrightarrow>
   I (snd (finalizer_loop api ps removed me s))"
  by (induction api ps removed me s rule: finalizer_loop.induct)
     (auto simp: pod_safe_def split: prod.splits sum.splits, (metis snd_conv)+)

lemma DeletePods_safe:
  "pod_safe api I tgt \<Longrightarrow> (\<And>p. p \<in> set ps \<Longrightarrow> tgt p) \<Longrightarrow> I s \<Longrightarrow> I (snd (DeletePods api ps ign s))"
  using delete_loop_safe [of api I tgt ps s ign "[]" "[]"]
  by (auto simp: DeletePods_def split: prod.splits option.splits)

lemma RemoveFinalizers_safe:
  "pod_safe api I tgt \<Longrightarrow> (\<And>p. p \<in> set ps \<Longrightarrow> tgt p) \<Longrightarrow> I s \<Longrightarrow> I (snd (RemoveFinalizersFromPod api ps s))"
  using finalizer_loop_safe [of api I tgt ps s "[]" "[]"]
  by (auto simp: RemoveFinalizersFromPod_def split: prod.splits option.splits)

lemma GetPodList_safe:
  assumes "pod_safe api I tgt" "I s" "GetPodList api n fs s = (r, s')"
  shows "I s'" "r = Ok ps \<Longrightarrow> p \<in> set ps \<Longrightarrow> (\<forall>q \<in> set fs. q p = Ok True)"
proof -
  obtain pr s1 where l: "list_pods api (''spec.nodeName='' @ nodeName n) s = (pr, s1)" by fastforce
  then have "I s1" using assms(1,2) by (auto simp: pod_safe_def) (metis snd_conv)
  then show "I s'" "r = Ok ps \<Longrightarrow> p \<in> set ps \<Longrightarrow> (\<forall>q \<in> set fs. q p = Ok True)"
    using assms(2,3) l
    by (auto simp: GetPodList_def call_def split: option.splits sum.splits bindO_splits
             dest: FilterPods_sound)
qed

text \<open>
  The interface of a drain strategy: \<open>Execute\<close> touches only its targets, \<open>IsValid\<close> touches
  nothing.
\<close>

locale drain_strategy =
  fixes api :: "'s pod_api"
    and execute :: "Node \<Rightarrow> ('s, DrainStrategyResult) op"
    and isValid :: "Node \<Rightarrow> ('s, bool) op"
    and target :: "Node \<Rightarrow> Pod \<Rightarrow> bool"
  assumes execute_safe: "pod_safe api I (target n) \<Longrightarrow> I s \<Longrightarrow> I (snd (execute n s))"
    and isValid_safe: "pod_safe api I (\<lambda>_. False) \<Longrightarrow> I s \<Longrightarrow> I (snd (isValid n s))"
begin

lemma execute_spares:
  assumes "\<And>p. target n p \<Longrightarrow> \<not> protected p" "pod_safe api I (\<lambda>p. \<not> protected p)" "I s"
  shows "I (snd (execute n s))"
  by (rule execute_safe [where I = I, OF pod_safe_mono [OF assms(2)] assms(3)]) (rule assms(1))

lemma check_then_execute_safe:
  assumes "pod_safe api I (target n)" "I s"
  shows "I (snd (bindO (isValid n s) (\<lambda>v s. if v then bindO (execute n s) (\<lambda>r s. (Ok (Some r), s))
                                             else (Ok None, s))))"
proof -
  have v: "I (snd (isValid n s))"
    by (rule isValid_safe [where I = I, OF pod_safe_mono [OF assms(1)] assms(2)]) simp
  obtain o1 s1 where 1: "isValid n s = (o1, s1)" by fastforce
  obtain o2 s2 where 2: "execute n s1 = (o2, s2)" by fastforce
  have "I s1" using v 1 by simp
  moreover from this have "I s2" using execute_safe [OF assms(1), of s1] 2 by simp
  ultimately show ?thesis by (cases o1; cases o2) (simp_all add: 1 2)
qed

end

definition on_node_all :: "PodPredicate list \<Rightarrow> Node \<Rightarrow> Pod \<Rightarrow> bool" where
  "on_node_all fs n p \<longleftrightarrow> podNodeName p = nodeName n \<and> (\<forall>q \<in> set fs. q p = Ok True)"

lemma bindO_list_safe:
  assumes "pod_safe api I tgt" "I s"
    and "\<And>pods s. I s \<Longrightarrow> (\<And>p. p \<in> set pods \<Longrightarrow> \<forall>q \<in> set fs. q p = Ok True) \<Longrightarrow> I (snd (k pods s))"
  shows "I (snd (bindO (GetPodList api n fs s) k))"
proof -
  obtain r s1 where g: "GetPodList api n fs s = (r, s1)" by fastforce
  note safe = GetPodList_safe [OF assms(1,2) g]
  show ?thesis
  proof (cases r)
    case (Ok pods)
    then show ?thesis using assms(3) [OF safe(1), of pods] safe(2) g by simp
  qed (use safe(1) g in simp_all)
qed

lemma snd_bindO_ret: "snd (bindO r (\<lambda>a s. (Ok (f a), s))) = snd r"
  by (cases r; cases "fst r") auto

interpretation delete_strategy:
  drain_strategy api "podDeletion_Execute api fs" "podDeletion_IsValid api fs" "on_node_all fs"
  for api fs
proof
  fix I n s assume safe: "pod_safe api I (on_node_all fs n)" and I: "I s"
  have act: "I (snd (DeletePods api pods True s'))"
    if "I s'" "\<And>p. p \<in> set pods \<Longrightarrow> \<forall>q \<in> set (isOnNode n # fs). q p = Ok True" for pods s'
    by (rule DeletePods_safe [where I = I, OF safe _ that(1)]) (use that(2) in \<open>simp add: on_node_all_def isOnNode_def\<close>)
  show "I (snd (podDeletion_Execute api fs n s))"
    unfolding podDeletion_Execute_def
    by (rule bindO_list_safe [where I = I, OF safe I], unfold snd_bindO_ret, rule act)
next
  fix I n s assume "pod_safe api I (\<lambda>_. False)" "I s"
  then show "I (snd (podDeletion_IsValid api fs n s))"
    unfolding podDeletion_IsValid_def by (rule bindO_list_safe [where I = I]) simp
qed

interpretation finalizer_strategy:
  drain_strategy api "removeFinalizers_Execute api fs" "removeFinalizers_IsValid api fs"
    "on_node_all (hasFinalizers # fs)"
  for api fs
proof
  fix I n s assume safe: "pod_safe api I (on_node_all (hasFinalizers # fs) n)" and I: "I s"
  have act: "I (snd (RemoveFinalizersFromPod api pods s'))"
    if "I s'" "\<And>p. p \<in> set pods \<Longrightarrow> \<forall>q \<in> set ([isOnNode n, hasFinalizers] @ fs). q p = Ok True" for pods s'
    by (rule RemoveFinalizers_safe [where I = I, OF safe _ that(1)]) (use that(2) in \<open>simp add: on_node_all_def isOnNode_def\<close>)
  show "I (snd (removeFinalizers_Execute api fs n s))"
    unfolding removeFinalizers_Execute_def
    by (rule bindO_list_safe [where I = I, OF safe I], unfold snd_bindO_ret, rule act)
next
  fix I n s assume "pod_safe api I (\<lambda>_. False)" "I s"
  then show "I (snd (removeFinalizers_IsValid api fs n s))"
    unfolding removeFinalizers_IsValid_def by (rule bindO_list_safe [where I = I]) simp
qed

interpretation terminating_strategy:
  drain_strategy api "stuckTerminating_Execute api fs" "stuckTerminating_IsValid api fs"
    "on_node_all (hasNoFinalizers # isTerminating # fs)"
  for api fs
proof
  fix I n s assume safe: "pod_safe api I (on_node_all (hasNoFinalizers # isTerminating # fs) n)" and I: "I s"
  have act: "I (snd (DeletePods api pods False s'))"
    if "I s'" "\<And>p. p \<in> set pods \<Longrightarrow> \<forall>q \<in> set ([isOnNode n, hasNoFinalizers, isTerminating] @ fs). q p = Ok True" for pods s'
    by (rule DeletePods_safe [where I = I, OF safe _ that(1)]) (use that(2) in \<open>simp add: on_node_all_def isOnNode_def\<close>)
  show "I (snd (stuckTerminating_Execute api fs n s))"
    unfolding stuckTerminating_Execute_def
    by (rule bindO_list_safe [where I = I, OF safe I], unfold snd_bindO_ret, rule act)
next
  fix I n s assume "pod_safe api I (\<lambda>_. False)" "I s"
  then show "I (snd (stuckTerminating_IsValid api fs n s))"
    unfolding stuckTerminating_IsValid_def by (rule bindO_list_safe [where I = I]) simp
qed

text \<open>The pods a strategy aims at.\<close>

fun strategy_target :: "DrainStrategy \<Rightarrow> Node \<Rightarrow> Pod \<Rightarrow> bool" where
  "strategy_target (podDeletionStrategy fs) = on_node_all fs"
| "strategy_target (removeFinalizersStrategy fs) = on_node_all (hasFinalizers # fs)"
| "strategy_target (stuckTerminatingStrategy fs) = on_node_all (hasNoFinalizers # isTerminating # fs)"

interpretation any_strategy:
  drain_strategy api "strategy_Execute api st" "strategy_IsValid api st" "strategy_target st"
  for api st
proof (cases st)
  case (podDeletionStrategy fs)
  then show "drain_strategy api (strategy_Execute api st) (strategy_IsValid api st) (strategy_target st)"
    using delete_strategy.drain_strategy_axioms by simp
next
  case (removeFinalizersStrategy fs)
  then show "drain_strategy api (strategy_Execute api st) (strategy_IsValid api st) (strategy_target st)"
    using finalizer_strategy.drain_strategy_axioms by simp
next
  case (stuckTerminatingStrategy fs)
  then show "drain_strategy api (strategy_Execute api st) (strategy_IsValid api st) (strategy_target st)"
    using terminating_strategy.drain_strategy_axioms by simp
qed

section \<open>Draining a node\<close>

text \<open>
  A property of the world that the drain of a node keeps: it survives what happens to the
  targets, the clock, the metrics query and the notification.
\<close>

definition drain_safe :: "'w osdDrainStrategy \<Rightarrow> ('w \<Rightarrow> bool) \<Rightarrow> (Pod \<Rightarrow> bool) \<Rightarrow> bool" where
  "drain_safe ds I tgt \<longleftrightarrow>
     pod_safe (ds_pods ds) I tgt \<and>
     (\<forall>w. I w \<longrightarrow> I (snd (time_now (ds_rt ds) w))) \<and>
     (\<forall>n st v w. I w \<longrightarrow> I (snd (IsMetricNotificationEventSentSet (ds_rt ds) (ds_metrics ds) n st v w))) \<and>
     (\<forall>d w. I w \<longrightarrow> I (snd (ds_NotifyState ds MuoStateDelayed d w)))"

lemma snd_lift: "ext (snd (lift f s)) = snd (f (ext s))"
  by (simp add: lift_def split: prod.splits)

lemma lift_safe: "I (snd (f (ext s))) \<Longrightarrow> lift f s = (r, s') \<Longrightarrow> I (ext s')"
  by (metis snd_conv snd_lift)

lemma notify_pdb_delay_safe:
  assumes "drain_safe ds I tgt" "I (ext s)" "notify_pdb_delay ds s = (r, s')"
  shows "I (ext s')"
  using assms
  by (auto simp: notify_pdb_delay_def drain_safe_def Let_def wrap_err_def
        UpdateMetricNotificationEventSent_def bindO_def
        split: prod.splits outcome.splits if_splits dest!: lift_safe [of I, rotated])

lemma execute_loop_safe:
  assumes "drain_safe ds I tgt" "\<And>t p. t \<in> set ts \<Longrightarrow> strategy_target (tsStrategy t) node p \<Longrightarrow> tgt p"
    and "I (ext s)" "execute_loop ds node t0 ts s = (r, s')"
  shows "I (ext s')"
  using assms(2-4)
proof (induction ts arbitrary: s r s')
  case Nil
  then show ?case by simp
next
  case (Cons t ts)
  obtain b s1 where a: "lift (isAfter (ds_rt ds) (Some t0) (waitDuration t)) s = (b, s1)" by fastforce
  have I1: "I (ext s1)"
    using a Cons.prems(2) assms(1)
    by (auto intro!: lift_safe [of I, OF _ a] simp: isAfter_def drain_safe_def split: prod.splits)
       (metis snd_conv)
  obtain o2 s2 where x: "lift (strategy_Execute (ds_pods ds) (tsStrategy t) node) s1 = (o2, s2)" by fastforce
  have safe: "pod_safe (ds_pods ds) I (strategy_target (tsStrategy t) node)"
    using assms(1) Cons.prems(1) by (auto simp: drain_safe_def intro: pod_safe_mono)
  have I2: "I (ext s2)"
    by (rule lift_safe [of I, OF any_strategy.execute_safe [where I = I, OF safe I1] x])
  obtain o3 s3 where n: "(if tsName t = pdbPodDeleteName then notify_pdb_delay ds s2 else (Ok (), s2)) = (o3, s3)"
    by fastforce
  have I3: "I (ext s3)"
    using n I2 notify_pdb_delay_safe [OF assms(1) I2] by (auto split: if_splits)
  have "tgt p" if "u \<in> set ts" "strategy_target (tsStrategy u) node p" for u p
    using Cons.prems(1) [of u p] that by simp
  note IH = Cons.IH [OF this]
  obtain o4 s4 where l3: "execute_loop ds node t0 ts s3 = (o4, s4)" by fastforce
  have I4: "I (ext s4)" by (rule IH [OF _ _ I3 l3])
  have rest: "I (ext s')" if "execute_loop ds node t0 ts s'' = (r, s')" "I (ext s'')" for s''
    by (rule IH [OF _ _ that(2,1)])
  show ?case
    using Cons.prems(3) a x n l3 I2 I3 I4 I1
    by (cases b; cases o2; cases o3; cases o4) (auto split: if_splits intro: rest)
qed

lemma fold_found: "fold (\<lambda>x b. if P x then True else b) xs b = (b \<or> (\<exists>x \<in> set xs. P x))"
  by (induction xs arbitrary: b) auto

lemma isDaemonSet_iff: "isDaemonSet p \<longleftrightarrow> ''DaemonSet'' \<in> set (podOwnerKinds p)"
  by (auto simp: isDaemonSet_def fold_found)

text \<open>A pod the operator may evict: on the node, not of a DaemonSet, in a namespace that is not ignored.\<close>

definition evictable :: "regex_lib \<Rightarrow> string list \<Rightarrow> Node \<Rightarrow> Pod \<Rightarrow> bool" where
  "evictable regex pats node p \<longleftrightarrow>
     podNodeName p = nodeName node \<and> \<not> isDaemonSet p \<and> containsIgnoredNamespace regex p pats = Ok True"

lemma osd_strategies_target:
  assumes "t \<in> set (osd_strategies regex pdbs uc cfg)" "strategy_target (tsStrategy t) node p"
  shows "evictable regex (IgnoredNamespacePatterns cfg) node p"
  using assms
  by (auto simp: osd_strategies_def Let_def newTimedStrategy_def on_node_all_def isNotDaemonSet_def
        isAllowedNamespace_def evictable_def)

lemma drain_Execute_safe:
  assumes "drain_safe ds I (evictable regex (IgnoredNamespacePatterns cfg) node)"
    and "timedDrainStrategies ds = osd_strategies regex pdbs uc cfg"
    and "I (ext s)" "drain_Execute ds node s = (r, s')"
  shows "I (ext s')"
proof (cases "IsCordoned (IsNodeCordoned node)")
  case True
  show ?thesis
  proof (cases "AddedAt (IsNodeCordoned node)")
    case None
    then show ?thesis using True assms(3,4) by (simp add: drain_Execute_def)
  next
    case (Some t0)
    then have "execute_loop ds node t0 (timedDrainStrategies ds) s = (r, s')"
      using True assms(4) by (simp add: drain_Execute_def)
    then show ?thesis
      by (rule execute_loop_safe [OF assms(1) osd_strategies_target assms(3), rotated 2])
         (simp_all only: assms(2))
  qed
next
  case False
  then show ?thesis using assms(3,4) by (simp add: drain_Execute_def)
qed

text \<open>Before a strategy's time nothing happens but reading the clock.\<close>

lemma execute_loop_too_early:
  assumes "\<And>w. time_now (ds_rt ds) w = (now, w)" "\<forall>t \<in> set ts. now \<le> t0 + waitDuration t"
  shows "execute_loop ds node t0 ts s = (Ok [], s)"
  using assms(2)
proof (induction ts)
  case (Cons t ts)
  then show ?case by (simp add: lift_def isAfter_def assms(1) leD)
qed simp

section \<open>A failed drain\<close>

lemma isAfter_True:
  assumes "isAfter rt (Some t) d s = (True, s')"
  shows "\<exists>now. time_now rt s = (now, s') \<and> t + d < now"
  using assms by (auto simp: isAfter_def split: prod.splits)

lemma drain_HasFailed_timeout:
  assumes "drain_HasFailed ds node s = (Ok True, s')"
  shows "\<exists>t w now. AddedAt (IsNodeCordoned node) = Some t \<and> time_now (ds_rt ds) w = (now, s') \<and>
           t + GetTimeOutDuration (ds_cfg ds) < now"
proof -
  let ?cfg = "ds_cfg ds"
  obtain t where t: "AddedAt (IsNodeCordoned node) = Some t"
    using assms by (cases "AddedAt (IsNodeCordoned node)") (simp_all add: drain_HasFailed_def)
  have "\<exists>d w. isAfter (ds_rt ds) (Some t) d w = (True, s') \<and> GetTimeOutDuration ?cfg \<le> d"
    using assms t
    by (auto simp: drain_HasFailed_def Let_def bindO_Ok_iff split: if_splits prod.splits)
  then obtain d w where dw: "isAfter (ds_rt ds) (Some t) d w = (True, s')" "GetTimeOutDuration ?cfg \<le> d" by blast
  from isAfter_True [OF dw(1)] obtain now where "time_now (ds_rt ds) w = (now, s')" "t + d < now" by blast
  then show ?thesis using t dw(2) by (intro exI [of _ t] exI [of _ w] exI [of _ now]) simp
qed

text \<open>
  The comparison on the unsorted list leaves five strategies with the waits \<open>d, d, d, p, p\<close>
  unsorted when \<open>p < d\<close>.
\<close>

lemma sortDuration_five:
  assumes "waitDuration a = d" "waitDuration b = d" "waitDuration c = d" "waitDuration x = p" "waitDuration y = p"
    and "p < d"
  shows "sortDuration [a, b, c, x, y] = [a, b, x, c, y]"
proof -
  have "[1 ..< length [a, b, c, x, y]] = [1, 2, 3, 4]" by (simp add: upt_rec)
  then show ?thesis
    using assms by (simp add: sortDuration_def insertion_sort_def numeral_eq_Suc)
qed

lemma executed_loop_const:
  assumes "\<And>w. time_now rt w = (now, w)"
  shows "executed_loop rt t0 ts s = (filter (\<lambda>t. t0 + waitDuration t < now) ts, s)"
  by (induction ts arbitrary: s) (simp_all add: isAfter_def assms)

section \<open>Properties\<close>

text \<open>
  A cluster whose state is its list of pods; a pod is identified by its name, namespace and owners.
  Patterns match a namespace literally.
\<close>

definition same_pod :: "Pod \<Rightarrow> Pod \<Rightarrow> bool" where
  "same_pod p q \<longleftrightarrow> podName p = podName q \<and> podNamespace p = podNamespace q \<and> podOwnerKinds p = podOwnerKinds q"

definition mem_pods :: "Pod list pod_api" where
  "mem_pods =
     \<lparr>parse_selector = (\<lambda>_. None), list_pods = (\<lambda>_ ps. (Inr ps, ps)),
      delete_pod = (\<lambda>p ps. (Inr (), filter (\<lambda>q. \<not> same_pod p q) ps)),
      update_pod = (\<lambda>p ps. (Inr (), map (\<lambda>q. if same_pod p q then p else q) ps))\<rparr>"

definition literal_regex :: regex_lib where
  "literal_regex pat = Some (\<lambda>ns. ns = pat)"

definition sample_pod :: "string \<Rightarrow> string \<Rightarrow> string list \<Rightarrow> Pod" where
  "sample_pod n ns owners =
     \<lparr>podName = n, podNamespace = ns, podNodeName = ''node1'', podOwnerKinds = owners, podLabels = Map.empty,
      podFinalizers = [], podDeletionTimestamp = None\<rparr>"

definition cordoned_node :: Node where
  "cordoned_node =
     \<lparr>nodeName = ''node1'', nodeLabels = Map.empty, nodeAnnotations = Map.empty, nodeUnschedulable = True,
      nodeTaints = [\<lparr>taintKey = ''node.kubernetes.io/unschedulable'', taintEffect = ''NoSchedule'', taintTimeAdded = Some 0\<rparr>],
      nodeConditions = [], nodeDeletionTimestamp = None\<rparr>"

definition sample_drain_cfg :: NodeDrain where
  "sample_drain_cfg = \<lparr>DisableDrainStrategies = False, Timeout = 45, ExpectedNodeDrainTime = 8,
                       IgnoredNamespacePatterns = [''kube-system'']\<rparr>"

definition sample_ds :: "timedStrategy list \<Rightarrow> Pod list osdDrainStrategy" where
  "sample_ds ts =
     \<lparr>ds_rt = \<lparr>time_now = (\<lambda>s. (Hour, s)), error_string = (\<lambda>_. ''error'')\<rparr>, ds_pods = mem_pods, ds_cfg = sample_drain_cfg,
      timedDrainStrategies = ts, ds_uc = sample_uc, ds_NotifyState = (\<lambda>_ _ s. (Ok (), s)),
      ds_metrics = \<lparr>promTarget = ''prometheus'', request_error = (\<lambda>_. None),
                    prom_do = (\<lambda>_ _ s. (Inr (HttpBody []), s)), json_alerts = (\<lambda>_. Inr [])\<rparr>\<rparr>"

text \<open>
  C9: Draining a node evicts only pods of that node that belong to no DaemonSet and are in no ignored
  namespace: every property of the cluster that deleting such pods, or removing their finalizers,
  cannot break holds after the drain if it held before, on every outcome of the drain.
\<close>

theorem drain_evicts_only_evictable:
  assumes "drain_safe ds I (evictable regex (IgnoredNamespacePatterns cfg) node)"
    and "timedDrainStrategies ds = osd_strategies regex pdbs uc cfg"
    and "I (ext s)" "drain_Execute ds node s = (r, s')"
  shows "I (ext s')"
  by (rule drain_Execute_safe [OF assms])

theorem drain_evicts_only_evictable_witness:
  "let ds = sample_ds (osd_strategies literal_regex [] sample_uc sample_drain_cfg);
       agent = sample_pod ''agent'' ''default'' [''DaemonSet'']; app = sample_pod ''app'' ''default'' [''ReplicaSet''];
       (r, s') = drain_Execute ds cordoned_node (no_gauges [agent, app])
   in list_ex (same_pod agent) (ext s') \<and> \<not> list_ex (same_pod app) (ext s')"
proof -
  let ?ds = "sample_ds (osd_strategies literal_regex [] sample_uc sample_drain_cfg)"
  let ?agent = "sample_pod ''agent'' ''default'' [''DaemonSet'']" and ?app = "sample_pod ''app'' ''default'' [''ReplicaSet'']"
  obtain r s' where run: "drain_Execute ?ds cordoned_node (no_gauges [?agent, ?app]) = (r, s')" by fastforce
  let ?tgt = "evictable literal_regex (IgnoredNamespacePatterns sample_drain_cfg) cordoned_node"
  have other: "\<not> same_pod p x" if "?tgt p" "same_pod ?agent x" for p x
    using that by (simp add: evictable_def isDaemonSet_iff sample_pod_def same_pod_def) (metis list.set_intros(1))
  have "pod_safe mem_pods (list_ex (same_pod ?agent)) ?tgt"
  proof -
    have "list_ex (same_pod ?agent) (filter (\<lambda>q. \<not> same_pod p q) ps)"
      "list_ex (same_pod ?agent) (map (\<lambda>q. if same_pod (p\<lparr>podFinalizers := []\<rparr>) q then p\<lparr>podFinalizers := []\<rparr> else q) ps)"
      if tp: "?tgt p" and ps: "list_ex (same_pod ?agent) ps" for p ps
    proof -
      obtain x where x: "x \<in> set ps" "same_pod ?agent x" using ps by (auto simp: list_ex_iff)
      then have "\<not> same_pod p x" "\<not> same_pod (p\<lparr>podFinalizers := []\<rparr>) x"
        using other [OF tp] by (simp_all add: same_pod_def)
      with x show "list_ex (same_pod ?agent) (filter (\<lambda>q. \<not> same_pod p q) ps)"
        "list_ex (same_pod ?agent) (map (\<lambda>q. if same_pod (p\<lparr>podFinalizers := []\<rparr>) q then p\<lparr>podFinalizers := []\<rparr> else q) ps)"
        by (force simp: list_ex_iff)+
    qed
    then show ?thesis by (simp add: pod_safe_def mem_pods_def)
  qed
  then have "drain_safe ?ds (list_ex (same_pod ?agent)) ?tgt"
    by (simp add: drain_safe_def sample_ds_def IsMetricNotificationEventSentSet_def Query_def call_def)
  from drain_evicts_only_evictable [OF this _ _ run] have "list_ex (same_pod ?agent) (ext s')"
    by (simp add: sample_ds_def no_gauges_def same_pod_def)
  moreover have "\<not> list_ex (same_pod ?app) (ext (snd (drain_Execute ?ds cordoned_node (no_gauges [?agent, ?app]))))"
    by code_simp
  ultimately show ?thesis using run by (simp add: Let_def)
qed

text \<open>
  A drain is reported as failed only when its time is up: the node is cordoned since a known moment and
  the configured drain time-out has passed since then.
\<close>

theorem drain_failure_only_late:
  assumes "drain_HasFailed ds node s = (Ok True, s')"
  shows "\<exists>t w now. AddedAt (IsNodeCordoned node) = Some t \<and> time_now (ds_rt ds) w = (now, s') \<and>
           t + GetTimeOutDuration (ds_cfg ds) < now"
  by (rule drain_HasFailed_timeout [OF assms])

theorem drain_failure_only_late_witness:
  "drain_HasFailed (sample_ds []) cordoned_node [] = (Ok True, []) \<and> GetTimeOutDuration sample_drain_cfg < Hour"
proof -
  have r: "drain_HasFailed (sample_ds []) cordoned_node [] = (Ok True, [])"
    by (simp add: drain_HasFailed_def sample_ds_def cordoned_node_def IsNodeCordoned_def isAfter_def GetTimeOutDuration_def
        sample_drain_cfg_def minutes_def)
  show ?thesis
    using drain_failure_only_late [OF r] r by (auto simp: sample_ds_def cordoned_node_def IsNodeCordoned_def)
qed

lemma osd_strategies_unsorted:
  assumes "pdb = wrap64 (GetPDBDrainTimeoutDuration uc + GetExpectedDrainDuration cfg)" "pdb < GetTimeOutDuration cfg"
  obtains a b c x y where "osd_strategies regex pdbs uc cfg = [a, b, c, x, y]" "sortDuration (osd_strategies regex pdbs uc cfg) = [a, b, x, c, y]"
    "tsName a = ''DELETE''" "\<forall>t \<in> {a, b, c}. waitDuration t = GetTimeOutDuration cfg" "\<forall>t \<in> {x, y}. waitDuration t = pdb"
proof -
  obtain a b c x y where ts: "osd_strategies regex pdbs uc cfg = [a, b, c, x, y]" "tsName a = ''DELETE''"
    and w: "waitDuration a = GetTimeOutDuration cfg" "waitDuration b = GetTimeOutDuration cfg"
      "waitDuration c = GetTimeOutDuration cfg" "waitDuration x = pdb" "waitDuration y = pdb"
    unfolding osd_strategies_def Let_def newTimedStrategy_def assms(1) by simp
  show thesis
    by (rule that [OF ts(1) _ ts(2)]) (use w sortDuration_five [OF w assms(2)] in \<open>auto simp: ts(1)\<close>)
qed

text \<open>
  C39: When the strategies for pods under a budget wait \<open>pdb\<close> (the PDB time-out with the expected drain time), shorter than the
  default time-out, a drain is declared failed too early. \<open>sortDuration\<close> leaves the five strategies unsorted, so that
  \<open>HasFailed\<close> takes a PDB strategy for the last one executed and gives the drain the expected time from that one's start.
  Once the default time-out has passed, and \<open>pdb\<close> with the expected drain time, it reports the drain as failed, though
  the default deletion of pods has started less than the expected drain time ago.
\<close>

theorem drain_fails_early:
  assumes ds: "timedDrainStrategies ds = osd_strategies regex pdbs uc (ds_cfg ds)"
    and clock: "\<And>w. time_now (ds_rt ds) w = (now, w)" and cordoned: "AddedAt (IsNodeCordoned node) = Some t0"
    and pdb: "pdb = wrap64 (GetPDBDrainTimeoutDuration uc + GetExpectedDrainDuration (ds_cfg ds))"
      "pdb < GetTimeOutDuration (ds_cfg ds)"
    and late: "t0 + GetTimeOutDuration (ds_cfg ds) < now" "t0 + wrap64 (pdb + GetExpectedDrainDuration (ds_cfg ds)) < now"
    and early: "now \<le> t0 + GetTimeOutDuration (ds_cfg ds) + GetExpectedDrainDuration (ds_cfg ds)"
  shows "drain_HasFailed ds node s = (Ok True, s) \<and>
    (\<exists>t \<in> set (timedDrainStrategies ds). tsName t = ''DELETE'' \<and> t0 + waitDuration t < now \<and>
       now \<le> t0 + waitDuration t + GetExpectedDrainDuration (ds_cfg ds))"
proof -
  obtain a b c x y where ts: "timedDrainStrategies ds = [a, b, c, x, y]" and srt: "sortDuration (timedDrainStrategies ds) = [a, b, x, c, y]"
    and a: "tsName a = ''DELETE''" and w: "\<forall>t \<in> {a, b, c}. waitDuration t = GetTimeOutDuration (ds_cfg ds)" "\<forall>t \<in> {x, y}. waitDuration t = pdb"
    unfolding ds by (rule osd_strategies_unsorted [OF pdb])
  have over: "t0 + waitDuration t < now" if "t \<in> {a, b, c, x, y}" for t
    using that w late(1) pdb(2) by auto
  have executed: "executed_loop (ds_rt ds) t0 [a, b, x, c, y] s = ([a, b, x, c, y], s)"
    using over by (simp add: executed_loop_const [OF clock] del: executed_loop.simps)
  have "drain_HasFailed ds node s = (Ok True, s)"
    unfolding drain_HasFailed_def Let_def cordoned option.case srt executed
    using w(2) late by (simp add: ts isAfter_def clock)
  moreover have "now \<le> t0 + waitDuration a + GetExpectedDrainDuration (ds_cfg ds)" using early w(1) by simp
  ultimately show ?thesis using ts a over [of a] by auto
qed

text \<open>A PDB time-out of 15 minutes beside the default of 45, fifty minutes after the cordon and five after the default deletion began.\<close>

definition short_pdb_uc :: UpgradeConfig where
  "short_pdb_uc = sample_uc\<lparr>Spec := (Spec sample_uc)\<lparr>PDBForceDrainTimeout := 15\<rparr>\<rparr>"

definition fifty_minutes_ds :: "Pod list osdDrainStrategy" where
  "fifty_minutes_ds = (sample_ds (osd_strategies literal_regex [] short_pdb_uc sample_drain_cfg))
     \<lparr>ds_rt := \<lparr>time_now = (\<lambda>s. (50 * Minute, s)), error_string = (\<lambda>_. ''error'')\<rparr>\<rparr>"

theorem drain_fails_early_witness:
  "drain_HasFailed fifty_minutes_ds cordoned_node [sample_pod ''app'' ''default'' [''ReplicaSet'']] =
     (Ok True, [sample_pod ''app'' ''default'' [''ReplicaSet''] ])"
proof -
  have m: "GetTimeOutDuration sample_drain_cfg = 45 * Minute" "GetExpectedDrainDuration sample_drain_cfg = 8 * Minute"
      "GetPDBDrainTimeoutDuration short_pdb_uc = 15 * Minute"
    by (simp_all add: GetTimeOutDuration_def GetExpectedDrainDuration_def GetPDBDrainTimeoutDuration_def minutes_def
        sample_drain_cfg_def short_pdb_uc_def)
  have ds: "ds_cfg fifty_minutes_ds = sample_drain_cfg" by (simp add: fifty_minutes_ds_def sample_ds_def)
  show ?thesis
    by (rule conjunct1 [OF drain_fails_early [where now = "50 * Minute" and ?t0.0 = 0 and pdb = "23 * Minute" and uc = short_pdb_uc]])
       (simp_all add: ds m, simp_all add: fifty_minutes_ds_def sample_ds_def cordoned_node_def IsNodeCordoned_def)
qed

end
