(* ===== verification/Go_Std.thy ===== *)
theory Go_Std
  imports Prelude
begin

text \<open>
  Small parts of Go's standard library that the operator uses: quoting (\<open>strconv\<close>), slash-separated paths (\<open>path\<close>), the escaping
  of a query (\<open>net/url\<close>) and rounding in double precision. Strings are sequences of bytes.
\<close>

abbreviation byte :: "char \<Rightarrow> nat" where
  "byte c \<equiv> of_char c"

abbreviation backslash :: char where
  "backslash \<equiv> CHR 0x5C"

section \<open>Quoting\<close>

text \<open>\<open>%q\<close> of a string of printable characters and ASCII control characters.\<close>

definition hex_digit :: "nat \<Rightarrow> char" where
  "hex_digit n = ''0123456789abcdef'' ! n"

definition quote_char :: "char \<Rightarrow> string" where
  "quote_char c =
     (let b = byte c
      in if c = backslash \<or> c = CHR 0x22 then [backslash, c]
         else if 7 \<le> b \<and> b \<le> 13 then [backslash, ''abtnvfr'' ! (b - 7)]
         else if b < 32 \<or> b = 127 then [backslash, CHR ''x'', hex_digit (b div 16), hex_digit (b mod 16)]
         else [c])"

definition Quote :: "string \<Rightarrow> string" where
  "Quote s = CHR 0x22 # concat (map quote_char s) @ [CHR 0x22]"

section \<open>Paths\<close>

text \<open>\<open>path.Clean\<close>: the elements between slashes, without empty ones and dots; two dots take the element before them away.\<close>

fun path_elements :: "string \<Rightarrow> string \<Rightarrow> string list" where
  "path_elements acc [] = [rev acc]"
| "path_elements acc (c # s) = (if c = CHR ''/'' then rev acc # path_elements [] s else path_elements (c # acc) s)"

fun clean_elements :: "bool \<Rightarrow> string list \<Rightarrow> string list \<Rightarrow> string list" where
  "clean_elements rooted out [] = rev out"
| "clean_elements rooted out (e # es) =
     (if e = [] \<or> e = ''.'' then clean_elements rooted out es
      else if e = ''..''
      then (case out of
              [] \<Rightarrow> clean_elements rooted (if rooted then [] else [''..'']) es
            | o1 # rest \<Rightarrow> clean_elements rooted (if o1 = ''..'' then e # out else rest) es)
      else clean_elements rooted (e # out) es)"

fun join_with :: "string \<Rightarrow> string list \<Rightarrow> string" where
  "join_with sep [] = []"
| "join_with sep [x] = x"
| "join_with sep (x # y # xs) = x @ sep @ join_with sep (y # xs)"

definition path_Clean :: "string \<Rightarrow> string" where
  "path_Clean p =
     (let rooted = (p \<noteq> [] \<and> hd p = CHR ''/'');
          out = join_with ''/'' (clean_elements rooted [] (path_elements [] p))
      in if rooted then CHR ''/'' # out else if out = [] then ''.'' else out)"

text \<open>\<open>path.Join\<close> leaves empty elements out.\<close>

definition path_Join :: "string list \<Rightarrow> string" where
  "path_Join elems =
     (let es = filter (\<lambda>e. e \<noteq> []) elems in if es = [] then [] else path_Clean (join_with ''/'' es))"

section \<open>Queries\<close>

definition unreserved :: "char \<Rightarrow> bool" where
  "unreserved c \<longleftrightarrow>
     (let b = byte c
      in 48 \<le> b \<and> b \<le> 57 \<or> 65 \<le> b \<and> b \<le> 90 \<or> 97 \<le> b \<and> b \<le> 122 \<or> c \<in> {CHR ''-'', CHR ''_'', CHR ''.'', CHR ''~''})"

definition upper_hex :: "nat \<Rightarrow> char" where
  "upper_hex n = ''0123456789ABCDEF'' ! n"

definition QueryEscape :: "string \<Rightarrow> string" where
  "QueryEscape s =
     concat (map (\<lambda>c. if unreserved c then [c] else if c = CHR '' '' then ''+''
                      else [CHR ''%'', upper_hex (byte c div 16), upper_hex (byte c mod 16)]) s)"

section \<open>Floating point\<close>

text \<open>
  A positive double is its 53-bit significand and its exponent; an operation rounds its exact
  result to nearest, ties to even. Only values far from overflow and underflow occur here.
\<close>

type_synonym float64 = "int \<times> int"

function bit_length :: "int \<Rightarrow> nat" where
  "bit_length m = (if m \<le> 0 then 0 else Suc (bit_length (m div 2)))"
  by auto
termination by (relation "measure nat") auto

declare bit_length.simps [simp del]

definition round53 :: "int \<Rightarrow> int \<Rightarrow> float64" where
  "round53 m e =
     (let b = bit_length m
      in if b \<le> 53 then (m, e)
         else let k = b - 53; q = m div 2 ^ k; r = m mod 2 ^ k; half = 2 ^ (k - 1)
              in (if r > half \<or> r = half \<and> q mod 2 = 1 then q + 1 else q, e + int k))"

definition float_mult :: "float64 \<Rightarrow> float64 \<Rightarrow> float64" where
  "float_mult x y = round53 (fst x * fst y) (snd x + snd y)"

definition float_floor :: "float64 \<Rightarrow> int" where
  "float_floor x = (if snd x \<ge> 0 then fst x * 2 ^ nat (snd x) else fst x div 2 ^ nat (- snd x))"

definition float_ceil :: "float64 \<Rightarrow> int" where
  "float_ceil x = (if snd x \<ge> 0 then fst x * 2 ^ nat (snd x) else - (- fst x div 2 ^ nat (- snd x)))"

text \<open>\<open>float64(n)\<close> of an integer, as the integer it denotes.\<close>

definition float_of_int :: "int \<Rightarrow> int" where
  "float_of_int n = (if n < 0 then - float_floor (round53 (- n) 0) else float_floor (round53 n 0))"

lemma bit_length_le: "0 \<le> m \<Longrightarrow> m < 2 ^ k \<Longrightarrow> bit_length m \<le> k"
proof (induction k arbitrary: m)
  case 0
  then show ?case by (simp add: bit_length.simps [of m])
next
  case (Suc k)
  then have "bit_length (m div 2) \<le> k" by simp
  then show ?case by (simp add: bit_length.simps [of m])
qed

lemma float_of_int_exact: "\<bar>n\<bar> < 2 ^ 53 \<Longrightarrow> float_of_int n = n"
  using bit_length_le [of "\<bar>n\<bar>" 53] by (auto simp: float_of_int_def round53_def float_floor_def Let_def)

end
