(* ===== verification/Glob.thy ===== *)
theory Glob
  imports Go_Std
begin

text \<open>
  \<open>path.Match\<close> of Go, with which the operator selects machine pools by glob patterns: the byte-wise
  scanner of the standard library, the grammar of its documentation as a parser, and the proof that both
  agree. Strings are sequences of bytes; a class reads whole UTF-8 runes.
\<close>

section \<open>Runes\<close>

definition RuneError :: nat where
  "RuneError = 65533"

definition byte_in :: "nat \<Rightarrow> nat \<Rightarrow> char \<Rightarrow> bool" where
  "byte_in lo hi c \<longleftrightarrow> lo \<le> byte c \<and> byte c \<le> hi"

text \<open>The number of bytes that the first one announces, and the values the second one may have.\<close>

definition rune_width :: "char \<Rightarrow> nat" where
  "rune_width c =
     (if byte c < 128 then 1 else if byte_in 194 223 c then 2 else if byte_in 224 239 c then 3
      else if byte_in 240 244 c then 4 else 0)"

definition second_ok :: "char \<Rightarrow> char \<Rightarrow> bool" where
  "second_ok c b =
     byte_in (if byte c = 224 then 160 else if byte c = 240 then 144 else 128)
       (if byte c = 237 then 159 else if byte c = 244 then 143 else 191) b"

text \<open>The rune at the front and the number of its bytes; an invalid encoding is one byte wide.\<close>

fun DecodeRuneInString :: "string \<Rightarrow> nat \<times> nat" where
  "DecodeRuneInString [] = (RuneError, 0)"
| "DecodeRuneInString (c # s) =
     (let w = rune_width c; t = take (w - 1) s
      in if w = 1 then (byte c, 1)
         else if w = 0 \<or> length t < w - 1 \<or> \<not> second_ok c (hd t) \<or> \<not> list_all (byte_in 128 191) (tl t) then (RuneError, 1)
         else (foldl (\<lambda>r b. r * 64 + byte b mod 64) (byte c mod 2 ^ (7 - w)) t, w))"

section \<open>The scanner\<close>

text \<open>A possibly escaped character of a class; \<open>None\<close> is \<open>ErrBadPattern\<close>. What follows it is not empty.\<close>

fun getEsc :: "string \<Rightarrow> (nat \<times> string) option" where
  "getEsc [] = None"
| "getEsc (c # rest) =
     (if c = CHR ''-'' \<or> c = CHR '']'' then None
      else let chunk = (if c = backslash then rest else c # rest)
           in if chunk = [] then None
              else let (r, n) = DecodeRuneInString chunk
                   in if r = RuneError \<and> n = 1 \<or> drop n chunk = [] then None else Some (r, drop n chunk))"

lemma decode_width: "s \<noteq> [] \<Longrightarrow> 0 < snd (DecodeRuneInString s)"
  by (cases s) (auto simp: Let_def split: list.splits)

lemma getEsc_Some:
  assumes "getEsc chunk = Some (r, rest)"
  shows "rest \<noteq> []" "length rest < length chunk"
proof -
  obtain c q where c: "chunk = c # q" using assms by (cases chunk) auto
  define d where "d = (if c = backslash then q else c # q)"
  obtain r' n where n: "DecodeRuneInString d = (r', n)" by fastforce
  have d: "d \<noteq> []" "rest = drop n d" "rest \<noteq> []"
    using assms n by (auto simp: c d_def [symmetric] split: if_splits)
  then show "rest \<noteq> []" by simp
  have "0 < n" using decode_width [OF d(1)] n by simp
  with d show "length rest < length chunk" by (auto simp: c d_def split: if_splits)
qed

text \<open>The ranges of a class up to its end, and whether the rune is in one of them.\<close>

function class_loop :: "nat \<Rightarrow> bool \<Rightarrow> bool \<Rightarrow> string \<Rightarrow> (bool \<times> string) option" where
  "class_loop r nrange m chunk =
     (if nrange \<and> chunk \<noteq> [] \<and> hd chunk = CHR '']'' then Some (m, tl chunk)
      else case getEsc chunk of
             None \<Rightarrow> None
           | Some (lo, chunk1) \<Rightarrow>
               if hd chunk1 = CHR ''-''
               then (case getEsc (tl chunk1) of
                       None \<Rightarrow> None
                     | Some (hi, chunk2) \<Rightarrow> class_loop r True (m \<or> lo \<le> r \<and> r \<le> hi) chunk2)
               else class_loop r True (m \<or> lo \<le> r \<and> r \<le> lo) chunk1)"
  by pat_completeness auto
termination
  by (relation "measure (\<lambda>(r, nrange, m, chunk). length chunk)")
     (auto dest!: getEsc_Some(2))

declare class_loop.simps [simp del]

text \<open>The ranges of a class, up to its closing bracket.\<close>

function class_ranges :: "bool \<Rightarrow> string \<Rightarrow> ((nat \<times> nat) list \<times> string) option" where
  "class_ranges some p =
     (if some \<and> p \<noteq> [] \<and> hd p = CHR '']'' then Some ([], tl p)
      else case getEsc p of
             None \<Rightarrow> None
           | Some (lo, p1) \<Rightarrow>
               (case (if hd p1 = CHR ''-'' then getEsc (tl p1) else Some (lo, p1)) of
                  None \<Rightarrow> None
                | Some (hi, p2) \<Rightarrow> map_option (\<lambda>(rs, q). ((lo, hi) # rs, q)) (class_ranges True p2)))"
  by pat_completeness auto
termination
  by (relation "measure (\<lambda>(some, p). length p)") (auto dest!: getEsc_Some(2) split: if_splits)

declare class_ranges.simps [simp del]

lemma class_closed [simp]:
  "class_ranges True (CHR '']'' # q) = Some ([], q)" "class_loop r True m (CHR '']'' # q) = Some (m, q)"
  by (simp_all add: class_ranges.simps [of True "CHR '']'' # q"] class_loop.simps [of r True m "CHR '']'' # q"])

lemma class_open: "b \<and> p \<noteq> [] \<and> hd p = CHR '']'' \<longleftrightarrow> b \<and> (\<exists>q. p = CHR '']'' # q)"
  by (cases p) auto

lemma class_ranges_cases:
  assumes "class_ranges b p = Some (rs, q)"
  obtains (closed) "b" "p = CHR '']'' # q" "rs = []"
  | (range) lo p1 hi p2 rs' where "\<not> (b \<and> p \<noteq> [] \<and> hd p = CHR '']'')" "getEsc p = Some (lo, p1)"
      "(if hd p1 = CHR ''-'' then getEsc (tl p1) else Some (lo, p1)) = Some (hi, p2)"
      "class_ranges True p2 = Some (rs', q)" "rs = (lo, hi) # rs'" "length p2 < length p"
proof (cases "b \<and> p \<noteq> [] \<and> hd p = CHR '']''")
  case True
  with assms closed show thesis by (auto simp: class_open)
next
  case False
  obtain lo p1 where lo: "getEsc p = Some (lo, p1)"
    using assms False by (cases "getEsc p") (auto simp: class_ranges.simps [of b p])
  obtain hi p2 where hi: "(if hd p1 = CHR ''-'' then getEsc (tl p1) else Some (lo, p1)) = Some (hi, p2)"
    using assms False lo
    by (cases "if hd p1 = CHR ''-'' then getEsc (tl p1) else Some (lo, p1)") (auto simp: class_ranges.simps [of b p])
  have "length p2 < length p"
    using hi getEsc_Some(2) [OF lo] getEsc_Some(2) [of "tl p1" hi p2] by (auto split: if_splits)
  then show thesis
    using assms False lo hi range by (auto simp: class_ranges.simps [of b p])
qed

lemma class_ranges_length: "class_ranges b p = Some (rs, q) \<Longrightarrow> length q < length p"
proof (induction "length p" arbitrary: b p rs rule: less_induct)
  case less
  from less.prems show ?case
    by (cases rule: class_ranges_cases) (use less.hyps in fastforce)+
qed

lemma class_loop_ranges:
  "class_loop r b m p =
     map_option (\<lambda>(rs, q). (m \<or> list_ex (\<lambda>(lo, hi). lo \<le> r \<and> r \<le> hi) rs, q)) (class_ranges b p)"
proof (induction "length p" arbitrary: b m p rule: less_induct)
  case less
  note cl = class_loop.simps [of r b m p] and cr = class_ranges.simps [of b p]
  show ?case
  proof (cases "b \<and> p \<noteq> [] \<and> hd p = CHR '']''")
    case True
    then show ?thesis by (auto simp: class_open)
  next
    case False
    show ?thesis
    proof (cases "getEsc p")
      case None
      with False show ?thesis by (simp add: cl cr)
    next
      case (Some a)
      obtain lo p1 where a: "a = (lo, p1)" by fastforce
      note p1 = getEsc_Some(2) [OF Some [unfolded a]]
      show ?thesis
      proof (cases "hd p1 = CHR ''-''")
        case dash: True
        show ?thesis
        proof (cases "getEsc (tl p1)")
          case None
          with False Some a dash show ?thesis by (simp add: cl cr)
        next
          case hi: (Some h)
          obtain hi p2 where h: "h = (hi, p2)" by fastforce
          have "length p2 < length p" using getEsc_Some(2) [OF hi [unfolded h]] p1 by simp
          from less.hyps [OF this] show ?thesis
            using False Some a dash hi h by (cases "class_ranges True p2") (auto simp: cl cr)
        qed
      next
        case nodash: False
        from less.hyps [OF p1] show ?thesis
          using False Some a nodash by (cases "class_ranges True p1") (auto simp: cl cr)
      qed
    qed
  qed
qed

lemma class_loop_length: "class_loop r b m p = Some (m', q) \<Longrightarrow> length q < length p"
  using class_ranges_length by (auto simp: class_loop_ranges)

text \<open>
  The rest of the string after a match of the chunk: \<open>None\<close> is \<open>ErrBadPattern\<close>, \<open>Some None\<close> no match. After a
  failure the rest of the chunk is still checked.
\<close>

function matchChunk :: "bool \<Rightarrow> string \<Rightarrow> string \<Rightarrow> string option option" where
  "matchChunk failed [] s = Some (if failed then None else Some s)"
| "matchChunk failed (c # chunk) s =
     (let failed = (failed \<or> s = [])
      in if c = CHR ''[''
         then let (r, n) = (if failed then (0, 0) else DecodeRuneInString s);
                  negated = (chunk \<noteq> [] \<and> hd chunk = CHR ''^'')
              in (case class_loop r False False (if negated then tl chunk else chunk) of
                    None \<Rightarrow> None
                  | Some (m, chunk1) \<Rightarrow> matchChunk (failed \<or> m = negated) chunk1 (drop n s))
         else if c = CHR ''?''
         then (if failed then matchChunk True chunk s
               else matchChunk (hd s = CHR ''/'') chunk (drop (snd (DecodeRuneInString s)) s))
         else if c = backslash
         then (case chunk of
                 [] \<Rightarrow> None
               | d # chunk1 \<Rightarrow>
                   if failed then matchChunk True chunk1 s else matchChunk (d \<noteq> hd s) chunk1 (tl s))
         else if failed then matchChunk True chunk s
         else matchChunk (c \<noteq> hd s) chunk (tl s))"
  by pat_completeness auto
termination
  by (relation "measure (\<lambda>(failed, chunk, s). length chunk)")
     (auto dest!: class_loop_length split: if_splits intro: le_less_trans)

text \<open>The next chunk: up to a star that is, by the brackets so far, in no class.\<close>

fun scan_to_star :: "bool \<Rightarrow> string \<Rightarrow> string \<times> string" where
  "scan_to_star inrange [] = ([], [])"
| "scan_to_star inrange (c # p) =
     (if c = backslash
      then (case p of
              [] \<Rightarrow> ([c], [])
            | d # q \<Rightarrow> let (chunk, rest) = scan_to_star inrange q in (c # d # chunk, rest))
      else if c = CHR ''*'' \<and> \<not> inrange then ([], c # p)
      else let (chunk, rest) = scan_to_star (if c = CHR ''['' then True else if c = CHR '']'' then False else inrange) p
           in (c # chunk, rest))"

definition scanChunk :: "string \<Rightarrow> bool \<times> string \<times> string" where
  "scanChunk pattern =
     (pattern \<noteq> [] \<and> hd pattern = CHR ''*'', scan_to_star False (dropWhile (\<lambda>c. c = CHR ''*'') pattern))"

lemma scan_append: "scan_to_star b p = (chunk, rest) \<Longrightarrow> p = chunk @ rest"
  by (induction b p arbitrary: chunk rest rule: scan_to_star.induct) (auto simp: Let_def split: if_splits list.splits prod.splits)

lemma scanChunk_shorter:
  assumes "scanChunk pattern = (star, chunk, rest)" "pattern \<noteq> []"
  shows "length rest < length pattern"
proof (cases "hd pattern = CHR ''*''")
  case True
  with assms obtain p where p: "pattern = CHR ''*'' # p" by (cases pattern) auto
  then have "dropWhile (\<lambda>c. c = CHR ''*'') p = chunk @ rest"
    using assms(1) scan_append by (auto simp: scanChunk_def)
  then have "length rest \<le> length p" using length_dropWhile_le [of "\<lambda>c. c = CHR ''*''" p] by simp
  with p show ?thesis by simp
next
  case False
  with assms have s: "scan_to_star False pattern = (chunk, rest)" by (cases pattern) (auto simp: scanChunk_def)
  then have "chunk \<noteq> []" using assms(2) False by (cases pattern) (auto simp: Let_def split: if_splits list.splits prod.splits)
  with scan_append [OF s] show ?thesis by simp
qed

text \<open>Before it says no, the remainder of the pattern is checked.\<close>

function check_rest :: "string \<Rightarrow> bool option" where
  "check_rest pattern =
     (if pattern = [] then Some False
      else let (star, chunk, rest) = scanChunk pattern
           in if matchChunk False chunk [] = None then None else check_rest rest)"
  by pat_completeness auto
termination
  by (relation "measure length") (auto dest: scanChunk_shorter [OF sym])

declare check_rest.simps [simp del]

text \<open>The places after a star, which does not go past a slash; the last chunk must reach the end.\<close>

fun skip_loop :: "string \<Rightarrow> bool \<Rightarrow> string \<Rightarrow> string option option" where
  "skip_loop chunk final [] = Some None"
| "skip_loop chunk final (c # name) =
     (if c = CHR ''/'' then Some None
      else case matchChunk False chunk name of
             None \<Rightarrow> None
           | Some None \<Rightarrow> skip_loop chunk final name
           | Some (Some t) \<Rightarrow> if final \<and> t \<noteq> [] then skip_loop chunk final name else Some (Some t))"

text \<open>\<open>path.Match\<close>; \<open>None\<close> is \<open>ErrBadPattern\<close>.\<close>

function path_Match :: "string \<Rightarrow> string \<Rightarrow> bool option" where
  "path_Match pattern name =
     (if pattern = [] then Some (name = [])
      else let (star, chunk, rest) = scanChunk pattern
           in if star \<and> chunk = [] then Some (CHR ''/'' \<notin> set name)
              else (case matchChunk False chunk name of
                      None \<Rightarrow> None
                    | Some m \<Rightarrow>
                        (case (if m \<noteq> None \<and> (m = Some [] \<or> rest \<noteq> []) then Some m
                               else if star then skip_loop chunk (rest = []) name else Some None) of
                           None \<Rightarrow> None
                         | Some (Some t) \<Rightarrow> path_Match rest t
                         | Some None \<Rightarrow> check_rest rest)))"
  by pat_completeness auto
termination
  by (relation "measure (\<lambda>(pattern, name). length pattern)") (auto dest: scanChunk_shorter [OF sym])

declare path_Match.simps [simp del]

section \<open>The grammar\<close>

datatype glob_item = GStar | GAny | GLit char | GClass bool "(nat \<times> nat) list"

definition class_body :: "string \<Rightarrow> bool \<times> string" where
  "class_body p = (if p \<noteq> [] \<and> hd p = CHR ''^'' then (True, tl p) else (False, p))"

function parse_glob :: "string \<Rightarrow> glob_item list option" where
  "parse_glob [] = Some []"
| "parse_glob (c # p) =
     (if c = CHR ''*'' then map_option (Cons GStar) (parse_glob p)
      else if c = CHR ''?'' then map_option (Cons GAny) (parse_glob p)
      else if c = CHR ''[''
      then (case class_ranges False (snd (class_body p)) of
              None \<Rightarrow> None
            | Some (rs, q) \<Rightarrow> map_option (Cons (GClass (fst (class_body p)) rs)) (parse_glob q))
      else if c = backslash
      then (case p of [] \<Rightarrow> None | d # q \<Rightarrow> map_option (Cons (GLit d)) (parse_glob q))
      else map_option (Cons (GLit c)) (parse_glob p))"
  by pat_completeness auto
termination
  by (relation "measure length") (auto dest!: class_ranges_length simp: class_body_def split: if_splits)

text \<open>The meaning of a pattern on names of ASCII characters without a slash, such as the values of Kubernetes labels.\<close>

definition plain_name :: "string \<Rightarrow> bool" where
  "plain_name s \<longleftrightarrow> (\<forall>c \<in> set s. byte c < 128 \<and> c \<noteq> CHR ''/'')"

fun item_matches :: "glob_item \<Rightarrow> char \<Rightarrow> bool" where
  "item_matches GStar c = True"
| "item_matches GAny c = True"
| "item_matches (GLit d) c = (d = c)"
| "item_matches (GClass negated rs) c = (list_ex (\<lambda>(lo, hi). lo \<le> byte c \<and> byte c \<le> hi) rs \<noteq> negated)"

fun glob :: "glob_item list \<Rightarrow> string \<Rightarrow> bool" where
  "glob [] s = (s = [])"
| "glob (GStar # is) s = (\<exists>k \<le> length s. glob is (drop k s))"
| "glob (i # is) s = (s \<noteq> [] \<and> item_matches i (hd s) \<and> glob is (tl s))"

section \<open>The scanner reads the grammar\<close>

text \<open>
  A class the grammar accepts is scanned as a whole: it contains no closing bracket that is not escaped, so
  that no star in it ends the chunk. What follows it does not matter.
\<close>

lemma scan_ordinary:
  "c \<noteq> backslash \<Longrightarrow> c \<noteq> CHR '']'' \<Longrightarrow>
   scan_to_star True (c # p) = (c # fst (scan_to_star True p), snd (scan_to_star True p))"
  by (cases "scan_to_star True p") auto

lemma scan_bytes:
  "\<forall>c \<in> set t. 128 \<le> byte c \<Longrightarrow> scan_to_star True (t @ p) = (t @ fst (scan_to_star True p), snd (scan_to_star True p))"
proof (induction t)
  case (Cons c t)
  then have "128 \<le> byte c" by simp
  then have "c \<noteq> backslash" "c \<noteq> CHR '']''" by auto
  then show ?case using scan_ordinary [of c "t @ p"] Cons by simp
qed simp

lemma decode_local:
  assumes "DecodeRuneInString (c # s) = (r, n)" "\<not> (r = RuneError \<and> n = 1)"
  obtains t where "s = t @ drop n (c # s)" "\<forall>b \<in> set t. 128 \<le> byte b" "n = Suc (length t)"
    "\<And>x. DecodeRuneInString (c # t @ x) = (r, n)"
proof -
  define t where "t = take (rune_width c - 1) s"
  have ok: "\<And>b. second_ok c b \<Longrightarrow> 128 \<le> byte b" "\<And>b. byte_in 128 191 b \<Longrightarrow> 128 \<le> byte b"
    by (auto simp: second_ok_def byte_in_def split: if_splits)
  show thesis
  proof (cases "rune_width c = 1")
    case True
    with assms(1) have "r = byte c" "n = 1" by simp_all
    with True that [of "[]"] show thesis by simp
  next
    case False
    with assms have w: "n = rune_width c" "0 < rune_width c" "rune_width c - 1 \<le> length s" "second_ok c (hd t)" "list_all (byte_in 128 191) (tl t)"
        "r = foldl (\<lambda>r b. r * 64 + byte b mod 64) (byte c mod 2 ^ (7 - rune_width c)) t"
      by (auto simp: Let_def t_def split: if_splits)
    have len: "length t = rune_width c - 1" using w(3) by (simp add: t_def)
    have "\<forall>b \<in> set t. 128 \<le> byte b"
      using w(4,5) ok by (cases t) (auto simp: list_all_iff)
    moreover have "s = t @ drop n (c # s)" using w(1,2) by (simp add: t_def drop_Cons')
    moreover have "DecodeRuneInString (c # t @ x) = (r, n)" for x
      using False w len by (simp add: Let_def)
    ultimately show thesis using that [of t] w(1,2) len by simp
  qed
qed

lemma getEsc_local:
  assumes "getEsc p = Some (r, q)"
  obtains t where "p = t @ q" "\<And>x. scan_to_star True (t @ x) = (t @ fst (scan_to_star True x), snd (scan_to_star True x))"
    "\<And>x. x \<noteq> [] \<Longrightarrow> getEsc (t @ x) = Some (r, x)" "t \<noteq> []" "hd t \<noteq> CHR '']''"
proof -
  obtain c p' where c: "p = c # p'" using assms by (cases p) auto
  define d where "d = (if c = backslash then p' else c # p')"
  obtain r' n where n: "DecodeRuneInString d = (r', n)" by fastforce
  have d: "d \<noteq> []" "\<not> (r' = RuneError \<and> n = 1)" "c \<noteq> CHR ''-''" "c \<noteq> CHR '']''" "q = drop n d" "r' = r"
    using assms n by (auto simp: c d_def [symmetric] split: if_splits)
  obtain e s where e: "d = e # s" using d(1) by (cases d) auto
  obtain t where t: "s = t @ q" "\<forall>b \<in> set t. 128 \<le> byte b" "n = Suc (length t)" "\<And>x. DecodeRuneInString (e # t @ x) = (r', n)"
    using decode_local [OF n [unfolded e] d(2)] d(5) e by metis
  have g: "(let (r, n) = DecodeRuneInString (e # t @ x)
      in if r = RuneError \<and> n = 1 \<or> drop n (e # t @ x) = [] then None else Some (r, drop n (e # t @ x))) = Some (r, x)"
    if "x \<noteq> []" for x
    using that d(2,6) t(3) by (simp add: t(4) del: DecodeRuneInString.simps)
  show thesis
  proof (cases "c = backslash")
    case True
    show thesis
    proof (rule that [of "c # e # t"])
      show "p = (c # e # t) @ q" using True e t(1) by (simp add: c d_def)
      show "scan_to_star True ((c # e # t) @ x) = ((c # e # t) @ fst (scan_to_star True x), snd (scan_to_star True x))" for x
        using True scan_bytes [OF t(2), of x] by (simp add: Let_def split: prod.split)
      show "getEsc ((c # e # t) @ x) = Some (r, x)" if "x \<noteq> []" for x
        using True d(3,4) g [OF that] by (simp del: DecodeRuneInString.simps)
    qed (use d(4) in simp_all)
  next
    case False
    then have ec: "e = c" using e by (simp add: d_def)
    show thesis
    proof (rule that [of "c # t"])
      show "p = (c # t) @ q" using False e t(1) by (simp add: c d_def)
      show "scan_to_star True ((c # t) @ x) = ((c # t) @ fst (scan_to_star True x), snd (scan_to_star True x))" for x
        using scan_ordinary [OF False d(4), of "t @ x"] scan_bytes [OF t(2), of x] by simp
      show "getEsc ((c # t) @ x) = Some (r, x)" if "x \<noteq> []" for x
        using False d(3,4) g [OF that, unfolded ec] by (simp add: Let_def del: DecodeRuneInString.simps)
    qed (use d(4) in simp_all)
  qed
qed

lemma class_local:
  "class_ranges b p = Some (rs, q) \<Longrightarrow>
   \<exists>t. p = t @ q \<and> t \<noteq> [] \<and>
     (\<forall>x. scan_to_star True (t @ x) = (t @ fst (scan_to_star False x), snd (scan_to_star False x)) \<and> class_ranges b (t @ x) = Some (rs, x))"
proof (induction "length p" arbitrary: b p rs rule: less_induct)
  case less
  from less.prems show ?case
  proof (cases rule: class_ranges_cases)
    case closed
    then show ?thesis
      by (intro exI [of _ "[CHR '']'']"]) (auto simp: Let_def split: prod.split)
  next
    case (range lo p1 hi p2 rs')
    obtain t1 where t1: "p = t1 @ p1" "\<And>x. scan_to_star True (t1 @ x) = (t1 @ fst (scan_to_star True x), snd (scan_to_star True x))"
        "\<And>x. x \<noteq> [] \<Longrightarrow> getEsc (t1 @ x) = Some (lo, x)" "t1 \<noteq> []" "hd t1 \<noteq> CHR '']''"
      using getEsc_local [OF range(2)] by metis
    obtain t2 where t2: "p1 = t2 @ p2" "\<And>x. scan_to_star True (t2 @ x) = (t2 @ fst (scan_to_star True x), snd (scan_to_star True x))"
        "\<And>x. x \<noteq> [] \<Longrightarrow> hd x = hd p2 \<Longrightarrow>
           (if hd (t2 @ x) = CHR ''-'' then getEsc (tl (t2 @ x)) else Some (lo, t2 @ x)) = Some (hi, x)"
    proof (cases "hd p1 = CHR ''-''")
      case True
      then obtain p1' where p1: "p1 = CHR ''-'' # p1'" using getEsc_Some(1) [OF range(2)] by (cases p1) auto
      obtain t where t: "p1' = t @ p2" "\<And>x. scan_to_star True (t @ x) = (t @ fst (scan_to_star True x), snd (scan_to_star True x))"
          "\<And>x. x \<noteq> [] \<Longrightarrow> getEsc (t @ x) = Some (hi, x)"
        using range(3) p1 getEsc_local [of p1' hi p2] by (metis list.sel(1,3))
      have "scan_to_star True ((CHR ''-'' # t) @ x) = ((CHR ''-'' # t) @ fst (scan_to_star True x), snd (scan_to_star True x))" for x
        using scan_ordinary [of "CHR ''-''" "t @ x"] t(2) by simp
      with p1 t(1,3) that [of "CHR ''-'' # t"] show thesis by simp
    next
      case False
      with range(3) that [of "[]"] show thesis by simp
    qed
    obtain t3 where t3: "p2 = t3 @ q" "t3 \<noteq> []"
        "\<And>x. scan_to_star True (t3 @ x) = (t3 @ fst (scan_to_star False x), snd (scan_to_star False x))" "\<And>x. class_ranges True (t3 @ x) = Some (rs', x)"
      using less.hyps [OF range(6,4)] by blast
    show ?thesis
    proof (intro exI [of _ "t1 @ t2 @ t3"] conjI allI)
      show "p = (t1 @ t2 @ t3) @ q" "t1 @ t2 @ t3 \<noteq> []" using t1(1) t2(1) t3(1,2) by simp_all
      fix x
      show "scan_to_star True ((t1 @ t2 @ t3) @ x) = ((t1 @ t2 @ t3) @ fst (scan_to_star False x), snd (scan_to_star False x))"
        by (simp add: t1(2) t2(2) t3(3))
      have "getEsc (t1 @ t2 @ t3 @ x) = Some (lo, t2 @ t3 @ x)"
        "(if hd (t2 @ t3 @ x) = CHR ''-'' then getEsc (tl (t2 @ t3 @ x)) else Some (lo, t2 @ t3 @ x)) = Some (hi, t3 @ x)"
        using t1(3) [of "t2 @ t3 @ x"] t2(3) [of "t3 @ x"] t3(1,2) by simp_all
      then show "class_ranges b ((t1 @ t2 @ t3) @ x) = Some (rs, x)"
        using t1(4,5) t3(4) range(5) by (simp add: class_ranges.simps [of b "t1 @ t2 @ t3 @ x"])
    qed
  qed
qed

text \<open>So the chunk and the rest can be parsed one after the other; the items of a chunk are no stars.\<close>

definition parse_seq :: "string \<Rightarrow> string \<Rightarrow> glob_item list option" where
  "parse_seq p q = (case parse_glob p of None \<Rightarrow> None | Some is \<Rightarrow> map_option (\<lambda>js. is @ js) (parse_glob q))"

lemma append_fun: "(@) (x # xs) = (\<lambda>ys. x # xs @ ys)" "(@) [] = (\<lambda>ys. ys)"
  by auto

lemma scan_parse:
  "scan_to_star False p = (chunk, rest) \<Longrightarrow>
   parse_glob p = parse_seq chunk rest \<and> (\<forall>is. parse_glob chunk = Some is \<longrightarrow> GStar \<notin> set is)"
proof (induction p arbitrary: chunk rest rule: parse_glob.induct)
  case 1
  then show ?case by (simp add: parse_seq_def)
next
  case (2 c p)
  consider (star) "c = CHR ''*''" | (any) "c = CHR ''?''" | (cls) "c = CHR ''[''" | (esc) "c = backslash"
    | (lit) "c \<noteq> CHR ''*''" "c \<noteq> CHR ''?''" "c \<noteq> CHR ''[''" "c \<noteq> backslash" by blast
  then show ?case
  proof cases
    case star
    with 2(6) show ?thesis by (auto simp: parse_seq_def option.map_comp comp_def append_fun)
  next
    case any
    with 2(6) obtain a where a: "scan_to_star False p = (a, rest)" "chunk = c # a" by (auto simp: Let_def split: prod.splits)
    from 2(2) [OF _ any a(1)] show ?thesis
      using any a(2) by (auto simp: parse_seq_def option.map_comp comp_def append_fun split: option.splits)
  next
    case esc
    show ?thesis
    proof (cases p)
      case Nil
      with esc 2(6) show ?thesis by (auto simp: parse_seq_def)
    next
      case (Cons d q)
      with esc 2(6) obtain a where a: "scan_to_star False q = (a, rest)" "chunk = c # d # a" by (auto simp: Let_def split: prod.splits)
      from 2(4) [OF _ _ _ esc Cons a(1)] show ?thesis
        using esc Cons a(2) by (auto simp: parse_seq_def option.map_comp comp_def append_fun split: option.splits)
    qed
  next
    case lit
    then have "scan_to_star False (c # p) = (c # fst (scan_to_star False p), snd (scan_to_star False p))" by (cases "scan_to_star False p") auto
    with 2(6) obtain a where a: "scan_to_star False p = (a, rest)" "chunk = c # a" by (cases "scan_to_star False p") auto
    from 2(5) [OF lit a(1)] show ?thesis
      using lit a(2) by (auto simp: parse_seq_def option.map_comp comp_def append_fun split: option.splits)
  next
    case cls
    then have sc: "chunk = c # fst (scan_to_star True p)" "rest = snd (scan_to_star True p)"
      using 2(6) by (auto simp: Let_def split: prod.splits)
    define u where "u = snd (class_body p)"
    define pre where "pre = (if fst (class_body p) then ''^'' else [])"
    have p: "p = pre @ u" by (cases p) (auto simp: u_def pre_def class_body_def)
    have body: "scan_to_star True (pre @ x) = (pre @ fst (scan_to_star True x), snd (scan_to_star True x))" for x
      using scan_ordinary [of "CHR ''^''" x] by (cases "scan_to_star True x") (auto simp: pre_def)
    have cb: "class_body (pre @ x) = (fst (class_body p), x)" if "x = [] \<or> u \<noteq> [] \<and> hd x = hd u" for x
      using that by (cases p; cases x) (auto simp: pre_def u_def class_body_def split: if_splits)
    show ?thesis
    proof (cases "class_ranges False u")
      case None
      obtain a where a: "scan_to_star True u = (a, rest)" "chunk = c # pre @ a"
        using sc body [of u] p by (cases "scan_to_star True u") auto
      have u: "u = a @ rest" using scan_append [OF a(1)] .
      have "class_ranges False a = None"
      proof (rule ccontr)
        assume "class_ranges False a \<noteq> None"
        then obtain rs q where "class_ranges False a = Some (rs, q)" by auto
        then obtain t where "a = t @ q" "class_ranges False (t @ (q @ rest)) = Some (rs, q @ rest)"
          using class_local by blast
        with None u show False by simp
      qed
      moreover have "class_body (pre @ a) = (fst (class_body p), a)"
        by (rule cb) (use u in \<open>cases a; auto\<close>)
      ultimately show ?thesis
        using None cls a(2) by (simp add: parse_seq_def u_def)
    next
      case (Some v)
      obtain rs q where v: "v = (rs, q)" by fastforce
      obtain t where t: "u = t @ q" "t \<noteq> []" "\<And>x. scan_to_star True (t @ x) = (t @ fst (scan_to_star False x), snd (scan_to_star False x))"
          "\<And>x. class_ranges False (t @ x) = Some (rs, x)"
        using class_local [OF Some [unfolded v]] by blast
      obtain a where a: "scan_to_star False q = (a, rest)" "chunk = c # pre @ t @ a"
        using sc body [of u] p t(1,3) by (cases "scan_to_star False q") auto
      have "class_body (pre @ t @ a) = (fst (class_body p), t @ a)"
        by (rule cb) (use t(1,2) in simp)
      moreover have "parse_glob q = parse_seq a rest \<and> (\<forall>is. parse_glob a = Some is \<longrightarrow> GStar \<notin> set is)"
        by (rule 2(3) [OF _ _ cls Some [unfolded u_def] v [symmetric] a(1)]) (use cls in simp_all)
      ultimately show ?thesis
        using Some v cls a(2) t(4) by (auto simp: parse_seq_def option.map_comp comp_def append_fun u_def split: option.splits)
    qed
  qed
qed

text \<open>What a chunk takes off the front of a name.\<close>

fun strip_items :: "glob_item list \<Rightarrow> string \<Rightarrow> string option" where
  "strip_items [] s = Some s"
| "strip_items (i # is) [] = None"
| "strip_items (i # is) (c # s) = (if item_matches i c then strip_items is s else None)"

lemma plain_simps [simp]: "plain_name []" "plain_name (c # s) \<longleftrightarrow> byte c < 128 \<and> c \<noteq> CHR ''/'' \<and> plain_name s"
  by (simp_all add: plain_name_def)

lemma plain_drop: "plain_name s \<Longrightarrow> plain_name (drop k s)"
  by (auto simp: plain_name_def dest: in_set_dropD)

lemma decode_ascii [simp]: "byte c < 128 \<Longrightarrow> DecodeRuneInString (c # s) = (byte c, 1)"
  by (simp add: rune_width_def)

declare DecodeRuneInString.simps(2) [simp del]

lemma matchChunk_failed: "matchChunk True p s = (if parse_glob p = None then None else Some None)"
proof (induction p arbitrary: s rule: parse_glob.induct)
  case (2 c p)
  consider (star) "c = CHR ''*''" | (any) "c = CHR ''?''" | (cls) "c = CHR ''[''" | (esc) "c = backslash"
    | (lit) "c \<noteq> CHR ''*''" "c \<noteq> CHR ''?''" "c \<noteq> CHR ''[''" "c \<noteq> backslash" by blast
  then show ?case
  proof cases
    case cls
    show ?thesis
    proof (cases "class_ranges False (snd (class_body p))")
      case None
      with cls show ?thesis by (auto simp: class_loop_ranges class_body_def split: if_splits)
    next
      case (Some v)
      obtain rs q where v: "v = (rs, q)" by fastforce
      have "\<And>s. matchChunk True q s = (if parse_glob q = None then None else Some None)"
        by (rule 2(3) [OF _ _ cls Some v [symmetric]]) (use cls in simp_all)
      with Some v cls show ?thesis by (auto simp: class_loop_ranges class_body_def split: if_splits)
    qed
  qed (use 2 in \<open>auto split: list.splits\<close>)
qed simp

lemma matchChunk_None: "matchChunk failed p s = None \<longleftrightarrow> parse_glob p = None"
proof (induction p arbitrary: failed s rule: parse_glob.induct)
  case (2 c p)
  consider (star) "c = CHR ''*''" | (any) "c = CHR ''?''" | (cls) "c = CHR ''[''" | (esc) "c = backslash"
    | (lit) "c \<noteq> CHR ''*''" "c \<noteq> CHR ''?''" "c \<noteq> CHR ''[''" "c \<noteq> backslash" by blast
  then show ?case
  proof cases
    case cls
    show ?thesis
    proof (cases "class_ranges False (snd (class_body p))")
      case None
      with cls show ?thesis by (auto simp: class_loop_ranges class_body_def split: if_splits prod.splits)
    next
      case (Some v)
      obtain rs q where v: "v = (rs, q)" by fastforce
      have "\<And>failed s. matchChunk failed q s = None \<longleftrightarrow> parse_glob q = None"
        by (intro 2(3) [OF _ _ cls Some v [symmetric]]) (use cls in simp_all)
      with Some v cls show ?thesis by (auto simp: class_loop_ranges class_body_def split: if_splits prod.splits)
    qed
  qed (use 2 in \<open>auto split: list.splits\<close>)
qed simp

lemma matchChunk_strip:
  "parse_glob p = Some is \<Longrightarrow> GStar \<notin> set is \<Longrightarrow> plain_name s \<Longrightarrow> matchChunk False p s = Some (strip_items is s)"
proof (induction p arbitrary: "is" s rule: parse_glob.induct)
  case (2 c p)
  show ?case
  proof (cases s)
    case Nil
    have "is \<noteq> []" using 2(6) by (auto split: if_splits option.splits prod.splits list.splits)
    then have "strip_items is s = None" using Nil by (cases "is") auto
    moreover have "matchChunk False (c # p) s = matchChunk True (c # p) s" using Nil by simp
    ultimately show ?thesis using 2(6) by (simp only: matchChunk_failed) simp
  next
    case (Cons d s')
    have d: "byte d < 128" "d \<noteq> CHR ''/''" "plain_name s'" using 2(8) Cons by simp_all
    consider (star) "c = CHR ''*''" | (any) "c = CHR ''?''" | (cls) "c = CHR ''[''" | (esc) "c = backslash"
      | (lit) "c \<noteq> CHR ''*''" "c \<noteq> CHR ''?''" "c \<noteq> CHR ''[''" "c \<noteq> backslash" by blast
    then show ?thesis
    proof cases
      case star
      with 2(6,7) show ?thesis by auto
    next
      case any
      then obtain js where js: "parse_glob p = Some js" "is = GAny # js" using 2(6) by auto
      with any 2(7) 2(2) [OF _ any js(1) _ d(3)] d Cons show ?thesis by simp
    next
      case cls
      obtain rs q where r: "class_ranges False (snd (class_body p)) = Some (rs, q)"
        using cls 2(6) by (auto split: option.splits)
      obtain js where js: "parse_glob q = Some js" "is = GClass (fst (class_body p)) rs # js" using cls r 2(6) by auto
      have "matchChunk False q s' = Some (strip_items js s')"
        by (rule 2(3) [OF _ _ cls r refl js(1) _ d(3)]) (use cls js(2) 2(7) in simp_all)
      with cls r js d Cons matchChunk_failed show ?thesis
        by (auto simp: class_loop_ranges class_body_def split: if_splits)
    next
      case esc
      then obtain e q js where q: "p = e # q" "parse_glob q = Some js" "is = GLit e # js"
        using 2(6) by (auto split: list.splits)
      have "matchChunk False q s' = Some (strip_items js s')"
        by (rule 2(4) [OF _ _ _ esc q(1,2) _ d(3)]) (use esc q(3) 2(7) in simp_all)
      with esc q d Cons matchChunk_failed show ?thesis by auto
    next
      case lit
      then obtain js where js: "parse_glob p = Some js" "is = GLit c # js" using 2(6) by auto
      have "matchChunk False p s' = Some (strip_items js s')"
        by (rule 2(5) [OF lit js(1) _ d(3)]) (use js(2) 2(7) in simp)
      with lit js d Cons matchChunk_failed show ?thesis by auto
    qed
  qed
qed simp

lemma parse_stars: "parse_glob (replicate k (CHR ''*'') @ p) = map_option (\<lambda>is. replicate k GStar @ is) (parse_glob p)"
  by (induction k) (simp_all add: option.map_comp comp_def option.map_ident)

lemma scan_rest: "scan_to_star b p = (chunk, rest) \<Longrightarrow> rest = [] \<or> hd rest = CHR ''*''"
  by (induction b p arbitrary: chunk rest rule: scan_to_star.induct) (auto simp: Let_def split: if_splits list.splits prod.splits)

lemma scanChunk_parse:
  assumes "scanChunk p = (star, chunk, rest)"
  obtains k where "star \<longleftrightarrow> 0 < k" "parse_glob p = map_option (\<lambda>is. replicate k GStar @ is) (parse_seq chunk rest)"
    "\<And>is. parse_glob chunk = Some is \<Longrightarrow> GStar \<notin> set is" "rest = [] \<or> (\<exists>q. rest = CHR ''*'' # q)" "chunk = [] \<Longrightarrow> rest = []"
proof -
  let ?star = "\<lambda>c. c = CHR ''*''"
  define k where "k = length (takeWhile ?star p)"
  define q where "q = dropWhile ?star p"
  have "takeWhile ?star p = replicate k (CHR ''*'')"
    by (rule replicate_eqI) (auto simp: k_def dest: set_takeWhileD)
  then have p: "p = replicate k (CHR ''*'') @ q" unfolding q_def by (metis takeWhile_dropWhile_id)
  have s: "scan_to_star False q = (chunk, rest)" "star \<longleftrightarrow> p \<noteq> [] \<and> hd p = CHR ''*''" using assms by (auto simp: scanChunk_def q_def)
  have k: "star \<longleftrightarrow> 0 < k" unfolding s(2) k_def by (cases p) auto
  have q: "q = [] \<or> hd q \<noteq> CHR ''*''" unfolding q_def using hd_dropWhile [of ?star p] by auto
  show thesis
  proof (rule that [OF k])
    show "parse_glob p = map_option (\<lambda>is. replicate k GStar @ is) (parse_seq chunk rest)"
      using scan_parse [OF s(1)] by (subst p) (simp add: parse_stars)
    show "rest = [] \<or> (\<exists>q. rest = CHR ''*'' # q)" using scan_rest [OF s(1)] by (metis list.collapse)
    show "GStar \<notin> set is" if "parse_glob chunk = Some is" for "is" using scan_parse [OF s(1)] that by blast
    show "rest = []" if "chunk = []" using that scan_rest [OF s(1)] scan_append [OF s(1)] q by auto
  qed
qed

lemma check_rest_eq: "check_rest p = (if parse_glob p = None then None else Some False)"
proof (induction "length p" arbitrary: p rule: less_induct)
  case less
  show ?case
  proof (cases "p = []")
    case True
    then show ?thesis using check_rest.simps [of "[]"] by simp
  next
    case False
    obtain star chunk rest where sc: "scanChunk p = (star, chunk, rest)" by (metis prod_cases3)
    obtain k where k: "parse_glob p = map_option (\<lambda>is. replicate k GStar @ is) (parse_seq chunk rest)"
        "\<And>is. parse_glob chunk = Some is \<Longrightarrow> GStar \<notin> set is"
      using scanChunk_parse [OF sc] by metis
    note IH = less [OF scanChunk_shorter [OF sc False]]
    show ?thesis
    proof (cases "parse_glob chunk")
      case None
      then show ?thesis using False sc k(1) matchChunk_None by (simp add: check_rest.simps [of p] parse_seq_def)
    next
      case (Some "is")
      from matchChunk_strip [OF this k(2) [OF this], of "[]"] show ?thesis
        using False sc k(1) IH Some by (simp add: check_rest.simps [of p] parse_seq_def)
    qed
  qed
qed

section \<open>Greedy matching is complete\<close>

lemma glob_append:
  assumes "GStar \<notin> set is"
  shows "glob (is @ js) s \<longleftrightarrow> (\<exists>t. strip_items is s = Some t \<and> glob js t)"
  using assms
proof (induction "is" arbitrary: s)
  case (Cons i "is")
  then show ?case by (cases i; cases s) auto
qed simp

lemma strip_drop: "strip_items is s = Some t \<Longrightarrow> t = drop (length is) s \<and> length is \<le> length s"
  by (induction "is" s rule: strip_items.induct) (auto split: if_splits)

lemma glob_star_rec: "glob (GStar # is) (c # s) \<longleftrightarrow> glob is (c # s) \<or> glob (GStar # is) s"
proof -
  have "(\<exists>k \<le> Suc (length s). glob is (drop k (c # s))) \<longleftrightarrow> glob is (c # s) \<or> (\<exists>k \<le> length s. glob is (drop k s))"
    (is "?l = ?r")
  proof
    assume ?l
    then obtain k where "k \<le> Suc (length s)" "glob is (drop k (c # s))" by blast
    then show ?r by (cases k) auto
  next
    assume ?r
    then show ?l by (metis Suc_le_mono drop0 drop_Suc_Cons le0)
  qed
  then show ?thesis by simp
qed

lemma glob_star_append: "glob (GStar # is) s \<Longrightarrow> glob (GStar # is) (x @ s)"
proof (induction x)
  case (Cons c x)
  then have "glob (GStar # is) (x @ s)" by blast
  then show ?case by (metis append_Cons glob_star_rec)
qed simp

lemma glob_star_here: "glob is s \<Longrightarrow> glob (GStar # is) s"
  by (metis drop0 glob.simps(2) le0)

lemma glob_stars: "0 < k \<Longrightarrow> glob (replicate k GStar @ is) s \<longleftrightarrow> glob (GStar # is) s"
proof (induction k arbitrary: s)
  case (Suc k)
  show ?case
  proof (cases "k = 0")
    case False
    with Suc.IH have IH: "glob (replicate k GStar @ is) s \<longleftrightarrow> glob (GStar # is) s" for s by simp
    have "(\<exists>i \<le> length s. glob (GStar # is) (drop i s)) \<longleftrightarrow> glob (GStar # is) s"
      using glob_star_append [of "is" "drop i s" "take i s" for i] by (metis append_take_drop_id drop0 le0)
    with IH show ?thesis by simp
  qed simp
qed simp

text \<open>
  After a star the first place where the chunk fits decides: the next chunk, if there is one, follows a star of its own, which
  takes in what lies between the first place and any other.
\<close>

lemma first_fit:
  assumes items: "GStar \<notin> set is" and js: "final \<Longrightarrow> js = []" "\<not> final \<Longrightarrow> \<exists>js'. js = GStar # js'"
    and fit: "strip_items is s = Some t" "final \<Longrightarrow> t = []"
  shows "glob js t \<longleftrightarrow> glob (GStar # is @ js) s"
proof
  assume "glob js t"
  with fit(1) items have "glob (is @ js) s" by (auto simp: glob_append)
  then show "glob (GStar # is @ js) s" by (rule glob_star_here)
next
  assume "glob (GStar # is @ js) s"
  then obtain k where k: "glob (is @ js) (drop k s)" by auto
  then obtain t' where t': "strip_items is (drop k s) = Some t'" "glob js t'" using items by (auto simp: glob_append)
  have "t = take k t @ t'"
    using strip_drop [OF fit(1)] strip_drop [OF t'(1)] append_take_drop_id [of k t] by (simp add: add.commute)
  then show "glob js t"
    using js fit(2) t'(2) glob_star_append by (metis append_Nil2 glob.simps(1))
qed

lemma skip_loop_first:
  assumes chunk: "parse_glob chunk = Some is" "GStar \<notin> set is" and c: "c \<noteq> CHR ''/''" and s: "plain_name s"
    and js: "final \<Longrightarrow> js = []" "\<not> final \<Longrightarrow> \<exists>js'. js = GStar # js'"
  shows "\<exists>m. skip_loop chunk final (c # s) = Some m \<and>
    (case m of None \<Rightarrow> \<not> glob (GStar # is @ js) s
     | Some t \<Rightarrow> plain_name t \<and> (final \<longrightarrow> t = []) \<and> (glob js t \<longleftrightarrow> glob (GStar # is @ js) s))"
  using c s
proof (induction s arbitrary: c)
  case Nil
  note mc = matchChunk_strip [OF chunk, of "[]"]
  show ?case
  proof (cases "is")
    case Nil2: Nil
    then show ?thesis using mc Nil first_fit [where final = final, OF chunk(2) js, of "[]" "[]"]
      by (intro exI [of _ "Some []"]) simp
  next
    case (Cons i is')
    then have "\<not> glob (is @ js) []" using glob_append [OF chunk(2), of js "[]"] by simp
    then show ?thesis using mc Nil Cons by (intro exI [of _ None]) simp
  qed
next
  case (Cons d s)
  note mc = matchChunk_strip [OF chunk Cons.prems(2)]
  show ?case
  proof (cases "\<exists>t. strip_items is (d # s) = Some t \<and> (final \<longrightarrow> t = [])")
    case True
    then obtain t where t: "strip_items is (d # s) = Some t" "final \<Longrightarrow> t = []" by blast
    moreover have "plain_name t" using strip_drop [OF t(1)] plain_drop [OF Cons.prems(2)] by metis
    ultimately show ?thesis
      using first_fit [OF chunk(2) js t] mc Cons.prems(1) by (intro exI [of _ "Some t"]) auto
  next
    case False
    then have miss: "\<not> glob (is @ js) (d # s)"
      using js chunk(2) by (auto simp: glob_append)
    have "skip_loop chunk final (c # d # s) = skip_loop chunk final (d # s)"
      using False mc Cons.prems(1) by (auto simp del: skip_loop.simps simp: skip_loop.simps(2) [of chunk final c "d # s"] split: option.split)
    moreover have "glob (GStar # is @ js) (d # s) \<longleftrightarrow> glob (GStar # is @ js) s"
      using miss glob_star_rec by blast
    moreover have "d \<noteq> CHR ''/''" "plain_name s" using Cons.prems(2) by simp_all
    ultimately show ?thesis
      using Cons.IH [of d] by (auto simp del: skip_loop.simps glob.simps split: option.splits)
  qed
qed

section \<open>The theorem\<close>

text \<open>The place where the algorithm continues with the rest of the pattern, if there is one.\<close>

definition next_place :: "bool \<Rightarrow> string \<Rightarrow> bool \<Rightarrow> string \<Rightarrow> string option option" where
  "next_place star chunk final s =
     (case matchChunk False chunk s of
        None \<Rightarrow> None
      | Some m \<Rightarrow> if m \<noteq> None \<and> (m = Some [] \<or> \<not> final) then Some m
                  else if star then skip_loop chunk final s else Some None)"

lemma path_Match_step:
  assumes "p \<noteq> []" "scanChunk p = (star, chunk, rest)" "\<not> (star \<and> chunk = [])"
  shows "path_Match p s =
    (case next_place star chunk (rest = []) s of
       None \<Rightarrow> None | Some (Some t) \<Rightarrow> path_Match rest t | Some None \<Rightarrow> check_rest rest)"
  using assms by (simp add: path_Match.simps [of p s] next_place_def split: option.split)

lemma next_place_first:
  assumes chunk: "parse_glob chunk = Some is" "GStar \<notin> set is" and s: "plain_name s"
    and js: "final \<Longrightarrow> js = []" "\<not> final \<Longrightarrow> \<exists>js'. js = GStar # js'"
  shows "\<exists>m. next_place star chunk final s = Some m \<and>
    (case m of None \<Rightarrow> \<not> glob ((if star then [GStar] else []) @ is @ js) s
     | Some t \<Rightarrow> plain_name t \<and> (glob js t \<longleftrightarrow> glob ((if star then [GStar] else []) @ is @ js) s))"
proof (cases "\<exists>t. strip_items is s = Some t \<and> (final \<longrightarrow> t = [])")
  case True
  then obtain t where t: "strip_items is s = Some t" "final \<Longrightarrow> t = []" by blast
  have "plain_name t" using strip_drop [OF t(1)] plain_drop [OF s] by metis
  moreover have "next_place star chunk final s = Some (Some t)"
    using t matchChunk_strip [OF chunk s] by (auto simp: next_place_def)
  moreover have "glob js t \<longleftrightarrow> glob ((if star then [GStar] else []) @ is @ js) s"
    using first_fit [OF chunk(2) js t] t(1) chunk(2) by (auto simp del: glob.simps simp: glob_append)
  ultimately show ?thesis by simp
next
  case False
  then have miss: "\<not> glob (is @ js) s" using js chunk(2) by (auto simp: glob_append)
  have n: "next_place star chunk final s = (if star then skip_loop chunk final s else Some None)"
    using False matchChunk_strip [OF chunk s] by (auto simp: next_place_def)
  show ?thesis
  proof (cases "star \<and> s \<noteq> []")
    case True
    then obtain c s' where c: "s = c # s'" by (cases s) auto
    have "c \<noteq> CHR ''/''" "plain_name s'" using s c by simp_all
    from skip_loop_first [where final = final, OF chunk this js] obtain m where
        "skip_loop chunk final s = Some m"
        "case m of None \<Rightarrow> \<not> glob (GStar # is @ js) s'
         | Some t \<Rightarrow> plain_name t \<and> (final \<longrightarrow> t = []) \<and> (glob js t \<longleftrightarrow> glob (GStar # is @ js) s')"
      by (auto simp: c)
    moreover have "glob (GStar # is @ js) s \<longleftrightarrow> glob (GStar # is @ js) s'"
      using miss unfolding c glob_star_rec by blast
    ultimately show ?thesis using n True by (auto simp del: glob.simps split: option.splits)
  next
    case star: False
    then show ?thesis using n miss by (cases star) auto
  qed
qed

text \<open>\<open>path.Match\<close> rejects exactly the patterns that are not in the grammar, and on other patterns decides their meaning.\<close>

theorem path_Match_glob:
  "plain_name s \<Longrightarrow> path_Match p s = map_option (\<lambda>is. glob is s) (parse_glob p)"
proof (induction "length p" arbitrary: p s rule: less_induct)
  case less
  show ?case
  proof (cases "p = []")
    case True
    then show ?thesis using path_Match.simps [of "[]" s] by simp
  next
    case False
    obtain star chunk rest where sc: "scanChunk p = (star, chunk, rest)" by (metis prod_cases3)
    obtain k where k: "star \<longleftrightarrow> 0 < k" "parse_glob p = map_option (\<lambda>is. replicate k GStar @ is) (parse_seq chunk rest)"
        "\<And>is. parse_glob chunk = Some is \<Longrightarrow> GStar \<notin> set is" "rest = [] \<or> (\<exists>q. rest = CHR ''*'' # q)" "chunk = [] \<Longrightarrow> rest = []"
      using scanChunk_parse [OF sc] by metis
    have stars: "glob (replicate k GStar @ xs) t \<longleftrightarrow> glob ((if star then [GStar] else []) @ xs) t" for xs t
      using k(1) glob_stars by (cases "k = 0") auto
    note IH = less.hyps [OF scanChunk_shorter [OF sc False]]
    show ?thesis
    proof (cases "star \<and> chunk = []")
      case True
      with k have "parse_glob p = Some (replicate k GStar)" "path_Match p s = Some True"
        using less.prems False sc by (auto simp: path_Match.simps [of p s] parse_seq_def plain_name_def)
      then show ?thesis using stars [of "[]" s] True by auto
    next
      case nostar: False
      note step = path_Match_step [OF False sc nostar, of s]
      show ?thesis
      proof (cases "parse_glob chunk")
        case None
        then have "matchChunk False chunk s = None" by (simp add: matchChunk_None)
        with None show ?thesis using step k(2) by (simp add: next_place_def parse_seq_def)
      next
        case (Some "is")
        define js where "js = (case parse_glob rest of None \<Rightarrow> if rest = [] then [] else [GStar] | Some js \<Rightarrow> js)"
        have js: "rest = [] \<Longrightarrow> js = []" "rest \<noteq> [] \<Longrightarrow> \<exists>js'. js = GStar # js'"
          using k(4) by (auto simp: js_def split: option.splits)
        obtain m where m: "next_place star chunk (rest = []) s = Some m"
            "case m of None \<Rightarrow> \<not> glob ((if star then [GStar] else []) @ is @ js) s
             | Some t \<Rightarrow> plain_name t \<and> (glob js t \<longleftrightarrow> glob ((if star then [GStar] else []) @ is @ js) s)"
          using next_place_first [OF Some k(3) [OF Some] less.prems js] by blast
        have "path_Match p s = (if parse_glob rest = None then None else Some (glob ((if star then [GStar] else []) @ is @ js) s))"
          using step m IH by (auto simp: check_rest_eq js_def simp del: glob.simps split: option.splits)
        then show ?thesis
          using k(2) Some stars by (auto simp: parse_seq_def js_def simp del: glob.simps split: option.splits)
      qed
    qed
  qed
qed

text \<open>Whether a pattern is rejected does not depend on the name, whatever bytes that has.\<close>

lemma skip_loop_None: "parse_glob chunk \<noteq> None \<Longrightarrow> skip_loop chunk final s \<noteq> None"
  by (induction chunk final s rule: skip_loop.induct) (auto simp: matchChunk_None split: option.split)

theorem path_Match_None: "path_Match p s = None \<longleftrightarrow> parse_glob p = None"
proof (induction "length p" arbitrary: p s rule: less_induct)
  case less
  show ?case
  proof (cases "p = []")
    case True
    then show ?thesis using path_Match.simps [of "[]" s] by simp
  next
    case False
    obtain star chunk rest where sc: "scanChunk p = (star, chunk, rest)" by (metis prod_cases3)
    obtain k where k: "parse_glob p = map_option (\<lambda>is. replicate k GStar @ is) (parse_seq chunk rest)" "chunk = [] \<Longrightarrow> rest = []"
      using scanChunk_parse [OF sc] by metis
    note IH = less [OF scanChunk_shorter [OF sc False]]
    show ?thesis
    proof (cases "star \<and> chunk = []")
      case True
      then show ?thesis using k False sc by (simp add: path_Match.simps [of p s] parse_seq_def)
    next
      case nostar: False
      have n: "next_place star chunk final s = None \<longleftrightarrow> parse_glob chunk = None" for final
        using skip_loop_None [of chunk final s] matchChunk_None [of False chunk s]
        by (auto simp: next_place_def split: option.split)
      show ?thesis
        using path_Match_step [OF False sc nostar, of s] n [of "rest = []"] k(1) IH
        by (auto simp: parse_seq_def check_rest_eq split: option.splits)
    qed
  qed
qed

end
