(* ===== verification/Scaler.thy ===== *)
theory Scaler
  imports Drain Glob
begin

text \<open>
  Capacity for the upgrade (\<open>pkg/scaler\<close>): one extra machine per machine set, created before
  the upgrade and removed after it. The machine API is the parameter \<open>machine_api\<close>; a list
  call is given the label options of the source. Pools are selected by \<open>path_Match\<close>. A Go map that may
  be nil is an optional map: writing to a nil map panics.
\<close>

section \<open>Data\<close>

definition LABEL_UPGRADE :: string where
  "LABEL_UPGRADE = ''upgrade.managed.openshift.io''"
definition LABEL_MACHINESET :: string where
  "LABEL_MACHINESET = ''machine.openshift.io/cluster-api-machineset''"
definition LABEL_MACHINE_POOL :: string where
  "LABEL_MACHINE_POOL = ''hive.openshift.io/machine-pool''"

record MachineSet =
  msName :: string
  msNamespace :: string
  msLabels :: "string \<rightharpoonup> string"
  msCreationTimestamp :: instant
  msDeletionTimestamp :: "instant option"
  msSpecReplicas :: "int option"
  msTemplateLabels :: "(string \<rightharpoonup> string) option"
  msSelectorLabels :: "(string \<rightharpoonup> string) option"
  msReplicas :: int
  msReadyReplicas :: int

record Machine =
  machName :: string
  machPhase :: "string option"
  machNodeRef :: "string option"

datatype label_option = MatchingLabel string string | HasLabel string

record 's machine_api =
  list_machinesets :: "label_option list \<Rightarrow> ('s, MachineSet list) ext_op"
  create_machineset :: "MachineSet \<Rightarrow> ('s, unit) ext_op"
  delete_machineset :: "MachineSet \<Rightarrow> ('s, unit) ext_op"
  list_machines :: "label_option list \<Rightarrow> ('s, Machine list) ext_op"
  list_all_nodes :: "('s, Node list) ext_op"
  get_node :: "string \<Rightarrow> ('s, Node) ext_op"

record 'w NodeDrainStrategy =
  nds_Execute :: "Node \<Rightarrow> ('w sys, executed list) op"
  nds_HasFailed :: "Node \<Rightarrow> ('w sys, bool) op"

definition osd_nds :: "'w osdDrainStrategy \<Rightarrow> 'w NodeDrainStrategy" where
  "osd_nds ds = \<lparr>nds_Execute = drain_Execute ds, nds_HasFailed = (\<lambda>n. lift (drain_HasFailed ds n))\<rparr>"

section \<open>Operations\<close>

definition CanScale :: "'s machine_api \<Rightarrow> ('s, bool) op" where
  "CanScale api s =
     bindO (call (list_machinesets api [MatchingLabel LABEL_MACHINE_POOL ''worker'']) s) (\<lambda>ms s.
       (Ok (length ms \<noteq> 0), s))"

text \<open>The first pattern that matches decides; a malformed pattern ends the search with an error.\<close>

fun matches_any :: "string list \<Rightarrow> string \<Rightarrow> bool outcome" where
  "matches_any [] v = Ok False"
| "matches_any (p # ps) v =
     (case path_Match p v of
        None \<Rightarrow> Err (Errorf (''matching pattern '' @ Quote p @ '' against pool '' @ Quote v @ '': syntax error in pattern''))
      | Some True \<Rightarrow> Ok True
      | Some False \<Rightarrow> matches_any ps v)"

abbreviation poolValue :: "MachineSet \<Rightarrow> string" where
  "poolValue ms \<equiv> case msLabels ms LABEL_MACHINE_POOL of None \<Rightarrow> [] | Some v \<Rightarrow> v"

fun pool_loop :: "string list \<Rightarrow> MachineSet list \<Rightarrow> MachineSet list outcome" where
  "pool_loop pats [] = Ok []"
| "pool_loop pats (ms # rest) =
     (let v = poolValue ms
      in if v = ''worker'' then pool_loop pats rest
         else case matches_any pats v of
                Err e \<Rightarrow> Err e
              | Panic \<Rightarrow> Panic
              | Ok b \<Rightarrow> (case pool_loop pats rest of
                          Ok out \<Rightarrow> Ok (if b then ms # out else out)
                        | r \<Rightarrow> r))"

definition listMachineSetsByPoolPatterns ::
    "'s runtime \<Rightarrow> 's machine_api \<Rightarrow> string list \<Rightarrow> ('s, MachineSet list) op" where
  "listMachineSetsByPoolPatterns rt api pats s =
     bindO (wrap_err rt ''listing machinesets by pool label: '' (call (list_machinesets api [HasLabel LABEL_MACHINE_POOL]) s)) (\<lambda>ms s.
       (pool_loop pats ms, s))"

text \<open>The clone of a machine set; the four label writes panic on a nil map.\<close>

definition upgrade_clone :: "MachineSet \<Rightarrow> MachineSet outcome" where
  "upgrade_clone ms =
     (let name = msName ms @ ''-upgrade'';
          newMs = ms\<lparr>msName := name, msLabels := [LABEL_UPGRADE \<mapsto> ''true''], msCreationTimestamp := zero_time,
                     msDeletionTimestamp := None, msSpecReplicas := Some 1\<rparr>
      in case (msTemplateLabels ms, msSelectorLabels ms) of
           (Some t, Some sel) \<Rightarrow>
             Ok (newMs\<lparr>msTemplateLabels := Some (t(LABEL_UPGRADE \<mapsto> ''true'', LABEL_MACHINESET \<mapsto> name)),
                        msSelectorLabels := Some (sel(LABEL_UPGRADE \<mapsto> ''true'', LABEL_MACHINESET \<mapsto> name))\<rparr>)
         | _ \<Rightarrow> Panic)"

fun extraMachineSetCreated ::
    "'s machine_api \<Rightarrow> MachineSet list \<Rightarrow> MachineSet list \<Rightarrow> ('s, bool) op" where
  "extraMachineSetCreated api [] upgradeMs s = (Ok True, s)"
| "extraMachineSetCreated api (ms # rest) upgradeMs s =
     (if list_ex (\<lambda>ums. msName ums = msName ms @ ''-upgrade'') upgradeMs then (Ok False, s)
      else bindO (upgrade_clone ms, s) (\<lambda>newMs s.
           bindO (call (create_machineset api newMs) s) (\<lambda>_ s.
             extraMachineSetCreated api rest upgradeMs s)))"

fun nodesAreReady ::
    "'s runtime \<Rightarrow> 's machine_api \<Rightarrow> duration \<Rightarrow> MachineSet list \<Rightarrow> ('s, bool) op" where
  "nodesAreReady rt api timeOut [] s = (Ok True, s)"
| "nodesAreReady rt api timeOut (ms # rest) s =
     (let deadline = msCreationTimestamp ms + timeOut
      in if msReplicas ms \<noteq> msReadyReplicas ms
         then let (now, s) = time_now rt s
              in if deadline < now
                 then (Err (ScaleTimeOutError (''Machineset '' @ msName ms @ '' provisioning timout'')), s)
                 else (Ok False, s)
         else bindO (call (list_machines api [MatchingLabel LABEL_UPGRADE ''true'',
                                              MatchingLabel LABEL_MACHINESET (msName ms)]) s) (\<lambda>machines s.
           case machines of
             [machine] \<Rightarrow>
               (case machNodeRef machine of
                  None \<Rightarrow> (Panic, s)
                | Some ref \<Rightarrow>
                    bindO (call (get_node api ref) s) (\<lambda>node s.
                      if list_ex (\<lambda>c. c = (''Ready'', CTrue)) (nodeConditions node)
                      then nodesAreReady rt api timeOut rest s
                      else let (now, s) = time_now rt s
                           in if deadline < now
                              then (Err (ScaleTimeOutError ''Timeout waiting for node: to become ready''), s)
                              else (Ok False, s)))
           | _ \<Rightarrow> (Ok False, s)))"

definition EnsureScaleUpNodes ::
    "'s runtime \<Rightarrow> 's machine_api \<Rightarrow> duration \<Rightarrow> string list \<Rightarrow> ('s, bool) op" where
  "EnsureScaleUpNodes rt api timeOut extraMachinePools s =
     bindO (call (list_machinesets api [MatchingLabel LABEL_UPGRADE ''true'']) s) (\<lambda>upgradeMs s.
       let (workers, s) =
             (case call (list_machinesets api [MatchingLabel LABEL_MACHINE_POOL ''worker'']) s of
                (Ok ms, s) \<Rightarrow> (ms, s)
              | (_, s) \<Rightarrow> ([], s));
           (extra, s) =
             (if length extraMachinePools > 0
              then (case listMachineSetsByPoolPatterns rt api extraMachinePools s of
                      (Ok ms, s) \<Rightarrow> (ms, s)
                    | (_, s) \<Rightarrow> ([], s))
              else ([], s));
           allOriginals = workers @ extra
       in if length allOriginals = 0 then (Err (Errorf ''failed to get any machinesets to scale''), s)
          else bindO (extraMachineSetCreated api allOriginals upgradeMs s) (\<lambda>created s.
                 if created then (Ok False, s) else nodesAreReady rt api timeOut upgradeMs s))"

fun delete_machinesets :: "'s machine_api \<Rightarrow> MachineSet list \<Rightarrow> ('s, unit) op" where
  "delete_machinesets api [] s = (Ok (), s)"
| "delete_machinesets api (ms # rest) s =
     (if msDeletionTimestamp ms = None
      then bindO (call (delete_machineset api ms) s) (\<lambda>_ s. delete_machinesets api rest s)
      else delete_machinesets api rest s)"

text \<open>
  The nodes of the running or deleting upgrade machines. The nil check on the node reference
  is inside the loop over the nodes.
\<close>

fun extra_nodes :: "Node list \<Rightarrow> Machine list \<Rightarrow> Node list outcome" where
  "extra_nodes nodes [] = Ok []"
| "extra_nodes nodes (m # ms) =
     (case machPhase m of
        None \<Rightarrow> Panic
      | Some ph \<Rightarrow>
          if ph = ''Running'' \<or> ph = ''Deleting''
          then (case (nodes, machNodeRef m) of
                  (_ # _, None) \<Rightarrow>
                    Err (Errorf (''an upgrade machine '' @ machName m @ '' exists but has no node association''))
                | (_, ref) \<Rightarrow>
                    (case extra_nodes nodes ms of
                       Ok rest \<Rightarrow> Ok (filter (\<lambda>n. ref = Some (nodeName n)) nodes @ rest)
                     | r \<Rightarrow> r))
          else extra_nodes nodes ms)"

definition getExtraUpgradeNodes :: "'s machine_api \<Rightarrow> ('s, Node list) op" where
  "getExtraUpgradeNodes api s =
     bindO (call (list_all_nodes api) s) (\<lambda>nodes s.
     bindO (call (list_machines api [MatchingLabel LABEL_UPGRADE ''true'']) s) (\<lambda>machines s.
       (extra_nodes nodes machines, s)))"

fun execute_all :: "'w NodeDrainStrategy \<Rightarrow> Node list \<Rightarrow> ('w sys, unit) op" where
  "execute_all nds [] s = (Ok (), s)"
| "execute_all nds (n # ns) s = bindO (nds_Execute nds n s) (\<lambda>_ s. execute_all nds ns s)"

fun failed_loop :: "'w NodeDrainStrategy \<Rightarrow> Node list \<Rightarrow> ('w sys, bool) op" where
  "failed_loop nds [] s = (Ok True, s)"
| "failed_loop nds (n # ns) s =
     bindO (nds_HasFailed nds n s) (\<lambda>failed s.
       if failed then (Err (DrainTimeOutError (nodeName n)), s) else failed_loop nds ns s)"

definition handleDrainStrategy :: "'w NodeDrainStrategy \<Rightarrow> Node list \<Rightarrow> ('w sys, bool) op" where
  "handleDrainStrategy nds nodes s =
     bindO (execute_all nds nodes s) (\<lambda>_ s. failed_loop nds nodes s)"

definition EnsureScaleDownNodes ::
    "'w machine_api \<Rightarrow> 'w NodeDrainStrategy option \<Rightarrow> ('w sys, bool) op" where
  "EnsureScaleDownNodes api nds s =
     bindO (lift (call (list_machinesets api [MatchingLabel LABEL_UPGRADE ''true''])) s) (\<lambda>upgradeMs s.
     bindO (lift (delete_machinesets api upgradeMs) s) (\<lambda>_ s.
     bindO (case nds of
              None \<Rightarrow> (Ok True, s)
            | Some n \<Rightarrow> bindO (lift (getExtraUpgradeNodes api) s) (\<lambda>nodes s. handleDrainStrategy n nodes s)) (\<lambda>_ s.
     bindO (lift (call (list_machines api [MatchingLabel LABEL_UPGRADE ''true''])) s) (\<lambda>machines s.
       (Ok (length machines = 0), s)))))"

definition IsScaleTimeOutError :: "goerr \<Rightarrow> bool" where
  "IsScaleTimeOutError e \<longleftrightarrow> (case e of ScaleTimeOutError _ \<Rightarrow> True | _ \<Rightarrow> False)"

definition IsDrainTimeOutError :: "goerr \<Rightarrow> string option" where
  "IsDrainTimeOutError e = (case e of DrainTimeOutError n \<Rightarrow> Some n | _ \<Rightarrow> None)"

section \<open>Lemmas\<close>

lemma upgrade_clone_spec:
  assumes "upgrade_clone ms = Ok c"
  shows "msName c = msName ms @ ''-upgrade''" "msNamespace c = msNamespace ms"
    "msLabels c = [LABEL_UPGRADE \<mapsto> ''true'']" "msSpecReplicas c = Some 1"
    "\<exists>t. msTemplateLabels c = Some t \<and> t LABEL_UPGRADE = Some ''true'' \<and> t LABEL_MACHINESET = Some (msName c)"
    "\<exists>t. msSelectorLabels c = Some t \<and> t LABEL_UPGRADE = Some ''true'' \<and> t LABEL_MACHINESET = Some (msName c)"
  using assms
  by (auto simp: upgrade_clone_def Let_def LABEL_UPGRADE_def LABEL_MACHINESET_def split: option.splits)

text \<open>The machine sets a scale-up asks the API to create.\<close>

lemma extraMachineSetCreated_True:
  assumes "extraMachineSetCreated api mss ups s = (Ok True, s')"
  shows "\<forall>ms \<in> set mss. msName ms @ ''-upgrade'' \<notin> msName ` set ups \<and> (\<exists>c. upgrade_clone ms = Ok c)"
  using assms
  by (induction mss arbitrary: s) (auto simp: bindO_Ok_iff list_ex_iff split: if_splits)

lemma nodesAreReady_timeout:
  assumes "nodesAreReady rt api timeOut mss s = (Err (ScaleTimeOutError e), s')"
    and ext_err: "\<And>l w m w'. list_machines api l w \<noteq> (Inl (ScaleTimeOutError m), w')"
      "\<And>l w m w'. get_node api l w \<noteq> (Inl (ScaleTimeOutError m), w')"
  shows "\<exists>ms \<in> set mss. \<exists>w now. time_now rt w = (now, s') \<and> msCreationTimestamp ms + timeOut < now"
  using assms(1)
proof (induction mss arbitrary: s)
  case Nil
  then show ?case by simp
next
  case (Cons ms rest)
  have late: "\<exists>ms \<in> set (ms # rest). \<exists>w now. time_now rt w = (now, s') \<and> msCreationTimestamp ms + timeOut < now"
    if "(case time_now rt w of (now, s) \<Rightarrow>
           if msCreationTimestamp ms + timeOut < now then (Err (ScaleTimeOutError x), s) else (Ok False, s))
        = (Err (ScaleTimeOutError e), s')" for w x
    using that by (cases "time_now rt w") (auto split: if_splits)
  show ?case
    using Cons.prems Cons.IH late
    by (force simp: Let_def ext_err split: if_splits bindO_splits list.splits option.splits)
qed

section \<open>Properties\<close>

definition sample_ms :: MachineSet where
  "sample_ms =
     \<lparr>msName = ''w1'', msNamespace = ''openshift-machine-api'', msLabels = [LABEL_MACHINE_POOL \<mapsto> ''worker''],
      msCreationTimestamp = 0, msDeletionTimestamp = None, msSpecReplicas = Some 3, msTemplateLabels = Some Map.empty,
      msSelectorLabels = Some Map.empty, msReplicas = 1, msReadyReplicas = 0\<rparr>"

text \<open>A machine API whose machine sets carry the upgrade label, and that reports no machine.\<close>

definition sample_machines :: "unit machine_api" where
  "sample_machines =
     \<lparr>list_machinesets = (\<lambda>_ s. (Inr [sample_ms], s)), create_machineset = (\<lambda>_ s. (Inr (), s)),
      delete_machineset = (\<lambda>_ s. (Inr (), s)), list_machines = (\<lambda>_ s. (Inr [], s)),
      list_all_nodes = (\<lambda>s. (Inr [], s)), get_node = (\<lambda>n s. (Inl (ApiNotFound n), s))\<rparr>"

text \<open>
  The machine set created for the upgrade is a clone with its own name, one replica and no other
  label than the upgrade label; the selector and the template of the clone agree on the upgrade label
  and on the clone's name, so the clone selects its own machines and no machine of the original.
\<close>

theorem upgrade_clone_selects_itself:
  assumes "upgrade_clone ms = Ok c"
  shows "msName c = msName ms @ ''-upgrade'' \<and> msName c \<noteq> msName ms \<and> msNamespace c = msNamespace ms \<and>
    msLabels c = [LABEL_UPGRADE \<mapsto> ''true''] \<and> msSpecReplicas c = Some 1 \<and>
    (\<exists>t sel. msTemplateLabels c = Some t \<and> msSelectorLabels c = Some sel \<and>
       (\<forall>k \<in> {LABEL_UPGRADE, LABEL_MACHINESET}. t k = sel k \<and> t k \<noteq> None) \<and>
       sel LABEL_MACHINESET = Some (msName c))"
  using upgrade_clone_spec [OF assms] by auto

theorem upgrade_clone_selects_itself_witness:
  "\<exists>c. upgrade_clone sample_ms = Ok c \<and> msName c = ''w1-upgrade'' \<and> msSpecReplicas c = Some 1"
proof -
  obtain c where c: "upgrade_clone sample_ms = Ok c"
    by (simp add: upgrade_clone_def sample_ms_def Let_def)
  show ?thesis
    using upgrade_clone_selects_itself [OF c] c by (simp add: sample_ms_def)
qed

text \<open>
  Scaling up reports a time-out only when it is one: some upgrade machine set is older than the
  configured time at the moment the clock is read, unless the API itself answers with a time-out error.
\<close>

theorem scale_timeout_only_late:
  assumes "nodesAreReady rt api timeOut mss s = (Err (ScaleTimeOutError e), s')"
    and "\<And>l w m w'. list_machines api l w \<noteq> (Inl (ScaleTimeOutError m), w')"
    and "\<And>l w m w'. get_node api l w \<noteq> (Inl (ScaleTimeOutError m), w')"
  shows "\<exists>ms \<in> set mss. \<exists>w now. time_now rt w = (now, s') \<and> msCreationTimestamp ms + timeOut < now"
  by (rule nodesAreReady_timeout [OF assms])

theorem scale_timeout_only_late_witness:
  "nodesAreReady still_clock sample_machines 5 [sample_ms] () =
     (Err (ScaleTimeOutError ''Machineset w1 provisioning timout''), ()) \<and> msCreationTimestamp sample_ms + 5 < 7"
proof -
  have r: "nodesAreReady still_clock sample_machines 5 [sample_ms] () =
     (Err (ScaleTimeOutError ''Machineset w1 provisioning timout''), ())"
    by (simp add: sample_ms_def still_clock_def)
  show ?thesis
    using scale_timeout_only_late [OF r] r by (simp add: sample_machines_def still_clock_def)
qed

section \<open>The negative selector\<close>

text \<open>
  A selector is the list of its requirements, here all of the form \<open>label != value\<close>, which an object without the label
  meets. \<open>labels.NewRequirement\<close> gives nothing for a label or value that is not well-formed (\<open>ok\<close>), and the
  dereference of it panics. The list is the map in the order of its iteration.
\<close>

fun NotSelectorFromSet :: "(string \<Rightarrow> string \<Rightarrow> bool) \<Rightarrow> (string \<times> string) list \<Rightarrow> (string \<times> string) list outcome" where
  "NotSelectorFromSet ok [] = Ok []"
| "NotSelectorFromSet ok ((l, v) # ls) =
     (if ok l v then (case NotSelectorFromSet ok ls of Ok sel \<Rightarrow> Ok ((l, v) # sel) | r \<Rightarrow> r) else Panic)"

definition selects :: "(string \<times> string) list \<Rightarrow> (string \<rightharpoonup> string) \<Rightarrow> bool" where
  "selects sel labels \<longleftrightarrow> list_all (\<lambda>(l, v). case labels l of None \<Rightarrow> True | Some w \<Rightarrow> w \<noteq> v) sel"

text \<open>The list options: a selector overwrites the one that is there.\<close>

definition ApplyToList ::
    "(string \<Rightarrow> string \<Rightarrow> bool) \<Rightarrow> (string \<times> string) list \<Rightarrow> (string \<times> string) list option \<Rightarrow>
     (string \<times> string) list option outcome" where
  "ApplyToList ok m opts = (case NotSelectorFromSet ok m of Ok sel \<Rightarrow> Ok (Some sel) | Err e \<Rightarrow> Err e | Panic \<Rightarrow> Panic)"

lemma NotSelectorFromSet_all: "NotSelectorFromSet ok ls = Ok sel \<Longrightarrow> sel = ls"
  by (induction ls arbitrary: sel) (auto split: if_splits outcome.splits)

text \<open>An object is selected when it has none of the labels with its value, so the order of the iteration does not matter.\<close>

lemma NotSelectorFromSet_selects:
  assumes "NotSelectorFromSet ok ls = Ok sel"
  shows "selects sel labels \<longleftrightarrow> (\<forall>(l, v) \<in> set ls. labels l \<noteq> Some v)"
  unfolding selects_def NotSelectorFromSet_all [OF assms] list_all_iff by (fastforce split: option.splits)

section \<open>A scale-up that was interrupted\<close>

lemma extraMachineSetCreated_found:
  "msName ms @ ''-upgrade'' \<in> msName ` set ups \<Longrightarrow> extraMachineSetCreated api (ms # rest) ups s = (Ok False, s)"
  by (auto simp: list_ex_iff)

text \<open>
  C33: A scale-up that was interrupted is never completed. Once the clone of the first worker machine set exists, the
  scale-up only lists and looks at the clones there are, whatever the configured pools: whatever other machine sets, of the workers or of an
  extra pool, lack their clones, none is created for them, and the step passes as soon as the existing ones are ready.
\<close>

theorem interrupted_scale_up_not_resumed:
  assumes "list_machinesets api [MatchingLabel LABEL_UPGRADE ''true''] w = (Inr ups, w1)"
    and "list_machinesets api [MatchingLabel LABEL_MACHINE_POOL ''worker''] w1 = (Inr (ms # rest), w2)"
    and "msName ms @ ''-upgrade'' \<in> msName ` set ups"
  shows "EnsureScaleUpNodes rt api timeOut pools w =
    nodesAreReady rt api timeOut ups (if pools = [] then w2 else snd (listMachineSetsByPoolPatterns rt api pools w2))"
proof -
  obtain r w3 where l: "listMachineSetsByPoolPatterns rt api pools w2 = (r, w3)" by fastforce
  show ?thesis
    using assms(1,2) l
    by (cases r) (simp_all add: EnsureScaleUpNodes_def call_def extraMachineSetCreated_found [OF assms(3)] del: extraMachineSetCreated.simps)
qed

text \<open>
  Two worker machine sets and one of the pool \<open>infra\<close>, and an API server that takes the clone of the first and refuses that of the
  second. Machines come up at once. The state is the list of clones.
\<close>

definition two_workers :: "MachineSet list machine_api" where
  "two_workers =
     \<lparr>list_machinesets = (\<lambda>l s. (Inr (if l = [MatchingLabel LABEL_UPGRADE ''true''] then s
                                 else if l = [HasLabel LABEL_MACHINE_POOL]
                                 then [sample_ms, sample_ms\<lparr>msName := ''w2''\<rparr>,
                                       sample_ms\<lparr>msName := ''i1'', msLabels := [LABEL_MACHINE_POOL \<mapsto> ''infra'']\<rparr>]
                                 else [sample_ms, sample_ms\<lparr>msName := ''w2''\<rparr>]), s)),
      create_machineset = (\<lambda>ms s. if msName ms = ''w2-upgrade'' then (Inl (ApiError ''quota''), s)
                                 else (Inr (), s @ [ms\<lparr>msReadyReplicas := msReplicas ms\<rparr>])),
      delete_machineset = (\<lambda>_ s. (Inr (), s)),
      list_machines = (\<lambda>l s. (Inr [\<lparr>machName = ''m'', machPhase = Some ''Running'', machNodeRef = Some ''n1''\<rparr>], s)),
      list_all_nodes = (\<lambda>s. (Inr [], s)),
      get_node = (\<lambda>n s. (Inr \<lparr>nodeName = n, nodeLabels = Map.empty, nodeAnnotations = Map.empty, nodeUnschedulable = False,
        nodeTaints = [], nodeConditions = [(''Ready'', CTrue)], nodeDeletionTimestamp = None\<rparr>, s))\<rparr>"

definition minute_clock :: "'s runtime" where
  "minute_clock = \<lparr>time_now = (\<lambda>s. (Minute, s)), error_string = (\<lambda>_. ''error'')\<rparr>"

theorem interrupted_scale_up_not_resumed_witness:
  "\<exists>clones. EnsureScaleUpNodes minute_clock two_workers Hour [''infra''] [] = (Err (ApiError ''quota''), clones) \<and>
     map msName clones = [''w1-upgrade''] \<and>
     EnsureScaleUpNodes minute_clock two_workers Hour [''infra''] clones = (Ok True, clones)"
proof -
  define clone where "clone = (case upgrade_clone sample_ms of Ok c \<Rightarrow> c\<lparr>msReadyReplicas := msReplicas c\<rparr>)"
  have m: "matches_any [''infra''] ''infra'' = Ok True" by code_simp
  have "pool_loop [''infra''] [sample_ms, sample_ms\<lparr>msName := ''w2''\<rparr>,
      sample_ms\<lparr>msName := ''i1'', msLabels := [LABEL_MACHINE_POOL \<mapsto> ''infra'']\<rparr>] =
      Ok [sample_ms\<lparr>msName := ''i1'', msLabels := [LABEL_MACHINE_POOL \<mapsto> ''infra'']\<rparr>]"
    by (simp add: m sample_ms_def del: matches_any.simps)
  then have pools: "listMachineSetsByPoolPatterns minute_clock two_workers [''infra''] s =
      (Ok [sample_ms\<lparr>msName := ''i1'', msLabels := [LABEL_MACHINE_POOL \<mapsto> ''infra'']\<rparr>], s)" for s
    by (simp add: listMachineSetsByPoolPatterns_def two_workers_def call_def del: pool_loop.simps)
  have first: "EnsureScaleUpNodes minute_clock two_workers Hour [''infra''] [] = (Err (ApiError ''quota''), [clone])"
    unfolding EnsureScaleUpNodes_def pools
    by (simp add: two_workers_def call_def clone_def upgrade_clone_def sample_ms_def LABEL_UPGRADE_def LABEL_MACHINE_POOL_def Let_def)
  have n: "msName clone = ''w1-upgrade''" "msReplicas clone = msReadyReplicas clone"
    by (simp_all add: clone_def upgrade_clone_def sample_ms_def Let_def)
  have l: "list_machinesets two_workers [MatchingLabel LABEL_UPGRADE ''true''] [clone] = (Inr [clone], [clone])"
      "list_machinesets two_workers [MatchingLabel LABEL_MACHINE_POOL ''worker''] [clone] =
         (Inr [sample_ms, sample_ms\<lparr>msName := ''w2''\<rparr>], [clone])"
    by (simp_all add: two_workers_def LABEL_UPGRADE_def LABEL_MACHINE_POOL_def)
  have "msName sample_ms @ ''-upgrade'' \<in> msName ` set [clone]" by (simp add: n sample_ms_def)
  from interrupted_scale_up_not_resumed [OF l this, of minute_clock Hour "[''infra'']"]
  have "EnsureScaleUpNodes minute_clock two_workers Hour [''infra''] [clone] = nodesAreReady minute_clock two_workers Hour [clone] [clone]"
    by (simp add: pools del: nodesAreReady.simps)
  also have "\<dots> = (Ok True, [clone])"
    by (simp add: n two_workers_def call_def Let_def)
  finally show ?thesis using first n by auto
qed

end
