(* ===== verification/Maintenance.thy ===== *)
theory Maintenance
  imports Steps
begin

text \<open>
  Maintenance windows (\<open>pkg/maintenance\<close>) as Alertmanager silences (\<open>pkg/alertmanager\<close>). The
  Alertmanager API is the parameter \<open>am_api\<close>; \<open>am_store\<close> is the hypothesis that it keeps the
  silences it is given and expires the ones it is told to delete.
\<close>

section \<open>The silence client\<close>

record Matcher =
  mName :: string
  mIsRegex :: bool
  mValue :: string

record Silence =
  silID :: string
  silComment :: string
  silCreatedBy :: string
  silState :: string
  silMatchers :: "Matcher list"
  silStartsAt :: instant
  silEndsAt :: instant

record PostableSilence =
  psComment :: string
  psCreatedBy :: string
  psMatchers :: "Matcher list"
  psStartsAt :: instant
  psEndsAt :: instant

record 's am_api =
  post_silence :: "PostableSilence \<Rightarrow> ('s, unit) ext_op"
  get_silences :: "('s, Silence list) ext_op"
  get_silence :: "string \<Rightarrow> ('s, Silence) ext_op"
  delete_silence :: "string \<Rightarrow> ('s, unit) ext_op"

definition am_Create ::
    "'s am_api \<Rightarrow> Matcher list \<Rightarrow> instant \<Rightarrow> instant \<Rightarrow> string \<Rightarrow> string \<Rightarrow> ('s, unit) op" where
  "am_Create api matchers startsAt endsAt creator comment =
     call (post_silence api \<lparr>psComment = comment, psCreatedBy = creator, psMatchers = matchers,
                             psStartsAt = startsAt, psEndsAt = endsAt\<rparr>)"

definition am_List :: "'s am_api \<Rightarrow> ('s, Silence list) op" where
  "am_List api = call (get_silences api)"

definition am_Delete :: "'s am_api \<Rightarrow> string \<Rightarrow> ('s, unit) op" where
  "am_Delete api i = call (delete_silence api i)"

definition am_Update :: "'s runtime \<Rightarrow> 's am_api \<Rightarrow> string \<Rightarrow> instant \<Rightarrow> ('s, unit) op" where
  "am_Update rt api i endsAt s =
     bindO (call (get_silence api i) s) (\<lambda>r s.
       case am_Create api (silMatchers r) (silStartsAt r) endsAt (silCreatedBy r) (silComment r) s of
         (Err e, s) \<Rightarrow> (Err (Errorf (''unable to create replacement silence: '' @ error_string rt e)), s)
       | (Panic, s) \<Rightarrow> (Panic, s)
       | (Ok _, s) \<Rightarrow>
           if silState r = ''active''
           then (case am_Delete api (silID r) s of
                   (Err e, s) \<Rightarrow> (Err (Errorf (''unable to remove replaced silence: '' @ error_string rt e)), s)
                 | (r', s) \<Rightarrow> (r', s))
           else (Ok (), s))"

type_synonym SilencePredicate = "Silence \<Rightarrow> bool"

definition am_Filter :: "'s am_api \<Rightarrow> SilencePredicate list \<Rightarrow> ('s, Silence list) op" where
  "am_Filter api ps s =
     bindO (am_List api s) (\<lambda>sils s. (Ok (filter (\<lambda>x. list_all (\<lambda>p. p x) ps) sils), s))"

section \<open>Maintenance windows\<close>

definition OperatorName :: string where
  "OperatorName = ''managed-upgrade-operator''"

definition controlPlaneSilenceCommentId :: string where
  "controlPlaneSilenceCommentId = ''OSD control plane''"

definition workerSilenceCommentId :: string where
  "workerSilenceCommentId = ''OSD worker node''"

definition createMatcher :: "string \<Rightarrow> string \<Rightarrow> bool \<Rightarrow> Matcher" where
  "createMatcher k v isRegex = \<lparr>mName = k, mIsRegex = isRegex, mValue = v\<rparr>"

definition createDefaultMatchers :: "Matcher list" where
  "createDefaultMatchers =
     [createMatcher ''severity'' ''(warning|info)'' True,
      createMatcher ''namespace'' ''(^openshift.*|^kube.*|^redhat.*|^default$)'' True]"

definition activeSilences :: SilencePredicate where
  "activeSilences x \<longleftrightarrow> silState x = ''active''"

definition createdByOperator :: SilencePredicate where
  "createdByOperator x \<longleftrightarrow> silCreatedBy x = OperatorName"

definition equalsComment :: "string \<Rightarrow> SilencePredicate" where
  "equalsComment c x \<longleftrightarrow> silComment x = c"

definition containsComment :: "string \<Rightarrow> SilencePredicate" where
  "containsComment c x \<longleftrightarrow> Contains (silComment x) c"

definition default_comment :: "string \<Rightarrow> string" where
  "default_comment v = ''Silence for '' @ controlPlaneSilenceCommentId @ '' upgrade to version '' @ v"

definition critical_comment :: "string \<Rightarrow> string" where
  "critical_comment v =
     ''Silence for critical alerts during '' @ controlPlaneSilenceCommentId @ '' upgrade to version '' @ v"

definition StartControlPlane ::
    "'s runtime \<Rightarrow> 's am_api \<Rightarrow> instant \<Rightarrow> string \<Rightarrow> string list \<Rightarrow> ('s, unit) op" where
  "StartControlPlane rt api endsAt version ignoredCriticalAlerts s =
     bindO (am_Filter api [equalsComment (default_comment version)] s) (\<lambda>defaultSilence s.
     bindO (am_Filter api [equalsComment (critical_comment version)] s) (\<lambda>criticalSilence s.
       let defaultExists = length defaultSilence > 0; criticalExists = length criticalSilence > 0
       in if defaultExists \<and> criticalExists then (Ok (), s)
          else
            let (now, s) = time_now rt s
            in bindO (if \<not> defaultExists
                      then am_Create api createDefaultMatchers now endsAt OperatorName (default_comment version) s
                      else (Ok (), s)) (\<lambda>_ s.
                 if \<not> criticalExists \<and> length ignoredCriticalAlerts > 0
                 then am_Create api
                        [createMatcher ''alertname'' (''('' @ Join ignoredCriticalAlerts ''|'' @ '')'') True]
                        now endsAt OperatorName (critical_comment version) s
                 else (Ok (), s))))"

definition worker_comment :: "string \<Rightarrow> string" where
  "worker_comment v = ''Silence for '' @ workerSilenceCommentId @ '' upgrade to version '' @ v"

definition worker_full_comment :: "string \<Rightarrow> int \<Rightarrow> string" where
  "worker_full_comment v count = worker_comment v @ '' with remaining '' @ show_int count @ '' nodes''"

definition SetWorker :: "'s runtime \<Rightarrow> 's am_api \<Rightarrow> instant \<Rightarrow> string \<Rightarrow> int \<Rightarrow> ('s, unit) op" where
  "SetWorker rt api endsAt version count s =
     bindO (am_Filter api [equalsComment (worker_full_comment version count)] s) (\<lambda>silenceList s.
       if length silenceList > 0 then (Ok (), s)
       else
         bindO (am_Filter api [activeSilences, containsComment (worker_comment version)] s) (\<lambda>oldSilenceList s.
         bindO (case oldSilenceList of
                  [] \<Rightarrow> (Ok (), s)
                | old # _ \<Rightarrow> am_Delete api (silID old) s) (\<lambda>_ s.
           let (now, s) = time_now rt s
           in am_Create api createDefaultMatchers now endsAt OperatorName (worker_full_comment version count) s)))"

fun delete_silences :: "'s am_api \<Rightarrow> Silence list \<Rightarrow> goerr list \<Rightarrow> 's \<Rightarrow> goerr list \<times> 's" where
  "delete_silences api [] errs s = (errs, s)"
| "delete_silences api (x # xs) errs s =
     (case am_Delete api (silID x) s of
        (Err e, s) \<Rightarrow> delete_silences api xs (errs @ [e]) s
      | (_, s) \<Rightarrow> delete_silences api xs errs s)"

definition EndSilences :: "'s am_api \<Rightarrow> string \<Rightarrow> ('s, unit) op" where
  "EndSilences api comment s =
     bindO (am_Filter api [createdByOperator, activeSilences, containsComment comment] s) (\<lambda>silences s.
       let (errs, s) = delete_silences api silences [] s
       in case ErrorOrNil errs of None \<Rightarrow> (Ok (), s) | Some e \<Rightarrow> (Err e, s))"

definition EndControlPlane :: "'s am_api \<Rightarrow> ('s, unit) op" where
  "EndControlPlane api = EndSilences api controlPlaneSilenceCommentId"

definition EndWorker :: "'s am_api \<Rightarrow> ('s, unit) op" where
  "EndWorker api = EndSilences api workerSilenceCommentId"

definition IsActive :: "'s am_api \<Rightarrow> ('s, bool) op" where
  "IsActive api s =
     bindO (am_Filter api [activeSilences, createdByOperator] s) (\<lambda>silences s. (Ok (length silences > 0), s))"

section \<open>Alertmanager\<close>

definition expire :: "string \<Rightarrow> Silence \<Rightarrow> Silence" where
  "expire i x = (if silID x = i then x\<lparr>silState := ''expired''\<rparr> else x)"

definition posted :: "PostableSilence \<Rightarrow> Silence \<Rightarrow> bool" where
  "posted p x \<longleftrightarrow> silComment x = psComment p \<and> silCreatedBy x = psCreatedBy p \<and> silState x = ''active'' \<and>
     silMatchers x = psMatchers p \<and> silStartsAt x = psStartsAt p \<and> silEndsAt x = psEndsAt p"

text \<open>
  The silences in state \<open>s\<close> are \<open>view s\<close>. A successful post adds one active silence, a successful
  delete expires the silence with that id, a failed call changes nothing; reading changes
  nothing either, and neither does the clock.
\<close>

definition am_store :: "'s runtime \<Rightarrow> 's am_api \<Rightarrow> ('s \<Rightarrow> Silence list) \<Rightarrow> bool" where
  "am_store rt api view \<longleftrightarrow>
     (\<forall>s. view (snd (time_now rt s)) = view s) \<and>
     (\<forall>s r s'. get_silences api s = (r, s') \<longrightarrow> view s' = view s \<and> (\<forall>xs. r = Inr xs \<longrightarrow> xs = view s)) \<and>
     (\<forall>p s r s'. post_silence api p s = (r, s') \<longrightarrow>
        (case r of Inl _ \<Rightarrow> view s' = view s | Inr _ \<Rightarrow> \<exists>x. posted p x \<and> view s' = view s @ [x])) \<and>
     (\<forall>i s r s'. delete_silence api i s = (r, s') \<longrightarrow>
        view s' = (case r of Inl _ \<Rightarrow> view s | Inr _ \<Rightarrow> map (expire i) (view s)))"

lemma am_Filter_view:
  assumes "am_store rt api view" "am_Filter api ps s = (r, s')"
  shows "view s' = view s" "r = Ok xs \<Longrightarrow> xs = filter (\<lambda>x. list_all (\<lambda>p. p x) ps) (view s)"
  using assms
  by (auto simp: am_store_def am_Filter_def am_List_def call_def bindO_def split: prod.splits outcome.splits)

lemma am_Create_view:
  assumes "am_store rt api view" "am_Create api m st en cr c s = (Ok (), s')"
  shows "\<exists>x. silComment x = c \<and> silCreatedBy x = cr \<and> silState x = ''active'' \<and> silEndsAt x = en \<and>
             view s' = view s @ [x]"
proof -
  let ?p = "\<lparr>psComment = c, psCreatedBy = cr, psMatchers = m, psStartsAt = st, psEndsAt = en\<rparr>"
  have "post_silence api ?p s = (Inr (), s')" using assms(2) by (simp add: am_Create_def)
  moreover have "\<forall>p s r s'. post_silence api p s = (r, s') \<longrightarrow>
        (case r of Inl _ \<Rightarrow> view s' = view s | Inr _ \<Rightarrow> \<exists>x. posted p x \<and> view s' = view s @ [x])"
    using assms(1) by (simp add: am_store_def)
  ultimately obtain x where "posted ?p x" "view s' = view s @ [x]" by fastforce
  then show ?thesis by (auto simp: posted_def)
qed

lemma am_Delete_view:
  assumes "am_store rt api view" "am_Delete api i s = (r, s')"
  shows "view s' = (case r of Ok _ \<Rightarrow> map (expire i) (view s) | _ \<Rightarrow> view s)"
proof -
  obtain q s1 where q: "delete_silence api i s = (q, s1)" by fastforce
  have "view s1 = (case q of Inl _ \<Rightarrow> view s | Inr _ \<Rightarrow> map (expire i) (view s))"
    using assms(1) q by (simp add: am_store_def)
  then show ?thesis
    using assms(2) q by (cases q) (auto simp: am_Delete_def call_def)
qed

text \<open>Expiring the given ids, in any order, is expiring them at once.\<close>

definition expire_all :: "string set \<Rightarrow> Silence \<Rightarrow> Silence" where
  "expire_all is x = (if silID x \<in> is then x\<lparr>silState := ''expired''\<rparr> else x)"

lemma expire_all_expire: "expire_all is (expire i x) = expire_all (insert i is) x"
  by (simp add: expire_all_def expire_def)

lemma delete_silences_errs: "\<exists>es. fst (delete_silences api xs errs s) = errs @ es"
proof (induction xs arbitrary: errs s)
  case (Cons x xs)
  obtain r s1 where d: "am_Delete api (silID x) s = (r, s1)" by fastforce
  show ?case
    using Cons.IH [of errs s1] Cons.IH [of "errs @ [e]" s1 for e] d by (cases r) auto
qed simp

lemma delete_silences_view:
  assumes "am_store rt api view" "delete_silences api xs [] s = ([], s')"
  shows "view s' = map (expire_all (silID ` set xs)) (view s)"
  using assms(2)
proof (induction xs arbitrary: s)
  case Nil
  then show ?case by (simp add: expire_all_def)
next
  case (Cons x xs)
  obtain r s1 where d: "am_Delete api (silID x) s = (r, s1)" by fastforce
  note v = am_Delete_view [OF assms(1) d]
  show ?case
  proof (cases r)
    case (Ok u)
    then show ?thesis
      using Cons d v by (simp add: o_def expire_all_expire)
  next
    case (Err e)
    then show ?thesis
      using Cons.prems d delete_silences_errs [of api xs "[e]" s1] by auto
  next
    case Panic
    then show ?thesis using d by (simp add: am_Delete_def)
  qed
qed

lemma EndSilences_view:
  assumes "am_store rt api view" "EndSilences api c s = (Ok (), s')"
  shows "view s' = map (expire_all (silID ` {x \<in> set (view s). createdByOperator x \<and> activeSilences x \<and>
                                                          containsComment c x})) (view s)"
proof -
  from assms(2) obtain xs s1
    where f: "am_Filter api [createdByOperator, activeSilences, containsComment c] s = (Ok xs, s1)"
      and e: "(let (errs, s) = delete_silences api xs [] s1
               in case ErrorOrNil errs of None \<Rightarrow> (Ok (), s) | Some e \<Rightarrow> (Err e, s)) = (Ok (), s')"
    unfolding EndSilences_def bindO_Ok_iff by blast
  obtain errs s2 where "delete_silences api xs [] s1 = (errs, s2)" by fastforce
  with e have d: "delete_silences api xs [] s1 = ([], s')"
    by (cases errs) (simp_all add: ErrorOrNil_def)
  note fv = am_Filter_view [OF assms(1) f]
  have "set xs = {x \<in> set (view s). createdByOperator x \<and> activeSilences x \<and> containsComment c x}"
    unfolding fv(2) [OF refl] by simp
  then show ?thesis
    using delete_silences_view [OF assms(1) d] fv(1) by simp
qed

section \<open>Properties\<close>

text \<open>An Alertmanager that holds a list of silences and numbers the new ones.\<close>

definition mem_am :: "Silence list am_api" where
  "mem_am =
     \<lparr>post_silence = (\<lambda>p xs. (Inr (), xs @ [\<lparr>silID = show_int (int (length xs)), silComment = psComment p,
        silCreatedBy = psCreatedBy p, silState = ''active'', silMatchers = psMatchers p,
        silStartsAt = psStartsAt p, silEndsAt = psEndsAt p\<rparr>])),
      get_silences = (\<lambda>xs. (Inr xs, xs)),
      get_silence = (\<lambda>i xs. (case first_with (\<lambda>x. silID x = i) xs of
                              None \<Rightarrow> Inl (ApiNotFound i) | Some x \<Rightarrow> Inr x, xs)),
      delete_silence = (\<lambda>i xs. (Inr (), map (expire i) xs))\<rparr>"

definition am_clock :: "Silence list runtime" where
  "am_clock = \<lparr>time_now = (\<lambda>s. (7, s)), error_string = (\<lambda>_. ''error'')\<rparr>"

lemma mem_am_store: "am_store am_clock mem_am (\<lambda>s. s)"
  by (simp add: am_store_def mem_am_def am_clock_def posted_def)

text \<open>
  C18: Ending the maintenance of one kind expires exactly the active silences that the operator created with
  that kind's comment; every other silence (of a user, of the other kind, or already expired) is left
  as it is.
\<close>

theorem EndSilences_scope:
  assumes "am_store rt api view" "EndSilences api c s = (Ok (), s')"
  shows "view s' = map (\<lambda>x. if \<exists>y \<in> set (view s). silID y = silID x \<and> createdByOperator y \<and> activeSilences y \<and>
                                  containsComment c y
                             then x\<lparr>silState := ''expired''\<rparr> else x) (view s)"
  unfolding EndSilences_view [OF assms] by (rule map_cong) (auto simp: expire_all_def image_iff)

definition sample_silence :: "string \<Rightarrow> string \<Rightarrow> string \<Rightarrow> Silence" where
  "sample_silence i by c = \<lparr>silID = i, silComment = c, silCreatedBy = by, silState = ''active'', silMatchers = [],
                           silStartsAt = 1, silEndsAt = 9\<rparr>"

theorem EndSilences_scope_witness:
  "let mine = sample_silence ''1'' OperatorName (worker_comment ''4.14.2'');
       users = sample_silence ''2'' ''alice'' (worker_comment ''4.14.2'');
       other = sample_silence ''3'' OperatorName (default_comment ''4.14.2'')
   in EndSilences mem_am workerSilenceCommentId [mine, users, other] =
        (Ok (), [mine\<lparr>silState := ''expired''\<rparr>, users, other])"
proof -
  let ?mine = "sample_silence ''1'' OperatorName (worker_comment ''4.14.2'')"
  let ?users = "sample_silence ''2'' ''alice'' (worker_comment ''4.14.2'')"
  let ?other = "sample_silence ''3'' OperatorName (default_comment ''4.14.2'')"
  define s' where "s' = snd (EndSilences mem_am workerSilenceCommentId [?mine, ?users, ?other])"
  have c: "containsComment workerSilenceCommentId ?mine" "\<not> containsComment workerSilenceCommentId ?other"
    by code_simp+
  have r: "EndSilences mem_am workerSilenceCommentId [?mine, ?users, ?other] = (Ok (), s')"
    by (simp add: s'_def EndSilences_def am_Filter_def am_List_def mem_am_def call_def am_Delete_def ErrorOrNil_def Let_def
        split: prod.splits)
  have "s' = [?mine\<lparr>silState := ''expired''\<rparr>, ?users, ?other]"
    unfolding EndSilences_scope [OF mem_am_store r]
    using c by (simp add: createdByOperator_def activeSilences_def sample_silence_def OperatorName_def)
  then show ?thesis using r by simp
qed

lemma StartControlPlane_creates:
  assumes st: "am_store rt api view" and "StartControlPlane rt api en v alerts s = (Ok (), s')" "alerts \<noteq> []"
  shows "\<exists>x \<in> set (view s'). silComment x = default_comment v"
    and "\<exists>x \<in> set (view s'). silComment x = critical_comment v"
proof -
  from assms(2) obtain ds cs s1 s2 where f1: "am_Filter api [equalsComment (default_comment v)] s = (Ok ds, s1)"
    and f2: "am_Filter api [equalsComment (critical_comment v)] s1 = (Ok cs, s2)"
    unfolding StartControlPlane_def bindO_Ok_iff by blast
  note v1 = am_Filter_view [OF st f1]
  note v2 = am_Filter_view [OF st f2]
  obtain now s3 where t: "time_now rt s2 = (now, s3)" by fastforce
  have v3: "view s3 = view s2" using st t by (auto simp: am_store_def) (metis snd_conv)
  have ds: "ds \<noteq> [] \<longleftrightarrow> (\<exists>x \<in> set (view s). silComment x = default_comment v)"
    using v1(2) [OF refl] by (auto simp: filter_empty_conv equalsComment_def)
  have cs: "cs \<noteq> [] \<longleftrightarrow> (\<exists>x \<in> set (view s). silComment x = critical_comment v)"
    using v2(2) [OF refl] v1(1) by (auto simp: filter_empty_conv equalsComment_def)
  have "(\<exists>x \<in> set (view s'). silComment x = default_comment v) \<and> (\<exists>x \<in> set (view s'). silComment x = critical_comment v)"
  proof (cases "ds \<noteq> [] \<and> cs \<noteq> []")
    case True
    then have "s' = s2" using assms(2) f1 f2 by (simp add: StartControlPlane_def)
    then show ?thesis using True ds cs v1(1) v2(1) by simp
  next
    case False
    let ?crit = "[createMatcher ''alertname'' (''('' @ Join alerts ''|'' @ '')'') True]"
    obtain s4 where d: "(if ds = [] then am_Create api createDefaultMatchers now en OperatorName (default_comment v) s3
                         else (Ok (), s3)) = (Ok (), s4)"
      and c: "(if cs = [] then am_Create api ?crit now en OperatorName (critical_comment v) s4
               else (Ok (), s4)) = (Ok (), s')"
      using assms(2,3) f1 f2 t False by (auto simp: StartControlPlane_def bindO_Ok_iff)
    have 4: "set (view s3) \<subseteq> set (view s4) \<and> (\<exists>x \<in> set (view s4). silComment x = default_comment v)"
    proof (cases "ds = []")
      case True
      with d have "am_Create api createDefaultMatchers now en OperatorName (default_comment v) s3 = (Ok (), s4)" by simp
      from am_Create_view [OF st this] show ?thesis by auto
    next
      case False
      with d ds v1(1) v2(1) v3 show ?thesis by auto
    qed
    have "set (view s4) \<subseteq> set (view s') \<and> (\<exists>x \<in> set (view s'). silComment x = critical_comment v)"
    proof (cases "cs = []")
      case True
      with c have "am_Create api ?crit now en OperatorName (critical_comment v) s4 = (Ok (), s')" by simp
      from am_Create_view [OF st this] show ?thesis by auto
    next
      case False
      with c cs v1(1) v2(1) v3 4 show ?thesis by auto
    qed
    with 4 show ?thesis by blast
  qed
  then show "\<exists>x \<in> set (view s'). silComment x = default_comment v"
    "\<exists>x \<in> set (view s'). silComment x = critical_comment v" by simp_all
qed

text \<open>
  Starting the control plane window is idempotent: once it has succeeded with a list of ignored critical
  alerts that is not empty, a second start of the same version, with whatever end and alerts, creates no
  silence, whether or not it can read them.
\<close>

theorem StartControlPlane_idempotent:
  assumes "am_store rt api view" "StartControlPlane rt api en v alerts s = (Ok (), s1)" "alerts \<noteq> []"
    and "StartControlPlane rt api en' v alerts' s1 = (r, s2)"
  shows "view s2 = view s1"
proof -
  note created = StartControlPlane_creates [OF assms(1-3)]
  obtain ds t1 where f1: "am_Filter api [equalsComment (default_comment v)] s1 = (ds, t1)" by fastforce
  obtain cs t2 where f2: "am_Filter api [equalsComment (critical_comment v)] t1 = (cs, t2)" by fastforce
  note v1 = am_Filter_view [OF assms(1) f1]
  note v2 = am_Filter_view [OF assms(1) f2]
  have "xs \<noteq> []" if "ds = Ok xs" for xs
    using v1(2) [OF that] created(1) by (auto simp: filter_empty_conv equalsComment_def)
  moreover have "xs \<noteq> []" if "cs = Ok xs" for xs
    using v2(2) [OF that] created(2) v1(1) by (auto simp: filter_empty_conv equalsComment_def)
  ultimately show ?thesis
    using assms(4) f1 f2 v1(1) v2(1) by (cases ds; cases cs) (auto simp: StartControlPlane_def)
qed

theorem StartControlPlane_idempotent_witness:
  "\<exists>s1. StartControlPlane am_clock mem_am 100 ''4.14.2'' [''etcdMembersDown''] [] = (Ok (), s1) \<and> length s1 = 2 \<and>
        snd (StartControlPlane am_clock mem_am 200 ''4.14.2'' [''x''] s1) = s1"
proof -
  define s1 where "s1 = snd (StartControlPlane am_clock mem_am 100 ''4.14.2'' [''etcdMembersDown''] [])"
  have r: "StartControlPlane am_clock mem_am 100 ''4.14.2'' [''etcdMembersDown''] [] = (Ok (), s1)" "length s1 = 2"
    by (simp_all add: s1_def StartControlPlane_def am_Filter_def am_List_def am_Create_def call_def mem_am_def am_clock_def
        Let_def)
  obtain q s2 where 2: "StartControlPlane am_clock mem_am 200 ''4.14.2'' [''x''] s1 = (q, s2)" by fastforce
  show ?thesis
    using StartControlPlane_idempotent [OF mem_am_store r(1) _ 2] r 2 by auto
qed

end
