(* ===== verification/Availability.thy ===== *)
theory Availability
  imports Steps "HOL-Library.Multiset"
begin

text \<open>
  External dependency checks (\<open>pkg/availabilitychecks\<close>). The HTTP client, the random jitter and
  the sleeping are the parameter \<open>http_api\<close>. The targets are checked by one goroutine each; the
  goroutines share one error variable, which each writes without synchronisation, and the check reads it after the last has
  finished: which error it returns depends on the order in which they write, which is a parameter too. A write of the
  variable is taken as indivisible, though the memory model of Go gives racing writes of an interface no meaning; whether
  an error is returned at all does not depend on it.
\<close>

section \<open>Model\<close>

record HTTPTargets =
  HTimeout :: int
  URLS :: "string list"

definition GetTimeoutDuration :: "HTTPTargets \<Rightarrow> duration" where
  "GetTimeoutDuration e = seconds (HTimeout e)"

record HTTPAvailabilityChecker =
  Targets :: "string list"
  CTimeout :: duration

record 's http_api =
  http_rt :: "'s runtime"
  http_get :: "duration \<Rightarrow> string \<Rightarrow> ('s, int) ext_op"
  rand_Int63n :: "int \<Rightarrow> 's \<Rightarrow> int \<times> 's"
  sleep_for :: "duration \<Rightarrow> 's \<Rightarrow> 's"

text \<open>The error of an attempt, and whether it is the \<open>stop\<close> that ends the retries.\<close>

datatype attempt = Succeeded | Retryable goerr | Stop goerr

fun retry :: "'s http_api \<Rightarrow> nat \<Rightarrow> duration \<Rightarrow> ('s \<Rightarrow> attempt \<times> 's) \<Rightarrow> 's \<Rightarrow> goerr option \<times> 's" where
  "retry api 0 sleep f s = (case f s of
      (Succeeded, s) \<Rightarrow> (None, s) | (Stop e, s) \<Rightarrow> (Some e, s) | (Retryable e, s) \<Rightarrow> (Some e, s))"
| "retry api (Suc n) sleep f s =
     (case f s of
        (Succeeded, s) \<Rightarrow> (None, s)
      | (Stop e, s) \<Rightarrow> (Some e, s)
      | (Retryable e, s) \<Rightarrow>
          if n > 0
          then let (jitter, s) = rand_Int63n api sleep s;
                   sleep' = sleep + jitter div 2
               in retry api n (2 * sleep') f (sleep_for api sleep' s)
          else (Some e, s))"

definition attempt_get :: "'s http_api \<Rightarrow> duration \<Rightarrow> string \<Rightarrow> 's \<Rightarrow> attempt \<times> 's" where
  "attempt_get api timeout url s =
     (case http_get api timeout url s of
        (Inl e, s) \<Rightarrow>
          (Retryable (Errorf (''client request error for '' @ url @ '': '' @ error_string (http_rt api) e)), s)
      | (Inr status, s) \<Rightarrow>
          if status \<ge> 500 then (Retryable (Errorf (''server error for '' @ url @ '': '' @ show_int status)), s)
          else if status \<ge> 400 then (Stop (Errorf (''client error for '' @ url @ '': '' @ show_int status)), s)
          else (Succeeded, s))"

text \<open>The timeout of the client: a duration multiplied by a duration.\<close>

definition client_timeout :: "HTTPAvailabilityChecker \<Rightarrow> duration" where
  "client_timeout h = wrap64 (CTimeout h * Second)"

text \<open>One goroutine's work, and the goroutines in the order in which they finish.\<close>

definition check_target :: "'s http_api \<Rightarrow> HTTPAvailabilityChecker \<Rightarrow> string \<Rightarrow> 's \<Rightarrow> goerr option \<times> 's" where
  "check_target api h url = retry api 3 Second (attempt_get api (client_timeout h) url)"

fun check_targets ::
    "'s http_api \<Rightarrow> HTTPAvailabilityChecker \<Rightarrow> string list \<Rightarrow> goerr option \<Rightarrow> 's \<Rightarrow> goerr option \<times> 's" where
  "check_targets api h [] err s = (err, s)"
| "check_targets api h (u # us) err s =
     (case check_target api h u s of
        (None, s) \<Rightarrow> check_targets api h us err s
      | (Some e, s) \<Rightarrow> check_targets api h us (Some e) s)"

definition AvailabilityCheck ::
    "'s http_api \<Rightarrow> (string list \<Rightarrow> string list) \<Rightarrow> HTTPAvailabilityChecker \<Rightarrow> ('s, unit) op" where
  "AvailabilityCheck api schedule h s =
     (case check_targets api h (schedule (Targets h)) None s of
        (None, s) \<Rightarrow> (Ok (), s)
      | (Some e, s) \<Rightarrow> (Err e, s))"

definition GetHTTPAvailabilityChecker :: "string list \<Rightarrow> duration \<Rightarrow> HTTPAvailabilityChecker" where
  "GetHTTPAvailabilityChecker targets timeout = \<lparr>Targets = targets, CTimeout = timeout\<rparr>"

definition GetAvailabilityCheckers :: "HTTPTargets \<Rightarrow> HTTPAvailabilityChecker list" where
  "GetAvailabilityCheckers cfg =
     (if length (URLS cfg) > 0 then [GetHTTPAvailabilityChecker (URLS cfg) (GetTimeoutDuration cfg)] else [])"

section \<open>Lemmas\<close>

text \<open>
  The services the targets name: the \<open>k\<close>-th request to a URL, counted from the start of the world, is answered by
  \<open>answer u k\<close>. Answers may change from one request to the next; requests to other URLs, the jitter and the
  sleeping do not change them.
\<close>

definition serves :: "'s http_api \<Rightarrow> ('s \<Rightarrow> string \<Rightarrow> nat) \<Rightarrow> (string \<Rightarrow> nat \<Rightarrow> goerr + int) \<Rightarrow> bool" where
  "serves api asked answer \<longleftrightarrow>
     (\<forall>t u s r s'. http_get api t u s = (r, s') \<longrightarrow>
        r = answer u (asked s u) \<and> asked s' = (asked s)(u := Suc (asked s u))) \<and>
     (\<forall>n s j s'. rand_Int63n api n s = (j, s') \<longrightarrow> asked s' = asked s) \<and>
     (\<forall>d s. asked (sleep_for api d s) = asked s)"

definition good_answer :: "goerr + int \<Rightarrow> bool" where
  "good_answer r \<longleftrightarrow> (case r of Inl _ \<Rightarrow> False | Inr st \<Rightarrow> st < 400)"

definition passing_answer :: "goerr + int \<Rightarrow> bool" where
  "passing_answer r \<longleftrightarrow> (case r of Inl _ \<Rightarrow> True | Inr st \<Rightarrow> st \<ge> 500)"

text \<open>One of the next \<open>n\<close> answers is good, and those before it are no answer or a server error.\<close>

definition comes_up :: "nat \<Rightarrow> (nat \<Rightarrow> goerr + int) \<Rightarrow> nat \<Rightarrow> bool" where
  "comes_up n answers k \<longleftrightarrow>
     (\<exists>i < n. good_answer (answers (k + i)) \<and> (\<forall>j < i. passing_answer (answers (k + j))))"

lemma comes_up_0 [simp]: "\<not> comes_up 0 a k"
  by (simp add: comes_up_def)

lemma comes_up_Suc:
  "comes_up (Suc n) a k \<longleftrightarrow> good_answer (a k) \<or> passing_answer (a k) \<and> comes_up n a (Suc k)"
  by (auto simp: comes_up_def Ex_less_Suc2 All_less_Suc2)

lemma retry_comes_up:
  assumes api: "serves api asked answer" and run: "retry api (Suc n) d (attempt_get api t u) s = (r, s')"
  shows "(r = None \<longleftrightarrow> comes_up (Suc n) (answer u) (asked s u)) \<and> (\<forall>v. v \<noteq> u \<longrightarrow> asked s' v = asked s v)"
  using run
proof (induction n arbitrary: d s)
  case 0
  then show ?case using api
    by (fastforce simp: serves_def attempt_get_def comes_up_Suc good_answer_def passing_answer_def
        split: prod.splits sum.splits if_splits)
next
  case (Suc n)
  obtain a s1 where get: "http_get api t u s = (a, s1)" by fastforce
  then have a: "a = answer u (asked s u)" "asked s1 = (asked s)(u := Suc (asked s u))"
    using api by (auto simp: serves_def)
  obtain j s2 where jitter: "rand_Int63n api d s1 = (j, s2)" by fastforce
  let ?s3 = "sleep_for api (d + j div 2) s2"
  have w: "asked ?s3 = asked s1" using api jitter by (auto simp: serves_def)
  show ?case
  proof (cases "passing_answer a")
    case True
    then obtain e where "attempt_get api t u s = (Retryable e, s1)"
      using get by (auto simp: attempt_get_def passing_answer_def split: sum.splits)
    then have "retry api (Suc n) (2 * (d + j div 2)) (attempt_get api t u) ?s3 = (r, s')"
      using Suc.prems jitter unfolding retry.simps(2) [of api "Suc n"] by (simp del: retry.simps)
    from Suc.IH [OF this] show ?thesis
      using True a w by (auto simp: comes_up_Suc [of "Suc n"] good_answer_def passing_answer_def split: sum.splits)
  next
    case False
    then show ?thesis
      using Suc.prems get a
      by (auto simp: attempt_get_def comes_up_Suc good_answer_def passing_answer_def split: sum.splits if_splits)
  qed
qed

lemma check_targets_comes_up:
  assumes "serves api asked answer" "distinct us"
  shows "fst (check_targets api h us err s) = None \<longleftrightarrow>
    err = None \<and> (\<forall>u \<in> set us. comes_up 3 (answer u) (asked s u))"
  using assms(2)
proof (induction us arbitrary: err s)
  case (Cons u us)
  obtain r s' where r: "check_target api h u s = (r, s')" by fastforce
  have "(r = None \<longleftrightarrow> comes_up 3 (answer u) (asked s u)) \<and> (\<forall>v. v \<noteq> u \<longrightarrow> asked s' v = asked s v)"
    using retry_comes_up [OF assms(1), of 2] r by (simp add: check_target_def numeral_3_eq_3)
  moreover from this have "asked s' v = asked s v" if "v \<in> set us" for v using that Cons.prems by auto
  ultimately show ?case using r Cons by (cases r) auto
qed simp

section \<open>Properties\<close>

text \<open>
  C19: Whatever the order in which the checks of the targets finish, the availability check passes exactly
  when every target comes up within three requests: one of the first three answers of its service is a status below 400, and every
  answer before it was a transport error or a status of 500 and more. A status from 400 to 499
  ends the retries of its target. The services may answer each request differently, and each
  answers the requests to its own URL independently of the others; the URLs of the configuration are distinct.
\<close>
theorem AvailabilityCheck_iff:
  assumes "serves api asked answer" "distinct (Targets h)" "mset (schedule (Targets h)) = mset (Targets h)"
    and "\<And>u. asked s u = 0"
  shows "fst (AvailabilityCheck api schedule h s) = Ok () \<longleftrightarrow>
    (\<forall>u \<in> set (Targets h). \<exists>i < 3. (\<exists>st. answer u i = Inr st \<and> st < 400) \<and>
       (\<forall>j < i. (\<exists>e. answer u j = Inl e) \<or> (\<exists>st. answer u j = Inr st \<and> st \<ge> 500)))"
proof -
  have answers: "good_answer x \<longleftrightarrow> (\<exists>st. x = Inr st \<and> st < 400)"
      "passing_answer x \<longleftrightarrow> (\<exists>e. x = Inl e) \<or> (\<exists>st. x = Inr st \<and> st \<ge> 500)" for x
    by (auto simp: good_answer_def passing_answer_def split: sum.splits)
  have perm: "distinct (schedule (Targets h))" "set (schedule (Targets h)) = set (Targets h)"
    using assms(2,3) by (metis mset_eq_imp_distinct_iff, metis mset_eq_setD)
  obtain r s' where r: "check_targets api h (schedule (Targets h)) None s = (r, s')" by fastforce
  then have "fst (AvailabilityCheck api schedule h s) = Ok () \<longleftrightarrow> r = None"
    by (cases r) (auto simp: AvailabilityCheck_def)
  then show ?thesis
    using check_targets_comes_up [OF assms(1) perm(1), of h None s] r
    by (simp add: perm(2) assms(4) comes_up_def answers)
qed

text \<open>
  A service that fails the first request to one URL and serves it from then on, and refuses another URL, with goroutines that
  finish in reverse; the world counts the requests of each URL.
\<close>

definition sample_answer :: "string \<Rightarrow> nat \<Rightarrow> goerr + int" where
  "sample_answer u k = (if u = ''a'' then if k = 0 then Inr 503 else Inr 200 else Inr 404)"

definition sample_http :: "(string \<Rightarrow> nat) http_api" where
  "sample_http = \<lparr>http_rt = \<lparr>time_now = (\<lambda>s. (0, s)), error_string = (\<lambda>_. [])\<rparr>,
     http_get = (\<lambda>t u s. (sample_answer u (s u), s(u := Suc (s u)))), rand_Int63n = (\<lambda>n s. (0, s)), sleep_for = (\<lambda>d s. s)\<rparr>"

theorem AvailabilityCheck_iff_witness:
  "fst (AvailabilityCheck sample_http rev \<lparr>Targets = [''a''], CTimeout = Second\<rparr> (\<lambda>_. 0)) = Ok () \<and>
   fst (AvailabilityCheck sample_http rev \<lparr>Targets = [''a'', ''b''], CTimeout = Second\<rparr> (\<lambda>_. 0)) \<noteq> Ok ()"
proof -
  have api: "serves sample_http (\<lambda>s. s) sample_answer"
    by (auto simp: serves_def sample_http_def)
  have up: "\<exists>i < 3. (\<exists>st. sample_answer ''a'' i = Inr st \<and> st < 400) \<and>
      (\<forall>j < i. (\<exists>e. sample_answer ''a'' j = Inl e) \<or> (\<exists>st. sample_answer ''a'' j = Inr st \<and> st \<ge> 500))"
    by (rule exI [of _ 1]) (simp add: sample_answer_def)
  have down: "\<not> (\<exists>i < 3. \<exists>st. sample_answer ''b'' i = Inr st \<and> st < 400)"
    by (simp add: sample_answer_def)
  show ?thesis
    using AvailabilityCheck_iff [OF api, of "\<lparr>Targets = [''a''], CTimeout = Second\<rparr>" rev "\<lambda>_. 0"] up
      AvailabilityCheck_iff [OF api, of "\<lparr>Targets = [''a'', ''b''], CTimeout = Second\<rparr>" rev "\<lambda>_. 0"] down
    by auto
qed

lemma twice_scaled:
  "list_all (\<lambda>n. wrap64 (wrap64 (n * Second) * Second) \<noteq> wrap64 (n * Second)) [1..60]"
  by code_simp

text \<open>
  C40: The configured timeout of 15 seconds (the default) never reaches the HTTP client: the duration is
  scaled to seconds twice and wraps to a negative number, with which the client has no timeout. Of
  the timeouts the configuration allows, none gives the client the number of seconds it names.
\<close>
theorem client_timeout_wrong:
  assumes "0 < n" "n \<le> 60"
  shows "client_timeout (GetHTTPAvailabilityChecker us (GetTimeoutDuration \<lparr>HTimeout = n, URLS = us\<rparr>)) \<noteq> seconds n \<and>
         client_timeout (GetHTTPAvailabilityChecker us (GetTimeoutDuration \<lparr>HTimeout = 15, URLS = us\<rparr>)) < 0"
proof -
  have "n \<in> set [1..60]" using assms by simp
  then have "wrap64 (wrap64 (n * Second) * Second) \<noteq> wrap64 (n * Second)"
    using twice_scaled unfolding list_all_iff by blast
  moreover have "wrap64 (wrap64 (15 * Second) * Second) < 0"
    by (simp add: wrap64_def)
  ultimately show ?thesis
    unfolding client_timeout_def GetHTTPAvailabilityChecker_def GetTimeoutDuration_def seconds_def by simp
qed

theorem client_timeout_wrong_witness:
  "client_timeout (GetHTTPAvailabilityChecker [] (GetTimeoutDuration \<lparr>HTimeout = 15, URLS = []\<rparr>)) < 0"
  using client_timeout_wrong [of 15 "[]"] by simp

end
