(* ===== verification/Network.thy ===== *)
theory Network
  imports Event_Manager Maintenance
begin

text \<open>
  How the operator reaches the services it calls: service and route lookup, bearer tokens, the
  monitoring CA (\<open>pkg/metrics/metrics.go\<close>), the cluster's access token
  (\<open>util/access_token.go\<close>), and the builders of the Prometheus, Alertmanager and
  deployment-validation clients (\<open>pkg/maintenance\<close>, \<open>pkg/dvo\<close>). The Kubernetes API, the X.509
  pool, the JSON decoder and the HTTP transport are fields of \<open>net_api\<close>.
\<close>

section \<open>Parameters\<close>

text \<open>A decoded JSON value; the decoder has resolved duplicate keys.\<close>

datatype json = JNull | JBool bool | JNumber string | JString string | JArray "json list"
  | JObject "(string \<times> json) list"

text \<open>The TLS configuration of a client: the system roots from TLS 1.2 on, or a given CA.\<close>

datatype tls_config = TlsMin12 | TlsRootCA string

record 's net_api =
  net_rt :: "'s runtime"
  net_env :: environ
  get_service :: "string \<Rightarrow> string \<Rightarrow> ('s, (string \<times> int) list) ext_op"
  get_route :: "string \<Rightarrow> string \<Rightarrow> ('s, string) ext_op"
  list_secrets :: "string \<Rightarrow> ('s, (string \<times> (string \<rightharpoonup> string)) list) ext_op"
  get_secret :: "string \<Rightarrow> string \<Rightarrow> ('s, string \<rightharpoonup> string) ext_op"
  create_token :: "string \<Rightarrow> string \<Rightarrow> int \<Rightarrow> ('s, string) ext_op"
  get_monitoring_cm :: "string \<Rightarrow> string \<Rightarrow> ('s, string \<rightharpoonup> string) ext_op"
  net_cv :: "'s cv_api"
  append_certs :: "string \<Rightarrow> bool"
  parse_docker_config :: "string \<Rightarrow> goerr + (string \<rightharpoonup> json)"
  sprint_v :: "json \<Rightarrow> string"
  new_request_error :: "string \<Rightarrow> goerr option"
  http_do :: "(string \<times> string) list \<Rightarrow> tls_config option \<Rightarrow> string \<Rightarrow> string \<Rightarrow> ('s, http_body) ext_op"
  decode_alerts :: "string \<Rightarrow> goerr + AlertResult list"
  am_transport :: "string \<Rightarrow> string \<Rightarrow> string \<Rightarrow> tls_config \<Rightarrow> 's am_api"

section \<open>Endpoints\<close>

definition MonitoringNS :: string where
  "MonitoringNS = ''openshift-monitoring''"

definition promApp :: string where
  "promApp = ''prometheus-k8s''"

text \<open>The last port with the name wins; without one the host stands alone.\<close>

definition GetService :: "'s net_api \<Rightarrow> string \<Rightarrow> string \<Rightarrow> string \<Rightarrow> ('s, string) op" where
  "GetService api ns svcName portName s =
     bindO (call (get_service api ns svcName) s) (\<lambda>ports s.
       let host = svcName @ ''.'' @ ns @ ''.svc.cluster.local'';
           port = fold (\<lambda>(n, p) port. if n = portName then show_int p else port) ports []
       in (Ok (if port \<noteq> [] then host @ '':'' @ port else host), s))"

definition isRunModeLocal :: "environ \<Rightarrow> bool" where
  "isRunModeLocal env \<longleftrightarrow> Getenv env ''OSDK_FORCE_RUN_MODE'' = ''local''"

definition getRouteHost :: "'s net_api \<Rightarrow> string \<Rightarrow> ('s, string) op" where
  "getRouteHost api appName = call (get_route api MonitoringNS appName)"

definition NetworkTarget :: "'s net_api \<Rightarrow> string \<Rightarrow> string \<Rightarrow> string \<Rightarrow> ('s, string) op" where
  "NetworkTarget api ns appName portName s =
     (if \<not> isRunModeLocal (net_env api) \<or> \<not> UseRoutes (net_env api)
      then GetService api ns appName portName s
      else getRouteHost api appName s)"

section \<open>Credentials\<close>

definition RequestPrometheusServiceAccountAPIToken :: "'s net_api \<Rightarrow> ('s, string) op" where
  "RequestPrometheusServiceAccountAPIToken api s =
     wrap_err (net_rt api)
       (''unable to create an API token for the '' @ promApp @ '' service account in the '' @ MonitoringNS @ '' namespace: '')
       (call (create_token api MonitoringNS promApp (24 * 3600)) s)"

text \<open>A missing key of a secret reads as no bytes.\<close>

definition secret_value :: "(string \<rightharpoonup> string) \<Rightarrow> string \<Rightarrow> string" where
  "secret_value d k = (case d k of None \<Rightarrow> [] | Some v \<Rightarrow> v)"

definition token_or_request :: "'s net_api \<Rightarrow> string \<Rightarrow> ('s, string) op" where
  "token_or_request api token s =
     (if length token = 0
      then wrap_err (net_rt api) ''failed to get token for prometheus-k8s SA due to ''
             (RequestPrometheusServiceAccountAPIToken api s)
      else (Ok token, s))"

text \<open>Prometheus takes the first matching secret, Alertmanager the last.\<close>

definition prometheusToken :: "'s net_api \<Rightarrow> ('s, string) op" where
  "prometheusToken api s =
     bindO (call (list_secrets api MonitoringNS) s) (\<lambda>secrets s.
       let token = (case first_with (\<lambda>(n, _). HasPrefix n ''prometheus-k8s-token'') secrets of
                      None \<Rightarrow> []
                    | Some (_, d) \<Rightarrow> secret_value d ''token'')
       in token_or_request api token s)"

definition getAuthentication :: "'s net_api \<Rightarrow> ('s, string) op" where
  "getAuthentication api s =
     bindO (call (list_secrets api MonitoringNS) s) (\<lambda>secrets s.
       token_or_request api
         (fold (\<lambda>(n, d) token. if Contains n ''prometheus-k8s-token'' then secret_value d ''token'' else token)
            secrets []) s)"

definition MonitoringTLSConfig :: "'s net_api \<Rightarrow> ('s, tls_config) op" where
  "MonitoringTLSConfig api s =
     bindO (call (get_monitoring_cm api ''serving-certs-ca-bundle'' MonitoringNS) s) (\<lambda>data s.
       let ca = secret_value data ''service-ca.crt''
       in if ca = [] then (Err (Errorf ''monitoring service CA returned nil''), s)
          else if \<not> append_certs api ca then (Err (Errorf ''failed to append certs''), s)
          else (Ok (TlsRootCA ca), s))"

record AccessToken =
  PullSecret :: string
  ClusterId :: string

text \<open>\<open>v.(map[string]interface{})[k]\<close>: a value that is not an object panics.\<close>

fun object_field :: "json \<Rightarrow> string \<Rightarrow> json option outcome" where
  "object_field (JObject fs) k = Ok (map_of fs k)"
| "object_field _ k = Panic"

definition docker_auth :: "(json \<Rightarrow> string) \<Rightarrow> (string \<rightharpoonup> json) \<Rightarrow> string outcome" where
  "docker_auth sprint dockerConfig =
     (case dockerConfig ''auths'' of
        None \<Rightarrow> Err (Errorf ''unable to find auths section in pull secret'')
      | Some authConfig \<Rightarrow>
          (case object_field authConfig ''cloud.openshift.com'' of
             Ok (Some apiConfig) \<Rightarrow>
               (case object_field apiConfig ''auth'' of
                  Ok (Some (JString t)) \<Rightarrow> Ok t
                | Ok (Some v) \<Rightarrow> Ok (sprint v)
                | Ok None \<Rightarrow> Err (Errorf ''unable to find access auth token in pull secret'')
                | Err e \<Rightarrow> Err e
                | Panic \<Rightarrow> Panic)
           | Ok None \<Rightarrow> Err (Errorf ''unable to find pull secret auth key cloud.openshift.com in pull secret'')
           | Err e \<Rightarrow> Err e
           | Panic \<Rightarrow> Panic))"

definition GetAccessToken :: "'s net_api \<Rightarrow> ('s, AccessToken) op" where
  "GetAccessToken api s =
     bindO (wrap_err (net_rt api) ''can't get clusterversion: '' (call (get_cv (net_cv api)) s)) (\<lambda>cv s.
     bindO (wrap_err (net_rt api) ''cannot fetch pull secret: ''
              (call (get_secret api ''openshift-config'' ''pull-secret'') s)) (\<lambda>secret s.
       case secret ''.dockerconfigjson'' of
         None \<Rightarrow> (Err (Errorf ''pull secret missing required key .dockerconfigjson''), s)
       | Some pullSecret \<Rightarrow>
           (case parse_docker_config api pullSecret of
              Inl e \<Rightarrow> (Err (Errorf (''unable to interpret decoded pull secret as json: '' @
                         error_string (net_rt api) e)), s)
            | Inr dockerConfig \<Rightarrow>
                bindO (docker_auth (sprint_v api) dockerConfig, s) (\<lambda>token s.
                  (Ok \<lparr>PullSecret = token, ClusterId = cvClusterID cv\<rparr>, s)))))"

section \<open>Clients\<close>

text \<open>Every request of the Prometheus client carries its bearer token.\<close>

definition prometheus_RoundTrip ::
    "'s net_api \<Rightarrow> string \<Rightarrow> tls_config \<Rightarrow> string \<Rightarrow> string \<Rightarrow> ('s, http_body) ext_op" where
  "prometheus_RoundTrip api token tls =
     http_do api [(''Authorization'', ''Bearer '' @ token)] (Some tls)"

definition client_tls :: "'s net_api \<Rightarrow> ('s, tls_config) op" where
  "client_tls api s =
     (if \<not> UseRoutes (net_env api) then MonitoringTLSConfig api s else (Ok TlsMin12, s))"

definition metrics_NewClient :: "'s net_api \<Rightarrow> ('s, 's Counter) op" where
  "metrics_NewClient api s =
     bindO (NetworkTarget api MonitoringNS promApp ''web'' s) (\<lambda>target s.
     bindO (prometheusToken api s) (\<lambda>token s.
     bindO (client_tls api s) (\<lambda>tls s.
       (Ok \<lparr>promTarget = target, request_error = new_request_error api,
            prom_do = prometheus_RoundTrip api token tls, json_alerts = decode_alerts api\<rparr>, s))))"

definition getTransport :: "'s net_api \<Rightarrow> ('s, string \<times> string) op" where
  "getTransport api s =
     bindO (NetworkTarget api MonitoringNS ''alertmanager-main'' ''web'' s) (\<lambda>target s.
       (Ok (target, ''/api/v2/''), s))"

definition maintenance_NewClient :: "'s net_api \<Rightarrow> ('s, 's am_api) op" where
  "maintenance_NewClient api s =
     bindO (getTransport api s) (\<lambda>(target, base) s.
     bindO (getAuthentication api s) (\<lambda>token s.
     bindO (client_tls api s) (\<lambda>tls s.
       (Ok (am_transport api target base token tls), s))))"

section \<open>The deployment-validation client\<close>

record 's DvoClient =
  GetMetrics :: "('s, string) op"

record 's DvoClientBuilder =
  dvo_New :: "('s, 's DvoClient) op"

definition dvo_RoundTrip :: "'s net_api \<Rightarrow> AccessToken \<Rightarrow> string \<Rightarrow> ('s, http_body) ext_op" where
  "dvo_RoundTrip api at url =
     http_do api [(''Authorization'', ''AccessToken '' @ ClusterId at @ '':'' @ PullSecret at)] None url []"

definition dvo_GetMetrics :: "'s net_api \<Rightarrow> string \<Rightarrow> AccessToken \<Rightarrow> ('s, string) op" where
  "dvo_GetMetrics api base at s =
     (let url = ''http://'' @ base @ ''/metrics''
      in case new_request_error api url of
           Some e \<Rightarrow> (Err (Errorf (''could not query DVO metrics endpoint: '' @ error_string (net_rt api) e)), s)
         | None \<Rightarrow>
             bindO (call (dvo_RoundTrip api at url) s) (\<lambda>resp s.
               case resp of
                 HttpReadError e \<Rightarrow>
                   (Err (Errorf (''error when querying dvo endpoint: '' @ error_string (net_rt api) e)), s)
               | HttpBody b \<Rightarrow> (Ok b, s)))"

definition dvo_builder_New :: "'s net_api \<Rightarrow> ('s, 's DvoClient) op" where
  "dvo_builder_New api s =
     bindO (NetworkTarget api ''openshift-deployment-validation-operator''
              ''deployment-validation-operator-metrics'' ''http-metrics'' s) (\<lambda>url s.
       case GetAccessToken api s of
         (Ok at, s) \<Rightarrow> (Ok \<lparr>GetMetrics = dvo_GetMetrics api url at\<rparr>, s)
       | (Err _, s) \<Rightarrow> (Err (Errorf ''failed to retrieve cluster access token''), s)
       | (Panic, s) \<Rightarrow> (Panic, s))"

definition dvo_NewBuilder :: "'s net_api \<Rightarrow> 's DvoClientBuilder" where
  "dvo_NewBuilder api = \<lparr>dvo_New = dvo_builder_New api\<rparr>"

section \<open>Lemmas\<close>

lemma GetService_target:
  assumes "GetService api ns svc port s = (Ok t, s')"
  shows "HasPrefix t (svc @ ''.'' @ ns @ ''.svc.cluster.local'')"
  using assms by (auto simp: GetService_def Let_def bindO_Ok_iff HasPrefix_def split: if_splits)

lemma docker_auth_string:
  assumes "dc ''auths'' = Some (JObject as)" "map_of as ''cloud.openshift.com'' = Some (JObject c)"
    "map_of c ''auth'' = Some (JString t)"
  shows "docker_auth sprint dc = Ok t"
  using assms by (simp add: docker_auth_def)

text \<open>A network that answers no request, and one on which the monitoring stack can be reached, for the examples.\<close>

definition offline_net :: "instant \<Rightarrow> 's net_api" where
  "offline_net now =
     \<lparr>net_rt = \<lparr>time_now = (\<lambda>s. (now, s)), error_string = (\<lambda>_. ''error'')\<rparr>, net_env = [''OPERATOR_NAMESPACE'' \<mapsto> ''muo''],
      get_service = (\<lambda>_ _ s. (Inl (ApiError []), s)), get_route = (\<lambda>_ _ s. (Inl (ApiError []), s)),
      list_secrets = (\<lambda>_ s. (Inr [], s)), get_secret = (\<lambda>_ _ s. (Inl (ApiError []), s)),
      create_token = (\<lambda>_ _ _ s. (Inl (ApiError []), s)), get_monitoring_cm = (\<lambda>_ _ s. (Inl (ApiError []), s)),
      net_cv = \<lparr>get_cv = (\<lambda>s. (Inr sample_cv, s)), patch_cv = (\<lambda>_ s. (Inr (), s)), list_clusteroperators = (\<lambda>s. (Inr [], s))\<rparr>,
      append_certs = (\<lambda>_. False), parse_docker_config = (\<lambda>_. Inl (ApiError [])), sprint_v = (\<lambda>_. []),
      new_request_error = (\<lambda>_. None), http_do = (\<lambda>_ _ _ _ s. (Inl (ApiError []), s)), decode_alerts = (\<lambda>_. Inr []),
      am_transport = (\<lambda>_ _ _ _. \<lparr>post_silence = (\<lambda>_ s. (Inr (), s)), get_silences = (\<lambda>s. (Inr [], s)),
        get_silence = (\<lambda>i s. (Inl (ApiNotFound i), s)), delete_silence = (\<lambda>_ s. (Inr (), s))\<rparr>)\<rparr>"

definition online_net :: "instant \<Rightarrow> 's net_api" where
  "online_net now = (offline_net now)\<lparr>
     get_service := (\<lambda>_ _ s. (Inr [(''web'', 9091)], s)),
     list_secrets := (\<lambda>_ s. (Inr [(''prometheus-k8s-token-x'', [''token'' \<mapsto> ''secret''])], s)),
     get_monitoring_cm := (\<lambda>_ _ s. (Inr [''service-ca.crt'' \<mapsto> ''ca''], s)), append_certs := (\<lambda>_. True)\<rparr>"

lemma online_metrics: "\<exists>m. metrics_NewClient (online_net now) s = (Ok m, s)"
  by (simp add: metrics_NewClient_def NetworkTarget_def GetService_def prometheusToken_def token_or_request_def client_tls_def
      MonitoringTLSConfig_def secret_value_def isRunModeLocal_def UseRoutes_def Getenv_def online_net_def offline_net_def call_def
      HasPrefix_def Let_def)

lemma online_maintenance: "\<exists>m. maintenance_NewClient (online_net now) s = (Ok m, s)"
  by (simp add: maintenance_NewClient_def getTransport_def getAuthentication_def NetworkTarget_def GetService_def prometheusToken_def
      token_or_request_def client_tls_def MonitoringTLSConfig_def secret_value_def isRunModeLocal_def UseRoutes_def Getenv_def
      online_net_def offline_net_def call_def HasPrefix_def Let_def)

end
