(* ===== verification/Health_Checks.thy ===== *)
theory Health_Checks
  imports Scaler Maintenance Availability Network
begin

text \<open>
  The upgraders' configuration and parts (\<open>pkg/upgraders/config.go\<close>, \<open>upgrader.go\<close>) and their
  health checks (\<open>healthcheckstep.go\<close>, \<open>healthcheck_*.go\<close>). A check that reports through a
  metric and an error is an operation on the whole state; a missing history is a nil dereference.
\<close>

section \<open>Configuration\<close>

record upgraderConfig =
  ControlPlaneTime :: int
  ControlPlaneCriticals :: "string list"
  ScaleTimeOut :: int
  ExtraMachinePools :: "string list"
  cfgNodeDrain :: NodeDrain
  IgnoredCriticals :: "string list"
  IgnoredNamespaces :: "string list"
  cfgHTTP :: HTTPTargets
  cfgUpgradeWindow :: upgradeWindow
  Fedramp :: bool
  cfgFeatureGate :: "string list"

definition maintenance_IsValid :: "upgraderConfig \<Rightarrow> unit outcome" where
  "maintenance_IsValid cfg =
     (if ControlPlaneTime cfg \<le> 0 then Err (Errorf ''config maintenance controlPlaneTime out is invalid'') else Ok ())"

definition GetControlPlaneDuration :: "upgraderConfig \<Rightarrow> duration" where
  "GetControlPlaneDuration cfg = minutes (ControlPlaneTime cfg)"

fun patterns_valid :: "string list \<Rightarrow> unit outcome" where
  "patterns_valid [] = Ok ()"
| "patterns_valid (p # ps) =
     (case path_Match p [] of
        None \<Rightarrow> Err (Errorf (''config scale extraMachinePools contains invalid pattern '' @ Quote p @ '': syntax error in pattern''))
      | Some _ \<Rightarrow> patterns_valid ps)"

definition scale_IsValid :: "upgraderConfig \<Rightarrow> unit outcome" where
  "scale_IsValid cfg =
     (if ScaleTimeOut cfg \<le> 0 then Err (Errorf ''config scale timeOut is invalid'')
      else patterns_valid (ExtraMachinePools cfg))"

definition GetUpgradeDelayedTriggerDuration :: "upgraderConfig \<Rightarrow> duration" where
  "GetUpgradeDelayedTriggerDuration cfg = minutes (DelayTrigger (cfgUpgradeWindow cfg))"

definition GetScaleDuration :: "upgraderConfig \<Rightarrow> duration" where
  "GetScaleDuration cfg = minutes (ScaleTimeOut cfg)"

text \<open>Go binds \<open>&&\<close> tighter than \<open>||\<close> in the last check.\<close>

definition upgraderConfig_IsValid :: "upgraderConfig \<Rightarrow> unit outcome" where
  "upgraderConfig_IsValid cfg =
     fst (bindO (maintenance_IsValid cfg, ()) (\<lambda>_ s.
          bindO (scale_IsValid cfg, s) (\<lambda>_ s.
            (if Timeout (cfgNodeDrain cfg) \<le> 0 then Err (Errorf ''config nodeDrain timeOut is invalid'')
             else if ExpectedNodeDrainTime (cfgNodeDrain cfg) \<le> 0
             then Err (Errorf ''config nodeDrain expectedNodeDrainTime is invalid'')
             else if DelayTrigger (cfgUpgradeWindow cfg) < 0
             then Err (Errorf ''config upgrade window delay trigger is invalid'')
             else if TimeOut (cfgUpgradeWindow cfg) < 0
             then Err (Errorf ''config upgrade window time out is invalid'')
             else if length (URLS (cfgHTTP cfg)) > 0 \<and> HTimeout (cfgHTTP cfg) \<le> 0 \<or> HTimeout (cfgHTTP cfg) > 60
             then Err (Errorf ''config HTTP timeout is invalid (Requires int between 1 - 60 inclusive)'')
             else Ok (), s))))"

section \<open>The upgrader's parts\<close>

text \<open>
  \<open>clusterUpgrader\<close>. The FileIntegrity object is read and
  annotated through \<open>fio_get\<close> and \<open>fio_annotate\<close>.
\<close>

record 'w clusterUpgrader =
  cu_rt :: "'w runtime"
  cu_metrics :: "'w Counter"
  cu_cv :: "'w cv_api"
  cu_notifier :: "'w eventManager"
  cu_config :: upgraderConfig
  cu_machines :: "'w machine_api"
  cu_drain :: "'w drain_env"
  cu_am :: "'w am_api"
  cu_get_mcp :: "string \<Rightarrow> ('w, MachineConfigPool) ext_op"
  cu_list_nodes :: "string \<Rightarrow> ('w, Node list) ext_op"
  cu_checkers :: "('w, unit) op list"
  cu_dvo :: "'w DvoClientBuilder option"
  cu_semver :: semver_lib
  fio_get :: "('w, unit) ext_op"
  fio_annotate :: "(string \<times> string) list \<Rightarrow> ('w, unit) ext_op"

text \<open>\<open>string(history.Phase)\<close> of the history of the desired version.\<close>

definition history_state :: "UpgradeConfig \<Rightarrow> string outcome" where
  "history_state uc =
     (case GetHistory (History uc) (desired_version uc) of
        None \<Rightarrow> Panic
      | Some h \<Rightarrow> Ok (phase_string (Phase h)))"

text \<open>A call whose error the caller inspects; only a panic unwinds.\<close>

definition tryO :: "'a outcome \<times> 's \<Rightarrow> (goerr + 'a \<Rightarrow> ('s, 'b) op) \<Rightarrow> 'b outcome \<times> 's" where
  "tryO r f = (case r of
      (Ok a, s) \<Rightarrow> f (Inr a) s
    | (Err e, s) \<Rightarrow> f (Inl e) s
    | (Panic, s) \<Rightarrow> (Panic, s))"

lemma tryO_simps [simp]:
  "tryO (Ok a, s) f = f (Inr a) s"
  "tryO (Err e, s) f = f (Inl e) s"
  "tryO (Panic, s) f = (Panic, s)"
  by (simp_all add: tryO_def)

lemma tryO_Ok_iff:
  "tryO r f = (Ok b, t) \<longleftrightarrow>
     (\<exists>a s. r = (Ok a, s) \<and> f (Inr a) s = (Ok b, t)) \<or> (\<exists>e s. r = (Err e, s) \<and> f (Inl e) s = (Ok b, t))"
  by (auto simp: tryO_def split: prod.splits outcome.splits)

section \<open>Alerts and operators\<close>

definition exclude_labels :: "string \<Rightarrow> string list \<Rightarrow> string" where
  "exclude_labels l vs =
     (let q = [CHR 0x22]; pre = '','' @ l @ ''!='' @ q
      in if length vs > 0 then pre @ Join vs (q @ pre) @ q else [])"

definition healthCheckQuery :: "upgraderConfig \<Rightarrow> string" where
  "healthCheckQuery cfg =
     ''ALERTS{alertstate='' @ quoted ''firing'' @ '',severity='' @ quoted ''critical'' @
     '',namespace=~'' @ quoted ''^openshift.*|^kube-.*|^default$'' @
     exclude_labels ''namespace'' (IgnoredNamespaces cfg) @
     exclude_labels ''alertname'' (IgnoredCriticals cfg) @ ''}''"

fun unique_alerts :: "string list \<Rightarrow> string list \<Rightarrow> string list" where
  "unique_alerts seen [] = []"
| "unique_alerts seen (a # as) = (if a \<in> set seen then unique_alerts seen as else a # unique_alerts (a # seen) as)"

definition CriticalAlerts ::
    "'w runtime \<Rightarrow> 'w Counter \<Rightarrow> upgraderConfig \<Rightarrow> UpgradeConfig \<Rightarrow> string \<Rightarrow> ('w sys, bool) op" where
  "CriticalAlerts rt m cfg uc version s =
     bindO (history_state uc, s) (\<lambda>state s.
     tryO (lift (Query rt m (healthCheckQuery cfg)) s) (\<lambda>alerts s.
       case alerts of
         Inl e \<Rightarrow>
           (Err (Errorf (''unable to query critical alerts: '' @ error_string rt e)),
            UpdateMetricHealthcheckFailed (ucName uc) ''healthcheck_query_failed'' version state s)
       | Inr rs \<Rightarrow>
           if length rs > 0 then
             (Err (Errorf (''critical alert(s) firing: '' @
                Join (unique_alerts [] (map (\<lambda>r. label_of r ''alertname'') rs)) '', '')),
              UpdateMetricHealthcheckFailed (ucName uc) ''critical_alerts_firing'' version state s)
           else
             (Ok True,
              UpdateMetricHealthcheckSucceeded (ucName uc) ''critical_alerts_firing'' version state
                (UpdateMetricHealthcheckSucceeded (ucName uc) ''healthcheck_query_failed'' version state s))))"

definition ClusterOperators :: "'w cv_api \<Rightarrow> UpgradeConfig \<Rightarrow> string \<Rightarrow> ('w sys, bool) op" where
  "ClusterOperators cv uc version s =
     bindO (history_state uc, s) (\<lambda>state s.
     tryO (lift (HasDegradedOperators cv) s) (\<lambda>result s.
       case result of
         Inl e \<Rightarrow>
           (Err e, UpdateMetricHealthcheckFailed (ucName uc) ''cluster_operator_status_failed'' version state s)
       | Inr degraded \<Rightarrow>
           if length degraded > 0 then
             (Err (Errorf (''degraded operators: '' @ Join degraded '', '')),
              UpdateMetricHealthcheckFailed (ucName uc) ''cluster_operators_degraded'' version state s)
           else
             (Ok True,
              UpdateMetricHealthcheckSucceeded (ucName uc) ''cluster_operators_degraded'' version state
                (UpdateMetricHealthcheckSucceeded (ucName uc) ''cluster_operator_status_failed'' version state s))))"

section \<open>Nodes\<close>

text \<open>The node checks return the failing nodes together with the error.\<close>

definition ManuallyCordonedNodes ::
    "(string \<Rightarrow> ('w, Node list) ext_op) \<Rightarrow> UpgradeConfig \<Rightarrow> string \<Rightarrow>
     ('w sys, string list \<times> goerr option) op" where
  "ManuallyCordonedNodes list_nodes uc version s =
     bindO (history_state uc, s) (\<lambda>state s.
     tryO (lift (call (list_nodes ''node-role.kubernetes.io/worker, !node-role.kubernetes.io/infra'')) s) (\<lambda>r s.
       case r of
         Inl e \<Rightarrow>
           (Ok ([], Some e), UpdateMetricHealthcheckFailed (ucName uc) ''cluster_node_query_failed'' version state s)
       | Inr nodes \<Rightarrow>
           let cordoned = map nodeName (filter (\<lambda>n. IsCordoned (IsNodeCordoned n) \<and> \<not> IsNodeUpgrading n) nodes)
           in if cordoned \<noteq> [] then
                (Ok (cordoned, Some (Errorf (''cordoned nodes: '' @ Join cordoned '', ''))),
                 UpdateMetricHealthcheckFailed (ucName uc) ''cluster_node_manually_cordoned'' version state s)
              else
                (Ok ([], None),
                 UpdateMetricHealthcheckSucceeded (ucName uc) ''cluster_node_manually_cordoned'' version state
                   (UpdateMetricHealthcheckSucceeded (ucName uc) ''cluster_node_query_failed'' version state s))))"

definition NodeUnschedulableTaints ::
    "('w, Node list) ext_op \<Rightarrow> UpgradeConfig \<Rightarrow> string \<Rightarrow> ('w sys, string list \<times> goerr option) op" where
  "NodeUnschedulableTaints list_nodes uc version s =
     bindO (history_state uc, s) (\<lambda>state s.
     tryO (lift (call list_nodes) s) (\<lambda>r s.
       case r of
         Inl e \<Rightarrow>
           (Ok ([], Some e), UpdateMetricHealthcheckFailed (ucName uc) ''cluster_node_query_failed'' version state s)
       | Inr nodes \<Rightarrow>
           let unschedulable = map nodeName (filter HasMemoryPressure nodes) @
                 map nodeName (filter HasDiskPressure nodes) @ map nodeName (filter HasPidPressure nodes)
           in if unschedulable \<noteq> [] then
                (Ok (unschedulable, Some (Errorf (''unschedulable taints on nodes: '' @ Join unschedulable '', ''))),
                 UpdateMetricHealthcheckFailed (ucName uc) ''cluster_node_taint_unschedulable'' version state s)
              else
                (Ok ([], None),
                 UpdateMetricHealthcheckSucceeded (ucName uc) ''cluster_node_taint_unschedulable'' version state
                   (UpdateMetricHealthcheckSucceeded (ucName uc) ''cluster_node_query_failed'' version state s))))"

section \<open>Pod disruption budgets\<close>

record PDBDetails =
  pdName :: string
  pdNamespace :: string

definition namespaceException :: "string list" where
  "namespaceException =
     [''openshift-logging'', ''openshift-redhat-marketplace'', ''openshift-operators'',
      ''openshift-customer-monitoring'', ''openshift-cnv'', ''openshift-route-monitoring-operator'',
      ''openshift-user-workload-monitoring'', ''openshift-pipelines'']"

definition checkNamespaceExistsInArray :: "string list \<Rightarrow> string \<Rightarrow> bool" where
  "checkNamespaceExistsInArray namespaces n = list_ex (\<lambda>ns. ns = n) namespaces"

definition validateMaxUnavailable :: "PodDisruptionBudget \<Rightarrow> goerr option" where
  "validateMaxUnavailable p =
     (case pdbMaxUnavailable p of
        None \<Rightarrow> None
      | Some (IntVal i) \<Rightarrow>
          if i = 0 then Some (Errorf ''found a PodDisruptionBudget with MaxUnavailable set to 0'') else None
      | Some (StrVal v) \<Rightarrow>
          if v = ''0%'' then Some (Errorf ''found a PodDisruptionBudget with MaxUnavailable set to 0%'') else None)"

definition validateMinAvailable :: "PodDisruptionBudget \<Rightarrow> goerr option" where
  "validateMinAvailable p =
     (case pdbMinAvailable p of
        None \<Rightarrow> None
      | Some (IntVal i) \<Rightarrow> None
      | Some (StrVal v) \<Rightarrow>
          if v = ''100%'' then Some (Errorf ''found a PodDisruptionBudget with MinUnavailable set to 100%'') else None)"

text \<open>The first budget that fails ends the loop, with its name and the error.\<close>

fun pdb_loop :: "PodDisruptionBudget list \<Rightarrow> (PDBDetails \<times> goerr) option" where
  "pdb_loop [] = None"
| "pdb_loop (p # ps) =
     (if \<not> HasPrefix (pdbNamespace p) ''openshift-*'' \<or> checkNamespaceExistsInArray namespaceException (pdbNamespace p)
      then let d = \<lparr>pdName = pdbName p, pdNamespace = pdbNamespace p\<rparr>
           in case validateMaxUnavailable p of
                Some e \<Rightarrow> Some (d, e)
              | None \<Rightarrow> (case validateMinAvailable p of Some e \<Rightarrow> Some (d, e) | None \<Rightarrow> pdb_loop ps)
      else pdb_loop ps)"

definition checkPodDisruptionBudgets ::
    "('w, PodDisruptionBudget list) ext_op \<Rightarrow> 'w \<Rightarrow> (PDBDetails list \<times> string \<times> goerr option) \<times> 'w" where
  "checkPodDisruptionBudgets all_pdbs s =
     (case all_pdbs s of
        (Inl e, s) \<Rightarrow> (([], ''pdb_query_failed'', Some e), s)
      | (Inr pdbs, s) \<Rightarrow>
          (case pdb_loop pdbs of
             Some (d, e) \<Rightarrow> (([d], ''cluster_invalid_pdb_configuration'', Some e), s)
           | None \<Rightarrow> (([], [], None), s)))"

text \<open>\<open>string(b)\<close> of one byte: the UTF-8 encoding of the code point.\<close>

definition string_of_byte :: "char \<Rightarrow> string" where
  "string_of_byte b =
     (let n = (of_char b :: nat)
      in if n < 128 then [b] else [char_of (192 + n div 64), char_of (128 + n mod 64)])"

definition dvo_bad_pdb :: "string \<Rightarrow> bool" where
  "dvo_bad_pdb result =
     list_ex (\<lambda>m. Contains (string_of_byte m) ''deployment_validation_operator_pdb_min_available'' \<or>
                  Contains (string_of_byte m) ''deployment_validation_operator_pdb_max_available'') result"

text \<open>A builder that was never set is a nil interface, on which the call panics.\<close>

definition checkDvoMetrics :: "'w DvoClientBuilder option \<Rightarrow> ('w, string \<times> goerr option) op" where
  "checkDvoMetrics dvo s =
     (case dvo of
        None \<Rightarrow> (Panic, s)
      | Some b \<Rightarrow>
          tryO (dvo_New b s) (\<lambda>r s.
            case r of
              Inl e \<Rightarrow> (Ok (''dvo_client_creation_failed'', Some e), s)
            | Inr client \<Rightarrow>
                tryO (GetMetrics client s) (\<lambda>r s.
                  case r of
                    Inl e \<Rightarrow> (Ok (''dvo_metrics_query_failed'', Some e), s)
                  | Inr result \<Rightarrow>
                      if dvo_bad_pdb result then
                        (Ok (''cluster_invalid_pdb'',
                             Some (Errorf ''found a PodDisruptionBudget with incorrect configurations'')), s)
                      else (Ok ([], None), s))))"

definition HealthCheckPDB ::
    "('w, PodDisruptionBudget list) ext_op \<Rightarrow> 'w DvoClientBuilder option \<Rightarrow> UpgradeConfig \<Rightarrow> string \<Rightarrow>
     ('w sys, PDBDetails list \<times> goerr option) op" where
  "HealthCheckPDB all_pdbs dvo uc version s =
     bindO (history_state uc, s) (\<lambda>state s.
       case lift (checkPodDisruptionBudgets all_pdbs) s of
         ((details, reason, Some e), s) \<Rightarrow>
           (Ok (details, Some e), UpdateMetricHealthcheckFailed (ucName uc) reason version state s)
       | ((details, reason, None), s) \<Rightarrow>
           bindO (lift (checkDvoMetrics dvo) s) (\<lambda>(reason, err) s.
             case err of
               Some e \<Rightarrow>
                 (Ok (details, Some e), UpdateMetricHealthcheckFailed (ucName uc) reason version state s)
             | None \<Rightarrow>
                 (Ok (details, None), UpdateMetricHealthcheckSucceeded (ucName uc) ''cluster_invalid_pdb'' version state s)))"

text \<open>\<open>json.Marshal\<close> of the details; names of Kubernetes objects are escaped like any string.\<close>

definition hex_digit :: "nat \<Rightarrow> char" where
  "hex_digit d = char_of (if d < 10 then 48 + d else 87 + d)"

definition json_char :: "char \<Rightarrow> string" where
  "json_char c =
     (let n = (of_char c :: nat)
      in if n = 34 \<or> n = 92 then [CHR 0x5C, c]
         else if n = 8 then [CHR 0x5C, CHR ''b''] else if n = 12 then [CHR 0x5C, CHR ''f'']
         else if n = 10 then [CHR 0x5C, CHR ''n''] else if n = 13 then [CHR 0x5C, CHR ''r'']
         else if n = 9 then [CHR 0x5C, CHR ''t'']
         else if n < 32 \<or> n = 60 \<or> n = 62 \<or> n = 38
         then CHR 0x5C # ''u00'' @ [hex_digit (n div 16), hex_digit (n mod 16)]
         else [c])"

definition json_string :: "string \<Rightarrow> string" where
  "json_string s = quoted (concat (map json_char s))"

definition json_details :: "PDBDetails list \<Rightarrow> string" where
  "json_details ds =
     ''['' @ Join (map (\<lambda>d. ''{'' @ quoted ''Name'' @ '':'' @ json_string (pdName d) @ '','' @
                              quoted ''Namespace'' @ '':'' @ json_string (pdNamespace d) @ ''}'') ds) '','' @ '']''"

section \<open>The health check steps\<close>

definition getCurrentVersion :: "'w cv_api \<Rightarrow> ('w, string) op" where
  "getCurrentVersion api s =
     tryO (GetClusterVersion api s) (\<lambda>r s.
       case r of
         Inl _ \<Rightarrow> (Ok ''unknown'', s)
       | Inr cv \<Rightarrow> tryO (GetCurrentVersion cv, s) (\<lambda>r s.
           case r of Inl _ \<Rightarrow> (Ok ''unknown'', s) | Inr v \<Rightarrow> (Ok v, s)))"

definition capacity_check :: "'w clusterUpgrader \<Rightarrow> UpgradeConfig \<Rightarrow> string \<Rightarrow> string \<Rightarrow> ('w sys, string list) op" where
  "capacity_check cu uc version state s =
     (if CapacityReservation (Spec uc)
      then tryO (lift (CanScale (cu_machines cu)) s) (\<lambda>r s.
             if r = Inr True
             then (Ok [], UpdateMetricHealthcheckSucceeded (ucName uc) ''default_worker_machinepool_not_found'' version state s)
             else (Ok [''CapacityReservationHealthcheckFailed''],
                   UpdateMetricHealthcheckFailed (ucName uc) ''default_worker_machinepool_not_found'' version state s))
      else (Ok [], s))"

text \<open>The checks under the feature gate: the list \<open>healthCheckFailed\<close>.\<close>

definition gated_checks :: "'w clusterUpgrader \<Rightarrow> UpgradeConfig \<Rightarrow> string \<Rightarrow> ('w sys, string list) op" where
  "gated_checks cu uc version s =
     bindO (history_state uc, s) (\<lambda>state s.
     tryO (CriticalAlerts (cu_rt cu) (cu_metrics cu) (cu_config cu) uc version s) (\<lambda>r1 s.
     tryO (ClusterOperators (cu_cv cu) uc version s) (\<lambda>r2 s.
     bindO (capacity_check cu uc version state s) (\<lambda>capacity s.
     bindO (ManuallyCordonedNodes (cu_list_nodes cu) uc version s) (\<lambda>(nodes, err) s.
     let cordoned = (if err \<noteq> None \<or> nodes \<noteq> []
                     then [''NodeUnschedulableHealthcheckFailed:('' @ Join nodes '','' @ '')''] else [])
     in bindO (NodeUnschedulableTaints (list_all_nodes (cu_machines cu)) uc version s) (\<lambda>(nodes, err) s.
     let tainted = (if err \<noteq> None \<or> nodes \<noteq> []
                    then [''NodeUnschedulableTaintHealthcheckFailed:('' @ Join nodes '','' @ '')''] else [])
     in bindO (HealthCheckPDB (list_pdbs (cu_drain cu)) (cu_dvo cu) uc version s) (\<lambda>(details, err) s.
     let pdb = (if err \<noteq> None then [''PDBHealthcheckFailed: '' @ json_details details] else [])
     in (Ok ((if r1 = Inr True then [] else [''CriticalAlertsHealthcheckFailed'']) @
             (if r2 = Inr True then [] else [''ClusterOperatorsHealthcheckFailed'']) @
             capacity @ cordoned @ tainted @ pdb), s))))))))"

definition PreUpgradeHealthCheck :: "'w clusterUpgrader \<Rightarrow> UpgradeConfig \<Rightarrow> ('w sys, bool) op" where
  "PreUpgradeHealthCheck cu uc s =
     (let gates = cfgFeatureGate (cu_config cu); gated = IsFeatureEnabled gates PreHealthCheckFeatureGate
      in bindO (lift (HasUpgradeCommenced (cu_cv cu) uc) s) (\<lambda>upgradeCommenced s.
           if upgradeCommenced then (Ok True, s)
           else bindO (lift (getCurrentVersion (cu_cv cu)) s) (\<lambda>version s.
             bindO (if \<not> gated
                    then bindO (CriticalAlerts (cu_rt cu) (cu_metrics cu) (cu_config cu) uc version s) (\<lambda>ok s.
                           if \<not> ok then (Ok False, s) else ClusterOperators (cu_cv cu) uc version s)
                    else (Ok True, s)) (\<lambda>ok s.
               if \<not> ok then (Ok False, s)
               else if length gates > 0 \<and> gated then
                 bindO (gated_checks cu uc version s) (\<lambda>failed s.
                   if length failed > 0 then
                     let result = Join failed '',''
                     in (case GetHistory (History uc) (desired_version uc) of
                           None \<Rightarrow> (Panic, s)
                         | Some h \<Rightarrow>
                             (case Phase h of
                                New \<Rightarrow> bindO (NotifyResult (cu_notifier cu) MuoStatePreHealthCheckSL result s)
                                         (\<lambda>_ s. (Ok False, s))
                              | Upgrading \<Rightarrow> bindO (NotifyResult (cu_notifier cu) MuoStateHealthCheckSL result s)
                                  (\<lambda>_ s. (Ok (\<not> list_ex (\<lambda>c. c = ''CriticalAlertsHealthcheckFailed'' \<or>
                                                         c = ''ClusterOperatorsHealthcheckFailed'') failed), s))
                              | _ \<Rightarrow> (Ok False, s)))
                   else (Ok True, s))
               else (Ok True, s)))))"

definition PostUpgradeHealthCheck :: "'w clusterUpgrader \<Rightarrow> UpgradeConfig \<Rightarrow> ('w sys, bool) op" where
  "PostUpgradeHealthCheck cu uc s =
     bindO (lift (getCurrentVersion (cu_cv cu)) s) (\<lambda>version s.
     bindO (CriticalAlerts (cu_rt cu) (cu_metrics cu) (cu_config cu) uc version s) (\<lambda>ok s.
       if \<not> ok then (Ok False, s)
       else bindO (ClusterOperators (cu_cv cu) uc version s) (\<lambda>ok s.
         if \<not> ok then (Ok False, s)
         else (Ok True, ResetAllMetricNodeDrainFailed s))))"

section \<open>Lemmas\<close>

text \<open>A call that panics whatever its first part returned, when that part returns no error.\<close>

lemma bindO_Panic:
  "(\<And>e. fst r \<noteq> Err e) \<Longrightarrow> (\<And>a s. fst (f a s) = Panic) \<Longrightarrow> fst (bindO r f) = Panic"
  by (cases r; cases "fst r") auto

lemma tryO_Panic: "(\<And>x s. fst (f x s) = Panic) \<Longrightarrow> fst (tryO r f) = Panic"
  by (cases r; cases "fst r") auto

lemma tryO_no_Err: "(\<And>x s. fst (f x s) \<noteq> Err e) \<Longrightarrow> fst (tryO r f) \<noteq> Err e"
  by (cases r; cases "fst r") auto

lemma bindO_no_Err: "fst r \<noteq> Err e \<Longrightarrow> (\<And>a s. fst (f a s) \<noteq> Err e) \<Longrightarrow> fst (bindO r f) \<noteq> Err e"
  by (cases r; cases "fst r") auto

lemma history_state_no_Err: "history_state uc \<noteq> Err e"
  by (simp add: history_state_def split: option.splits)

lemma capacity_check_no_Err: "fst (capacity_check cu uc v st s) \<noteq> Err e"
  by (simp add: capacity_check_def tryO_no_Err)

lemma ManuallyCordonedNodes_no_Err: "fst (ManuallyCordonedNodes ls uc v s) \<noteq> Err e"
  unfolding ManuallyCordonedNodes_def
  by (intro bindO_no_Err tryO_no_Err) (auto simp: history_state_no_Err Let_def split: sum.splits)

lemma NodeUnschedulableTaints_no_Err: "fst (NodeUnschedulableTaints ls uc v s) \<noteq> Err e"
  unfolding NodeUnschedulableTaints_def
  by (intro bindO_no_Err tryO_no_Err) (auto simp: history_state_no_Err Let_def split: sum.splits)

lemma getCurrentVersion_no_Err: "fst (getCurrentVersion api s) \<noteq> Err e"
  unfolding getCurrentVersion_def
  by (intro tryO_no_Err) (auto split: sum.splits intro!: tryO_no_Err)

lemma HealthCheckPDB_nil_builder:
  assumes "list_pdbs' (ext s) = (Inr pdbs, w)" "pdb_loop pdbs = None"
  shows "fst (HealthCheckPDB list_pdbs' None uc v s) = Panic"
  using assms
  by (simp add: HealthCheckPDB_def history_state_def lift_def checkPodDisruptionBudgets_def checkDvoMetrics_def
      split: option.split)

lemma gated_checks_nil_builder:
  assumes "cu_dvo cu = None" "\<And>w. \<exists>pdbs w'. list_pdbs (cu_drain cu) w = (Inr pdbs, w') \<and> pdb_loop pdbs = None"
  shows "fst (gated_checks cu uc v s) = Panic"
proof -
  have pdb: "fst (HealthCheckPDB (list_pdbs (cu_drain cu)) None uc v s) = Panic" for s
    using assms(2) [of "ext s"] by (auto intro: HealthCheckPDB_nil_builder)
  have "fst (bindO (HealthCheckPDB (list_pdbs (cu_drain cu)) (cu_dvo cu) uc v s) f) = Panic" for s f
    using pdb [of s] assms(1) by (cases "HealthCheckPDB (list_pdbs (cu_drain cu)) None uc v s") auto
  then show ?thesis
    unfolding gated_checks_def Let_def split_def
    by - (rule bindO_Panic, simp add: history_state_no_Err, rule tryO_Panic, rule tryO_Panic,
          rule bindO_Panic, simp add: capacity_check_no_Err, rule bindO_Panic, simp add: ManuallyCordonedNodes_no_Err,
          rule bindO_Panic, simp add: NodeUnschedulableTaints_no_Err, assumption)
qed

section \<open>Properties\<close>

lemma Contains_short: "length s < length sub \<Longrightarrow> \<not> Contains s sub"
  by (auto simp: Contains_iff_sublist dest: sublist_length_le)

lemma dvo_bad_pdb_never: "\<not> dvo_bad_pdb result"
proof -
  have "\<not> Contains (string_of_byte m) sub" if "48 \<le> length sub" for m sub
    using that by (intro Contains_short) (simp add: string_of_byte_def Let_def)
  then show ?thesis
    by (simp add: dvo_bad_pdb_def list_ex_iff)
qed

text \<open>
  C32: The deployment-validation check looks for a metric's name in each byte of the response, so it never
  reports a bad pod disruption budget: whatever the client answers, the only failures are those of
  creating or calling the client.
\<close>

theorem dvo_check_never_fails:
  assumes "checkDvoMetrics (Some b) s = (Ok (reason, err), s')"
  shows "reason \<in> {[], ''dvo_client_creation_failed'', ''dvo_metrics_query_failed''} \<and> (err = None \<longleftrightarrow> reason = [])"
proof (cases "dvo_New b s")
  case (Pair r s1)
  then show ?thesis
  proof (cases r)
    case (Ok client)
    then show ?thesis
      using assms Pair
      by (cases "GetMetrics client s1"; cases "fst (GetMetrics client s1)")
         (auto simp: checkDvoMetrics_def dvo_bad_pdb_never)
  qed (use assms Pair in \<open>auto simp: checkDvoMetrics_def\<close>)
qed

theorem dvo_check_never_fails_witness:
  "\<exists>s'. checkDvoMetrics (Some \<lparr>dvo_New = (\<lambda>s. (Ok \<lparr>GetMetrics =
            (\<lambda>s. (Ok ''deployment_validation_operator_pdb_min_available 1'', s))\<rparr>, s))\<rparr>) () = (Ok ([], None), s')"
proof -
  let ?b = "\<lparr>dvo_New = (\<lambda>s::unit. (Ok \<lparr>GetMetrics = (\<lambda>s. (Ok ''deployment_validation_operator_pdb_min_available 1'', s))\<rparr>, s))\<rparr>"
  obtain reason err where r: "checkDvoMetrics (Some ?b) () = (Ok (reason, err), ())" "reason = []"
    by (simp add: checkDvoMetrics_def dvo_bad_pdb_never)
  show ?thesis using dvo_check_never_fails [OF r(1)] r by auto
qed

text \<open>The forms of a budget that the check knows: no pod may be unavailable, or all must be available, as a percentage.\<close>

definition forbids_disruptions :: "PodDisruptionBudget \<Rightarrow> bool" where
  "forbids_disruptions p \<longleftrightarrow>
     pdbMaxUnavailable p \<in> {Some (IntVal 0), Some (StrVal ''0%'')} \<or> pdbMinAvailable p = Some (StrVal ''100%'')"

lemma validate_pdb_iff:
  "validateMaxUnavailable p = None \<and> validateMinAvailable p = None \<longleftrightarrow> \<not> forbids_disruptions p"
  by (auto simp: validateMaxUnavailable_def validateMinAvailable_def forbids_disruptions_def split: option.splits IntOrString.splits)

lemma pdb_loop_first:
  assumes "\<And>p. p \<in> set pdbs \<Longrightarrow> CHR 0x2A \<notin> set (pdbNamespace p)"
  shows "case first_with forbids_disruptions pdbs of
           None \<Rightarrow> pdb_loop pdbs = None
         | Some p \<Rightarrow> \<exists>e. pdb_loop pdbs = Some (\<lparr>pdName = pdbName p, pdNamespace = pdbNamespace p\<rparr>, e)"
  using assms
proof (induction pdbs)
  case (Cons p ps)
  have checked: "\<not> HasPrefix (pdbNamespace p) ''openshift-*''"
    using Cons.prems [of p] by (auto simp: HasPrefix_def prefix_def)
  have rest: "case first_with forbids_disruptions ps of
           None \<Rightarrow> pdb_loop ps = None
         | Some p \<Rightarrow> \<exists>e. pdb_loop ps = Some (\<lparr>pdName = pdbName p, pdNamespace = pdbNamespace p\<rparr>, e)"
    using Cons by simp
  show ?case
    using checked rest validate_pdb_iff [of p] by (auto simp: Let_def split: option.splits)
qed simp

text \<open>
  C31: The pod disruption budget check skips namespaces that start with the eleven characters
  \<open>openshift-*\<close>, which is no pattern here; as no namespace has an asterisk, it skips none. The check reports the first budget, in the
  order of the API server and whatever its namespace, that has a MaxUnavailable of 0 or 0% or a MinAvailable of
  100%, with the reason \<open>cluster_invalid_pdb_configuration\<close> and an error, and passes when no
  budget has one of these three forms. Other forms, an integer MinAvailable among them, are not looked at.
\<close>

theorem pdb_check_covers_all:
  assumes "all_pdbs s = (Inr pdbs, s')" and "\<And>p. p \<in> set pdbs \<Longrightarrow> CHR 0x2A \<notin> set (pdbNamespace p)"
  shows "case first_with (\<lambda>p. pdbMaxUnavailable p \<in> {Some (IntVal 0), Some (StrVal ''0%'')} \<or>
                              pdbMinAvailable p = Some (StrVal ''100%'')) pdbs of
           None \<Rightarrow> checkPodDisruptionBudgets all_pdbs s = (([], [], None), s')
         | Some p \<Rightarrow> \<exists>e. checkPodDisruptionBudgets all_pdbs s =
             (([\<lparr>pdName = pdbName p, pdNamespace = pdbNamespace p\<rparr>], ''cluster_invalid_pdb_configuration'', Some e), s')"
proof -
  have "case first_with forbids_disruptions pdbs of
           None \<Rightarrow> pdb_loop pdbs = None
         | Some p \<Rightarrow> \<exists>e. pdb_loop pdbs = Some (\<lparr>pdName = pdbName p, pdNamespace = pdbNamespace p\<rparr>, e)"
    by (rule pdb_loop_first) (rule assms(2))
  then show ?thesis
    unfolding forbids_disruptions_def [abs_def]
    by (cases "first_with forbids_disruptions pdbs")
       (auto simp: checkPodDisruptionBudgets_def assms(1) forbids_disruptions_def [abs_def])
qed

theorem pdb_check_covers_all_witness:
  "let p = \<lparr>pdbName = ''app'', pdbNamespace = ''shop'', pdbMatchLabels = None, pdbMaxUnavailable = None,
            pdbMinAvailable = Some (IntVal 2)\<rparr>;
       q = \<lparr>pdbName = ''etcd-quorum-guard'', pdbNamespace = ''openshift-etcd'', pdbMatchLabels = None,
            pdbMaxUnavailable = Some (IntVal 0), pdbMinAvailable = None\<rparr>
   in \<exists>e. checkPodDisruptionBudgets (\<lambda>s. (Inr [p, q], s)) () =
        (([\<lparr>pdName = ''etcd-quorum-guard'', pdNamespace = ''openshift-etcd''\<rparr>], ''cluster_invalid_pdb_configuration'', Some e), ())"
proof -
  let ?p = "\<lparr>pdbName = ''app'', pdbNamespace = ''shop'', pdbMatchLabels = None, pdbMaxUnavailable = None,
            pdbMinAvailable = Some (IntVal 2)\<rparr>"
  let ?q = "\<lparr>pdbName = ''etcd-quorum-guard'', pdbNamespace = ''openshift-etcd'', pdbMatchLabels = None,
            pdbMaxUnavailable = Some (IntVal 0), pdbMinAvailable = None\<rparr>"
  have "\<And>r. r \<in> set [?p, ?q] \<Longrightarrow> CHR 0x2A \<notin> set (pdbNamespace r)" by auto
  from pdb_check_covers_all [of "\<lambda>s. (Inr [?p, ?q], s)" "()", OF refl this] show ?thesis by (simp add: Let_def)
qed

section \<open>The extra machine pools\<close>

lemma patterns_valid_iff: "patterns_valid ps = Ok () \<longleftrightarrow> (\<forall>p \<in> set ps. parse_glob p \<noteq> None)"
proof (induction ps)
  case (Cons p ps)
  then show ?case using path_Match_None [of p "[]"] by (cases "path_Match p []") auto
qed simp

text \<open>Some pattern of the list has the name in its language.\<close>

definition in_pools :: "string list \<Rightarrow> string \<Rightarrow> bool" where
  "in_pools ps v \<longleftrightarrow> (\<exists>p \<in> set ps. \<exists>is. parse_glob p = Some is \<and> glob is v)"

lemma matches_any_valid:
  assumes "patterns_valid ps = Ok ()" "plain_name v"
  shows "matches_any ps v = Ok (in_pools ps v)"
  using assms(1) unfolding patterns_valid_iff in_pools_def
proof (induction ps)
  case (Cons p ps)
  then show ?case using path_Match_glob [OF assms(2), of p] by (auto split: bool.split)
qed simp

lemma pool_loop_valid:
  assumes "patterns_valid ps = Ok ()" "\<And>ms. ms \<in> set mss \<Longrightarrow> plain_name (poolValue ms)"
  shows "pool_loop ps mss = Ok (filter (\<lambda>ms. poolValue ms \<noteq> ''worker'' \<and> in_pools ps (poolValue ms)) mss)"
  using assms(2)
proof (induction mss)
  case (Cons ms mss)
  then have "matches_any ps (poolValue ms) = Ok (in_pools ps (poolValue ms))" by (intro matches_any_valid assms(1)) simp
  with Cons show ?case by (simp add: Let_def)
qed simp

text \<open>
  C30: A configuration that passed its check never fails at run time on a pattern of a machine pool, and the patterns select what
  they say: with a valid configuration the machine sets to scale beside the workers are, in the order of the API server,
  exactly those whose pool is not \<open>worker\<close> and lies in the language of one of the patterns. Kubernetes
  allows no slash and nothing outside ASCII in the value of a label.
\<close>

theorem extra_pools_selected:
  assumes "scale_IsValid cfg = Ok ()" and "list_machinesets api [HasLabel LABEL_MACHINE_POOL] s = (Inr mss, s')"
    and "\<And>ms. ms \<in> set mss \<Longrightarrow> plain_name (poolValue ms)"
  shows "listMachineSetsByPoolPatterns rt api (ExtraMachinePools cfg) s =
    (Ok (filter (\<lambda>ms. poolValue ms \<noteq> ''worker'' \<and>
        (\<exists>p \<in> set (ExtraMachinePools cfg). \<exists>is. parse_glob p = Some is \<and> glob is (poolValue ms))) mss), s')"
proof -
  have "patterns_valid (ExtraMachinePools cfg) = Ok ()" using assms(1) by (auto simp: scale_IsValid_def split: if_splits)
  from pool_loop_valid [OF this assms(3)] show ?thesis
    using assms(2) by (simp add: listMachineSetsByPoolPatterns_def call_def wrap_err_def in_pools_def)
qed

definition infra_ms :: MachineSet where
  "infra_ms = sample_ms\<lparr>msName := ''i1'', msLabels := [LABEL_MACHINE_POOL \<mapsto> ''infra-2'']\<rparr>"

definition infra_machines :: "unit machine_api" where
  "infra_machines = sample_machines\<lparr>list_machinesets := (\<lambda>_ s. (Inr [sample_ms, infra_ms], s))\<rparr>"

theorem extra_pools_selected_witness:
  "listMachineSetsByPoolPatterns still_clock infra_machines [''infra-[0-9]'', ''w*''] () = (Ok [infra_ms], ())"
proof -
  let ?cfg = "undefined\<lparr>ScaleTimeOut := 30, ExtraMachinePools := [''infra-[0-9]'', ''w*'']\<rparr>"
  have "class_ranges False ''0-9]'' = Some ([(48, 57)], [])"
    by (simp add: class_ranges.simps [of False "''0-9]''"] RuneError_def)
  then have g: "parse_glob ''infra-[0-9]'' = Some (map GLit ''infra-'' @ [GClass False [(48, 57)]])"
    by (simp add: class_body_def)
  have w: "parse_glob ''w*'' = Some [GLit (CHR ''w''), GStar]"
    by simp
  have v: "scale_IsValid ?cfg = Ok ()" by (simp add: scale_IsValid_def patterns_valid_iff g w del: patterns_valid.simps parse_glob.simps)
  have l: "list_machinesets infra_machines [HasLabel LABEL_MACHINE_POOL] () = (Inr [sample_ms, infra_ms], ())"
    by (simp add: infra_machines_def)
  have p: "plain_name (poolValue ms)" if "ms \<in> set [sample_ms, infra_ms]" for ms
    using that by (auto simp: sample_ms_def infra_ms_def)
  from extra_pools_selected [OF v l p, of still_clock] show ?thesis
    by (simp add: g w infra_ms_def sample_ms_def del: parse_glob.simps)
qed

end
