(* ===== verification/Upgrader_Steps.thy ===== *)
theory Upgrader_Steps
  imports Health_Checks
begin

text \<open>
  The steps of an upgrade (\<open>pkg/upgraders/*step.go\<close>, \<open>upgradeable.go\<close>), one operation per method
  of the upgrader. A step reads the UpgradeConfig the runner holds; only the runner writes it.
\<close>

section \<open>Before the upgrade\<close>

abbreviation now_sys :: "'w clusterUpgrader \<Rightarrow> 'w sys \<Rightarrow> instant \<times> 'w sys" where
  "now_sys cu \<equiv> lift (time_now (cu_rt cu))"

abbreviation commenced_sys :: "'w clusterUpgrader \<Rightarrow> UpgradeConfig \<Rightarrow> ('w sys, bool) op" where
  "commenced_sys cu uc \<equiv> lift (HasUpgradeCommenced (cu_cv cu) uc)"

definition SendStartedNotification :: "'w clusterUpgrader \<Rightarrow> UpgradeConfig \<Rightarrow> ('w sys, bool) op" where
  "SendStartedNotification cu uc s =
     bindO (commenced_sys cu uc s) (\<lambda>upgradeCommenced s.
       if upgradeCommenced then (Ok True, s)
       else bindO (Notify (cu_notifier cu) MuoStateStarted s) (\<lambda>_ s.
         let (cid, s) = lift (GetClusterId (cu_cv cu)) s; (now, s) = now_sys cu s
         in (Ok True, UpdateMetricUpgradeStartedTimestamp cid (ucName uc) (desired_version uc) now s)))"

definition UpgradeDelayedCheck :: "'w clusterUpgrader \<Rightarrow> UpgradeConfig \<Rightarrow> ('w sys, bool) op" where
  "UpgradeDelayedCheck cu uc s =
     bindO (commenced_sys cu uc s) (\<lambda>upgradeCommenced s.
       if upgradeCommenced then (Ok True, s)
       else case GetHistory (History uc) (desired_version uc) of
              None \<Rightarrow> (Ok False, s)
            | Some h \<Rightarrow>
                (case StartTime h of
                   None \<Rightarrow> (Panic, s)
                 | Some startTime \<Rightarrow>
                     let trigger = GetUpgradeDelayedTriggerDuration (cu_config cu)
                     in if \<not> IsZero startTime \<and> trigger > 0
                        then let (now, s) = now_sys cu s
                             in if startTime + trigger < now
                                then bindO (Notify (cu_notifier cu) MuoStateDelayed s) (\<lambda>_ s. (Ok True, s))
                                else (Ok True, s)
                        else (Ok True, s)))"

text \<open>A y-stream bump is barred while the ClusterVersion is marked not upgradeable.\<close>

definition upgradeable_blocked :: "semver \<Rightarrow> semver \<Rightarrow> StatusCondition \<Rightarrow> bool" where
  "upgradeable_blocked desired current c \<longleftrightarrow>
     scType c = ''Upgradeable'' \<and> scStatus c = CFalse \<and> Major desired \<ge> Major current \<and> Minor desired > Minor current"

definition IsUpgradeable :: "'w clusterUpgrader \<Rightarrow> UpgradeConfig \<Rightarrow> ('w, bool) op" where
  "IsUpgradeable cu uc s =
     bindO (HasUpgradeCommenced (cu_cv cu) uc s) (\<lambda>upgradeCommenced s.
       if upgradeCommenced then (Ok True, s)
       else bindO (GetClusterVersion (cu_cv cu) s) (\<lambda>cv s.
         bindO (GetCurrentVersion cv, s) (\<lambda>currentVersion s.
         bindO (ret (semver_Parse (cu_semver cu) currentVersion), s) (\<lambda>current s.
         bindO (ret (semver_Parse (cu_semver cu) (desired_version uc)), s) (\<lambda>desired s.
           case Parse_RFC3339 (UpgradeAt (Spec uc)) of
             None \<Rightarrow> (Err (Errorf ''failed to parse spec.upgradeAt''), s)
           | Some upgradeTime \<Rightarrow>
               (case first_with (upgradeable_blocked desired current) (cvConditions cv) of
                  None \<Rightarrow> (Ok True, s)
                | Some c \<Rightarrow>
                    (Err (Errorf (''cluster upgrade to version '' @ desired_version uc @ '' on '' @ Format_UnixDate upgradeTime @
                       '' has been cancelled: '' @ scReason c @ '': '' @ scMessage c)), s)))))))"

fun run_checkers :: "('w, unit) op list \<Rightarrow> ('w, bool) op" where
  "run_checkers [] s = (Ok True, s)"
| "run_checkers (c # cs) s = bindO (c s) (\<lambda>_ s. run_checkers cs s)"

definition ExternalDependencyAvailabilityCheck :: "'w clusterUpgrader \<Rightarrow> UpgradeConfig \<Rightarrow> ('w, bool) op" where
  "ExternalDependencyAvailabilityCheck cu uc s =
     bindO (HasUpgradeCommenced (cu_cv cu) uc s) (\<lambda>upgradeCommenced s.
       if upgradeCommenced then (Ok True, s)
       else if length (cu_checkers cu) = 0 then (Ok True, s)
       else run_checkers (cu_checkers cu) s)"

section \<open>Capacity\<close>

definition SendScaleSkippedNotification :: "'w clusterUpgrader \<Rightarrow> ('w sys, unit) op" where
  "SendScaleSkippedNotification cu = Notify (cu_notifier cu) MuoStateScaleSkipped"

definition EnsureExtraUpgradeWorkers :: "'w clusterUpgrader \<Rightarrow> UpgradeConfig \<Rightarrow> ('w sys, bool) op" where
  "EnsureExtraUpgradeWorkers cu uc s =
     (let cfg = cu_config cu; api = cu_machines cu; pools = ExtraMachinePools cfg
      in if \<not> CapacityReservation (Spec uc) then (Ok True, s)
         else bindO (scale_IsValid cfg, s) (\<lambda>_ s.
           bindO (commenced_sys cu uc s) (\<lambda>upgradeCommenced s.
             if upgradeCommenced then (Ok True, s)
             else bindO (lift (CanScale api) s) (\<lambda>canScale s.
               if \<not> canScale \<and> length pools = 0
               then tryO (SendScaleSkippedNotification cu s) (\<lambda>_ s. (Ok True, s))
               else tryO (lift (EnsureScaleUpNodes (cu_rt cu) api (GetScaleDuration cfg) pools) s) (\<lambda>r s.
                 case r of
                   Inl e \<Rightarrow>
                     if IsScaleTimeOutError e
                     then bindO (Notify (cu_notifier cu) MuoStateSkipped (UpdateMetricScalingFailed (ucName uc) s))
                            (\<lambda>_ s. (Ok True, s))
                     else (Err e, s)
                 | Inr isScaled \<Rightarrow>
                     (Ok isScaled, if isScaled then UpdateMetricScalingSucceeded (ucName uc) s else s))))))"

definition RemoveExtraScaledNodes :: "'w clusterUpgrader \<Rightarrow> UpgradeConfig \<Rightarrow> ('w sys, bool) op" where
  "RemoveExtraScaledNodes cu uc s =
     (let cfg = cu_config cu; api = cu_machines cu
      in if \<not> CapacityReservation (Spec uc) then (Ok True, s)
         else bindO (scale_IsValid cfg, s) (\<lambda>_ s.
           bindO (lift (CanScale api) s) (\<lambda>canScale s.
             if \<not> canScale \<and> length (ExtraMachinePools cfg) = 0 then (Ok True, s)
             else bindO (lift (NewNodeDrainStrategy (cu_drain cu) uc (cfgNodeDrain cfg)) s) (\<lambda>nds s.
               tryO (EnsureScaleDownNodes api (Some (osd_nds nds)) s) (\<lambda>r s.
                 case r of
                   Inl e \<Rightarrow>
                     (Err e, case IsDrainTimeOutError e of
                               Some node \<Rightarrow> UpdateMetricNodeDrainFailed node s
                             | None \<Rightarrow> s)
                 | Inr isScaledDown \<Rightarrow>
                     (Ok isScaledDown, if isScaledDown then ResetAllMetricNodeDrainFailed s else s))))))"

section \<open>The control plane\<close>

definition CommenceUpgrade :: "'w clusterUpgrader \<Rightarrow> UpgradeConfig \<Rightarrow> ('w sys, bool) op" where
  "CommenceUpgrade cu uc s =
     bindO (commenced_sys cu uc (UpdateMetricUpgradeWindowNotBreached (ucName uc) s)) (\<lambda>upgradeCommenced s.
       if upgradeCommenced then (Ok True, s)
       else bindO (Notify (cu_notifier cu) MuoStateControlPlaneUpgradeStartedSL s) (\<lambda>_ s.
         let (cid, s) = lift (GetClusterId (cu_cv cu)) s; (now, s) = now_sys cu s
         in lift (EnsureDesiredConfig (cu_cv cu) uc)
              (UpdateMetricControlplaneUpgradeStartedTimestamp cid (ucName uc) (desired_version uc) now s)))"

definition control_plane_done :: "'w clusterUpgrader \<Rightarrow> UpgradeConfig \<Rightarrow> ('w sys, bool) op" where
  "control_plane_done cu uc s =
     bindO (Notify (cu_notifier cu) MuoStateControlPlaneUpgradeFinishedSL s) (\<lambda>_ s.
       let s = ResetMetricUpgradeControlPlaneTimeout (ucName uc) (desired_version uc) s;
           (cid, s) = lift (GetClusterId (cu_cv cu)) s;
           (t1, s) = now_sys cu s;
           s = UpdateMetricControlplaneUpgradeCompletedTimestamp cid (ucName uc) (desired_version uc) t1 s;
           (t2, s) = now_sys cu s
       in (Ok True, UpdateMetricWorkernodeUpgradeStartedTimestamp cid (ucName uc) (desired_version uc) t2 s))"

definition ControlPlaneUpgraded :: "'w clusterUpgrader \<Rightarrow> UpgradeConfig \<Rightarrow> ('w sys, bool) op" where
  "ControlPlaneUpgraded cu uc s =
     bindO (lift (GetClusterVersion (cu_cv cu)) s) (\<lambda>cv s.
       if HasUpgradeCompleted cv uc then control_plane_done cu uc s
       else bindO
         (case cv_GetHistory cv (desired_version uc) of
            Some h \<Rightarrow> if \<not> IsZero (uhStartedTime h) then (Ok (uhStartedTime h), s)
                      else (case Parse_RFC3339 (UpgradeAt (Spec uc)) of
                              Some t \<Rightarrow> (Ok t, s) | None \<Rightarrow> (Err (Errorf ''parsing time''), s))
          | None \<Rightarrow> (case Parse_RFC3339 (UpgradeAt (Spec uc)) of
                       Some t \<Rightarrow> (Ok t, s) | None \<Rightarrow> (Err (Errorf ''parsing time''), s)))
         (\<lambda>upgradeStartTime s.
           if \<not> IsZero upgradeStartTime
           then let (now, s) = now_sys cu s
                in if upgradeStartTime + GetControlPlaneDuration (cu_config cu) < now
                   then (Ok False, UpdateMetricUpgradeControlPlaneTimeout (ucName uc) (desired_version uc) s)
                   else (Ok False, s)
           else (Ok False, s)))"

section \<open>Maintenance windows\<close>

definition CreateControlPlaneMaintWindow :: "'w clusterUpgrader \<Rightarrow> UpgradeConfig \<Rightarrow> ('w, bool) op" where
  "CreateControlPlaneMaintWindow cu uc s =
     (let (now, s) = time_now (cu_rt cu) s;
          endTime = now + GetControlPlaneDuration (cu_config cu)
      in bindO (StartControlPlane (cu_rt cu) (cu_am cu) endTime (desired_version uc)
                  (ControlPlaneCriticals (cu_config cu)) s) (\<lambda>_ s. (Ok True, s)))"

definition RemoveControlPlaneMaintWindow :: "'w clusterUpgrader \<Rightarrow> UpgradeConfig \<Rightarrow> ('w, bool) op" where
  "RemoveControlPlaneMaintWindow cu uc s = bindO (EndControlPlane (cu_am cu) s) (\<lambda>_ s. (Ok True, s))"

text \<open>The window for \<open>n\<close> workers: for each the longer of the two drain timeouts, and the drain itself.\<close>

definition worker_window :: "UpgradeConfig \<Rightarrow> NodeDrain \<Rightarrow> int \<Rightarrow> duration" where
  "worker_window uc cfg n =
     (let pdb = minutes (PDBForceDrainTimeout (Spec uc)); node = GetTimeOutDuration cfg;
          wait = (if pdb < node then wrap64 (n * node) else wrap64 (n * pdb));
          action = wrap64 (n * GetExpectedDrainDuration cfg)
      in wrap64 (wait + action))"

definition CreateWorkerMaintWindow :: "'w clusterUpgrader \<Rightarrow> UpgradeConfig \<Rightarrow> ('w, bool) op" where
  "CreateWorkerMaintWindow cu uc s =
     bindO (mcp_IsUpgrading (cu_get_mcp cu) ''worker'' s) (\<lambda>r s.
       if \<not> IsUpgrading r then (Ok True, s)
       else let pending = wrap32 (MachineCount r - UpdatedCount r)
            in if pending < 1 then (Ok True, s)
               else let (now, s) = time_now (cu_rt cu) s;
                        endTime = now + worker_window uc (cfgNodeDrain (cu_config cu)) pending
                    in bindO (SetWorker (cu_rt cu) (cu_am cu) endTime (desired_version uc) pending s)
                         (\<lambda>_ s. (Ok True, s)))"

definition RemoveMaintWindow :: "'w clusterUpgrader \<Rightarrow> UpgradeConfig \<Rightarrow> ('w, bool) op" where
  "RemoveMaintWindow cu uc s = bindO (EndWorker (cu_am cu) s) (\<lambda>_ s. (Ok True, s))"

section \<open>Workers and the end\<close>

definition AllWorkersUpgraded :: "'w clusterUpgrader \<Rightarrow> UpgradeConfig \<Rightarrow> ('w sys, bool) op" where
  "AllWorkersUpgraded cu uc s =
     bindO (lift (mcp_IsUpgrading (cu_get_mcp cu) ''worker'') s) (\<lambda>r s.
     bindO (lift (IsActive (cu_am cu)) s) (\<lambda>silenceActive s.
       if IsUpgrading r
       then (Ok False,
             if \<not> silenceActive then UpdateMetricUpgradeWorkerTimeout (ucName uc) (desired_version uc) s
             else ResetMetricUpgradeWorkerTimeout (ucName uc) (desired_version uc) s)
       else bindO (Notify (cu_notifier cu) MuoStateWorkerPlaneUpgradeFinishedSL s) (\<lambda>_ s.
         let (cid, s) = lift (GetClusterId (cu_cv cu)) s; (now, s) = now_sys cu s
         in (Ok True, ResetMetricUpgradeWorkerTimeout (ucName uc) (desired_version uc)
                        (UpdateMetricWorkernodeUpgradeCompletedTimestamp cid (ucName uc) (desired_version uc) now s)))))"

definition postUpgradeFIOReInit :: "'w clusterUpgrader \<Rightarrow> ('w, unit) op" where
  "postUpgradeFIOReInit cu s =
     bindO (wrap_err (cu_rt cu)
              ''failed to fetch file integrity osd-fileintegrity in openshift-file-integrity namespace: ''
              (call (fio_get cu) s)) (\<lambda>_ s.
       call (fio_annotate cu [(''file-integrity.openshift.io/re-init'', [])]) s)"

definition PostUpgradeProcedures :: "'w clusterUpgrader \<Rightarrow> UpgradeConfig \<Rightarrow> ('w, bool) op" where
  "PostUpgradeProcedures cu uc s =
     (if \<not> Fedramp (cu_config cu) then (Ok True, s)
      else bindO (postUpgradeFIOReInit cu s) (\<lambda>_ s. (Ok True, s)))"

definition SendCompletedNotification :: "'w clusterUpgrader \<Rightarrow> UpgradeConfig \<Rightarrow> ('w sys, bool) op" where
  "SendCompletedNotification cu uc s =
     bindO (Notify (cu_notifier cu) MuoStateCompleted s) (\<lambda>_ s.
       let (cid, s) = lift (GetClusterId (cu_cv cu)) s; (now, s) = now_sys cu s
       in (Ok True, UpdateMetricUpgradeCompletedTimestamp cid (ucName uc) (desired_version uc) now s))"

section \<open>Properties\<close>

lemma wrap64_minutes: "0 \<le> x \<Longrightarrow> x \<le> 153722867 \<Longrightarrow> wrap64 (x * Minute) = x * Minute"
  by (rule wrap64_small) simp

text \<open>
  C27: The maintenance window for the workers is long enough for every pending worker to take the longer of the two
  drain timeouts and the expected drain time, one after the other, and is exactly that long, as long as
  this fits in a 64-bit duration (153722867 minutes, 292 years).
\<close>

theorem worker_window_covers_drains:
  assumes "0 \<le> n" "0 \<le> PDBForceDrainTimeout (Spec uc)" "0 \<le> Timeout cfg" "0 \<le> ExpectedNodeDrainTime cfg"
    and fits: "n * (max (PDBForceDrainTimeout (Spec uc)) (Timeout cfg) + ExpectedNodeDrainTime cfg) \<le> 153722867"
    and "max (PDBForceDrainTimeout (Spec uc)) (Timeout cfg) \<le> 153722867" "ExpectedNodeDrainTime cfg \<le> 153722867"
  shows "worker_window uc cfg n =
    n * (max (PDBForceDrainTimeout (Spec uc)) (Timeout cfg) + ExpectedNodeDrainTime cfg) * Minute"
proof -
  let ?p = "PDBForceDrainTimeout (Spec uc)" and ?t = "Timeout cfg" and ?e = "ExpectedNodeDrainTime cfg"
  have m: "minutes ?p = ?p * Minute" "minutes ?t = ?t * Minute" "minutes ?e = ?e * Minute"
    using assms by (auto intro!: minutes_small)
  have nn: "0 \<le> n * max ?p ?t" "0 \<le> n * ?e" using assms by (auto intro: mult_nonneg_nonneg)
  have sum: "n * (max ?p ?t + ?e) = n * max ?p ?t + n * ?e" by (simp add: distrib_left)
  have wait: "(if minutes ?p < minutes ?t then wrap64 (n * minutes ?t) else wrap64 (n * minutes ?p)) = n * max ?p ?t * Minute"
    using wrap64_minutes [of "n * max ?p ?t"] nn fits sum by (auto simp: m max_def mult.assoc)
  have action: "wrap64 (n * minutes ?e) = n * ?e * Minute"
    using wrap64_minutes [of "n * ?e"] nn fits sum by (simp add: m mult.assoc)
  show ?thesis
    unfolding worker_window_def Let_def GetTimeOutDuration_def GetExpectedDrainDuration_def wait action
    using wrap64_minutes [of "n * (max ?p ?t + ?e)"] nn fits sum by (simp add: distrib_right)
qed

theorem worker_window_covers_drains_witness: "worker_window sample_uc sample_drain_cfg 3 = 3 * (60 + 8) * Minute"
  using worker_window_covers_drains [of 3 sample_uc sample_drain_cfg] by (simp add: sample_uc_def sample_drain_cfg_def)


text \<open>
  An upgrader whose cluster is at 4.14.1, offers 4.14.2 and answers every request, three hours after
  the epoch; the world counts the notifications that were sent.
\<close>

definition sample_config :: upgraderConfig where
  "sample_config =
     \<lparr>ControlPlaneTime = 90, ControlPlaneCriticals = [], ScaleTimeOut = 30, ExtraMachinePools = [],
      cfgNodeDrain = sample_drain_cfg, IgnoredCriticals = [], IgnoredNamespaces = [],
      cfgHTTP = \<lparr>HTimeout = 0, URLS = []\<rparr>, cfgUpgradeWindow = \<lparr>TimeOut = 120, DelayTrigger = 30\<rparr>, Fedramp = False,
      cfgFeatureGate = []\<rparr>"

definition sample_clock :: "'s runtime" where
  "sample_clock = \<lparr>time_now = (\<lambda>s. (3 * Hour, s)), error_string = (\<lambda>_. ''error'')\<rparr>"

definition quiet_machines :: "'s machine_api" where
  "quiet_machines =
     \<lparr>list_machinesets = (\<lambda>_ s. (Inr [], s)), create_machineset = (\<lambda>_ s. (Inr (), s)),
      delete_machineset = (\<lambda>_ s. (Inr (), s)), list_machines = (\<lambda>_ s. (Inr [], s)),
      list_all_nodes = (\<lambda>s. (Inr [], s)), get_node = (\<lambda>n s. (Inl (ApiNotFound n), s))\<rparr>"

definition quiet_metrics :: "'s Counter" where
  "quiet_metrics = \<lparr>promTarget = ''prometheus'', request_error = (\<lambda>_. None), prom_do = (\<lambda>_ _ s. (Inr (HttpBody []), s)),
                   json_alerts = (\<lambda>_. Inr [])\<rparr>"

definition quiet_drain :: "'s drain_env" where
  "quiet_drain =
     \<lparr>de_rt = sample_clock,
      de_pods = \<lparr>parse_selector = (\<lambda>_. None), list_pods = (\<lambda>_ s. (Inr [], s)), delete_pod = (\<lambda>_ s. (Inr (), s)),
                 update_pod = (\<lambda>_ s. (Inr (), s))\<rparr>,
      de_regex = literal_regex, list_pdbs = (\<lambda>s. (Inr [], s)), new_notifier = (\<lambda>s. (Ok (\<lambda>_ _ s. (Ok (), s)), s)),
      new_metrics = (\<lambda>s. (Ok quiet_metrics, s))\<rparr>"

definition sample_cu :: "nat clusterUpgrader" where
  "sample_cu =
     \<lparr>cu_rt = sample_clock, cu_metrics = em_metrics sample_em,
      cu_cv = \<lparr>get_cv = (\<lambda>s. (Inr sample_cv, s)), patch_cv = (\<lambda>_ s. (Inr (), s)), list_clusteroperators = (\<lambda>s. (Inr [], s))\<rparr>,
      cu_notifier = sample_em, cu_config = sample_config, cu_machines = quiet_machines, cu_drain = quiet_drain,
      cu_am = \<lparr>post_silence = (\<lambda>_ s. (Inr (), s)), get_silences = (\<lambda>s. (Inr [], s)),
               get_silence = (\<lambda>i s. (Inl (ApiNotFound i), s)), delete_silence = (\<lambda>_ s. (Inr (), s))\<rparr>,
      cu_get_mcp = (\<lambda>n s. (Inr \<lparr>mcpName = n, mcpMachineCount = 3, mcpUpdatedMachineCount = 0\<rparr>, s)),
      cu_list_nodes = (\<lambda>_ s. (Inr [], s)), cu_checkers = [], cu_dvo = None,
      cu_semver = \<lparr>semver_Parse = (\<lambda>_. Inr \<lparr>Major = 4, Minor = 14, svRest = []\<rparr>), semver_Compare = (\<lambda>_ _. 0)\<rparr>,
      fio_get = (\<lambda>s. (Inr (), s)), fio_annotate = (\<lambda>_ s. (Inr (), s))\<rparr>"


end
