(* ===== verification/Upgraders.thy ===== *)
theory Upgraders
  imports Upgrader_Steps
begin

text \<open>
  The two cluster upgraders (\<open>pkg/upgraders/osdupgrader.go\<close>, \<open>aroupgrader.go\<close>, \<open>upgrader.go\<close>)
  and their builder (\<open>builder.go\<close>): the ordered steps, the failure policy of the OSD upgrader,
  and, as a locale, what the controller relies on from either.
\<close>

section \<open>Steps in order\<close>

text \<open>A step that touches no gauge, as a step of the whole state.\<close>

definition lift_step :: "(UpgradeConfig \<Rightarrow> ('w, bool) op) \<Rightarrow> UpgradeConfig \<Rightarrow> ('w sys, bool) op" where
  "lift_step f uc = lift (f uc)"

definition osd_steps :: "'w clusterUpgrader \<Rightarrow> 'w sys actionStep list" where
  "osd_steps ou =
     [Action SendStartedNotification_t (SendStartedNotification ou),
      Action SendStartedNotification_t (UpgradeDelayedCheck ou),
      Action IsClusterUpgradable_t (lift_step (IsUpgradeable ou)),
      Action UpgradePreHealthCheck_t (PreUpgradeHealthCheck ou),
      Action ExtDepAvailabilityCheck_t (lift_step (ExternalDependencyAvailabilityCheck ou)),
      Action UpgradeScaleUpExtraNodes_t (EnsureExtraUpgradeWorkers ou),
      Action ControlPlaneMaintWindow_t (lift_step (CreateControlPlaneMaintWindow ou)),
      Action CommenceUpgrade_t (CommenceUpgrade ou),
      Action ControlPlaneUpgraded_t (ControlPlaneUpgraded ou),
      Action RemoveControlPlaneMaintWindow_t (lift_step (RemoveControlPlaneMaintWindow ou)),
      Action WorkersMaintWindow_t (lift_step (CreateWorkerMaintWindow ou)),
      Action AllWorkerNodesUpgraded_t (AllWorkersUpgraded ou),
      Action RemoveExtraScaledNodes_t (RemoveExtraScaledNodes ou),
      Action RemoveMaintWindow_t (lift_step (RemoveMaintWindow ou)),
      Action PostClusterHealthCheck_t (PostUpgradeHealthCheck ou),
      Action PostUpgradeProcedures_t (lift_step (PostUpgradeProcedures ou)),
      Action SendCompletedNotification_t (SendCompletedNotification ou)]"

definition aro_steps :: "'w clusterUpgrader \<Rightarrow> 'w sys actionStep list" where
  "aro_steps au =
     [Action SendStartedNotification_t (SendStartedNotification au),
      Action UpgradePreHealthCheck_t (PreUpgradeHealthCheck au),
      Action ExtDepAvailabilityCheck_t (lift_step (ExternalDependencyAvailabilityCheck au)),
      Action UpgradeScaleUpExtraNodes_t (EnsureExtraUpgradeWorkers au),
      Action ControlPlaneMaintWindow_t (lift_step (CreateControlPlaneMaintWindow au)),
      Action CommenceUpgrade_t (CommenceUpgrade au),
      Action ControlPlaneUpgraded_t (ControlPlaneUpgraded au),
      Action RemoveControlPlaneMaintWindow_t (lift_step (RemoveControlPlaneMaintWindow au)),
      Action WorkersMaintWindow_t (lift_step (CreateWorkerMaintWindow au)),
      Action AllWorkerNodesUpgraded_t (AllWorkersUpgraded au),
      Action RemoveExtraScaledNodes_t (RemoveExtraScaledNodes au),
      Action RemoveMaintWindow_t (lift_step (RemoveMaintWindow au)),
      Action PostClusterHealthCheck_t (PostUpgradeHealthCheck au),
      Action SendCompletedNotification_t (SendCompletedNotification au)]"

definition runSteps ::
    "'w clusterUpgrader \<Rightarrow> 'w sys actionStep list \<Rightarrow> (UpgradeConfig \<times> 'w sys, run_result) op" where
  "runSteps cu steps = Run (lift_runtime (cu_rt cu)) steps"

section \<open>The failure policy\<close>

definition shouldFailUpgrade :: "'w clusterUpgrader \<Rightarrow> UpgradeConfig \<Rightarrow> ('w, bool) op" where
  "shouldFailUpgrade cu uc s =
     bindO (HasUpgradeCommenced (cu_cv cu) uc s) (\<lambda>commenced s.
       if commenced then (Ok False, s)
       else case GetHistory (History uc) (desired_version uc) of
              None \<Rightarrow> (Ok False, s)
            | Some h \<Rightarrow>
                (case StartTime h of
                   None \<Rightarrow> (Panic, s)
                 | Some startTime \<Rightarrow>
                     let window = GetUpgradeWindowTimeOutDuration (cfgUpgradeWindow (cu_config cu))
                     in if \<not> IsZero startTime \<and> window > 0
                        then let (now, s) = time_now (cu_rt cu) s in (Ok (startTime + window < now), s)
                        else (Ok False, s)))"

text \<open>
  \<open>GetHistory\<close> returns a copy of the history, which shares the array of the conditions with the
  original: \<open>SetCondition\<close> on the copy reaches the UpgradeConfig only when it overwrites a
  condition that is already there. A new condition goes into a new array and is dropped.
\<close>

definition set_condition_of_copy ::
    "'w sys runtime \<Rightarrow> UpgradeHistory \<Rightarrow> UpgradeCondition \<Rightarrow> UpgradeConfig \<times> 'w sys \<Rightarrow> UpgradeConfig \<times> 'w sys" where
  "set_condition_of_copy rt h c = (\<lambda>(uc, s).
     let (uc', s') = store_condition rt h c (uc, s)
     in (if GetCondition (HConditions h) (CType c) = None then uc else uc', s'))"

definition failed_condition :: "ConditionStatus \<Rightarrow> UpgradeCondition" where
  "failed_condition st =
     newUpgradeCondition ''Upgrade failed'' ''FailedUpgrade notification sent'' ''FailedUpgrade'' st"

text \<open>The end of the failure routine: without a history the condition has no place and the dereference panics.\<close>

definition record_failure ::
    "'w clusterUpgrader \<Rightarrow> UpgradeHistory option \<Rightarrow> (UpgradeHistory \<Rightarrow> UpgradePhase) \<Rightarrow> ConditionStatus \<Rightarrow>
     (UpgradeConfig \<times> 'w sys, run_result) op" where
  "record_failure cu h ph st = (\<lambda>(uc, s).
     case h of
       None \<Rightarrow> (Panic, uc, s)
     | Some h \<Rightarrow> (Ok (ph h, None), set_condition_of_copy (lift_runtime (cu_rt cu)) h (failed_condition st) (uc, s)))"

definition performUpgradeFailure :: "'w clusterUpgrader \<Rightarrow> (UpgradeConfig \<times> 'w sys, run_result) op" where
  "performUpgradeFailure cu = (\<lambda>(uc, s).
     let h = GetHistory (History uc) (desired_version uc)
     in case EnsureScaleDownNodes (cu_machines cu) None s of
          (Panic, s) \<Rightarrow> (Panic, uc, s)
        | (Err _, s) \<Rightarrow> record_failure cu h Phase CFalse (uc, s)
        | (Ok _, s) \<Rightarrow>
            (case Notify (cu_notifier cu) MuoStateFailed s of
               (Panic, s) \<Rightarrow> (Panic, uc, s)
             | (Err _, s) \<Rightarrow> record_failure cu h Phase CFalse (uc, s)
             | (Ok _, s) \<Rightarrow>
                 record_failure cu h (\<lambda>_. Failed) CTrue
                   (uc, ResetFailureMetrics (UpdateMetricUpgradeWindowBreached (ucName uc) s))))"

section \<open>The upgraders\<close>

text \<open>The error of \<open>shouldFailUpgrade\<close> is dropped: the upgrade goes on.\<close>

definition osd_UpgradeCluster :: "'w clusterUpgrader \<Rightarrow> (UpgradeConfig \<times> 'w sys, run_result) op" where
  "osd_UpgradeCluster ou = (\<lambda>(uc, s).
     case lift (shouldFailUpgrade ou uc) s of
       (Panic, s) \<Rightarrow> (Panic, uc, s)
     | (Ok True, s) \<Rightarrow> performUpgradeFailure ou (uc, s)
     | (_, s) \<Rightarrow> runSteps ou (osd_steps ou) (uc, s))"

definition aro_UpgradeCluster :: "'w clusterUpgrader \<Rightarrow> (UpgradeConfig \<times> 'w sys, run_result) op" where
  "aro_UpgradeCluster au = runSteps au (aro_steps au)"

definition osd_HealthCheck :: "'w clusterUpgrader \<Rightarrow> UpgradeConfig \<Rightarrow> ('w sys, bool) op" where
  "osd_HealthCheck ou uc = PreUpgradeHealthCheck ou uc"

definition aro_HealthCheck :: "'w clusterUpgrader \<Rightarrow> UpgradeConfig \<Rightarrow> ('w sys, bool) op" where
  "aro_HealthCheck au uc = PreUpgradeHealthCheck au uc"

record 'w ClusterUpgrader =
  HealthCheck :: "UpgradeConfig \<Rightarrow> ('w sys, bool) op"
  UpgradeCluster :: "(UpgradeConfig \<times> 'w sys, run_result) op"

section \<open>Construction\<close>

text \<open>What the constructors take from outside: the Kubernetes client in its roles, and the libraries.\<close>

record 'w upgrader_env =
  ue_net :: "'w net_api"
  ue_cm :: "'w cm_api"
  ue_decode :: "string \<Rightarrow> goerr + upgraderConfig"
  ue_http :: "'w http_api"
  ue_schedule :: "string list \<Rightarrow> string list"
  ue_machines :: "'w machine_api"
  ue_drain :: "'w drain_env"
  ue_get_mcp :: "string \<Rightarrow> ('w, MachineConfigPool) ext_op"
  ue_list_nodes :: "string \<Rightarrow> ('w, Node list) ext_op"
  ue_semver :: semver_lib
  ue_fio_get :: "('w, unit) ext_op"
  ue_fio_annotate :: "(string \<times> string) list \<Rightarrow> ('w, unit) ext_op"

definition new_upgrader ::
    "'w upgrader_env \<Rightarrow> Target \<Rightarrow> 'w Counter \<Rightarrow> 'w eventManager \<Rightarrow> 'w DvoClientBuilder option \<Rightarrow>
     ('w, 'w clusterUpgrader) op" where
  "new_upgrader env target mc notifier dvo s =
     bindO (Into (net_rt (ue_net env)) (ue_cm env) target (ue_decode env)
              upgraderConfig_IsValid s) (\<lambda>cfg s.
     bindO (maintenance_NewClient (ue_net env) s) (\<lambda>m s.
       (Ok \<lparr>cu_rt = net_rt (ue_net env), cu_metrics = mc, cu_cv = net_cv (ue_net env), cu_notifier = notifier,
            cu_config = cfg, cu_machines = ue_machines env, cu_drain = ue_drain env, cu_am = m,
            cu_get_mcp = ue_get_mcp env, cu_list_nodes = ue_list_nodes env,
            cu_checkers = map (AvailabilityCheck (ue_http env) (ue_schedule env)) (GetAvailabilityCheckers (cfgHTTP cfg)),
            cu_dvo = dvo, cu_semver = ue_semver env,
            fio_get = ue_fio_get env, fio_annotate = ue_fio_annotate env\<rparr>, s)))"

text \<open>The OSD upgrader has a builder of deployment-validation clients; the ARO upgrader leaves it nil.\<close>

definition NewOSDUpgrader ::
    "'w upgrader_env \<Rightarrow> Target \<Rightarrow> 'w Counter \<Rightarrow> 'w eventManager \<Rightarrow> ('w, 'w ClusterUpgrader) op" where
  "NewOSDUpgrader env target mc notifier s =
     bindO (new_upgrader env target mc notifier (Some (dvo_NewBuilder (ue_net env))) s) (\<lambda>ou s.
       (Ok \<lparr>HealthCheck = osd_HealthCheck ou, UpgradeCluster = osd_UpgradeCluster ou\<rparr>, s))"

definition NewAROUpgrader ::
    "'w upgrader_env \<Rightarrow> Target \<Rightarrow> 'w Counter \<Rightarrow> 'w eventManager \<Rightarrow> ('w, 'w ClusterUpgrader) op" where
  "NewAROUpgrader env target mc notifier s =
     bindO (new_upgrader env target mc notifier None s) (\<lambda>au s.
       (Ok \<lparr>HealthCheck = aro_HealthCheck au, UpgradeCluster = aro_UpgradeCluster au\<rparr>, s))"

fun NewClient ::
    "'w upgrader_env \<Rightarrow> Target \<Rightarrow> 'w Counter \<Rightarrow> 'w eventManager \<Rightarrow> UpgradeType \<Rightarrow> ('w, 'w ClusterUpgrader) op" where
  "NewClient env t mc nc OSD = NewOSDUpgrader env t mc nc"
| "NewClient env t mc nc ARO = NewAROUpgrader env t mc nc"
| "NewClient env t mc nc (OtherType _) = NewOSDUpgrader env t mc nc"

section \<open>The contract of an upgrader\<close>

text \<open>
  What the controller relies on from the upgrader it calls, whichever of the two it is: the call
  changes the UpgradeConfig it is given in the conditions of the current history only, it never
  returns an error of its own (an error of a step is part of the result), and the phase it reports
  is Upgrading, Upgraded, Failed, or the phase the history already has.
\<close>

locale cluster_upgrader =
  fixes upgrade :: "(UpgradeConfig \<times> 'w sys, run_result) op"
  assumes frame: "upgrade (uc, s) = (r, uc', s') \<Longrightarrow> current_history uc \<noteq> None \<Longrightarrow> same_but_conditions uc uc'"
    and no_error: "current_history uc \<noteq> None \<Longrightarrow> upgrade (uc, s) \<noteq> (Err e, uc', s')"
    and phases: "upgrade (uc, s) = (Ok (p, err), uc', s') \<Longrightarrow> current_history uc = Some h \<Longrightarrow>
          p \<in> {Upgrading, Upgraded, Failed, Phase h}"
begin

lemma history_kept:
  assumes "upgrade (uc, s) = (r, uc', s')" "current_history uc = Some h"
  obtains cs where "current_history uc' = Some (h\<lparr>HConditions := cs\<rparr>)" "Spec uc' = Spec uc"
  using frame [OF assms(1)] assms(2) by (auto simp: same_but_conditions_def)

lemma running_stays:
  assumes "upgrade (uc, s) = (Ok (p, err), uc', s')" "current_history uc = Some h" "Phase h = Upgrading"
  shows "p \<in> {Upgrading, Upgraded, Failed}"
  using phases [OF assms(1,2)] assms(3) by auto

end

lemma run_progress_phase: "run_progress ns r uc uc' \<Longrightarrow> fst r \<in> {Upgrading, Upgraded}"
  by (auto simp: run_progress_def)

lemma runSteps_effect:
  assumes "runSteps cu steps (uc, s) = (r, uc', s')" "current_history uc \<noteq> None"
  shows "same_but_conditions uc uc'" "r \<noteq> Err e" "r = Ok (p, err) \<Longrightarrow> p \<in> {Upgrading, Upgraded}"
  using Run_effect [OF assms(1) [unfolded runSteps_def] assms(2)] run_progress_phase [of _ "(p, err)"]
  by (auto simp: touches_only_def)

lemma aro_UpgradeCluster_effect:
  assumes "aro_UpgradeCluster au (uc, s) = (r, uc', s')" "current_history uc = Some h"
  shows "same_but_conditions uc uc' \<and> (\<forall>e. r \<noteq> Err e) \<and>
         (\<forall>p err. r = Ok (p, err) \<longrightarrow> p \<in> {Upgrading, Upgraded})"
  using runSteps_effect [OF assms(1) [unfolded aro_UpgradeCluster_def]] assms(2) by blast

interpretation aro: cluster_upgrader "aro_UpgradeCluster au" for au
  by unfold_locales (auto dest: aro_UpgradeCluster_effect)

lemma set_condition_of_copy_frame:
  assumes "set_condition_of_copy rt h c (uc, s) = (uc', s')" "current_history uc = Some h"
  shows "same_but_conditions uc uc'"
  using assms store_condition_effect(1) [OF assms(2)]
  by (auto simp: set_condition_of_copy_def Let_def split: prod.splits if_splits)

lemma set_condition_of_copy_new:
  assumes "set_condition_of_copy rt h c (uc, s) = (uc', s')" "GetCondition (HConditions h) (CType c) = None"
  shows "uc' = uc"
  using assms by (auto simp: set_condition_of_copy_def Let_def split: prod.splits)

lemma performUpgradeFailure_effect:
  assumes "performUpgradeFailure cu (uc, s) = (r, uc', s')" "current_history uc = Some h"
  shows "same_but_conditions uc uc'" "r \<noteq> Err e" "r = Ok (p, err) \<Longrightarrow> p \<in> {Failed, Phase h}"
proof -
  have "same_but_conditions uc uc' \<and> r \<noteq> Err e \<and> (r = Ok (p, err) \<longrightarrow> p \<in> {Failed, Phase h})"
    using assms set_condition_of_copy_frame [OF _ assms(2)]
    by (auto simp: performUpgradeFailure_def record_failure_def Let_def split: prod.splits outcome.splits)
  then show "same_but_conditions uc uc'" "r \<noteq> Err e" "r = Ok (p, err) \<Longrightarrow> p \<in> {Failed, Phase h}"
    by blast+
qed

text \<open>The OSD upgrader either runs its steps or carries out the failure.\<close>

lemma osd_UpgradeCluster_cases:
  assumes "osd_UpgradeCluster ou (uc, s) = (r, uc', s')"
  obtains (panic) "r = Panic" "uc' = uc"
    | (fail) s1 where "lift (shouldFailUpgrade ou uc) s = (Ok True, s1)" "performUpgradeFailure ou (uc, s1) = (r, uc', s')"
    | (run) s1 where "runSteps ou (osd_steps ou) (uc, s1) = (r, uc', s')"
  using assms
  by (cases "lift (shouldFailUpgrade ou uc) s"; cases "fst (lift (shouldFailUpgrade ou uc) s)")
     (auto simp: osd_UpgradeCluster_def split: bool.splits)

lemma osd_UpgradeCluster_effect:
  assumes "osd_UpgradeCluster ou (uc, s) = (r, uc', s')" "current_history uc = Some h"
  shows "same_but_conditions uc uc' \<and> (\<forall>e. r \<noteq> Err e) \<and>
         (\<forall>p err. r = Ok (p, err) \<longrightarrow> p \<in> {Upgrading, Upgraded, Failed, Phase h})"
  using assms(1)
proof (cases rule: osd_UpgradeCluster_cases)
  case panic
  then show ?thesis using assms(2) by simp
next
  case fail
  then show ?thesis using performUpgradeFailure_effect [OF fail(2) assms(2)] by auto
next
  case run
  then show ?thesis using runSteps_effect [OF run] assms(2) by auto
qed

interpretation osd: cluster_upgrader "osd_UpgradeCluster ou" for ou
  by unfold_locales (auto dest: osd_UpgradeCluster_effect)

lemma NewClient_upgrader:
  assumes "NewClient env t m em ty s = (Ok u, s')"
  obtains (osd) cu where "UpgradeCluster u = osd_UpgradeCluster cu"
    | (aro) cu where "UpgradeCluster u = aro_UpgradeCluster cu"
  using assms by (cases ty) (auto simp: NewOSDUpgrader_def NewAROUpgrader_def bindO_Ok_iff)

text \<open>Whatever \<open>NewClient\<close> returns keeps the contract.\<close>

lemma NewClient_contract:
  assumes "NewClient env t m em ty s = (Ok u, s')"
  shows "cluster_upgrader (UpgradeCluster u)"
  using assms
  by (cases rule: NewClient_upgrader) (simp_all add: osd.cluster_upgrader_axioms aro.cluster_upgrader_axioms)

section \<open>Operations that always succeed\<close>

definition succeeds :: "('s, 'a) op \<Rightarrow> ('a \<Rightarrow> bool) \<Rightarrow> bool" where
  "succeeds f P \<longleftrightarrow> (\<forall>s. \<exists>a s'. f s = (Ok a, s') \<and> P a)"

text \<open>A service that always answers, with a value that satisfies \<open>P\<close>.\<close>

definition answers :: "('s, 'a) ext_op \<Rightarrow> ('a \<Rightarrow> bool) \<Rightarrow> bool" where
  "answers f P \<longleftrightarrow> (\<forall>s. \<exists>a s'. f s = (Inr a, s') \<and> P a)"

named_theorems succeeds_rules

lemma succeeds_mono: "succeeds f P \<Longrightarrow> (\<And>a. P a \<Longrightarrow> Q a) \<Longrightarrow> succeeds f Q"
  unfolding succeeds_def by blast

lemma succeeds_pre: "succeeds f P \<Longrightarrow> succeeds (\<lambda>s. f (g s)) P"
  unfolding succeeds_def by blast

lemma succeeds_call [succeeds_rules]: "answers f P \<Longrightarrow> succeeds (call f) P"
  unfolding succeeds_def answers_def by (metis call_eq_iff(1))

lemma succeeds_ret [succeeds_rules]: "P a \<Longrightarrow> succeeds (\<lambda>s. (Ok a, f s)) P"
  by (simp add: succeeds_def)

lemma succeeds_bind [succeeds_rules]:
  assumes "succeeds f P" "\<And>a. P a \<Longrightarrow> succeeds (g a) Q"
  shows "succeeds (\<lambda>s. bindO (f s) g) Q"
proof -
  have "\<exists>b s''. bindO (f s) g = (Ok b, s'') \<and> Q b" for s
  proof -
    obtain a s' where a: "f s = (Ok a, s')" "P a" using assms(1) unfolding succeeds_def by blast
    with assms(2) [OF a(2)] show ?thesis unfolding succeeds_def by simp
  qed
  then show ?thesis by (simp add: succeeds_def)
qed

lemma succeeds_try:
  assumes "succeeds f P" "\<And>a. P a \<Longrightarrow> succeeds (g (Inr a)) Q"
  shows "succeeds (\<lambda>s. tryO (f s) g) Q"
proof -
  have "\<exists>b s''. tryO (f s) g = (Ok b, s'') \<and> Q b" for s
  proof -
    obtain a s' where a: "f s = (Ok a, s')" "P a" using assms(1) unfolding succeeds_def by blast
    with assms(2) [OF a(2)] show ?thesis unfolding succeeds_def by (simp add: tryO_def)
  qed
  then show ?thesis by (simp add: succeeds_def)
qed

lemma succeeds_lift [succeeds_rules]: "succeeds f P \<Longrightarrow> succeeds (lift f) P"
  unfolding succeeds_def lift_def by (metis (mono_tags, lifting) case_prod_conv)

lemma succeeds_let: "(\<And>x. succeeds (g x) P) \<Longrightarrow> succeeds (\<lambda>s. let (x, s) = f s in g x s) P"
  unfolding succeeds_def by (auto split: prod.split)

lemma succeeds_if: "succeeds f P \<Longrightarrow> succeeds g P \<Longrightarrow> succeeds (\<lambda>s. if c then f s else g s) P"
  by (cases c) simp_all

lemma succeedsD: "succeeds f P \<Longrightarrow> \<exists>a s'. f s = (Ok a, s') \<and> P a"
  unfolding succeeds_def by blast

lemma succeeds_TrueI: "(\<And>s. \<exists>s'. f s = (Ok True, s')) \<Longrightarrow> succeeds f (\<lambda>b. b)"
  unfolding succeeds_def by blast

text \<open>A run in which every step succeeds.\<close>

lemma steps_finished_if_succeed:
  assumes "\<And>st uc'. st \<in> set steps \<Longrightarrow> same_but_conditions uc uc' \<Longrightarrow> succeeds (step_f st uc') (\<lambda>b. b)"
    and "current_history uc \<noteq> None"
  shows "\<exists>uc' s'. steps_finished rt steps (uc, s) (uc', s') \<and> same_but_conditions uc uc'"
  using assms
proof (induction steps arbitrary: uc s)
  case (Cons st steps)
  obtain uc1 s1 where start: "setConditionStart rt (step_name st) (uc, s) = (Ok (), uc1, s1)"
      "touches_only {step_name st} uc uc1" "condition_of uc1 (step_name st) \<noteq> None"
    by (rule setConditionStart_effect [OF Cons.prems(2), of rt "step_name st" s]) blast
  then have "succeeds (step_f st uc1) (\<lambda>b. b)" by (intro Cons.prems(1)) (auto simp: touches_only_def)
  then obtain s2 where f: "step_f st uc1 s1 = (Ok True, s2)" unfolding succeeds_def by metis
  obtain uc2 s3 where complete: "setConditionComplete rt (step_name st) (uc1, s2) = (Ok (), uc2, s3)"
      "touches_only {step_name st} uc1 uc2"
    by (rule setConditionComplete_effect [OF start(3), of rt s2]) blast
  have same: "same_but_conditions uc uc2"
    using start(2) complete(2) same_but_conditions_trans by (auto simp: touches_only_def)
  obtain uc' s' where "steps_finished rt steps (uc2, s3) (uc', s')" "same_but_conditions uc2 uc'"
    using Cons.IH [of uc2 s3] Cons.prems(1) same same_but_conditions_trans [OF same] same_but_conditionsD(2) [OF same]
    by (metis list.set_intros(2))
  then show ?case using start(1) f complete(1) same_but_conditions_trans [OF same] by auto
qed simp

lemma Run_succeeds:
  assumes "\<And>st uc'. st \<in> set steps \<Longrightarrow> Spec uc' = Spec uc \<Longrightarrow> current_history uc' \<noteq> None \<Longrightarrow> succeeds (step_f st uc') (\<lambda>b. b)"
    and "current_history uc \<noteq> None"
  shows "\<exists>uc' s'. Run rt steps (uc, s) = (Ok (Upgraded, None), uc', s')"
  using steps_finished_if_succeed [of steps uc rt s] assms same_but_conditionsD unfolding Run_finished_iff by blast

section \<open>The request to upgrade\<close>

text \<open>
  The upgrader with \<open>f\<close> in the place of the call that patches the ClusterVersion, the request to upgrade: nothing
  but the step \<open>CommenceUpgrade\<close> calls it.
\<close>

definition requesting :: "(cv_patch \<Rightarrow> ('w, unit) ext_op) \<Rightarrow> 'w clusterUpgrader \<Rightarrow> 'w clusterUpgrader" where
  "requesting f cu = cu\<lparr>cu_cv := (cu_cv cu)\<lparr>patch_cv := f\<rparr>\<rparr>"

lemma requesting_sel [simp]:
  "cu_rt (requesting f cu) = cu_rt cu" "cu_metrics (requesting f cu) = cu_metrics cu" "cu_notifier (requesting f cu) = cu_notifier cu"
  "cu_config (requesting f cu) = cu_config cu" "cu_machines (requesting f cu) = cu_machines cu" "cu_drain (requesting f cu) = cu_drain cu"
  "cu_am (requesting f cu) = cu_am cu" "cu_get_mcp (requesting f cu) = cu_get_mcp cu" "cu_list_nodes (requesting f cu) = cu_list_nodes cu"
  "cu_checkers (requesting f cu) = cu_checkers cu" "cu_dvo (requesting f cu) = cu_dvo cu" "cu_semver (requesting f cu) = cu_semver cu"
  "fio_get (requesting f cu) = fio_get cu" "fio_annotate (requesting f cu) = fio_annotate cu"
  "get_cv (cu_cv (requesting f cu)) = get_cv (cu_cv cu)" "patch_cv (cu_cv (requesting f cu)) = f"
  "list_clusteroperators (cu_cv (requesting f cu)) = list_clusteroperators (cu_cv cu)"
  by (simp_all add: requesting_def)

lemma requesting_calls [simp]:
  "GetClusterVersion (cu_cv (requesting f cu)) = GetClusterVersion (cu_cv cu)"
  "HasDegradedOperators (cu_cv (requesting f cu)) = HasDegradedOperators (cu_cv cu)"
  unfolding GetClusterVersion_def HasDegradedOperators_def requesting_sel
  by (rule refl)+

lemma requesting_reads [simp]:
  "HasUpgradeCommenced (cu_cv (requesting f cu)) = HasUpgradeCommenced (cu_cv cu)"
  "GetClusterId (cu_cv (requesting f cu)) = GetClusterId (cu_cv cu)"
  "getCurrentVersion (cu_cv (requesting f cu)) = getCurrentVersion (cu_cv cu)"
  "ClusterOperators (cu_cv (requesting f cu)) = ClusterOperators (cu_cv cu)"
  unfolding HasUpgradeCommenced_def GetClusterId_def getCurrentVersion_def ClusterOperators_def requesting_calls
  by (rule refl)+

lemma requesting_steps [simp]:
  "SendStartedNotification (requesting f cu) = SendStartedNotification cu"
  "UpgradeDelayedCheck (requesting f cu) = UpgradeDelayedCheck cu"
  "IsUpgradeable (requesting f cu) = IsUpgradeable cu"
  "PreUpgradeHealthCheck (requesting f cu) = PreUpgradeHealthCheck cu"
  "ExternalDependencyAvailabilityCheck (requesting f cu) = ExternalDependencyAvailabilityCheck cu"
  "EnsureExtraUpgradeWorkers (requesting f cu) = EnsureExtraUpgradeWorkers cu"
  "CreateControlPlaneMaintWindow (requesting f cu) = CreateControlPlaneMaintWindow cu"
  "ControlPlaneUpgraded (requesting f cu) = ControlPlaneUpgraded cu"
  "RemoveControlPlaneMaintWindow (requesting f cu) = RemoveControlPlaneMaintWindow cu"
  "CreateWorkerMaintWindow (requesting f cu) = CreateWorkerMaintWindow cu"
  "AllWorkersUpgraded (requesting f cu) = AllWorkersUpgraded cu"
  "RemoveExtraScaledNodes (requesting f cu) = RemoveExtraScaledNodes cu"
  "RemoveMaintWindow (requesting f cu) = RemoveMaintWindow cu"
  "PostUpgradeHealthCheck (requesting f cu) = PostUpgradeHealthCheck cu"
  "PostUpgradeProcedures (requesting f cu) = PostUpgradeProcedures cu"
  "SendCompletedNotification (requesting f cu) = SendCompletedNotification cu"
  unfolding SendStartedNotification_def UpgradeDelayedCheck_def IsUpgradeable_def PreUpgradeHealthCheck_def
      gated_checks_def capacity_check_def ExternalDependencyAvailabilityCheck_def EnsureExtraUpgradeWorkers_def
      SendScaleSkippedNotification_def CreateControlPlaneMaintWindow_def ControlPlaneUpgraded_def control_plane_done_def
      RemoveControlPlaneMaintWindow_def CreateWorkerMaintWindow_def AllWorkersUpgraded_def RemoveExtraScaledNodes_def
      RemoveMaintWindow_def PostUpgradeHealthCheck_def PostUpgradeProcedures_def postUpgradeFIOReInit_def SendCompletedNotification_def
      requesting_sel requesting_calls requesting_reads
  by (rule refl)+

lemma requesting_failure [simp]:
  "shouldFailUpgrade (requesting f cu) = shouldFailUpgrade cu" "performUpgradeFailure (requesting f cu) = performUpgradeFailure cu"
  unfolding shouldFailUpgrade_def performUpgradeFailure_def record_failure_def requesting_sel requesting_reads
  by (rule refl)+

text \<open>The steps of the OSD upgrader before the request.\<close>

abbreviation preparatory_steps :: "'w clusterUpgrader \<Rightarrow> 'w sys actionStep list" where
  "preparatory_steps ou \<equiv>
     [Action SendStartedNotification_t (SendStartedNotification ou),
      Action SendStartedNotification_t (UpgradeDelayedCheck ou),
      Action IsClusterUpgradable_t (lift_step (IsUpgradeable ou)),
      Action UpgradePreHealthCheck_t (PreUpgradeHealthCheck ou),
      Action ExtDepAvailabilityCheck_t (lift_step (ExternalDependencyAvailabilityCheck ou)),
      Action UpgradeScaleUpExtraNodes_t (EnsureExtraUpgradeWorkers ou),
      Action ControlPlaneMaintWindow_t (lift_step (CreateControlPlaneMaintWindow ou))]"

lemma osd_steps_split:
  "osd_steps (requesting f ou) =
     preparatory_steps ou @ Action CommenceUpgrade_t (CommenceUpgrade (requesting f ou)) # drop 8 (osd_steps ou)"
  by (simp add: osd_steps_def)

lemma CommenceUpgrade_requesting:
  assumes "\<nexists>w'. HasUpgradeCommenced (cu_cv cu) uc (ext s) = (Ok False, w')"
  shows "CommenceUpgrade (requesting f cu) uc s = CommenceUpgrade (requesting g cu) uc s"
proof -
  obtain r w' where c: "HasUpgradeCommenced (cu_cv cu) uc (ext s) = (r, w')" by fastforce
  then have "lift (HasUpgradeCommenced (cu_cv cu) uc) (UpdateMetricUpgradeWindowNotBreached (ucName uc) s) =
      (r, UpdateMetricUpgradeWindowNotBreached (ucName uc) s\<lparr>ext := w'\<rparr>)"
    by (simp add: lift_def gauge_update_defs)
  moreover have "r \<noteq> Ok False" using assms c by auto
  ultimately show ?thesis
    unfolding CommenceUpgrade_def requesting_reads by (cases r) simp_all
qed

lemma Action_sel: "step_name (Action n f) = n" "step_f (Action n f) = f"
  by (simp_all add: Action_def)

lemma Run_requesting:
  assumes "Run rt (pre @ Action n (CommenceUpgrade (requesting f cu)) # post) us \<noteq>
           Run rt (pre @ Action n (CommenceUpgrade (requesting g cu)) # post) us"
  shows "\<exists>us1 uc2 s2 w. steps_finished rt pre us us1 \<and> setConditionStart rt n us1 = (Ok (), uc2, s2) \<and>
    HasUpgradeCommenced (cu_cv cu) uc2 (ext s2) = (Ok False, w)"
proof -
  obtain r us1 where r: "Run rt pre us = (r, us1)" by (cases "Run rt pre us")
  with assms have "r = Ok (Upgraded, None)" by (cases r) (auto simp: Run_append split: if_splits)
  with r have pre: "steps_finished rt pre us us1" by (simp add: Run_finished_iff)
  obtain o1 uc2 s2 where st: "setConditionStart rt n us1 = (o1, uc2, s2)" by (metis prod.exhaust)
  have diff: "Run rt (Action n (CommenceUpgrade (requesting f cu)) # post) us1 \<noteq>
      Run rt (Action n (CommenceUpgrade (requesting g cu)) # post) us1"
    using assms by (simp only: Run_finished_prefix [OF pre] simp_thms)
  then have "o1 = Ok ()" using st by (cases o1) (auto simp: Action_def)
  moreover have "\<exists>w. HasUpgradeCommenced (cu_cv cu) uc2 (ext s2) = (Ok False, w)"
  proof (rule ccontr)
    assume "\<nexists>w. HasUpgradeCommenced (cu_cv cu) uc2 (ext s2) = (Ok False, w)"
    from CommenceUpgrade_requesting [OF this, of f g] diff [unfolded Run.simps Action_sel] st \<open>o1 = Ok ()\<close> show False by simp
  qed
  ultimately show ?thesis using pre st by blast
qed

section \<open>The failure of an upgrade\<close>

lemma shouldFailUpgrade_commenced:
  assumes "HasUpgradeCommenced (cu_cv cu) uc w = (Ok True, w')"
  shows "shouldFailUpgrade cu uc w = (Ok False, w')"
  using assms by (simp add: shouldFailUpgrade_def)

lemma performUpgradeFailure_only_late:
  assumes "shouldFailUpgrade cu uc w = (Ok True, w')"
  obtains h start now w1 where "HasUpgradeCommenced (cu_cv cu) uc w = (Ok False, w1)"
    "current_history uc = Some h" "StartTime h = Some start"
    "0 < GetUpgradeWindowTimeOutDuration (cfgUpgradeWindow (cu_config cu))"
    "time_now (cu_rt cu) w1 = (now, w')" "start + GetUpgradeWindowTimeOutDuration (cfgUpgradeWindow (cu_config cu)) < now"
proof -
  from assms obtain w1 where c: "HasUpgradeCommenced (cu_cv cu) uc w = (Ok False, w1)"
    by (auto simp: shouldFailUpgrade_def bindO_Ok_iff split: if_splits)
  then show thesis
    using assms that [of w1]
    by (auto simp: shouldFailUpgrade_def Let_def split: option.splits if_splits prod.splits)
qed

text \<open>The gated health check reaches the client that was never set.\<close>

lemma nil_builder_panics:
  assumes dvo: "cu_dvo au = None"
    and gate: "PreHealthCheckFeatureGate \<in> set (cfgFeatureGate (cu_config au))"
    and waiting: "HasUpgradeCommenced (cu_cv au) uc (ext s) = (Ok False, w)"
    and pdbs: "\<And>w. \<exists>pdbs w'. list_pdbs (cu_drain au) w = (Inr pdbs, w') \<and> pdb_loop pdbs = None"
  shows "fst (aro_HealthCheck au uc s) = Panic"
proof -
  have checks: "fst (bindO (gated_checks au uc v s) f) = Panic" for v s f
    using gated_checks_nil_builder [OF dvo pdbs, of uc v s] by (cases "gated_checks au uc v s") auto
  have gates: "IsFeatureEnabled (cfgFeatureGate (cu_config au)) PreHealthCheckFeatureGate"
      "0 < length (cfgFeatureGate (cu_config au))"
    using gate by (auto simp: IsFeatureEnabled_iff)
  show ?thesis
    unfolding aro_HealthCheck_def PreUpgradeHealthCheck_def Let_def
    using gates checks waiting
    by (simp add: lift_eq [of "HasUpgradeCommenced (cu_cv au) uc"]) (rule bindO_Panic, simp_all add: lift_fst getCurrentVersion_no_Err)
qed

section \<open>Properties\<close>

definition started_history :: UpgradeHistory where
  "started_history =
     \<lparr>Version = ''4.14.2'', PrecedingVersion = ''4.14.1'', Phase = Upgrading, HConditions = [],
      StartTime = Some 5, CompleteTime = None, WorkerStartTime = None, WorkerCompleteTime = None\<rparr>"

definition started_uc :: UpgradeConfig where
  "started_uc = sample_uc\<lparr>History := [started_history]\<rparr>"

lemma started_uc_history: "current_history started_uc = Some started_history"
  by (simp add: started_uc_def started_history_def sample_uc_def GetHistory_def)

lemma sample_cu_fails:
  "shouldFailUpgrade sample_cu started_uc w = (Ok True, w)"
  by (simp add: shouldFailUpgrade_def HasUpgradeCommenced_def GetClusterVersion_def call_def sample_cu_def
      checkUpgradeSource_def started_uc_def sample_uc_def isEqualVersion_def sample_cv_def GetHistory_def started_history_def
      IsZero_def zero_time_def GetUpgradeWindowTimeOutDuration_def minutes_small sample_config_def sample_clock_def)

lemma sample_em_Notify:
  assumes "\<And>x. notify_description x st \<noteq> None"
  shows "\<exists>s'. Notify sample_em st s = (Ok (), s')"
  using assms [of sample_uc]
  by (auto simp: Notify_def notify_with_def sample_em_def sample_ne_def lift_def env_eval
        IsMetricNotificationEventSentSet_def Query_def gauge_update_defs)

text \<open>The same cluster with an upgrade that has just started.\<close>

definition fresh_uc :: UpgradeConfig where
  "fresh_uc = sample_uc\<lparr>History := [started_history\<lparr>StartTime := Some (3 * Hour)\<rparr>]\<rparr>"

lemma fresh_uc_history: "current_history fresh_uc = Some (started_history\<lparr>StartTime := Some (3 * Hour)\<rparr>)"
  by (simp add: fresh_uc_def started_history_def sample_uc_def GetHistory_def)

lemma sample_not_commenced:
  assumes "Spec uc = Spec sample_uc"
  shows "HasUpgradeCommenced (cu_cv sample_cu) uc w = (Ok False, w)"
  using assms by (simp add: HasUpgradeCommenced_def GetClusterVersion_def call_def sample_cu_def
      checkUpgradeSource_def isEqualVersion_def sample_cv_def, simp add: sample_uc_def)

lemma sample_cu_answers:
  "GetClusterVersion (cu_cv sample_cu) w = (Ok sample_cv, w)" "HasDegradedOperators (cu_cv sample_cu) w = (Ok [], w)"
  "Query rt (cu_metrics sample_cu) q w = (Ok [], w)" "CanScale (cu_machines sample_cu) w = (Ok False, w)"
  "ExtraMachinePools (cu_config sample_cu) = []" "scale_IsValid (cu_config sample_cu) = Ok ()"
  "cfgFeatureGate (cu_config sample_cu) = []"
  by (simp_all add: GetClusterVersion_def HasDegradedOperators_def Query_def CanScale_def sample_cu_def sample_em_def quiet_machines_def
      sample_config_def scale_IsValid_def call_def)

lemma sample_cv_current: "GetCurrentVersion sample_cv = Ok ''4.14.1''"
  by code_simp

lemma sample_health:
  assumes "Spec uc = Spec sample_uc" "current_history uc \<noteq> None"
  shows "succeeds (PreUpgradeHealthCheck sample_cu uc) (\<lambda>b. b)"
proof -
  have c: "succeeds (commenced_sys sample_cu uc) Not"
    by (rule succeeds_lift) (use sample_not_commenced [OF assms(1)] in \<open>auto simp: succeeds_def\<close>)
  have hs: "\<exists>st. history_state uc = Ok st" using assms(2) by (auto simp: history_state_def)
  have alerts: "succeeds (CriticalAlerts rt (cu_metrics sample_cu) cfg uc v) (\<lambda>b. b)" for rt cfg v
    using hs by (auto simp: succeeds_def CriticalAlerts_def lift_def sample_cu_answers)
  have operators: "succeeds (ClusterOperators (cu_cv sample_cu) uc v) (\<lambda>b. b)" for v
    using hs by (auto simp: succeeds_def ClusterOperators_def lift_def sample_cu_answers)
  have checks: "succeeds (\<lambda>s. bindO (CriticalAlerts (cu_rt sample_cu) (cu_metrics sample_cu) (cu_config sample_cu) uc v s)
      (\<lambda>ok s. if \<not> ok then (Ok False, s) else ClusterOperators (cu_cv sample_cu) uc v s)) (\<lambda>b. b)" for v
    by (rule succeeds_bind [OF alerts]) (simp add: operators)
  have version: "succeeds (getCurrentVersion (cu_cv sample_cu)) (\<lambda>_. True)"
    by (simp add: succeeds_def getCurrentVersion_def sample_cu_answers sample_cv_current)
  show ?thesis
    unfolding PreUpgradeHealthCheck_def [abs_def] sample_cu_answers(7) Let_def
    by (rule succeeds_bind [OF c], simp add: IsFeatureEnabled_def, rule succeeds_bind [OF succeeds_lift [OF version]],
        rule succeeds_bind [OF checks [simplified]]) (simp add: succeeds_ret)
qed

lemma sample_capacity:
  assumes "Spec uc = Spec sample_uc"
  shows "succeeds (EnsureExtraUpgradeWorkers sample_cu uc) (\<lambda>b. b)"
proof (rule succeeds_TrueI)
  fix s
  obtain s' where "Notify (cu_notifier sample_cu) MuoStateScaleSkipped s = (Ok (), s')"
    using sample_em_Notify [of MuoStateScaleSkipped] by (auto simp: sample_cu_def)
  moreover have "CapacityReservation (Spec uc)" by (simp add: assms) (simp add: sample_uc_def)
  ultimately show "\<exists>s'. EnsureExtraUpgradeWorkers sample_cu uc s = (Ok True, s')"
    by (simp add: EnsureExtraUpgradeWorkers_def Let_def sample_cu_answers SendScaleSkippedNotification_def lift_def
        sample_not_commenced [OF assms])
qed

lemma sample_cu_prepared:
  assumes "same_but_conditions fresh_uc uc" "st \<in> set (preparatory_steps sample_cu)"
  shows "succeeds (step_f st uc) (\<lambda>b. b)"
proof -
  have spec: "Spec uc = Spec sample_uc" using assms(1) by (simp add: same_but_conditions_def fresh_uc_def)
  note commenced = sample_not_commenced [OF spec]
  obtain cs where h: "current_history uc = Some (started_history\<lparr>StartTime := Some (3 * Hour), HConditions := cs\<rparr>)"
    using assms(1) fresh_uc_history by (auto simp: same_but_conditions_def)
  have c: "succeeds (commenced_sys sample_cu uc) Not" by (rule succeeds_lift) (use commenced in \<open>auto simp: succeeds_def\<close>)
  have notified: "succeeds (Notify (cu_notifier sample_cu) MuoStateStarted) (\<lambda>_. True)"
    using sample_em_Notify [of MuoStateStarted] by (auto simp: succeeds_def sample_cu_def)
  have at: "Parse_RFC3339 (UpgradeAt (Spec sample_uc)) = Some (600 * Second)" by code_simp
  have 1: "succeeds (SendStartedNotification sample_cu uc) (\<lambda>b. b)"
    unfolding SendStartedNotification_def [abs_def]
    by (rule succeeds_bind [OF c]) (auto simp: split_def Let_def intro!: succeeds_bind [OF notified] succeeds_ret)
  have 2: "succeeds (UpgradeDelayedCheck sample_cu uc) (\<lambda>b. b)"
    unfolding UpgradeDelayedCheck_def [abs_def]
    by (rule succeeds_bind [OF c], rule succeeds_TrueI)
       (simp add: h lift_def sample_cu_def sample_clock_def sample_config_def
          GetUpgradeDelayedTriggerDuration_def minutes_small IsZero_def zero_time_def)
  have 3: "succeeds (IsUpgradeable sample_cu uc) (\<lambda>b. b)"
    by (rule succeeds_TrueI)
       (simp add: IsUpgradeable_def commenced sample_cu_answers sample_cv_current spec at, simp add: sample_cu_def sample_cv_def)
  have 5: "succeeds (ExternalDependencyAvailabilityCheck sample_cu uc) (\<lambda>b. b)"
    by (rule succeeds_TrueI) (simp add: ExternalDependencyAvailabilityCheck_def commenced, simp add: sample_cu_def)
  have 7: "succeeds (CreateControlPlaneMaintWindow sample_cu uc) (\<lambda>b. b)"
    by (rule succeeds_TrueI) (simp add: CreateControlPlaneMaintWindow_def sample_cu_def sample_clock_def sample_config_def
        StartControlPlane_def am_Filter_def am_List_def call_def am_Create_def)
  show ?thesis
    using assms(2) 1 2 sample_health [OF spec] sample_capacity [OF spec] h succeeds_lift [OF 3] succeeds_lift [OF 5] succeeds_lift [OF 7]
    by (auto simp: Action_def lift_step_def)
qed

lemma refused_request:
  assumes "Spec uc = Spec sample_uc"
  shows "\<exists>s'. CommenceUpgrade (requesting (\<lambda>_ s. (Inl e, s)) sample_cu) uc s = (Err e, s')"
proof -
  obtain s1 where n: "Notify (cu_notifier sample_cu) MuoStateControlPlaneUpgradeStartedSL
      (UpdateMetricUpgradeWindowNotBreached (ucName uc) s) = (Ok (), s1)"
    using sample_em_Notify [of MuoStateControlPlaneUpgradeStartedSL] by (auto simp: sample_cu_def)
  have e: "EnsureDesiredConfig (cu_cv (requesting (\<lambda>_ s. (Inl e, s)) sample_cu)) uc w = (Err e, w)" for w
    using assms
    by (simp add: EnsureDesiredConfig_def GetClusterVersion_def call_def checkUpgradeSource_def sample_cu_def
        runUpgradeWithChannelVersion_def) (simp add: sample_uc_def sample_cv_def call_def)
  show ?thesis
    using n by (simp add: CommenceUpgrade_def lift_def sample_not_commenced [OF assms] e split_def Let_def)
qed

lemma fresh_uc_early: "lift (shouldFailUpgrade sample_cu fresh_uc) (no_gauges 0) = (Ok False, no_gauges 0)"
proof -
  have "Spec fresh_uc = Spec sample_uc" by (simp add: fresh_uc_def)
  from sample_not_commenced [OF this] have "shouldFailUpgrade sample_cu fresh_uc w = (Ok False, w)" for w
    by (simp add: shouldFailUpgrade_def fresh_uc_history) (simp add: sample_cu_def sample_config_def sample_clock_def
        GetUpgradeWindowTimeOutDuration_def minutes_small IsZero_def zero_time_def)
  then show ?thesis by (simp add: lift_def no_gauges_def)
qed

lemma refused_run:
  "\<exists>us'. osd_UpgradeCluster (requesting (\<lambda>_ s. (Inl e, s)) sample_cu) (fresh_uc, no_gauges 0) = (Ok (Upgrading, Some e), us')"
proof -
  let ?f = "\<lambda>_ s. (Inl e, s)" and ?rt = "lift_runtime (cu_rt sample_cu)"
  have h: "current_history fresh_uc \<noteq> None" by (simp add: fresh_uc_history)
  obtain uc1 s1 where pre: "steps_finished ?rt (preparatory_steps sample_cu) (fresh_uc, no_gauges 0) (uc1, s1)"
      "same_but_conditions fresh_uc uc1"
    using steps_finished_if_succeed [OF sample_cu_prepared h] by blast
  obtain uc2 s2 where start: "setConditionStart ?rt CommenceUpgrade_t (uc1, s1) = (Ok (), uc2, s2)"
      "touches_only {CommenceUpgrade_t} uc1 uc2" "condition_of uc2 CommenceUpgrade_t \<noteq> None"
    using setConditionStart_effect [OF same_but_conditionsD(2) [OF pre(2)]] by metis
  have "Spec uc2 = Spec sample_uc"
    using pre(2) start(2) by (simp add: touches_only_def same_but_conditions_def fresh_uc_def)
  then obtain s3 where req: "CommenceUpgrade (requesting ?f sample_cu) uc2 s2 = (Err e, s3)" using refused_request by blast
  obtain uc3 s4 where "setConditionInProgress ?rt CommenceUpgrade_t (error_string ?rt e) (uc2, s3) = (Ok (), uc3, s4)"
    using setConditionInProgress_effect [OF start(3)] by metis
  then have "Run ?rt (osd_steps (requesting ?f sample_cu)) (fresh_uc, no_gauges 0) = (Ok (Upgrading, Some e), uc3, s4)"
    unfolding osd_steps_split Run_finished_prefix [OF pre(1)] using start(1) req by (simp add: Action_sel)
  then show ?thesis
    using fresh_uc_early by (simp add: osd_UpgradeCluster_def runSteps_def)
qed

text \<open>
  C5: The OSD upgrader asks the cluster to upgrade only after its seven preparatory steps. A call of the
  upgrader depends on the service that takes the request (the patch of the ClusterVersion) only when the upgrade is not
  given up, each of the seven steps has answered done in this very call, in their order, each on what the one
  before it left, and the cluster then says that the upgrade has not been requested yet. With one step answering
  not done or an error, whatever that service would do makes no difference.
\<close>

theorem upgrade_requested_after_prechecks:
  assumes "osd_UpgradeCluster (requesting f ou) (uc, s) \<noteq> osd_UpgradeCluster (requesting g ou) (uc, s)"
  shows "\<exists>r s1 us1 uc2 s2 w. lift (shouldFailUpgrade ou uc) s = (r, s1) \<and> r \<notin> {Ok True, Panic} \<and>
    steps_finished (lift_runtime (cu_rt ou))
      [Action SendStartedNotification_t (SendStartedNotification ou),
       Action SendStartedNotification_t (UpgradeDelayedCheck ou),
       Action IsClusterUpgradable_t (lift_step (IsUpgradeable ou)),
       Action UpgradePreHealthCheck_t (PreUpgradeHealthCheck ou),
       Action ExtDepAvailabilityCheck_t (lift_step (ExternalDependencyAvailabilityCheck ou)),
       Action UpgradeScaleUpExtraNodes_t (EnsureExtraUpgradeWorkers ou),
       Action ControlPlaneMaintWindow_t (lift_step (CreateControlPlaneMaintWindow ou))] (uc, s1) us1 \<and>
    setConditionStart (lift_runtime (cu_rt ou)) CommenceUpgrade_t us1 = (Ok (), uc2, s2) \<and>
    HasUpgradeCommenced (cu_cv ou) uc2 (ext s2) = (Ok False, w)"
proof -
  obtain r s1 where r: "lift (shouldFailUpgrade ou uc) s = (r, s1)" by fastforce
  with assms have n: "r \<notin> {Ok True, Panic}" by (auto simp: osd_UpgradeCluster_def)
  then have "runSteps (requesting f ou) (osd_steps (requesting f ou)) (uc, s1) \<noteq>
      runSteps (requesting g ou) (osd_steps (requesting g ou)) (uc, s1)"
    using assms r by (cases r) (auto simp: osd_UpgradeCluster_def split: bool.splits)
  then show ?thesis
    using Run_requesting [of _ "preparatory_steps ou" CommenceUpgrade_t f ou "drop 8 (osd_steps ou)" "(uc, s1)" g] r n
    unfolding runSteps_def osd_steps_split requesting_sel by blast
qed

theorem upgrade_requested_after_prechecks_witness:
  "\<exists>us1. steps_finished (lift_runtime (cu_rt sample_cu)) (take 7 (osd_steps sample_cu)) (fresh_uc, no_gauges 0) us1"
proof -
  let ?f = "\<lambda>_ s. (Inl (Errorf ''busy''), s)" and ?g = "\<lambda>_ s. (Inl (Errorf ''down''), s)"
  have "osd_UpgradeCluster (requesting ?f sample_cu) (fresh_uc, no_gauges 0) \<noteq>
      osd_UpgradeCluster (requesting ?g sample_cu) (fresh_uc, no_gauges 0)"
    using refused_run [of "Errorf ''busy''"] refused_run [of "Errorf ''down''"] by auto
  from upgrade_requested_after_prechecks [OF this] show ?thesis
    using fresh_uc_early by (auto simp: osd_steps_def simp del: steps_finished.simps)
qed

text \<open>
  C17: The OSD upgrader gives up on an upgrade (reports Failed) only while the cluster has not been asked to
  upgrade yet, and only when the configured window since the recorded start time has passed.
\<close>

theorem upgrade_fails_only_before_commencing:
  assumes run: "osd_UpgradeCluster ou (uc, s) = (Ok (Failed, err), uc', s')"
    and h: "current_history uc = Some h" "Phase h \<noteq> Failed"
  shows "\<exists>w start now w'. HasUpgradeCommenced (cu_cv ou) uc (ext s) = (Ok False, w) \<and> StartTime h = Some start \<and>
    0 < GetUpgradeWindowTimeOutDuration (cfgUpgradeWindow (cu_config ou)) \<and> time_now (cu_rt ou) w = (now, w') \<and>
    start + GetUpgradeWindowTimeOutDuration (cfgUpgradeWindow (cu_config ou)) < now"
  using run
proof (cases rule: osd_UpgradeCluster_cases)
  case panic
  then show ?thesis by simp
next
  case (fail s1)
  then have "shouldFailUpgrade ou uc (ext s) = (Ok True, ext s1)" by (simp add: lift_eq_iff)
  then show ?thesis
    by (rule performUpgradeFailure_only_late) (use h in auto)
next
  case run
  then show ?thesis using runSteps_effect(3) [OF run] h by auto
qed

lemma sample_failure:
  "\<exists>s. performUpgradeFailure sample_cu (started_uc, no_gauges 0) = (Ok (Failed, None), started_uc, s)"
proof -
  obtain s1 where n: "Notify sample_em MuoStateFailed (no_gauges 0) = (Ok (), s1)"
    using sample_em_Notify [of MuoStateFailed] by auto
  have "EnsureScaleDownNodes quiet_machines None (no_gauges (0 :: nat)) = (Ok True, no_gauges 0)"
    by (simp add: EnsureScaleDownNodes_def lift_def call_def quiet_machines_def no_gauges_def)
  then show ?thesis
    using n
    by (simp add: performUpgradeFailure_def record_failure_def started_uc_history sample_cu_def set_condition_of_copy_def
        started_history_def GetCondition_def Let_def split: prod.split)
qed

theorem upgrade_fails_only_before_commencing_witness:
  "\<exists>s'. osd_UpgradeCluster sample_cu (started_uc, no_gauges 0) = (Ok (Failed, None), started_uc, s') \<and>
        (5::int) + GetUpgradeWindowTimeOutDuration (cfgUpgradeWindow sample_config) < 3 * Hour"
proof -
  obtain s' where r: "osd_UpgradeCluster sample_cu (started_uc, no_gauges 0) = (Ok (Failed, None), started_uc, s')"
    using sample_failure
    by (auto simp: osd_UpgradeCluster_def lift_def sample_cu_fails no_gauges_def)
  show ?thesis
    using upgrade_fails_only_before_commencing [OF r started_uc_history] r
    by (auto simp: started_history_def sample_cu_def sample_clock_def)
qed

text \<open>
  C36: When the OSD upgrader fails an upgrade that has no FailedUpgrade condition yet, the condition it sets is
  written to a copy of the history and lost: the UpgradeConfig comes back without it.
\<close>

theorem failed_condition_lost:
  assumes "performUpgradeFailure cu (uc, s) = (Ok (p, err), uc', s')" "condition_of uc ''FailedUpgrade'' = None"
  shows "uc' = uc"
proof -
  obtain h where h: "current_history uc = Some h"
    using assms(1)
    by (auto simp: performUpgradeFailure_def record_failure_def Let_def split: option.splits prod.splits outcome.splits)
  have "GetCondition (HConditions h) (CType (failed_condition st)) = None" for st
    using assms(2) h by (simp add: condition_of_current failed_condition_def newUpgradeCondition_def)
  then show ?thesis
    using assms(1) h
    by (auto simp: performUpgradeFailure_def record_failure_def Let_def dest: set_condition_of_copy_new
        split: prod.splits outcome.splits)
qed

theorem failed_condition_lost_witness:
  "\<exists>uc' s'. performUpgradeFailure sample_cu (started_uc, no_gauges 0) = (Ok (Failed, None), uc', s') \<and>
            uc' = started_uc \<and> condition_of uc' ''FailedUpgrade'' = None"
proof -
  obtain s' where r: "performUpgradeFailure sample_cu (started_uc, no_gauges 0) = (Ok (Failed, None), started_uc, s')"
    using sample_failure by blast
  have c: "condition_of started_uc ''FailedUpgrade'' = None"
    by (simp add: condition_of_current [OF started_uc_history] started_history_def GetCondition_def)
  show ?thesis
    using failed_condition_lost [OF r c] r c by blast
qed

text \<open>
  C35: The ARO upgrader is built without a deployment-validation client, and its health check dereferences it. Take any ARO upgrader
  that its constructor returned with the pre-health-check feature in the configuration it read. While the
  cluster has not been asked to upgrade and the budgets the API server lists pass the first part of the check of the pod
  disruption budgets, the health check of that upgrader panics, whatever else it finds.
\<close>

theorem aro_gated_health_check_panics:
  assumes new: "NewAROUpgrader env t mc nc w0 = (Ok up, w1)"
    and cfg: "Into (net_rt (ue_net env)) (ue_cm env) t (ue_decode env) upgraderConfig_IsValid w0 = (Ok cfg, w2)"
    and gate: "PreHealthCheckFeatureGate \<in> set (cfgFeatureGate cfg)"
    and waiting: "HasUpgradeCommenced (net_cv (ue_net env)) uc (ext s) = (Ok False, w)"
    and pdbs: "\<And>w. \<exists>pdbs w'. list_pdbs (ue_drain env) w = (Inr pdbs, w') \<and> pdb_loop pdbs = None"
  shows "fst (HealthCheck up uc s) = Panic"
proof -
  from new cfg obtain au where au: "HealthCheck up = aro_HealthCheck au" "cu_dvo au = None" "cu_config au = cfg"
      "cu_cv au = net_cv (ue_net env)" "cu_drain au = ue_drain env"
    by (auto simp: NewAROUpgrader_def new_upgrader_def bindO_Ok_iff)
  show ?thesis
    unfolding au(1) by (rule nil_builder_panics [OF au(2)]) (use gate waiting pdbs au in auto)
qed

definition idle_em :: "unit eventManager" where
  "idle_em =
     \<lparr>em_rt = sample_clock, em_env = [''OPERATOR_NAMESPACE'' \<mapsto> ''muo''],
      em_uc = \<lparr>get_uc = (\<lambda>n _ s. (Inl (ApiNotFound n), s)), list_ucs = (\<lambda>_ _ s. (Inr [], s)),
               create_uc = (\<lambda>_ s. (Inr (), s)), delete_uc = (\<lambda>_ s. (Inr (), s)),
               update_uc = (\<lambda>uc s. (Inr uc, s)), update_uc_status = (\<lambda>uc s. (Inr uc, s))\<rparr>,
      em_metrics = quiet_metrics, em_NotifyState = (\<lambda>_ _ s. (Ok (), s))\<rparr>"

definition gated_env :: "unit upgrader_env" where
  "gated_env =
     \<lparr>ue_net = online_net Hour,
      ue_cm = \<lparr>environ = [''OPERATOR_NAMESPACE'' \<mapsto> ''muo''], get_configmap = (\<lambda>_ _ s. (Inr Map.empty, s))\<rparr>,
      ue_decode = (\<lambda>_. Inr (sample_config\<lparr>cfgFeatureGate := [''PreHealthCheck'']\<rparr>)),
      ue_http = \<lparr>http_rt = sample_clock, http_get = (\<lambda>_ _ s. (Inr 200, s)), rand_Int63n = (\<lambda>_ s. (0, s)), sleep_for = (\<lambda>_ s. s)\<rparr>,
      ue_schedule = (\<lambda>us. us), ue_machines = quiet_machines, ue_drain = quiet_drain,
      ue_get_mcp = (\<lambda>n s. (Inr \<lparr>mcpName = n, mcpMachineCount = 3, mcpUpdatedMachineCount = 0\<rparr>, s)),
      ue_list_nodes = (\<lambda>_ s. (Inr [], s)), ue_semver = cu_semver sample_cu,
      ue_fio_get = (\<lambda>s. (Inr (), s)), ue_fio_annotate = (\<lambda>_ s. (Inr (), s))\<rparr>"

theorem aro_gated_health_check_panics_witness:
  "\<exists>up w. NewAROUpgrader gated_env default_target quiet_metrics idle_em () = (Ok up, w) \<and> fst (HealthCheck up started_uc (no_gauges ())) = Panic"
proof -
  let ?cfg = "sample_config\<lparr>cfgFeatureGate := [''PreHealthCheck'']\<rparr>"
  have cfg: "Into (net_rt (ue_net gated_env)) (ue_cm gated_env) default_target (ue_decode gated_env) upgraderConfig_IsValid () = (Ok ?cfg, ())"
    by (simp add: Into_def gated_env_def call_def upgraderConfig_IsValid_def maintenance_IsValid_def scale_IsValid_def sample_config_def
        sample_drain_cfg_def)
  obtain m where m: "maintenance_NewClient (ue_net gated_env) () = (Ok m, ())"
    using online_maintenance [of Hour "()"] by (auto simp: gated_env_def)
  obtain up where up: "NewAROUpgrader gated_env default_target quiet_metrics idle_em () = (Ok up, ())"
    using cfg m by (simp add: NewAROUpgrader_def new_upgrader_def)
  have "fst (HealthCheck up started_uc (no_gauges ())) = Panic"
    by (rule aro_gated_health_check_panics [OF up cfg, where w = "()"])
       (simp_all add: PreHealthCheckFeatureGate_def gated_env_def HasUpgradeCommenced_def GetClusterVersion_def call_def online_net_def
          offline_net_def checkUpgradeSource_def started_uc_def sample_uc_def isEqualVersion_def sample_cv_def quiet_drain_def)
  with up show ?thesis by blast
qed

end
