(* ===== verification/Validation.thy ===== *)
theory Validation
  imports Config_Manager Rfc3339
begin

text \<open>
  Validation of an UpgradeConfig (\<open>pkg/validation\<close>). The image registry, the image reference
  parser, the semantic version library, the Cincinnati client and the API server are parameters;
  a URL is the pair of its host and path. \<open>log.Fatal\<close> ends the process and is a panic here. The
  validator may rewrite the UpgradeConfig it is given, which is therefore part of the state.
\<close>

section \<open>Data\<close>

record ValidatorResult =
  IsValid :: bool
  IsAvailableUpdate :: bool
  VMessage :: string

record image_ref =
  refRegistry :: string
  refNamespace :: string
  refName :: string
  refID :: string

record 's validation_env =
  ve_rt :: "'s runtime"
  ve_semver :: semver_lib
  ve_uc :: "'s uc_api"
  image_Parse :: "string \<Rightarrow> image_ref \<times> goerr option"
  registry_request_error :: "string \<Rightarrow> string \<Rightarrow> goerr option"
  registry_do :: "string \<Rightarrow> string \<Rightarrow> ('s, int \<times> (goerr + string)) ext_op"
  manifest_digest :: "string \<Rightarrow> goerr + string option"
  image_labels :: "string \<Rightarrow> goerr + (string \<rightharpoonup> string) option"
  uuid_Parse :: "string \<Rightarrow> goerr option"
  url_Parse :: "string \<Rightarrow> goerr option"
  GetUpdates :: "string \<Rightarrow> string \<Rightarrow> string \<Rightarrow> semver \<Rightarrow> ('s, Release list \<times> Release list) ext_op"

datatype VersionComparison = VersionUnknown | VersionDowngrade | VersionEqual | VersionUpgrade

section \<open>Images\<close>

text \<open>\<open>runHTTP\<close>: the bytes of the body, with an error where the request failed.\<close>

definition runHTTP :: "'s validation_env \<Rightarrow> string \<Rightarrow> string \<Rightarrow> ('s, string) op" where
  "runHTTP env host path s =
     (case registry_request_error env host path of
        Some e \<Rightarrow> (Panic, s)
      | None \<Rightarrow>
          bindO (call (registry_do env host path) s) (\<lambda>(status, body) s.
            if status \<noteq> 200 then (Err (Errorf ''return code is not 200''), s) else (ret body, s)))"

text \<open>No body, for whatever reason, is reported before the error of the request.\<close>

definition fetch_body :: "'s validation_env \<Rightarrow> string \<Rightarrow> string \<Rightarrow> string \<Rightarrow> ('s, string) op" where
  "fetch_body env host path msg s =
     (case runHTTP env host path s of
        (Panic, s) \<Rightarrow> (Panic, s)
      | (Err e, s) \<Rightarrow> (Err (Errorf msg), s)
      | (Ok body, s) \<Rightarrow> if length body = 0 then (Err (Errorf msg), s) else (Ok body, s))"

definition nil_check :: "'a option \<Rightarrow> 'a outcome" where
  "nil_check x = (case x of None \<Rightarrow> Panic | Some a \<Rightarrow> Ok a)"

definition fetchImageVersion :: "'s validation_env \<Rightarrow> string \<Rightarrow> ('s, string) op" where
  "fetchImageVersion env img s =
     (let ref = fst (image_Parse env img);
          base = ''v2/'' @ refNamespace ref @ ''/'' @ refName ref @ ''/''
      in bindO (fetch_body env (refRegistry ref) (base @ ''manifests/'' @ refID ref)
                  (''failed to fetch image manifest digest: '' @ img @ '' needs to be a valid release image'') s)
           (\<lambda>body s.
         bindO (ret (manifest_digest env body), s) (\<lambda>m s.
         bindO (nil_check m, s) (\<lambda>digest s.
         bindO (fetch_body env (refRegistry ref) (base @ ''blobs/'' @ digest)
                  (''failed to fetch blobs for image manifest digest: '' @ img @ '' needs to be a valid release image'') s)
           (\<lambda>resbody s.
         bindO (ret (image_labels env resbody), s) (\<lambda>l s.
         bindO (nil_check l, s) (\<lambda>labels s.
           (Ok (case labels ''io.openshift.release'' of None \<Rightarrow> [] | Some v \<Rightarrow> v), s))))))))"

text \<open>
  Every history in phase New is renamed and written to the front, in the order of the histories
  before the loop; each write goes to the server.
\<close>

fun rename_new_histories ::
    "'s uc_api \<Rightarrow> string \<Rightarrow> UpgradeHistories \<Rightarrow> (UpgradeConfig \<times> 's, unit) op" where
  "rename_new_histories api v [] us = (Ok (), us)"
| "rename_new_histories api v (h # hs) us =
     (case us of (uc, s) \<Rightarrow>
        if Phase h = New
        then (case History uc of
                [] \<Rightarrow> (Panic, uc, s)
              | _ # rest \<Rightarrow>
                  let uc1 = uc\<lparr>History := h\<lparr>Version := v\<rparr> # rest\<rparr>
                  in (case update_uc_status api uc1 s of
                        (Inl e, s) \<Rightarrow> (Err e, uc1, s)
                      | (Inr uc2, s) \<Rightarrow> rename_new_histories api (desired_version uc2) hs (uc2, s)))
        else rename_new_histories api v hs us)"

definition updateImageVersion :: "'s uc_api \<Rightarrow> string \<Rightarrow> (UpgradeConfig \<times> 's, unit) op" where
  "updateImageVersion api v = (\<lambda>(uc, s).
     let uc1 = uc\<lparr>Spec := (Spec uc)\<lparr>Desired := (Desired (Spec uc))\<lparr>dVersion := v\<rparr>\<rparr>\<rparr>
     in case update_uc api uc1 s of
          (Inl e, s) \<Rightarrow> (Err e, uc1, s)
        | (Inr uc2, s) \<Rightarrow>
            (case GetHistory (History uc2) (desired_version uc2) of
               Some _ \<Rightarrow> (Ok (), uc2, s)
             | None \<Rightarrow> rename_new_histories api (desired_version uc2) (History uc2) (uc2, s)))"

definition imageValidation :: "'s validation_env \<Rightarrow> string \<Rightarrow> unit outcome" where
  "imageValidation env img =
     (case image_Parse env img of
        (ref, Some e) \<Rightarrow>
          Err (Errorf (''failed to parse image '' @ img @ '': must be a valid image pull spec:'' @ error_string (ve_rt env) e))
      | (ref, None) \<Rightarrow>
          let bad = (\<lambda>what. Err (Errorf (''failed to parse image:'' @ img @ '' must be a valid image pull spec: no '' @ what @ '' specified'')))
          in if refRegistry ref = [] then bad ''registry''
             else if refNamespace ref = [] then bad ''repository''
             else if refName ref = [] then bad ''image name''
             else if refID ref = [] then bad ''image digest''
             else Ok ())"

section \<open>Versions and channels\<close>

definition compareVersions :: "semver_lib \<Rightarrow> semver \<Rightarrow> semver \<Rightarrow> VersionComparison outcome" where
  "compareVersions lib dV cV =
     (let result = semver_Compare lib dV cV
      in if result = -1 then Ok VersionDowngrade
         else if result = 0 then Ok VersionEqual
         else if result = 1 then Ok VersionUpgrade
         else Err (Errorf ''semver comparison failed for unknown reason''))"

text \<open>The results \<open>valid\<close> and \<open>available\<close>, with the error.\<close>

definition versionValidation ::
    "'s runtime \<Rightarrow> semver_lib \<Rightarrow> string \<Rightarrow> ClusterVersion \<Rightarrow> (bool \<times> bool \<times> goerr option) outcome" where
  "versionValidation rt lib ucVersion cv =
     (case semver_Parse lib ucVersion of
        Inl e \<Rightarrow> Ok (False, False, Some (Errorf (''failed to parse upgrade config desired version '' @ ucVersion @
                   '' as semver: '' @ error_string rt e)))
      | Inr parsedUc \<Rightarrow>
          (case GetCurrentVersion cv of
             Panic \<Rightarrow> Panic
           | Err e \<Rightarrow> Ok (False, False, Some (Errorf (''failed to get current cluster version during validation: '' @
                        error_string rt e)))
           | Ok cvVersion \<Rightarrow>
               (case semver_Parse lib cvVersion of
                  Inl e \<Rightarrow> Ok (False, False, Some (Errorf (''failed to parse current cluster version '' @ cvVersion @
                             '' as semver: '' @ error_string rt e)))
                | Inr parsedCv \<Rightarrow>
                    (case compareVersions lib parsedUc parsedCv of
                       Panic \<Rightarrow> Panic
                     | Err e \<Rightarrow> Ok (False, False, Some (Errorf (''failed to compare versions: '' @ error_string rt e)))
                     | Ok VersionUnknown \<Rightarrow>
                         Ok (False, False, Some (Errorf (''desired version '' @ ucVersion @ '' and current version '' @
                           cvVersion @ '' could not be compared'')))
                     | Ok VersionDowngrade \<Rightarrow>
                         Ok (True, False, Some (Errorf (''downgrades to desired version '' @ ucVersion @ '' from '' @
                           cvVersion @ '' are unsupported'')))
                     | Ok VersionEqual \<Rightarrow>
                         Ok (True, False, Some (Errorf (''desired version '' @ ucVersion @
                           '' matches the current version '' @ cvVersion)))
                     | Ok VersionUpgrade \<Rightarrow> Ok (True, True, None)))))"

text \<open>The updates of the upstream graph; \<open>Force\<close> is never set on them.\<close>

definition channelValidation :: "UpgradeConfig \<Rightarrow> Release list \<Rightarrow> unit outcome" where
  "channelValidation uc cvoUpdates =
     (if list_ex (\<lambda>v. rVersion v = desired_version uc) cvoUpdates then Ok ()
      else Err (Errorf (''cannot find version '' @ desired_version uc @ '' in available updates'')))"

definition getUpstreamURL :: "ClusterVersion \<Rightarrow> string" where
  "getUpstreamURL cv =
     (if length (cvUpstream cv) = 0 then ''https://api.openshift.com/api/upgrades_info/v1/graph'' else cvUpstream cv)"

definition zero_semver :: semver where
  "zero_semver = \<lparr>Major = 0, Minor = 0, svRest = []\<rparr>"

definition fetchCVOUpdates :: "'s validation_env \<Rightarrow> ClusterVersion \<Rightarrow> UpgradeConfig \<Rightarrow> ('s, Release list) op" where
  "fetchCVOUpdates env cv uc s =
     (case uuid_Parse env (cvClusterID cv) of
        Some e \<Rightarrow> (Err e, s)
      | None \<Rightarrow>
          (case url_Parse env (getUpstreamURL cv) of
             Some e \<Rightarrow> (Err e, s)
           | None \<Rightarrow>
               (case GetCurrentVersion cv of
                  Panic \<Rightarrow> (Panic, s)
                | r \<Rightarrow>
                    let cvVersion = (case r of Ok v \<Rightarrow> v | _ \<Rightarrow> []);
                        parsed = (case semver_Parse (ve_semver env) cvVersion of Inr v \<Rightarrow> v | Inl _ \<Rightarrow> zero_semver)
                    in bindO (call (GetUpdates env (cvClusterID cv) (getUpstreamURL cv)
                                      (dChannel (Desired (Spec uc))) parsed) s) (\<lambda>(updates, conditional) s.
                         let cvoUpdates = updates @ conditional
                         in if length cvoUpdates > 0 then (Ok cvoUpdates, s)
                            else (Err (Errorf (''no available upgrade for the given clusterversion '' @ cvVersion)), s)))))"

section \<open>The validator\<close>

definition invalid :: "'s runtime \<Rightarrow> goerr \<Rightarrow> ValidatorResult \<times> goerr option" where
  "invalid rt e = (\<lparr>IsValid = False, IsAvailableUpdate = False, VMessage = error_string rt e\<rparr>, Some e)"

definition validationPassed :: "ValidatorResult \<times> goerr option" where
  "validationPassed = (\<lparr>IsValid = True, IsAvailableUpdate = True, VMessage = ''Upgrade config is valid''\<rparr>, None)"

definition image_branch ::
    "'s validation_env \<Rightarrow> (UpgradeConfig \<times> 's, ValidatorResult \<times> goerr option) op" where
  "image_branch env = (\<lambda>(uc, s).
     let img = dImage (Desired (Spec uc)); rt = ve_rt env
     in case fetchImageVersion env img s of
          (Panic, s) \<Rightarrow> (Panic, uc, s)
        | (Err e, s) \<Rightarrow> (Ok (invalid rt e), uc, s)
        | (Ok digestVersion, s) \<Rightarrow>
            (case (if digestVersion \<noteq> desired_version uc then updateImageVersion (ve_uc env) digestVersion (uc, s)
                   else (Ok (), uc, s)) of
               (Panic, us) \<Rightarrow> (Panic, us)
             | (Err e, us) \<Rightarrow> (Ok (invalid rt e), us)
             | (Ok _, us) \<Rightarrow>
                 (case imageValidation env img of
                    Err e \<Rightarrow> (Ok (invalid rt e), us)
                  | _ \<Rightarrow> (Ok validationPassed, us))))"

definition cincinnati_check ::
    "'s validation_env \<Rightarrow> bool \<Rightarrow> ClusterVersion \<Rightarrow> UpgradeConfig \<Rightarrow> ('s, goerr option) op" where
  "cincinnati_check env cincinnati cv uc s =
     (if cincinnati \<and> dChannel (Desired (Spec uc)) \<noteq> cvChannel cv
      then (case fetchCVOUpdates env cv uc s of
              (Panic, s) \<Rightarrow> (Panic, s)
            | (Err e, s) \<Rightarrow> (Ok (Some e), s)
            | (Ok cvoUpdates, s) \<Rightarrow>
                (case channelValidation uc cvoUpdates of
                   Err e \<Rightarrow> (Ok (Some e), s)
                 | _ \<Rightarrow> (Ok None, s)))
      else (Ok None, s))"

definition IsValidUpgradeConfig ::
    "'s validation_env \<Rightarrow> bool \<Rightarrow> ClusterVersion \<Rightarrow>
     (UpgradeConfig \<times> 's, ValidatorResult \<times> goerr option) op" where
  "IsValidUpgradeConfig env cincinnati cv = (\<lambda>(uc, s).
     let rt = ve_rt env; ucVersion = desired_version uc; ucChannel = dChannel (Desired (Spec uc))
     in case Parse_RFC3339 (UpgradeAt (Spec uc)) of
          None \<Rightarrow>
            (Ok (\<lparr>IsValid = False, IsAvailableUpdate = False,
                  VMessage = ''Failed to parse upgradeAt:'' @ UpgradeAt (Spec uc) @ '' during validation''\<rparr>,
                 Some (Errorf (''parsing time '' @ UpgradeAt (Spec uc)))), uc, s)
        | Some _ \<Rightarrow>
            if dImage (Desired (Spec uc)) \<noteq> [] then image_branch env (uc, s)
            else if ucVersion = [] \<and> ucChannel = [] then
              (Ok (\<lparr>IsValid = False, IsAvailableUpdate = False,
                    VMessage = ''Not able to validate the upgrade config, either image or (channel + version) needs to be provided''\<rparr>,
                   None), uc, s)
            else case versionValidation rt (ve_semver env) ucVersion cv of
                   Panic \<Rightarrow> (Panic, uc, s)
                 | Err e \<Rightarrow> (Err e, uc, s)
                 | Ok (valid, available, Some e) \<Rightarrow>
                     (Ok (\<lparr>IsValid = valid, IsAvailableUpdate = available, VMessage = error_string rt e\<rparr>, Some e), uc, s)
                 | Ok (_, _, None) \<Rightarrow>
                     (case cincinnati_check env cincinnati cv uc s of
                        (Panic, s) \<Rightarrow> (Panic, uc, s)
                      | (Err e, s) \<Rightarrow> (Err e, uc, s)
                      | (Ok (Some e), s) \<Rightarrow> (Ok (invalid rt e), uc, s)
                      | (Ok None, s) \<Rightarrow>
                          if ucChannel = cvChannel cv \<and>
                             \<not> list_ex (\<lambda>u. rVersion u = ucVersion) (cvAvailableUpdates cv) \<and>
                             \<not> list_ex (\<lambda>u. rVersion u = ucVersion) (cvConditionalUpdates cv)
                          then (Ok (\<lparr>IsValid = False, IsAvailableUpdate = False,
                                     VMessage = ''version '' @ ucVersion @
                                       '' not found in clusterversion available or conditional updates''\<rparr>, None), uc, s)
                          else (Ok validationPassed, uc, s)))"

text \<open>\<open>NewClient\<close> of the builder: the configuration says whether Cincinnati is consulted.\<close>

definition validation_NewClient ::
    "'s runtime \<Rightarrow> 's cm_api \<Rightarrow> Target \<Rightarrow> (string \<Rightarrow> goerr + bool) \<Rightarrow> ('s, bool) op" where
  "validation_NewClient rt api t decode = Into rt api t decode (\<lambda>_. Ok ())"

section \<open>Lemmas\<close>

lemma versionValidation_upgrade:
  assumes "versionValidation rt lib v cv = Ok (a, b, None)"
  shows "\<exists>w x y. GetCurrentVersion cv = Ok w \<and> semver_Parse lib v = Inr x \<and> semver_Parse lib w = Inr y \<and>
           semver_Compare lib x y = 1"
  using assms
  by (auto simp: versionValidation_def compareVersions_def Let_def
      split: sum.splits outcome.splits VersionComparison.splits if_splits)

lemma versionValidation_no_err: "versionValidation rt lib v cv \<noteq> Err e"
  by (auto simp: versionValidation_def split: sum.splits outcome.splits VersionComparison.splits)

lemma versionValidation_flags:
  assumes "versionValidation rt lib v cv = Ok (a, b, err)"
  shows "b \<longleftrightarrow> err = None"
  using assms
  by (auto simp: versionValidation_def split: sum.splits outcome.splits VersionComparison.splits)

lemma image_branch_flags:
  assumes "image_branch env (uc, s) = (Ok (r, err), us)"
  shows "(IsValid r \<and> IsAvailableUpdate r \<and> err = None) \<or> (\<not> IsValid r \<and> \<not> IsAvailableUpdate r \<and> err \<noteq> None)"
  using assms
  by (auto simp: image_branch_def Let_def invalid_def validationPassed_def split: prod.splits outcome.splits if_splits)

text \<open>The branch of the validator that a version upgrade takes, once its time is parsed.\<close>

lemma IsValidUpgradeConfig_version:
  assumes "Parse_RFC3339 (UpgradeAt (Spec uc)) = Some t" "dImage (Desired (Spec uc)) = []"
    and "versionValidation (ve_rt env) (ve_semver env) (desired_version uc) cv = Ok (a, b, None)"
    and "\<not> (desired_version uc = [] \<and> dChannel (Desired (Spec uc)) = [])"
  shows "IsValidUpgradeConfig env cin cv (uc, s) =
    (case cincinnati_check env cin cv uc s of
       (Panic, s) \<Rightarrow> (Panic, uc, s)
     | (Err e, s) \<Rightarrow> (Err e, uc, s)
     | (Ok (Some e), s) \<Rightarrow> (Ok (invalid (ve_rt env) e), uc, s)
     | (Ok None, s) \<Rightarrow>
         if dChannel (Desired (Spec uc)) = cvChannel cv \<and>
            \<not> list_ex (\<lambda>u. rVersion u = desired_version uc) (cvAvailableUpdates cv) \<and>
            \<not> list_ex (\<lambda>u. rVersion u = desired_version uc) (cvConditionalUpdates cv)
         then (Ok (\<lparr>IsValid = False, IsAvailableUpdate = False,
                    VMessage = ''version '' @ desired_version uc @
                      '' not found in clusterversion available or conditional updates''\<rparr>, None), uc, s)
         else (Ok validationPassed, uc, s))"
  using assms by (auto simp: IsValidUpgradeConfig_def Let_def)

lemma IsValidUpgradeConfig_version_cases:
  assumes run: "IsValidUpgradeConfig env cin cv (uc, s) = (Ok (r, None), uc', s')" "IsValid r"
    and noimg: "dImage (Desired (Spec uc)) = []"
  obtains a b t where "Parse_RFC3339 (UpgradeAt (Spec uc)) = Some t"
    "versionValidation (ve_rt env) (ve_semver env) (desired_version uc) cv = Ok (a, b, None)"
    "\<not> (desired_version uc = [] \<and> dChannel (Desired (Spec uc)) = [])"
proof -
  from run noimg obtain t where t: "Parse_RFC3339 (UpgradeAt (Spec uc)) = Some t"
    "\<not> (desired_version uc = [] \<and> dChannel (Desired (Spec uc)) = [])"
    by (auto simp: IsValidUpgradeConfig_def Let_def split: option.splits if_splits)
  show thesis
  proof (cases "versionValidation (ve_rt env) (ve_semver env) (desired_version uc) cv")
    case (Ok x)
    then show thesis
      using that t run noimg
      by (cases x; cases "snd (snd x)") (auto simp: IsValidUpgradeConfig_def Let_def)
  qed (use run noimg t in \<open>auto simp: IsValidUpgradeConfig_def Let_def\<close>)
qed

lemma IsValidUpgradeConfig_version_kept:
  assumes "dImage (Desired (Spec uc)) = []" "IsValidUpgradeConfig env cin cv (uc, s) = (r, uc', s')"
  shows "uc' = uc"
  using assms
  by (auto simp: IsValidUpgradeConfig_def Let_def split: option.splits if_splits outcome.splits prod.splits)

text \<open>Where the validator looks the version up.\<close>

definition offered :: "'s validation_env \<Rightarrow> bool \<Rightarrow> ClusterVersion \<Rightarrow> UpgradeConfig \<Rightarrow> 's \<Rightarrow> 's \<Rightarrow> bool" where
  "offered env cin cv uc s s' \<longleftrightarrow>
     (if dChannel (Desired (Spec uc)) = cvChannel cv
      then s' = s \<and> desired_version uc \<in> rVersion ` set (cvAvailableUpdates cv) \<union> rVersion ` set (cvConditionalUpdates cv)
      else if cin then \<exists>updates. fetchCVOUpdates env cv uc s = (Ok updates, s') \<and> desired_version uc \<in> rVersion ` set updates
      else s' = s)"

lemma list_ex_version: "list_ex (\<lambda>u. rVersion u = v) us \<longleftrightarrow> v \<in> rVersion ` set us"
  by (auto simp: list_ex_iff)

lemma IsValidUpgradeConfig_offered:
  assumes "Parse_RFC3339 (UpgradeAt (Spec uc)) = Some t" "dImage (Desired (Spec uc)) = []"
    and "versionValidation (ve_rt env) (ve_semver env) (desired_version uc) cv = Ok (a, b, None)"
    and "\<not> (desired_version uc = [] \<and> dChannel (Desired (Spec uc)) = [])"
  shows "IsValidUpgradeConfig env cin cv (uc, s) = (Ok (r, None), uc', s') \<and> IsValid r \<longleftrightarrow>
    r = fst validationPassed \<and> uc' = uc \<and> offered env cin cv uc s s'"
  unfolding IsValidUpgradeConfig_version [OF assms] cincinnati_check_def channelValidation_def offered_def list_ex_version
  by (auto simp: invalid_def validationPassed_def split: prod.splits outcome.splits)

section \<open>Properties\<close>

text \<open>
  C8: Exactly which version upgrades (no image) pass validation: those at a time that parses that are a strict upgrade by semantic version
  from the cluster's current version, with a channel or a version given, and which, on the cluster's own channel, the cluster
  offers (available or conditional), and on another channel, with Cincinnati consulted, the update graph fetched for that channel
  has. On another channel without Cincinnati nothing is asked about the availability of the version and
  nothing is fetched. The validator leaves such an UpgradeConfig as it is.
\<close>

theorem valid_upgrade_is_newer:
  assumes noimg: "dImage (Desired (Spec uc)) = []"
  shows "(\<exists>r. IsValidUpgradeConfig env cin cv (uc, s) = (Ok (r, None), uc', s') \<and> IsValid r) \<longleftrightarrow>
    uc' = uc \<and> Parse_RFC3339 (UpgradeAt (Spec uc)) \<noteq> None \<and>
    (desired_version uc \<noteq> [] \<or> dChannel (Desired (Spec uc)) \<noteq> []) \<and>
    (\<exists>cur x y. GetCurrentVersion cv = Ok cur \<and> semver_Parse (ve_semver env) (desired_version uc) = Inr x \<and>
       semver_Parse (ve_semver env) cur = Inr y \<and> semver_Compare (ve_semver env) x y = 1) \<and>
    (if dChannel (Desired (Spec uc)) = cvChannel cv
     then s' = s \<and> desired_version uc \<in> rVersion ` set (cvAvailableUpdates cv) \<union> rVersion ` set (cvConditionalUpdates cv)
     else if cin then \<exists>updates. fetchCVOUpdates env cv uc s = (Ok updates, s') \<and> desired_version uc \<in> rVersion ` set updates
     else s' = s)"
    (is "?valid \<longleftrightarrow> uc' = uc \<and> ?at \<and> ?given \<and> ?newer \<and> ?offered")
proof (cases "?at \<and> ?given \<and> ?newer")
  case True
  then obtain t where "Parse_RFC3339 (UpgradeAt (Spec uc)) = Some t" by auto
  moreover have "versionValidation (ve_rt env) (ve_semver env) (desired_version uc) cv = Ok (True, True, None)"
    using True by (auto simp: versionValidation_def compareVersions_def)
  ultimately have "IsValidUpgradeConfig env cin cv (uc, s) = (Ok (r, None), uc', s') \<and> IsValid r \<longleftrightarrow>
      r = fst validationPassed \<and> uc' = uc \<and> offered env cin cv uc s s'" for r
    using True by (intro IsValidUpgradeConfig_offered noimg) auto
  moreover have "offered env cin cv uc s s' \<longleftrightarrow> ?offered" by (simp add: offered_def)
  ultimately show ?thesis using True by auto
next
  case False
  moreover have "?at \<and> ?given \<and> ?newer" if "?valid"
    using that
  proof (elim exE conjE)
    fix r assume run: "IsValidUpgradeConfig env cin cv (uc, s) = (Ok (r, None), uc', s')" "IsValid r"
    then show ?thesis
      by (rule IsValidUpgradeConfig_version_cases [OF _ _ noimg]) (auto dest: versionValidation_upgrade)
  qed
  ultimately show ?thesis by blast
qed

text \<open>A cluster at \<open>sample_cv\<close>, versions compared as strings of the same length, no Cincinnati graph.\<close>

definition sample_validation :: "'s validation_env" where
  "sample_validation =
     \<lparr>ve_rt = \<lparr>time_now = (\<lambda>s. (7, s)), error_string = (\<lambda>_. ''error'')\<rparr>,
      ve_semver = \<lparr>semver_Parse = (\<lambda>v. Inr \<lparr>Major = 4, Minor = 14, svRest = v\<rparr>),
                   semver_Compare = (\<lambda>a b. if svRest a = svRest b then 0 else if svRest a = ''4.14.2'' then 1 else -1)\<rparr>,
      ve_uc = \<lparr>get_uc = (\<lambda>_ _ s. (Inr sample_uc, s)), list_ucs = (\<lambda>_ _ s. (Inr [sample_uc], s)),
               create_uc = (\<lambda>_ s. (Inr (), s)), delete_uc = (\<lambda>_ s. (Inr (), s)),
               update_uc = (\<lambda>uc s. (Inr uc, s)), update_uc_status = (\<lambda>uc s. (Inr uc, s))\<rparr>,
      image_Parse = (\<lambda>_. (\<lparr>refRegistry = [], refNamespace = [], refName = [], refID = []\<rparr>, None)),
      registry_request_error = (\<lambda>_ _. None), registry_do = (\<lambda>_ _ s. (Inl (ApiError ''registry''), s)),
      manifest_digest = (\<lambda>_. Inr None), image_labels = (\<lambda>_. Inr None), uuid_Parse = (\<lambda>_. None), url_Parse = (\<lambda>_. None),
      GetUpdates = (\<lambda>_ _ _ _ s. (Inr ([\<lparr>rVersion = ''4.14.2'', rImage = ''i2''\<rparr>], []), s))\<rparr>"

lemma sample_upgradeAt: "Parse_RFC3339 (UpgradeAt (Spec sample_uc)) = Some (600 * Second)"
  by (simp add: sample_uc_def Parse_RFC3339_def; code_simp)

lemma sample_current: "GetCurrentVersion sample_cv = Ok ''4.14.1''"
  by code_simp

lemma sample_valid_spec:
  assumes "Spec uc = Spec sample_uc"
  shows "IsValidUpgradeConfig sample_validation True sample_cv (uc, s) = (Ok validationPassed, uc, s)"
proof -
  have sp: "desired_version uc = ''4.14.2''" "dChannel (Desired (Spec uc)) = ''stable-4.14''" "dImage (Desired (Spec uc)) = []"
    using assms by (simp_all add: sample_uc_def)
  have at: "Parse_RFC3339 (UpgradeAt (Spec uc)) = Some (600 * Second)" using assms sample_upgradeAt by simp
  have v: "versionValidation (ve_rt sample_validation) (ve_semver sample_validation) (desired_version uc) sample_cv =
      Ok (True, True, None)"
    by (simp add: versionValidation_def compareVersions_def sample_current sample_validation_def sp)
  have "fetchCVOUpdates sample_validation sample_cv uc s = (Ok [\<lparr>rVersion = ''4.14.2'', rImage = ''i2''\<rparr>], s)"
    by (simp add: fetchCVOUpdates_def sample_current sample_validation_def call_def Let_def)
  then have c: "cincinnati_check sample_validation True sample_cv uc s = (Ok None, s)"
    by (simp add: cincinnati_check_def channelValidation_def sp)
  have "cvChannel sample_cv = ''stable-4.13''" by (simp add: sample_cv_def)
  then show ?thesis
    by (subst IsValidUpgradeConfig_version [OF at sp(3) v]) (simp_all add: c sp)
qed

lemmas sample_valid = sample_valid_spec [of sample_uc, OF refl]

theorem valid_upgrade_is_newer_witness:
  "\<exists>updates. fetchCVOUpdates sample_validation sample_cv sample_uc (0 :: nat) = (Ok updates, 0) \<and> ''4.14.2'' \<in> rVersion ` set updates"
proof -
  have img: "dImage (Desired (Spec sample_uc)) = []" "dChannel (Desired (Spec sample_uc)) \<noteq> cvChannel sample_cv"
      "desired_version sample_uc = ''4.14.2''"
    by (simp_all add: sample_uc_def sample_cv_def)
  have "\<exists>r. IsValidUpgradeConfig sample_validation True sample_cv (sample_uc, 0 :: nat) = (Ok (r, None), sample_uc, 0) \<and> IsValid r"
    by (simp add: sample_valid validationPassed_def)
  from this [unfolded valid_upgrade_is_newer [OF img(1)]] show ?thesis using img(2,3) by simp
qed

text \<open>
  An UpgradeConfig that is valid without an error is always an available update: the downgrades and the equal
  versions, which the validator calls valid but not available, come with an error. The caller's branch
  for a valid UpgradeConfig whose update is not available is never taken.
\<close>

theorem valid_implies_available:
  assumes "IsValidUpgradeConfig env cin cv (uc, s) = (Ok (r, None), uc', s')" "IsValid r"
  shows "IsAvailableUpdate r"
proof (cases "dImage (Desired (Spec uc)) = []")
  case True
  obtain a b t where "Parse_RFC3339 (UpgradeAt (Spec uc)) = Some t"
    "versionValidation (ve_rt env) (ve_semver env) (desired_version uc) cv = Ok (a, b, None)"
    "\<not> (desired_version uc = [] \<and> dChannel (Desired (Spec uc)) = [])"
    using assms True by (rule IsValidUpgradeConfig_version_cases)
  from IsValidUpgradeConfig_version [OF this(1) True this(2,3), of cin s] show ?thesis
    using assms
    by (auto simp: invalid_def validationPassed_def split: prod.splits outcome.splits option.splits if_splits)
next
  case False
  then show ?thesis
    using assms image_branch_flags [of env uc s r None]
    by (auto simp: IsValidUpgradeConfig_def Let_def split: option.splits)
qed

theorem valid_implies_available_witness: "IsAvailableUpdate (fst validationPassed)"
  using valid_implies_available [OF sample_valid [of "0 :: nat", unfolded validationPassed_def]] by (simp add: validationPassed_def)

end
