(* ===== verification/Ocm_Clients.thy ===== *)
theory Ocm_Clients
  imports Network Go_Std
begin

text \<open>
  The two clients of OpenShift Cluster Manager (\<open>pkg/ocm\<close>, \<open>pkg/ocmagent\<close>), the builders of the
  notifier and of the event manager that use them. The SDK connection is the record \<open>sdk_conn\<close>;
  a response carries its status and operation id. Of a URL the operator reads and sets the path and the query; the other
  fields are \<open>uOther\<close>, and parsing and printing a URL are parameters.
\<close>

section \<open>The SDK\<close>

record 'a sdk_response =
  rStatus :: int
  rOperation :: string
  rBody :: 'a

record log_entry =
  leSeverity :: string
  leInternalOnly :: bool
  leServiceName :: string
  leLogType :: string
  leDescription :: string
  leClusterID :: string
  leSummary :: string
  leDocReferences :: "string option"

record 's sdk_conn =
  search_clusters :: "string \<Rightarrow> int \<Rightarrow> ('s, (int \<times> OcmCluster list) sdk_response) ext_op"
  list_policies :: "string \<Rightarrow> int \<Rightarrow> int \<Rightarrow> ('s, UpgradePolicies sdk_response) ext_op"
  get_policy_state :: "string \<Rightarrow> string \<Rightarrow> ('s, UpgradePolicyState sdk_response) ext_op"
  put_policy_state :: "string \<Rightarrow> string \<Rightarrow> UpgradePolicyState \<Rightarrow> ('s, unit sdk_response) ext_op"
  add_log_entry :: "log_entry \<Rightarrow> ('s, goerr option) ext_op"
  get_root :: "('s, string sdk_response) ext_op"

record URL =
  uOther :: string
  uPath :: string
  uRawQuery :: string

text \<open>What the builders of the clients ask of a connection; the transport settings are those of an \<open>http.Transport\<close>.\<close>

record connection_options =
  coURL :: string
  coAgent :: string
  coTokens :: "string option"
  coRetryLimit :: "int option"
  coRetryInterval :: "duration option"
  coRetryJitterPercent :: "int option"
  coProxyFromEnvironment :: bool
  coDialTimeout :: "duration option"
  coKeepAlive :: "duration option"
  coTLSHandshakeTimeout :: duration
  coAuthorization :: "string option"

text \<open>The answer of the OCM agent.\<close>

record clusterInfoJSON =
  ciId :: string
  ciVersionId :: string
  ciChannelGroup :: string
  ciDrainValue :: int
  ciDrainUnit :: string

text \<open>
  What the SDK's builders and the decoders do with a value, how a connection is made, and the platform (\<open>GOOS\<close>, \<open>GOARCH\<close>).
\<close>

record 's ocm_env =
  oe_net :: "'s net_api"
  url_parse :: "string \<Rightarrow> goerr + URL"
  url_String :: "URL \<Rightarrow> string"
  sdk_connect :: "connection_options \<Rightarrow> goerr + 's sdk_conn"
  build_state :: "UpgradePolicyState \<Rightarrow> goerr + UpgradePolicyState"
  build_log :: "log_entry \<Rightarrow> goerr + log_entry"
  decode_cluster :: "string \<Rightarrow> goerr + clusterInfoJSON"
  build_cluster :: "OcmCluster \<Rightarrow> goerr + OcmCluster"
  platform :: "string \<times> string"

abbreviation oe_rt :: "'s ocm_env \<Rightarrow> 's runtime" where
  "oe_rt env \<equiv> net_rt (oe_net env)"

abbreviation quoted :: "string \<Rightarrow> string" where
  "quoted s \<equiv> [CHR 0x27] @ s @ [CHR 0x27]"

definition CLUSTERS_V1_PATH :: string where "CLUSTERS_V1_PATH = ''/api/clusters_mgmt/v1/clusters''"
definition UPGRADEPOLICIES_V1_PATH :: string where "UPGRADEPOLICIES_V1_PATH = ''upgrade_policies''"
definition STATE_V1_PATH :: string where "STATE_V1_PATH = ''state''"
definition SERVICELOG_LOG_TYPE :: string where "SERVICELOG_LOG_TYPE = ''Cluster Updates''"
definition SERVICELOG_SERVICE_NAME :: string where "SERVICELOG_SERVICE_NAME = ''RedHat Managed Upgrade Notifications''"
definition SERVICELOG_INTERNAL_ONLY :: bool where "SERVICELOG_INTERNAL_ONLY = False"
definition TLS_HANDSHAKE_TIMEOUT :: duration where "TLS_HANDSHAKE_TIMEOUT = 30 * Second"

definition SetUserAgent :: "string \<times> string \<Rightarrow> string" where
  "SetUserAgent plat = OperatorName @ ''/v1.0.0 ('' @ fst plat @ ''/'' @ snd plat @ '')''"

text \<open>\<open>Items().Get(0)\<close> of an empty list is a nil object, whose accessors give zero values.\<close>

definition nil_cluster :: OcmCluster where
  "nil_cluster = \<lparr>ocID = [], ocChannelGroup = [], ocNodeDrainGracePeriod = 0\<rparr>"

text \<open>An error code is reported with the status and the operation id.\<close>

definition check_status :: "string \<Rightarrow> string \<Rightarrow> 'a sdk_response \<Rightarrow> 'a outcome" where
  "check_status before after r =
     (if rStatus r \<ge> 400
      then Err (Errorf (before @ ''received error code '' @ show_int (rStatus r) @ after @ '', operation id '' @ quoted (rOperation r)))
      else Ok (rBody r))"

abbreviation request_to :: "string \<Rightarrow> string" where
  "request_to u \<equiv> ''request to '' @ quoted u @ '' ''"

text \<open>\<open>fmt.Errorf("... request to '%v' returned error '%v'", url, err)\<close>.\<close>

definition request_failed :: "'s runtime \<Rightarrow> string \<Rightarrow> string \<Rightarrow> 'a outcome \<times> 't \<Rightarrow> 'a outcome \<times> 't" where
  "request_failed rt what u r =
     (case r of
        (Err e, s) \<Rightarrow> (Err (Errorf (what @ '': '' @ request_to u @ ''returned error '' @ quoted (error_string rt e))), s)
      | _ \<Rightarrow> r)"

section \<open>The OCM client\<close>

definition ocm_GetCluster :: "'s ocm_env \<Rightarrow> URL \<Rightarrow> 's sdk_conn \<Rightarrow> ('s, OcmCluster) op" where
  "ocm_GetCluster env base conn s =
     bindO (wrap_err (oe_rt env) ''can't get clusterversion: '' (call (get_cv (net_cv (oe_net env))) s)) (\<lambda>cv s.
       let externalID = cvClusterID cv; search = ''external_id = '' @ quoted externalID
       in bindO (wrap_err (oe_rt env) (''can't query OCM cluster service for external_id '' @ quoted externalID @ '': '')
                   (call (search_clusters conn search 1) s)) (\<lambda>r s.
          bindO (wrap_err (oe_rt env) ''can't parse OCM API url: '' (ret (url_parse env (url_String env base)), s)) (\<lambda>u s.
            let csUrl = u\<lparr>uPath := path_Join [uPath u, CLUSTERS_V1_PATH], uRawQuery := ''search='' @ QueryEscape search @ ''&size=1''\<rparr>
            in bindO (check_status (request_to (url_String env csUrl)) [] r, s) (\<lambda>(total, items) s.
                 if total \<noteq> 1 then (Err ErrClusterIdNotFound, s)
                 else (Ok (case items of [] \<Rightarrow> nil_cluster | c # _ \<Rightarrow> c), s)))))"

definition policy_service :: string where
  "policy_service = '' from OCM upgrade policy service''"

definition ocm_GetClusterUpgradePolicies ::
    "'s ocm_env \<Rightarrow> URL \<Rightarrow> 's sdk_conn \<Rightarrow> string \<Rightarrow> ('s, UpgradePolicies) op" where
  "ocm_GetClusterUpgradePolicies env base conn clusterId s =
     bindO (wrap_err (oe_rt env) (''can't pull upgrade policies for cluster '' @ clusterId @ '': '')
              (call (list_policies conn clusterId 1 1) s)) (\<lambda>r s.
     bindO (wrap_err (oe_rt env) ''can't read OCM API url: '' (ret (url_parse env (url_String env base)), s)) (\<lambda>u s.
       let upUrl = u\<lparr>uPath := path_Join [uPath u, CLUSTERS_V1_PATH, clusterId, UPGRADEPOLICIES_V1_PATH], uRawQuery := ''page=1&size=1''\<rparr>
       in (check_status (request_to (url_String env upUrl)) policy_service r, s)))"

definition ocm_SetState ::
    "'s ocm_env \<Rightarrow> URL \<Rightarrow> 's sdk_conn \<Rightarrow> string \<Rightarrow> string \<Rightarrow> string \<Rightarrow> string \<Rightarrow> ('s, unit) op" where
  "ocm_SetState env base conn v description policyId clusterId s =
     bindO (wrap_err (oe_rt env) ''failed to build policy state: ''
              (ret (build_state env \<lparr>psValue = v, psDescription = description\<rparr>), s)) (\<lambda>st s.
     bindO (wrap_err (oe_rt env) ''can't read OCM API url: '' (ret (url_parse env (url_String env base)), s)) (\<lambda>u s.
       let reqUrl = url_String env
             (u\<lparr>uPath := path_Join [uPath u, CLUSTERS_V1_PATH, clusterId, UPGRADEPOLICIES_V1_PATH, policyId, STATE_V1_PATH]\<rparr>)
       in bindO (request_failed (oe_rt env) ''can't set upgrade policy state'' reqUrl
                   (call (put_policy_state conn clusterId policyId st) s)) (\<lambda>r s.
            (check_status (request_to reqUrl) [] r, s))))"

definition ocm_GetClusterUpgradePolicyState ::
    "'s ocm_env \<Rightarrow> 's sdk_conn \<Rightarrow> string \<Rightarrow> string \<Rightarrow> ('s, UpgradePolicyState) op" where
  "ocm_GetClusterUpgradePolicyState env conn policyId clusterId s =
     bindO (wrap_err (oe_rt env) ''can't pull upgrade policy state: ''
              (call (get_policy_state conn clusterId policyId) s)) (\<lambda>r s.
       (check_status [] policy_service r, s))"

text \<open>The entry both clients build; only the OCM client passes the documentation link on.\<close>

definition service_log_entry :: "ServiceLog \<Rightarrow> string \<Rightarrow> string \<Rightarrow> string option \<Rightarrow> log_entry" where
  "service_log_entry sl description clusterId doc =
     \<lparr>leSeverity = (if slSeverity sl \<noteq> [] then slSeverity sl else ''Info''), leInternalOnly = SERVICELOG_INTERNAL_ONLY,
      leServiceName = SERVICELOG_SERVICE_NAME, leLogType = SERVICELOG_LOG_TYPE,
      leDescription = description, leClusterID = clusterId, leSummary = slSummary sl, leDocReferences = doc\<rparr>"

text \<open>The message prints the error of the request, which is nil when the response carries one.\<close>

definition post_log_entry :: "'s ocm_env \<Rightarrow> 's sdk_conn \<Rightarrow> ServiceLog \<Rightarrow> log_entry \<Rightarrow> ('s, unit) op" where
  "post_log_entry env conn sl le s =
     bindO (wrap_err (oe_rt env) ''could not create post request (SL): '' (ret (build_log env le), s)) (\<lambda>le s.
       case add_log_entry conn le s of
         (Inr None, s) \<Rightarrow> (Ok (), s)
       | (Inr (Some _), s) \<Rightarrow> (Err (Errorf (''could not post service log '' @ slSummary sl @ '': <nil>'')), s)
       | (Inl e, s) \<Rightarrow> (Err (Errorf (''could not post service log '' @ slSummary sl @ '': '' @ error_string (oe_rt env) e)), s))"

definition ocm_PostServiceLog ::
    "'s ocm_env \<Rightarrow> URL \<Rightarrow> 's sdk_conn \<Rightarrow> ServiceLog \<Rightarrow> string \<Rightarrow> ('s, unit) op" where
  "ocm_PostServiceLog env base conn sl description s =
     bindO (wrap_err (oe_rt env) ''failed to retrieve internal cluster ID from OCM: '' (ocm_GetCluster env base conn s)) (\<lambda>cluster s.
       post_log_entry env conn sl
         (service_log_entry sl description (ocID cluster)
            (if length (slDocReferences sl) > 0 then Some (slDocReferences sl) else None)) s)"

definition ocm_client :: "'s ocm_env \<Rightarrow> URL \<Rightarrow> 's sdk_conn \<Rightarrow> 's OcmClient" where
  "ocm_client env base conn =
     \<lparr>GetCluster = ocm_GetCluster env base conn,
      GetClusterUpgradePolicies = ocm_GetClusterUpgradePolicies env base conn,
      GetClusterUpgradePolicyState = ocm_GetClusterUpgradePolicyState env conn,
      PostServiceLog = ocm_PostServiceLog env base conn,
      SetState = ocm_SetState env base conn\<rparr>"

text \<open>The token of the SDK is the cluster id and the pull secret.\<close>

definition ocm_options :: "'s ocm_env \<Rightarrow> URL \<Rightarrow> AccessToken \<Rightarrow> connection_options" where
  "ocm_options env base at =
     \<lparr>coURL = url_String env base, coAgent = SetUserAgent (platform env),
      coTokens = Some (ClusterId at @ '':'' @ PullSecret at),
      coRetryLimit = Some 5, coRetryInterval = Some (2 * Second), coRetryJitterPercent = Some 30,
      coProxyFromEnvironment = True, coDialTimeout = Some (30 * Second), coKeepAlive = Some (30 * Second),
      coTLSHandshakeTimeout = 10 * Second, coAuthorization = None\<rparr>"

definition ocm_builder_New :: "'s ocm_env \<Rightarrow> URL \<Rightarrow> ('s, 's OcmClient) op" where
  "ocm_builder_New env base s =
     (case GetAccessToken (oe_net env) s of
        (Panic, s) \<Rightarrow> (Panic, s)
      | (Err _, s) \<Rightarrow> (Err (Errorf ''failed to retrieve cluster access token''), s)
      | (Ok at, s) \<Rightarrow>
          bindO (ret (sdk_connect env (ocm_options env base at)), s) (\<lambda>conn s.
            (Ok (ocm_client env base conn), s)))"

section \<open>The OCM agent client\<close>

definition UPGRADEPOLICIES_PATH :: string where "UPGRADEPOLICIES_PATH = ''upgrade_policies''"

definition parseOcmBaseUrl :: "'s ocm_env \<Rightarrow> URL \<Rightarrow> goerr + URL" where
  "parseOcmBaseUrl env base = url_parse env (url_String env base)"

text \<open>The agent's answer has a grace period of 64 bits, which the SDK keeps as a double.\<close>

definition agent_GetCluster :: "'s ocm_env \<Rightarrow> URL \<Rightarrow> 's sdk_conn \<Rightarrow> ('s, OcmCluster) op" where
  "agent_GetCluster env base conn s =
     bindO (wrap_err (oe_rt env) ''can't parse OCM API url: '' (ret (parseOcmBaseUrl env base), s)) (\<lambda>apiUrl s.
     bindO (request_failed (oe_rt env) ''can't query OCM cluster service'' (url_String env apiUrl) (call (get_root conn) s)) (\<lambda>r s.
     bindO (check_status (request_to (url_String env apiUrl)) [] r, s) (\<lambda>body s.
     bindO (wrap_err (oe_rt env) ''failed to unmarshal cluster info response: '' (ret (decode_cluster env body), s)) (\<lambda>info s.
       wrap_err (oe_rt env) ''failed to build cluster SDK type: ''
         (ret (build_cluster env
            \<lparr>ocID = ciId info, ocChannelGroup = ciChannelGroup info, ocNodeDrainGracePeriod = float_of_int (ciDrainValue info)\<rparr>), s)))))"

text \<open>Here a base URL that cannot be parsed only changes the message.\<close>

definition agent_GetClusterUpgradePolicies ::
    "'s ocm_env \<Rightarrow> URL \<Rightarrow> 's sdk_conn \<Rightarrow> string \<Rightarrow> ('s, UpgradePolicies) op" where
  "agent_GetClusterUpgradePolicies env base conn clusterId s =
     bindO (wrap_err (oe_rt env) (''can't pull upgrade policies for cluster '' @ clusterId @ '': '')
              (call (list_policies conn clusterId 1 1) s)) (\<lambda>r s.
       let logUrl = (case parseOcmBaseUrl env base of
                       Inl _ \<Rightarrow> ''ocm-agent''
                     | Inr u \<Rightarrow> url_String env (u\<lparr>uPath := path_Join [UPGRADEPOLICIES_PATH]\<rparr>))
       in (check_status (request_to logUrl) policy_service r, s))"

definition agent_state_url :: "'s ocm_env \<Rightarrow> URL \<Rightarrow> string \<Rightarrow> string" where
  "agent_state_url env u policyId =
     url_String env (u\<lparr>uPath := path_Join [UPGRADEPOLICIES_PATH, policyId, STATE_V1_PATH]\<rparr>)"

definition agent_SetState ::
    "'s ocm_env \<Rightarrow> URL \<Rightarrow> 's sdk_conn \<Rightarrow> string \<Rightarrow> string \<Rightarrow> string \<Rightarrow> string \<Rightarrow> ('s, unit) op" where
  "agent_SetState env base conn v description policyId clusterId s =
     bindO (wrap_err (oe_rt env) ''failed to build policy state: ''
              (ret (build_state env \<lparr>psValue = v, psDescription = description\<rparr>), s)) (\<lambda>st s.
     bindO (wrap_err (oe_rt env) ''can't read OCM API url: '' (ret (parseOcmBaseUrl env base), s)) (\<lambda>u s.
     bindO (request_failed (oe_rt env) ''can't set upgrade policy state'' (agent_state_url env u policyId)
              (call (put_policy_state conn clusterId policyId st) s)) (\<lambda>r s.
       (check_status (request_to (agent_state_url env u policyId)) [] r, s))))"

definition agent_GetClusterUpgradePolicyState ::
    "'s ocm_env \<Rightarrow> URL \<Rightarrow> 's sdk_conn \<Rightarrow> string \<Rightarrow> string \<Rightarrow> ('s, UpgradePolicyState) op" where
  "agent_GetClusterUpgradePolicyState env base conn policyId clusterId s =
     bindO (wrap_err (oe_rt env) ''can't read OCM API url: '' (ret (parseOcmBaseUrl env base), s)) (\<lambda>u s.
     bindO (request_failed (oe_rt env) ''can't pull upgrade policy state'' (agent_state_url env u policyId)
              (call (get_policy_state conn clusterId policyId) s)) (\<lambda>r s.
       (check_status [] policy_service r, s)))"

definition agent_PostServiceLog ::
    "'s ocm_env \<Rightarrow> URL \<Rightarrow> 's sdk_conn \<Rightarrow> ServiceLog \<Rightarrow> string \<Rightarrow> ('s, unit) op" where
  "agent_PostServiceLog env base conn sl description s =
     bindO (wrap_err (oe_rt env) ''failed to retrieve internal cluster ID from OCM: '' (agent_GetCluster env base conn s)) (\<lambda>cluster s.
       post_log_entry env conn sl (service_log_entry sl description (ocID cluster) None) s)"

definition agent_client :: "'s ocm_env \<Rightarrow> URL \<Rightarrow> 's sdk_conn \<Rightarrow> 's OcmClient" where
  "agent_client env base conn =
     \<lparr>GetCluster = agent_GetCluster env base conn,
      GetClusterUpgradePolicies = agent_GetClusterUpgradePolicies env base conn,
      GetClusterUpgradePolicyState = agent_GetClusterUpgradePolicyState env base conn,
      PostServiceLog = agent_PostServiceLog env base conn,
      SetState = agent_SetState env base conn\<rparr>"

text \<open>The transport adds the access token to every request.\<close>

definition agent_auth :: "AccessToken \<Rightarrow> string" where
  "agent_auth at = ''AccessToken '' @ ClusterId at @ '':'' @ PullSecret at"

definition agent_options :: "'s ocm_env \<Rightarrow> URL \<Rightarrow> AccessToken \<Rightarrow> connection_options" where
  "agent_options env base at =
     \<lparr>coURL = url_String env base, coAgent = SetUserAgent (platform env), coTokens = None,
      coRetryLimit = None, coRetryInterval = None, coRetryJitterPercent = None,
      coProxyFromEnvironment = False, coDialTimeout = None, coKeepAlive = None,
      coTLSHandshakeTimeout = 30 * Second, coAuthorization = Some (agent_auth at)\<rparr>"

definition agent_builder_New :: "'s ocm_env \<Rightarrow> URL \<Rightarrow> ('s, 's OcmClient) op" where
  "agent_builder_New env base s =
     (case GetAccessToken (oe_net env) s of
        (Panic, s) \<Rightarrow> (Panic, s)
      | (Err _, s) \<Rightarrow> (Err (Errorf ''failed to retrieve cluster access token''), s)
      | (Ok at, s) \<Rightarrow>
          bindO (ret (sdk_connect env (agent_options env base at)), s) (\<lambda>conn s. (Ok (agent_client env base conn), s)))"

definition OCM_AGENT_SERVICE_URL :: string where
  "OCM_AGENT_SERVICE_URL = ''ocm-agent.openshift-ocm-agent-operator.svc.cluster.local''"

definition OCM_AGENT_SERVICE_PORT :: int where "OCM_AGENT_SERVICE_PORT = 8081"

text \<open>The choice between the two, made by the notifier and by the spec provider alike.\<close>

definition new_ocm_client :: "'s ocm_env \<Rightarrow> URL \<Rightarrow> ('s, 's OcmClient) op" where
  "new_ocm_client env base =
     (if Contains (url_String env base) (OCM_AGENT_SERVICE_URL @ '':'' @ show_int OCM_AGENT_SERVICE_PORT)
      then agent_builder_New env base else ocm_builder_New env base)"

section \<open>The notifier's builder\<close>

record 's notifier_builder =
  nb_ocm :: "'s ocm_env"
  nb_uc :: "'s uc_api"
  nb_cm :: "'s cm_api"
  decode_source :: "string \<Rightarrow> goerr + string"
  decode_features :: "string \<Rightarrow> goerr + string list"
  decode_base_url :: "string \<Rightarrow> goerr + string"
  state_order :: "(MuoState \<times> OcmState) list"

abbreviation nb_rt :: "'s notifier_builder \<Rightarrow> 's runtime" where
  "nb_rt nb \<equiv> oe_rt (nb_ocm nb)"

definition base_url_IsValid :: "'s ocm_env \<Rightarrow> string \<Rightarrow> unit outcome" where
  "base_url_IsValid env u =
     (case url_parse env u of
        Inl _ \<Rightarrow> Err (Errorf ''OCM Base URL is not a parseable URL'')
      | Inr _ \<Rightarrow> Ok ())"

text \<open>\<open>GetOCMBaseURL\<close>: the parsed URL; where it does not parse it is nil, and the \<open>String\<close> of a nil URL panics.\<close>

definition GetOCMBaseURL :: "'s ocm_env \<Rightarrow> string \<Rightarrow> URL outcome" where
  "GetOCMBaseURL env u = (case url_parse env u of Inl _ \<Rightarrow> Panic | Inr v \<Rightarrow> Ok v)"

definition NewOCMNotifier ::
    "'s notifier_builder \<Rightarrow> URL \<Rightarrow> bool \<Rightarrow> ('s, MuoState \<Rightarrow> string \<Rightarrow> ('s, unit) op) op" where
  "NewOCMNotifier nb base isEnabled s =
     bindO (new_ocm_client (nb_ocm nb) base s) (\<lambda>ocm s.
       (Ok (ocm_NotifyState \<lparr>n_rt = nb_rt nb, n_env = net_env (oe_net (nb_ocm nb)), n_uc = nb_uc nb\<rparr> ocm
              isEnabled (state_order nb)), s))"

definition readNotifierConfig :: "'s notifier_builder \<Rightarrow> ('s, string) op" where
  "readNotifierConfig nb = read_config (nb_rt nb) (nb_cm nb) (decode_source nb) NotifierConfig_IsValid"

definition readOcmFeatureGate :: "'s notifier_builder \<Rightarrow> ('s, string list) op" where
  "readOcmFeatureGate nb = read_config (nb_rt nb) (nb_cm nb) (decode_features nb) (\<lambda>_. Ok ())"

definition readOcmNotifierConfig :: "'s notifier_builder \<Rightarrow> ('s, string) op" where
  "readOcmNotifierConfig nb =
     read_config (nb_rt nb) (nb_cm nb) (decode_base_url nb) (base_url_IsValid (nb_ocm nb))"

definition notifier_New :: "'s notifier_builder \<Rightarrow> ('s, MuoState \<Rightarrow> string \<Rightarrow> ('s, unit) op) op" where
  "notifier_New nb s =
     bindO (readNotifierConfig nb s) (\<lambda>source s.
     bindO (readOcmFeatureGate nb s) (\<lambda>features s.
       let enabled = isOCMFeatureEnabled features ServiceLogNotificationFeatureGate
       in if ToUpper source = ''OCM''
          then bindO (readOcmNotifierConfig nb s) (\<lambda>u s.
               bindO (GetOCMBaseURL (nb_ocm nb) u, s) (\<lambda>base s. NewOCMNotifier nb base enabled s))
          else (Ok log_NotifyState, s)))"

section \<open>The event manager's builder\<close>

definition eventManager_NewManager :: "'s notifier_builder \<Rightarrow> ('s, 's eventManager) op" where
  "eventManager_NewManager nb s =
     bindO (metrics_NewClient (oe_net (nb_ocm nb)) s) (\<lambda>m s.
     bindO (notifier_New nb s) (\<lambda>notify s.
       (Ok \<lparr>em_rt = nb_rt nb, em_env = net_env (oe_net (nb_ocm nb)), em_uc = nb_uc nb, em_metrics = m,
            em_NotifyState = notify\<rparr>, s)))"

section \<open>Lemmas\<close>

text \<open>The handshake of a connection to OCM is given 10 seconds, not the 30 of the constant meant for it.\<close>

lemma ocm_handshake: "coTLSHandshakeTimeout (ocm_options env base at) \<noteq> TLS_HANDSHAKE_TIMEOUT"
  by (simp add: ocm_options_def TLS_HANDSHAKE_TIMEOUT_def)

lemma request_failed_Ok_iff [simp]: "request_failed rt what u r = (Ok a, s) \<longleftrightarrow> r = (Ok a, s)"
  by (auto simp: request_failed_def split: prod.splits outcome.splits)

lemma check_status_Ok_iff [simp]: "check_status before after r = Ok a \<longleftrightarrow> rStatus r < 400 \<and> rBody r = a"
  by (auto simp: check_status_def)

end
