(* ===== verification/Providers.thy ===== *)
theory Providers
  imports Ocm_Clients
begin

text \<open>
  Where upgrade specs come from (\<open>pkg/specprovider\<close>, \<open>pkg/ocmprovider\<close>, \<open>pkg/localprovider\<close>): the
  upgrade policies of OCM, or the UpgradeConfig on the cluster itself.
\<close>

section \<open>The OCM provider\<close>

text \<open>The nil policy of an empty page reads as zero values.\<close>

definition nil_policy :: UpgradePolicy where
  "nil_policy = \<lparr>pID = [], pVersion = [], pNextRun = zero_time, pNextRunZone = 0\<rparr>"

definition getNextOccurringUpgradePolicy :: "UpgradePolicies \<Rightarrow> UpgradePolicy" where
  "getNextOccurringUpgradePolicy ups =
     fold (\<lambda>up best. if pNextRun up < pNextRun best then up else best) (upItems ups)
       (case upItems ups of [] \<Rightarrow> nil_policy | p # _ \<Rightarrow> p)"

definition isActionableUpgradePolicy :: "UpgradePolicy \<Rightarrow> UpgradePolicyState \<Rightarrow> bool" where
  "isActionableUpgradePolicy up state =
     (let v = ToLower (psValue state)
      in if v = ''pending'' \<or> v = ''completed'' \<or> v = ''cancelled'' then False
         else \<not> length (pVersion up) = 0)"

definition inferUpgradeChannelFromChannelGroup :: "semver_lib \<Rightarrow> string \<Rightarrow> string \<Rightarrow> string outcome" where
  "inferUpgradeChannelFromChannelGroup lib channelGroup toVersion =
     (let grp = (if channelGroup = [] then ''stable'' else channelGroup)
      in case semver_Parse lib toVersion of
           Inl _ \<Rightarrow> Err (Errorf (''invalid semantic TO version: '' @ toVersion))
         | Inr sv \<Rightarrow>
             let minor = (if grp = ''eus'' \<and> Minor sv mod 2 \<noteq> 0 then Minor sv + 1 else Minor sv)
             in Ok (grp @ ''-'' @ show_int (int (Major sv)) @ ''.'' @ show_int (int minor)))"

text \<open>The grace period becomes an \<open>int32\<close>; for a value that does not fit Go leaves the result open, here it wraps.\<close>

definition buildUpgradeConfigSpecs ::
    "semver_lib \<Rightarrow> UpgradePolicy \<Rightarrow> OcmCluster \<Rightarrow> UpgradeType \<Rightarrow> UpgradeConfigSpec list outcome" where
  "buildUpgradeConfigSpecs lib policy cluster upgradeType =
     (case inferUpgradeChannelFromChannelGroup lib (ocChannelGroup cluster) (pVersion policy) of
        Ok channel \<Rightarrow>
          Ok [\<lparr>Desired = \<lparr>dVersion = pVersion policy, dChannel = channel, dImage = []\<rparr>,
               UpgradeAt = Format_RFC3339 (pNextRun policy) (pNextRunZone policy),
               PDBForceDrainTimeout = wrap32 (ocNodeDrainGracePeriod cluster),
               UType = upgradeType, CapacityReservation = True\<rparr>]
      | _ \<Rightarrow> Err (Errorf (''unable to determine channel from channel group '' @ ocChannelGroup cluster @
               '' and version '' @ pVersion policy @ '' for policy ID '' @ pID policy)))"

definition ocmProvider_Get ::
    "semver_lib \<Rightarrow> 's OcmClient \<Rightarrow> UpgradeType \<Rightarrow> ('s, UpgradeConfigSpec list) op" where
  "ocmProvider_Get lib ocm upgradeType s =
     (case GetCluster ocm s of
        (Panic, s) \<Rightarrow> (Panic, s)
      | (Err e, s) \<Rightarrow> (Err (if e = ErrClusterIdNotFound then e else ErrProviderUnavailable), s)
      | (Ok cluster, s) \<Rightarrow>
          if ocID cluster = [] then (Err ErrClusterIdNotFound, s)
          else case GetClusterUpgradePolicies ocm (ocID cluster) s of
                 (Panic, s) \<Rightarrow> (Panic, s)
               | (Err _, s) \<Rightarrow> (Err ErrRetrievingPolicies, s)
               | (Ok policies, s) \<Rightarrow>
                   if upTotal policies > 0
                   then let policy = getNextOccurringUpgradePolicy policies
                        in bindO (GetClusterUpgradePolicyState ocm (pID policy) (ocID cluster) s) (\<lambda>state s.
                             if \<not> isActionableUpgradePolicy policy state then (Ok [], s)
                             else case buildUpgradeConfigSpecs lib policy cluster upgradeType of
                                    Ok specs \<Rightarrow> (Ok specs, s)
                                  | _ \<Rightarrow> (Err ErrProcessingPolicies, s))
                   else (Ok [], s))"

section \<open>The local provider\<close>

definition LocalProviderConfig_IsValid :: "string \<Rightarrow> unit outcome" where
  "LocalProviderConfig_IsValid n =
     (if n \<noteq> UPGRADECONFIG_CR_NAME
      then Err (Errorf (''please use '' @ UPGRADECONFIG_CR_NAME @ '' as the upgrade config name'')) else Ok ())"

definition readSpecFromConfig :: "UpgradeConfig list \<Rightarrow> UpgradeConfigSpec list" where
  "readSpecFromConfig ucs =
     map Spec (filter (\<lambda>u. case GetHistory (History u) (desired_version u) of
                             None \<Rightarrow> False
                           | Some h \<Rightarrow> Phase h \<noteq> Upgraded) ucs)"

definition fetchUpgradeConfigs :: "environ \<Rightarrow> 's uc_api \<Rightarrow> ('s, UpgradeConfig list) op" where
  "fetchUpgradeConfigs env api s =
     bindO (GetOperatorNamespace env, s) (\<lambda>ns s. call (list_ucs api UPGRADECONFIG_CR_NAME ns) s)"

definition localProvider_Get :: "environ \<Rightarrow> 's uc_api \<Rightarrow> ('s, UpgradeConfigSpec list) op" where
  "localProvider_Get env api s =
     bindO (fetchUpgradeConfigs env api s) (\<lambda>ucs s. (Ok (readSpecFromConfig ucs), s))"

section \<open>The spec provider\<close>

record SpecProviderConfig =
  spUpgradeType :: string
  spSource :: string

fun UpgradeType_of :: "string \<Rightarrow> UpgradeType" where
  "UpgradeType_of t = (if t = ''OSD'' then OSD else if t = ''ARO'' then ARO else OtherType t)"

definition SpecProviderConfig_IsValid :: "SpecProviderConfig \<Rightarrow> unit outcome" where
  "SpecProviderConfig_IsValid cfg =
     (if spSource cfg = [] then Err ErrNoSpecProviderConfig
      else if ToUpper (spSource cfg) \<noteq> ''OCM'' \<and> ToUpper (spSource cfg) \<noteq> ''LOCAL'' then Err ErrInvalidSpecProvider
      else if UpgradeType_of (spUpgradeType cfg) = ARO \<or> UpgradeType_of (spUpgradeType cfg) = OSD \<or> spUpgradeType cfg = []
      then Ok () else Err ErrInvalidSpecProvider)"

definition GetUpgradeType :: "SpecProviderConfig \<Rightarrow> UpgradeType" where
  "GetUpgradeType cfg = (if length (spUpgradeType cfg) = 0 then ARO else UpgradeType_of (spUpgradeType cfg))"

record 's spec_env =
  se_nb :: "'s notifier_builder"
  se_semver :: semver_lib
  decode_spec_config :: "string \<Rightarrow> goerr + SpecProviderConfig"
  decode_local_name :: "string \<Rightarrow> goerr + string"

abbreviation se_ocm :: "'s spec_env \<Rightarrow> 's ocm_env" where
  "se_ocm se \<equiv> nb_ocm (se_nb se)"

definition readSpecProviderConfig :: "'s spec_env \<Rightarrow> ('s, SpecProviderConfig) op" where
  "readSpecProviderConfig se =
     read_config (nb_rt (se_nb se)) (nb_cm (se_nb se)) (decode_spec_config se) SpecProviderConfig_IsValid"

definition OcmProviderConfig_IsValid :: "'s ocm_env \<Rightarrow> string \<Rightarrow> unit outcome" where
  "OcmProviderConfig_IsValid env u =
     (case url_parse env u of
        Inl _ \<Rightarrow> Err (Errorf ''OCM Base URL is not a parseable URL'')
      | Inr _ \<Rightarrow> Ok ())"

definition OcmProviderConfig_GetOCMBaseURL :: "'s ocm_env \<Rightarrow> string \<Rightarrow> URL outcome" where
  "OcmProviderConfig_GetOCMBaseURL env u = (case url_parse env u of Inl _ \<Rightarrow> Panic | Inr v \<Rightarrow> Ok v)"

definition readOcmProviderConfig :: "'s spec_env \<Rightarrow> ('s, string) op" where
  "readOcmProviderConfig se =
     read_config (nb_rt (se_nb se)) (nb_cm (se_nb se)) (decode_base_url (se_nb se)) (OcmProviderConfig_IsValid (se_ocm se))"

definition readLocalProviderConfig :: "'s spec_env \<Rightarrow> ('s, string) op" where
  "readLocalProviderConfig se =
     read_config (nb_rt (se_nb se)) (nb_cm (se_nb se)) (decode_local_name se) LocalProviderConfig_IsValid"

definition ocmprovider_New :: "'s spec_env \<Rightarrow> UpgradeType \<Rightarrow> URL \<Rightarrow> ('s, ('s, UpgradeConfigSpec list) op) op" where
  "ocmprovider_New se t base s =
     bindO (new_ocm_client (se_ocm se) base s) (\<lambda>ocm s. (Ok (ocmProvider_Get (se_semver se) ocm t), s))"

text \<open>A provider is its \<open>Get\<close>.\<close>

definition specprovider_New :: "'s spec_env \<Rightarrow> ('s, ('s, UpgradeConfigSpec list) op) op" where
  "specprovider_New se s =
     bindO (readSpecProviderConfig se s) (\<lambda>cfg s.
       if ToUpper (spSource cfg) = ''OCM''
       then bindO (readOcmProviderConfig se s) (\<lambda>u s.
            bindO (OcmProviderConfig_GetOCMBaseURL (se_ocm se) u, s) (\<lambda>base s. ocmprovider_New se (GetUpgradeType cfg) base s))
       else if ToUpper (spSource cfg) = ''LOCAL''
       then bindO (readLocalProviderConfig se s) (\<lambda>_ s.
              (Ok (localProvider_Get (net_env (oe_net (se_ocm se))) (nb_uc (se_nb se))), s))
       else (Err ErrInvalidSpecProvider, s))"

section \<open>Lemmas\<close>

abbreviation earlier :: "UpgradePolicy \<Rightarrow> UpgradePolicy \<Rightarrow> UpgradePolicy" where
  "earlier up best \<equiv> (if pNextRun up < pNextRun best then up else best)"

lemma fold_earlier_kept: "\<forall>q \<in> set ups. pNextRun p \<le> pNextRun q \<Longrightarrow> fold earlier ups p = p"
  by (induction ups) auto

lemma fold_earlier_later:
  "pNextRun p < pNextRun best \<Longrightarrow> \<forall>q \<in> set ups. pNextRun p < pNextRun q \<Longrightarrow> pNextRun p < pNextRun (fold earlier ups best)"
  by (induction ups arbitrary: best) auto

text \<open>The policy that runs first, and the first of the page among those that run at the same time.\<close>

definition runs_first :: "UpgradePolicies \<Rightarrow> UpgradePolicy \<Rightarrow> bool" where
  "runs_first ups p \<longleftrightarrow>
     (\<exists>xs ys. upItems ups = xs @ p # ys \<and> (\<forall>q \<in> set xs. pNextRun p < pNextRun q) \<and> (\<forall>q \<in> set ys. pNextRun p \<le> pNextRun q))"

lemma getNextOccurringUpgradePolicy_first:
  assumes "runs_first ups p"
  shows "getNextOccurringUpgradePolicy ups = p"
proof -
  obtain xs ys where ups: "upItems ups = xs @ p # ys" and q: "\<forall>q \<in> set xs. pNextRun p < pNextRun q" "\<forall>q \<in> set ys. pNextRun p \<le> pNextRun q"
    using assms by (auto simp: runs_first_def)
  show ?thesis
  proof (cases xs)
    case Nil
    then show ?thesis using ups fold_earlier_kept [OF q(2)] by (simp add: getNextOccurringUpgradePolicy_def)
  next
    case (Cons x zs)
    then have "pNextRun p < pNextRun (fold earlier xs x)" using fold_earlier_later [of p x xs] q(1) by simp
    then show ?thesis using ups Cons fold_earlier_kept [OF q(2)] by (simp add: getNextOccurringUpgradePolicy_def)
  qed
qed

lemma runs_first_exists:
  assumes "upItems ups \<noteq> []"
  shows "\<exists>p. runs_first ups p"
proof -
  have "\<exists>p \<in> set (upItems ups). \<forall>q \<in> set (upItems ups). pNextRun p \<le> pNextRun q"
    using assms by (intro bexI [of _ "arg_min_list pNextRun (upItems ups)"]) (auto simp: f_arg_min_list_f arg_min_list_in)
  from split_list_first_prop [OF this] obtain xs p ys where "upItems ups = xs @ p # ys"
    and "\<forall>q \<in> set (upItems ups). pNextRun p \<le> pNextRun q" "\<forall>x \<in> set xs. \<not> (\<forall>q \<in> set (upItems ups). pNextRun x \<le> pNextRun q)"
    by auto
  then have "runs_first ups p" unfolding runs_first_def by (intro exI [of _ xs] exI [of _ ys]) fastforce
  then show ?thesis by blast
qed

lemma getNextOccurringUpgradePolicy_iff: "upItems ups \<noteq> [] \<Longrightarrow> getNextOccurringUpgradePolicy ups = p \<longleftrightarrow> runs_first ups p"
  using getNextOccurringUpgradePolicy_first runs_first_exists by blast

lemma nil_policy_not_actionable: "upItems ups = [] \<Longrightarrow> \<not> isActionableUpgradePolicy (getNextOccurringUpgradePolicy ups) st"
  by (simp add: getNextOccurringUpgradePolicy_def nil_policy_def isActionableUpgradePolicy_def Let_def)

lemma isActionableUpgradePolicy_iff:
  "isActionableUpgradePolicy p st \<longleftrightarrow> ToLower (psValue st) \<notin> {''pending'', ''completed'', ''cancelled''} \<and> pVersion p \<noteq> []"
  by (auto simp: isActionableUpgradePolicy_def Let_def)

lemma buildUpgradeConfigSpecs_Ok_iff:
  "buildUpgradeConfigSpecs lib p cluster t = Ok specs \<longleftrightarrow>
     (\<exists>channel. inferUpgradeChannelFromChannelGroup lib (ocChannelGroup cluster) (pVersion p) = Ok channel \<and>
        specs = [\<lparr>Desired = \<lparr>dVersion = pVersion p, dChannel = channel, dImage = []\<rparr>,
                  UpgradeAt = Format_RFC3339 (pNextRun p) (pNextRunZone p),
                  PDBForceDrainTimeout = wrap32 (ocNodeDrainGracePeriod cluster), UType = t, CapacityReservation = True\<rparr>])"
  by (auto simp: buildUpgradeConfigSpecs_def split: outcome.splits)

lemma buildUpgradeConfigSpecs_Ok:
  assumes "buildUpgradeConfigSpecs lib policy cluster t = Ok specs"
  shows "length specs = 1 \<and> UType (hd specs) = t \<and> dVersion (Desired (hd specs)) = pVersion policy \<and>
    UpgradeAt (hd specs) = Format_RFC3339 (pNextRun policy) (pNextRunZone policy) \<and>
    inferUpgradeChannelFromChannelGroup lib (ocChannelGroup cluster) (pVersion policy) =
      Ok (dChannel (Desired (hd specs)))"
  using assms by (auto simp: buildUpgradeConfigSpecs_Ok_iff)

lemma ocmProvider_Get_some_iff:
  assumes "specs \<noteq> []"
  shows "ocmProvider_Get lib ocm t s = (Ok specs, s') \<longleftrightarrow>
    (\<exists>cluster ups state s1 s2. GetCluster ocm s = (Ok cluster, s1) \<and> ocID cluster \<noteq> [] \<and>
       GetClusterUpgradePolicies ocm (ocID cluster) s1 = (Ok ups, s2) \<and> 0 < upTotal ups \<and>
       GetClusterUpgradePolicyState ocm (pID (getNextOccurringUpgradePolicy ups)) (ocID cluster) s2 = (Ok state, s') \<and>
       isActionableUpgradePolicy (getNextOccurringUpgradePolicy ups) state \<and>
       buildUpgradeConfigSpecs lib (getNextOccurringUpgradePolicy ups) cluster t = Ok specs)"
    (is "?run \<longleftrightarrow> ?parts")
proof
  assume ?run
  then obtain cluster s1 where c: "GetCluster ocm s = (Ok cluster, s1)" "ocID cluster \<noteq> []"
    by (auto simp: ocmProvider_Get_def split: outcome.splits prod.splits if_splits)
  with \<open>?run\<close> obtain ups s2 where p: "GetClusterUpgradePolicies ocm (ocID cluster) s1 = (Ok ups, s2)"
    by (cases "GetClusterUpgradePolicies ocm (ocID cluster) s1") (auto simp: ocmProvider_Get_def split: outcome.splits)
  with \<open>?run\<close> c assms have t: "0 < upTotal ups" by (auto simp: ocmProvider_Get_def split: if_splits)
  with \<open>?run\<close> c p assms show ?parts
    by (cases "buildUpgradeConfigSpecs lib (getNextOccurringUpgradePolicy ups) cluster t")
       (auto simp: ocmProvider_Get_def Let_def bindO_Ok_iff split: if_splits)
next
  assume ?parts
  then show ?run by (auto simp: ocmProvider_Get_def)
qed

section \<open>Properties\<close>

text \<open>
  C23: The OCM provider yields a spec exactly when the cluster is known, OCM counts a policy for it, the policy of the returned page that runs
  first (the first of the page among those that run at the same time) is neither pending, completed nor cancelled in OCM, has a
  version, and the channel for that version can be inferred from the cluster's channel group. It is then the one
  spec with that version, that channel, that policy's time and zone, the cluster's drain grace period and the configured type. The
  clients ask for a page of one policy, so the policy compared here is the first one OCM lists.
\<close>

theorem provider_schedules_earliest:
  assumes "specs \<noteq> []"
  shows "ocmProvider_Get lib ocm t s = (Ok specs, s') \<longleftrightarrow>
    (\<exists>cluster ups xs p ys state channel s1 s2. GetCluster ocm s = (Ok cluster, s1) \<and> ocID cluster \<noteq> [] \<and>
       GetClusterUpgradePolicies ocm (ocID cluster) s1 = (Ok ups, s2) \<and> 0 < upTotal ups \<and>
       upItems ups = xs @ p # ys \<and> (\<forall>q \<in> set xs. pNextRun p < pNextRun q) \<and> (\<forall>q \<in> set ys. pNextRun p \<le> pNextRun q) \<and>
       GetClusterUpgradePolicyState ocm (pID p) (ocID cluster) s2 = (Ok state, s') \<and>
       ToLower (psValue state) \<notin> {''pending'', ''completed'', ''cancelled''} \<and> pVersion p \<noteq> [] \<and>
       inferUpgradeChannelFromChannelGroup lib (ocChannelGroup cluster) (pVersion p) = Ok channel \<and>
       specs = [\<lparr>Desired = \<lparr>dVersion = pVersion p, dChannel = channel, dImage = []\<rparr>,
                 UpgradeAt = Format_RFC3339 (pNextRun p) (pNextRunZone p),
                 PDBForceDrainTimeout = wrap32 (ocNodeDrainGracePeriod cluster), UType = t, CapacityReservation = True\<rparr>])"
    (is "?run \<longleftrightarrow> ?spec")
proof
  assume ?run
  then obtain cluster ups state s1 s2 where r: "GetCluster ocm s = (Ok cluster, s1)" "ocID cluster \<noteq> []"
    "GetClusterUpgradePolicies ocm (ocID cluster) s1 = (Ok ups, s2)" "0 < upTotal ups"
    "GetClusterUpgradePolicyState ocm (pID (getNextOccurringUpgradePolicy ups)) (ocID cluster) s2 = (Ok state, s')"
    "isActionableUpgradePolicy (getNextOccurringUpgradePolicy ups) state"
    "buildUpgradeConfigSpecs lib (getNextOccurringUpgradePolicy ups) cluster t = Ok specs"
    unfolding ocmProvider_Get_some_iff [OF assms] by blast
  have "runs_first ups (getNextOccurringUpgradePolicy ups)"
    using r(6) nil_policy_not_actionable getNextOccurringUpgradePolicy_iff by blast
  then show ?spec
    using r unfolding runs_first_def isActionableUpgradePolicy_iff buildUpgradeConfigSpecs_Ok_iff by blast
next
  assume ?spec
  then obtain cluster ups xs p ys state channel s1 s2 where r: "GetCluster ocm s = (Ok cluster, s1)" "ocID cluster \<noteq> []"
    "GetClusterUpgradePolicies ocm (ocID cluster) s1 = (Ok ups, s2)" "0 < upTotal ups"
    "GetClusterUpgradePolicyState ocm (pID p) (ocID cluster) s2 = (Ok state, s')"
    "isActionableUpgradePolicy p state" "buildUpgradeConfigSpecs lib p cluster t = Ok specs" "runs_first ups p"
    unfolding runs_first_def isActionableUpgradePolicy_iff buildUpgradeConfigSpecs_Ok_iff by blast
  then show ?run
    unfolding ocmProvider_Get_some_iff [OF assms] getNextOccurringUpgradePolicy_first [OF r(8), symmetric] by blast
qed

theorem provider_schedules_earliest_witness:
  "let spec = \<lparr>Desired = \<lparr>dVersion = ''4.14.2'', dChannel = ''stable-4.14'', dImage = []\<rparr>,
               UpgradeAt = Format_RFC3339 (600 * Second) 0, PDBForceDrainTimeout = 60, UType = OSD, CapacityReservation = True\<rparr>
   in ocmProvider_Get \<lparr>semver_Parse = (\<lambda>_. Inr \<lparr>Major = 4, Minor = 14, svRest = []\<rparr>), semver_Compare = (\<lambda>_ _. 0)\<rparr>
        (sample_ocm ''scheduled'') OSD 0 = (Ok [spec], 0)"
proof -
  let ?lib = "\<lparr>semver_Parse = (\<lambda>_. Inr \<lparr>Major = 4, Minor = 14, svRest = []\<rparr>), semver_Compare = (\<lambda>_ _. 0)\<rparr>"
  have n: "show_int 4 = ''4''" "show_int 14 = ''14''" by code_simp+
  have channel: "inferUpgradeChannelFromChannelGroup ?lib ''stable'' v = Ok ''stable-4.14''" for v
    unfolding inferUpgradeChannelFromChannelGroup_def by (simp add: n)
  have low: "ToLower ''scheduled'' = ''scheduled''" by code_simp
  show ?thesis
    unfolding Let_def
    by (subst provider_schedules_earliest, simp)
       (rule exI [of _ "\<lparr>ocID = ''c1'', ocChannelGroup = ''stable'', ocNodeDrainGracePeriod = 60\<rparr>"],
        rule exI [of _ "\<lparr>upTotal = 1, upItems = [sample_policy]\<rparr>"], rule exI [of _ "[]"], rule exI [of _ sample_policy],
        rule exI [of _ "[]"], rule exI [of _ "\<lparr>psValue = ''scheduled'', psDescription = []\<rparr>"],
        rule exI [of _ "''stable-4.14''"], rule exI [of _ 0], rule exI [of _ 0],
        simp add: sample_ocm_def sample_policy_def channel low wrap32_def)
qed

end
