(* ===== verification/Uc_Manager.thy ===== *)
theory Uc_Manager
  imports Providers
begin

text \<open>
  The UpgradeConfig manager (\<open>pkg/upgradeconfigmanager\<close>): pulling the specs of the provider and
  replacing the UpgradeConfig on the cluster, periodically and on demand. Polling for the deletion
  is bounded by the number of attempts its timeout leaves room for, the field \<open>poll_attempts\<close>; the
  world may change while it sleeps. The jitter is computed in 64-bit floating point (\<open>Go_Std\<close>).
\<close>

section \<open>The jitter\<close>

text \<open>The jitter factor 0.1 as a double, and \<open>1 - factor\<close> and \<open>1 + factor\<close> with their exponent -55.\<close>

definition JITTER_FACTOR :: int where
  "JITTER_FACTOR = 3602879701896397"

definition jitter_min :: "duration \<Rightarrow> int" where
  "jitter_min t = float_floor (float_mult (round53 t 0) (round53 (2 ^ 55 - JITTER_FACTOR) (- 55)))"

definition jitter_max :: "duration \<Rightarrow> int" where
  "jitter_max t = float_ceil (float_mult (round53 t 0) (round53 (2 ^ 55 + JITTER_FACTOR) (- 55)))"

definition INITIAL_SYNC_DURATION :: duration where
  "INITIAL_SYNC_DURATION = Minute"

section \<open>Environment\<close>

text \<open>
  \<open>rand_Int63n\<close> of a source seeded with the clock; \<open>sleep_until\<close> lets time pass;
  \<open>backoff_duration n\<close> is the n-th duration of the back-off counter.
\<close>

record 'w ucm_env =
  um_spec :: "'w spec_env"
  um_decode :: "string \<Rightarrow> goerr + int"
  poll_attempts :: nat
  um_sleep :: "duration \<Rightarrow> 'w \<Rightarrow> 'w"
  rand_seeded :: "instant \<Rightarrow> int \<Rightarrow> int"
  backoff_duration :: "nat \<Rightarrow> duration"

abbreviation um_uc :: "'w ucm_env \<Rightarrow> 'w uc_api" where
  "um_uc um \<equiv> nb_uc (se_nb (um_spec um))"

abbreviation um_env :: "'w ucm_env \<Rightarrow> environ" where
  "um_env um \<equiv> net_env (oe_net (se_ocm (um_spec um)))"

abbreviation um_rt :: "'w ucm_env \<Rightarrow> 'w runtime" where
  "um_rt um \<equiv> nb_rt (se_nb (um_spec um))"

definition UpgradeConfigManagerConfig_IsValid :: "int \<Rightarrow> unit outcome" where
  "UpgradeConfigManagerConfig_IsValid watchInterval =
     (if watchInterval \<le> 0 then Err ErrNoConfigManagerDefined else Ok ())"

definition GetWatchInterval :: "int \<Rightarrow> duration" where
  "GetWatchInterval watchInterval = minutes watchInterval"

definition readConfigManagerConfig :: "'w ucm_env \<Rightarrow> ('w, int) op" where
  "readConfigManagerConfig um =
     read_config (um_rt um) (nb_cm (se_nb (um_spec um))) (um_decode um) UpgradeConfigManagerConfig_IsValid"

definition durationWithJitter :: "'w ucm_env \<Rightarrow> duration \<Rightarrow> 'w \<Rightarrow> duration \<times> 'w" where
  "durationWithJitter um t s =
     (let (now, s) = time_now (um_rt um) s; lo = jitter_min t; hi = jitter_max t
      in (rand_seeded um now (hi - lo) + lo, s))"

section \<open>Refresh\<close>

fun poll :: "(duration \<Rightarrow> 'w \<Rightarrow> 'w) \<Rightarrow> nat \<Rightarrow> ('w, bool) op \<Rightarrow> ('w, unit) op" where
  "poll sleep 0 f s = (Err (Errorf ''context deadline exceeded''), s)"
| "poll sleep (Suc n) f s =
     bindO (f s) (\<lambda>finished s. if finished then (Ok (), s) else poll sleep n f (sleep (5 * Second) s))"

definition deletion_confirmed :: "'w ucm_env \<Rightarrow> ('w, bool) op" where
  "deletion_confirmed um s =
     (case ucm_Get (um_env um) (um_uc um) s of
        (Ok _, s) \<Rightarrow> (Ok False, s)
      | (Err e, s) \<Rightarrow> if e = ErrUpgradeConfigNotFound then (Ok True, s) else (Err e, s)
      | (Panic, s) \<Rightarrow> (Panic, s))"

text \<open>The error of \<open>Delete\<close> is one of the API server; it is compared with an error of this package.\<close>

definition recreateUpgradeConfigOnChange ::
    "'w ucm_env \<Rightarrow> bool \<Rightarrow> UpgradeConfig \<Rightarrow> UpgradeConfig \<Rightarrow> ('w, unit) op" where
  "recreateUpgradeConfigOnChange um found existing new s =
     bindO
       (if found
        then (case delete_uc (um_uc um) existing s of
                (Inl e, s) \<Rightarrow>
                  if e = ErrUpgradeConfigNotFound then (Ok (), s) else (Err ErrRemovingUpgradeConfig, s)
              | (Inr _, s) \<Rightarrow>
                  wrap_err (um_rt um) ''unable to confirm deletion of current UpgradeConfig: ''
                    (poll (um_sleep um) (poll_attempts um) (deletion_confirmed um) s))
        else (Ok (), s))
       (\<lambda>_ s. wrap_err (um_rt um) ''unable to apply UpgradeConfig changes: '' (call (create_uc (um_uc um) new) s))"

definition empty_uc :: UpgradeConfig where
  "empty_uc =
     \<lparr>ucName = [], ucNamespace = [],
      Spec = \<lparr>Desired = \<lparr>dVersion = [], dChannel = [], dImage = []\<rparr>, UpgradeAt = [], PDBForceDrainTimeout = 0,
              UType = OtherType [], CapacityReservation = False\<rparr>,
      History = []\<rparr>"

definition apply_specs ::
    "'w ucm_env \<Rightarrow> string \<Rightarrow> bool \<Rightarrow> UpgradeConfig \<Rightarrow> UpgradeConfigSpec list \<Rightarrow> ('w, bool) op" where
  "apply_specs um ns found current specs s =
     (case specs of
        [] \<Rightarrow>
          if found
          then (case delete_uc (um_uc um) current s of
                  (Inl _, s) \<Rightarrow> (Err ErrRemovingUpgradeConfig, s)
                | (Inr _, s) \<Rightarrow> (Ok True, s))
          else (Ok False, s)
      | spec # _ \<Rightarrow>
          let new = empty_uc\<lparr>ucName := UPGRADECONFIG_CR_NAME, ucNamespace := ns, Spec := spec\<rparr>;
              changed = (Spec new \<noteq> Spec current)
          in if changed
             then bindO (recreateUpgradeConfigOnChange um found current new s) (\<lambda>_ s. (Ok True, s))
             else (Ok False, s))"

definition Refresh :: "'w ucm_env \<Rightarrow> ('w, bool) op" where
  "Refresh um s =
     (case GetOperatorNamespace (um_env um) of
        Ok operatorNS \<Rightarrow>
          bindO (case ucm_Get (um_env um) (um_uc um) s of
                   (Ok uc, s) \<Rightarrow> (Ok (uc, True), s)
                 | (Err e, s) \<Rightarrow> if e = ErrUpgradeConfigNotFound then (Ok (empty_uc, False), s) else (Err e, s)
                 | (Panic, s) \<Rightarrow> (Panic, s)) (\<lambda>(current, found) s.
            case specprovider_New (um_spec um) s of
              (Panic, s) \<Rightarrow> (Panic, s)
            | (Err e, s) \<Rightarrow> (Err (if e = ErrNoSpecProviderConfig then ErrNotConfigured else e), s)
            | (Ok provider, s) \<Rightarrow>
                (case provider s of
                   (Panic, s) \<Rightarrow> (Panic, s)
                 | (Err _, s) \<Rightarrow> (Err ErrProviderSpecPull, s)
                 | (Ok specs, s) \<Rightarrow> apply_specs um operatorNS found current specs s))
      | _ \<Rightarrow> (Err ErrMissingOperatorNamespace, s))"

section \<open>Is an upgrade in progress?\<close>

text \<open>The last history of the desired version decides.\<close>

definition getCurrentUpgradeConfigPhase :: "UpgradeConfig \<Rightarrow> UpgradePhase" where
  "getCurrentUpgradeConfigPhase uc =
     (case fold (\<lambda>h found. if Version h = desired_version uc then Some h else found) (History uc) None of
        None \<Rightarrow> UnknownPhase
      | Some h \<Rightarrow> Phase h)"

definition upgradeInProgress :: "'w cv_api \<Rightarrow> UpgradeConfig \<Rightarrow> ('w, bool) op" where
  "upgradeInProgress api uc s =
     (if getCurrentUpgradeConfigPhase uc = Upgrading \<and>
         (case GetHistory (History uc) (desired_version uc) of
            None \<Rightarrow> False
          | Some h \<Rightarrow> list_ex (\<lambda>c. CStatus c = CTrue) (HConditions h))
      then (Ok True, s)
      else case GetClusterVersion api s of
             (Panic, s) \<Rightarrow> (Panic, s)
           | (Err _, s) \<Rightarrow> (Err (Errorf ''can't determine cluster version''), s)
           | (Ok cv, s) \<Rightarrow>
               (Ok (list_ex (\<lambda>c. scType c = ''Progressing'' \<and> scStatus c = CTrue) (cvConditions cv)), s))"

section \<open>The sync loop\<close>

text \<open>
  The loop of \<open>StartSync\<close> once its configuration is read: the timer, the back-off counter and the
  system. The timer fires, or the stop channel is closed: \<open>break\<close> then leaves the \<open>select\<close> and the
  loop goes on with the timer reset.
\<close>

record 'w sync_state =
  ss_timer :: duration
  ss_attempt :: nat
  ss_sys :: "'w sys"

definition sync_timeout :: "'w ucm_env \<Rightarrow> int \<Rightarrow> 'w sync_state \<Rightarrow> 'w sync_state outcome" where
  "sync_timeout um watchInterval st =
     (case lift (Refresh um) (ss_sys st) of
        (Panic, s) \<Rightarrow> Panic
      | (Err _, s) \<Rightarrow>
          let (d, s) = lift (durationWithJitter um (backoff_duration um (ss_attempt st))) s
          in Ok \<lparr>ss_timer = d, ss_attempt = Suc (ss_attempt st), ss_sys = s\<rparr>
      | (Ok _, s) \<Rightarrow>
          let (now, s) = lift (time_now (um_rt um)) s;
              s = UpdateMetricUpgradeConfigSyncTimestamp UPGRADECONFIG_CR_NAME now s;
              (d, s) = lift (durationWithJitter um (GetWatchInterval watchInterval)) s
          in Ok \<lparr>ss_timer = d, ss_attempt = 0, ss_sys = s\<rparr>)"

text \<open>
  One turn of the loop; the flag says that the stop channel is closed. On the closed channel the \<open>break\<close> leaves the
  \<open>select\<close> only, so the loop goes on, with a turn for the channel at once and a reset of the timer each time. As the timer is reset
  over and over it hardly ever expires then; the rule \<open>timeout\<close>, which stays possible, covers more runs than occur, and
  what is shown of all runs holds for those that do.
\<close>

inductive sync_step :: "'w ucm_env \<Rightarrow> int \<Rightarrow> bool \<times> 'w sync_state \<Rightarrow> bool \<times> 'w sync_state \<Rightarrow> bool"
  for um watchInterval where
  timeout: "sync_timeout um watchInterval st = Ok st' \<Longrightarrow> sync_step um watchInterval (stopped, st) (stopped, st')"
| stop: "sync_step um watchInterval (True, st) (True, st)"
| close: "sync_step um watchInterval (False, st) (True, st)"

inductive_cases sync_step_True: "sync_step um wi (True, st) x"

text \<open>Reading the configuration is retried every minute until it succeeds; \<open>n\<close> bounds the attempts.\<close>

fun await_config :: "'w ucm_env \<Rightarrow> nat \<Rightarrow> 'w \<Rightarrow> int option \<times> 'w" where
  "await_config um 0 s = (None, s)"
| "await_config um (Suc n) s =
     (case readConfigManagerConfig um s of
        (Ok wi, s) \<Rightarrow> (Some wi, s)
      | (_, s) \<Rightarrow> await_config um n (um_sleep um Minute s))"

section \<open>Lemmas\<close>

lemma bit_length_bounds: "0 < m \<Longrightarrow> 2 ^ (bit_length m - 1) \<le> m \<and> m < 2 ^ bit_length m \<and> 0 < bit_length m"
proof (induction m rule: bit_length.induct)
  case (1 m)
  show ?case
  proof (cases "m div 2 > 0")
    case True
    then have IH: "2 ^ (bit_length (m div 2) - 1) \<le> m div 2" "m div 2 < 2 ^ bit_length (m div 2)"
        "0 < bit_length (m div 2)"
      using 1 by auto
    have "bit_length m = Suc (bit_length (m div 2))"
      using 1 by (subst bit_length.simps) simp
    moreover have "(2::int) ^ bit_length (m div 2) = 2 * 2 ^ (bit_length (m div 2) - 1)"
      using IH(3) by (metis Suc_pred' power_Suc)
    moreover have "x \<le> m div 2 \<Longrightarrow> m div 2 < 2 * x \<Longrightarrow> 2 * x \<le> m \<and> m < 4 * x" for x
      by presburger
    ultimately show ?thesis using IH by simp
  next
    case False
    then have "m = 1" using 1 by linarith
    then show ?thesis by (simp add: bit_length.simps)
  qed
qed

text \<open>Rounding to 53 bits errs by at most one part in \<open>2 ^ 53\<close>.\<close>

lemma round_half_even:
  fixes m :: int
  assumes "0 < k" "q' = (if m mod 2 ^ k > 2 ^ (k - 1) \<or> m mod 2 ^ k = 2 ^ (k - 1) \<and> m div 2 ^ k mod 2 = 1
                          then m div 2 ^ k + 1 else m div 2 ^ k)"
  shows "\<bar>q' * 2 ^ k - m\<bar> \<le> 2 ^ (k - 1)"
proof -
  let ?b = "(2::int) ^ k"
  have b: "?b = 2 * 2 ^ (k - 1)" using assms(1) by (cases k) auto
  have m: "m = m div ?b * ?b + m mod ?b" by (rule div_mult_mod_eq [symmetric])
  have r: "0 \<le> m mod ?b" "m mod ?b < ?b" by simp_all
  show ?thesis
  proof (cases "q' = m div ?b + 1")
    case True
    then have "2 ^ (k - 1) \<le> m mod ?b" using assms(2) by (auto split: if_splits)
    moreover have "q' * ?b - m = ?b - m mod ?b"
      using True m by (simp add: distrib_right)
    ultimately show ?thesis using r b by linarith
  next
    case False
    then have "m mod ?b \<le> 2 ^ (k - 1)" "q' = m div ?b" using assms(2) by (auto split: if_splits)
    moreover have "m - q' * ?b = m mod ?b" unfolding \<open>q' = m div ?b\<close> by (rule minus_div_mult_eq_mod)
    ultimately show ?thesis using r by linarith
  qed
qed

lemma round53_error:
  assumes "0 < m"
  obtains q k where "round53 m e = (q, e + int k)" "\<bar>q * 2 ^ k - m\<bar> * 2 ^ 53 \<le> m" "k = bit_length m - 53"
proof (cases "bit_length m \<le> 53")
  case True
  then show thesis using that [of m 0] assms by (simp add: round53_def)
next
  case False
  define k where "k = bit_length m - 53"
  define q where "q = fst (round53 m e)"
  have k: "0 < k" "bit_length m = k + 53" using False by (simp_all add: k_def)
  have rq: "round53 m e = (q, e + int k)" using False by (simp add: round53_def q_def k_def Let_def)
  have err: "\<bar>q * 2 ^ k - m\<bar> \<le> 2 ^ (k - 1)"
    by (rule round_half_even [OF k(1)]) (use False in \<open>simp add: q_def round53_def k_def Let_def\<close>)
  have "2 ^ (bit_length m - 1) \<le> m" using bit_length_bounds [OF assms] by simp
  moreover have "(2::int) ^ (bit_length m - 1) = 2 ^ (k - 1) * 2 ^ 53"
    unfolding power_add [symmetric] using k by simp
  ultimately have "2 ^ (k - 1) * 2 ^ 53 \<le> m" by simp
  then have "\<bar>q * 2 ^ k - m\<bar> * 2 ^ 53 \<le> m"
    using mult_right_mono [OF err, of "2 ^ 53"] by simp
  then show thesis using that [OF rq _ k_def] by simp
qed

text \<open>A duration times a factor \<open>c\<close> with exponent \<open>-n\<close>: the exact product, up to the rounding, over \<open>2 ^ n\<close>.\<close>

lemma jitter_product:
  assumes "0 < t" "t < 2 ^ 52" "0 < c" "c < 2 ^ 53" "52 \<le> n"
  obtains p where "float_floor (float_mult (round53 t 0) (c, - int n)) = p div 2 ^ n"
    "float_ceil (float_mult (round53 t 0) (c, - int n)) = - (- p div 2 ^ n)"
    "\<bar>p - t * c\<bar> * 2 ^ 53 \<le> t * c"
proof -
  have "bit_length t \<le> 53" using bit_length_le [of t 52] assms by simp
  then have t: "round53 t 0 = (t, 0)" by (simp add: round53_def)
  have pos: "0 < t * c" using assms by simp
  obtain q k where q: "round53 (t * c) (- int n) = (q, - int n + int k)" "\<bar>q * 2 ^ k - t * c\<bar> * 2 ^ 53 \<le> t * c"
      "k = bit_length (t * c) - 53"
    using pos by (rule round53_error)
  have "t * c < 2 ^ 52 * 2 ^ 53" using assms by (intro mult_strict_mono) auto
  then have k: "k \<le> n" using bit_length_le [OF less_imp_le [OF pos], of 105] q(3) assms(5) by (simp add: power_add [symmetric])
  have pow: "(2::int) ^ n = 2 ^ (n - k) * 2 ^ k" using k by (simp add: power_add [symmetric])
  have n: "nat (- (int k - int n)) = n - k" by simp
  have fl: "q * 2 ^ k div 2 ^ n = q div 2 ^ (n - k)" "- (q * 2 ^ k) div 2 ^ n = - q div 2 ^ (n - k)"
    unfolding pow minus_mult_left by (rule div_mult_mult2; simp)+
  show thesis
  proof (rule that [of "q * 2 ^ k"])
    show "float_floor (float_mult (round53 t 0) (c, - int n)) = q * 2 ^ k div 2 ^ n"
      using k by (simp add: t float_mult_def q(1) float_floor_def fl nat_diff_distrib' n)
    show "float_ceil (float_mult (round53 t 0) (c, - int n)) = - (- (q * 2 ^ k) div 2 ^ n)"
      using k by (simp add: t float_mult_def q(1) float_ceil_def fl nat_diff_distrib' n)
    show "\<bar>q * 2 ^ k - t * c\<bar> * 2 ^ 53 \<le> t * c" by (rule q(2))
  qed
qed

text \<open>The two factors as doubles: 0.9 and 1.1.\<close>

lemma jitter_factors:
  "round53 (2 ^ 55 - JITTER_FACTOR) (- 55) = (8106479329266893, - int 53)"
  "round53 (2 ^ 55 + JITTER_FACTOR) (- 55) = (4953959590107546, - int 52)"
  by (simp_all add: round53_def JITTER_FACTOR_def Let_def bit_length.simps)

lemma abs_le_two: "\<bar>x :: int\<bar> * 2 ^ 53 \<le> y \<Longrightarrow> x * 9007199254740992 \<le> y \<and> - x * 9007199254740992 \<le> y"
  by (auto simp: abs_if split: if_splits)

lemma jitter_min_arith:
  fixes p q t :: int
  assumes "(p - t * 8106479329266893) * 9007199254740992 \<le> t * 8106479329266893"
    and "- (p - t * 8106479329266893) * 9007199254740992 \<le> t * 8106479329266893"
    and "q * 9007199254740992 \<le> p" "p < (q + 1) * 9007199254740992" "0 < t" "t < 4503599627370496"
  shows "9 * t - 20 \<le> 10 * q" "q < t" "0 \<le> q"
  using assms by (simp_all add: algebra_simps)

lemma jitter_max_arith:
  fixes p q t :: int
  assumes "(p - t * 4953959590107546) * 9007199254740992 \<le> t * 4953959590107546"
    and "- (p - t * 4953959590107546) * 9007199254740992 \<le> t * 4953959590107546"
    and "- q * 4503599627370496 \<le> - p" "- p < (- q + 1) * 4503599627370496" "0 < t" "t < 4503599627370496"
  shows "10 * q \<le> 11 * t + 20" "t < q"
  using assms by (simp_all add: algebra_simps)

lemma jitter_min_bounds:
  assumes "0 < t" "t < 2 ^ 52"
  shows "9 * t - 20 \<le> 10 * jitter_min t" "jitter_min t < t" "0 \<le> jitter_min t"
proof -
  obtain p where p: "jitter_min t = p div 2 ^ 53" "\<bar>p - t * 8106479329266893\<bar> * 2 ^ 53 \<le> t * 8106479329266893"
    by (rule jitter_product [OF assms, of 8106479329266893 53]) (simp_all only: jitter_min_def jitter_factors, auto)
  note abs = abs_le_two [OF p(2)]
  have d: "jitter_min t * 9007199254740992 \<le> p" "p < (jitter_min t + 1) * 9007199254740992" using p(1) by simp_all
  show "9 * t - 20 \<le> 10 * jitter_min t" "jitter_min t < t" "0 \<le> jitter_min t"
    using jitter_min_arith [OF conjunct1 [OF abs] conjunct2 [OF abs] d] assms by simp_all
qed

lemma jitter_max_bounds:
  assumes "0 < t" "t < 2 ^ 52"
  shows "10 * jitter_max t \<le> 11 * t + 20" "t < jitter_max t"
proof -
  obtain p where p: "jitter_max t = - (- p div 2 ^ 52)" "\<bar>p - t * 4953959590107546\<bar> * 2 ^ 53 \<le> t * 4953959590107546"
    by (rule jitter_product [OF assms, of 4953959590107546 52]) (simp_all only: jitter_max_def jitter_factors, auto)
  note abs = abs_le_two [OF p(2)]
  have d: "- jitter_max t * 4503599627370496 \<le> - p" "- p < (- jitter_max t + 1) * 4503599627370496" using p(1) by simp_all
  show "10 * jitter_max t \<le> 11 * t + 20" "t < jitter_max t"
    using jitter_max_arith [OF conjunct1 [OF abs] conjunct2 [OF abs] d] assms by simp_all
qed

section \<open>Refresh\<close>

text \<open>
  What the manager relies on from the API server, for the one UpgradeConfig of the operator's
  namespace: \<open>view\<close> is the stored object, a read returns it or says that it is not there, a write that
  succeeds is visible afterwards.
\<close>

definition uc_store :: "'s uc_api \<Rightarrow> ('s \<Rightarrow> UpgradeConfig option) \<Rightarrow> bool" where
  "uc_store api view \<longleftrightarrow>
     (\<forall>n ns s r s'. get_uc api n ns s = (r, s') \<longrightarrow>
        view s' = view s \<and> (\<forall>uc. r = Inr uc \<longrightarrow> view s = Some uc) \<and> (\<forall>e. r = Inl e \<and> IsNotFound e \<longrightarrow> view s = None)) \<and>
     (\<forall>uc s s'. create_uc api uc s = (Inr (), s') \<longrightarrow> view s' = Some uc) \<and>
     (\<forall>uc s s'. delete_uc api uc s = (Inr (), s') \<longrightarrow> view s' = None)"

lemma uc_storeD:
  assumes "uc_store api view"
  shows "get_uc api n ns s = (r, s') \<Longrightarrow> view s' = view s"
    "get_uc api n ns s = (Inr uc, s') \<Longrightarrow> view s = Some uc"
    "get_uc api n ns s = (Inl e, s') \<Longrightarrow> IsNotFound e \<Longrightarrow> view s = None"
    "create_uc api uc s = (Inr (), s') \<Longrightarrow> view s' = Some uc"
    "delete_uc api uc s = (Inr (), s') \<Longrightarrow> view s' = None"
  using assms by (auto simp: uc_store_def)

lemma ucm_Get_store:
  assumes "uc_store api view" "ucm_Get env api s = (r, s')"
  shows "view s' = view s \<and> (\<forall>uc. r = Ok uc \<longrightarrow> view s = Some uc) \<and> (r = Err ErrUpgradeConfigNotFound \<longrightarrow> view s = None)"
proof (cases "GetOperatorNamespace env")
  case (Ok ns)
  obtain g s1 where g: "get_uc api UPGRADECONFIG_CR_NAME ns s = (g, s1)" by fastforce
  then have c: "call (get_uc api UPGRADECONFIG_CR_NAME ns) s = (ret g, s1)" by (simp add: call_def)
  show ?thesis
    using assms(2) Ok c uc_storeD(1-3) [OF assms(1), of UPGRADECONFIG_CR_NAME ns s] g
    by (cases g) (auto simp: ucm_Get_def simp del: call_eq_iff split: if_splits)
qed (use assms(2) in \<open>auto simp: ucm_Get_def\<close>)

lemma Refresh_Ok:
  assumes "Refresh um s = (Ok changed, s')"
  obtains ns current found s1 provider s2 specs s3 where
    "if found then ucm_Get (um_env um) (um_uc um) s = (Ok current, s1)
     else ucm_Get (um_env um) (um_uc um) s = (Err ErrUpgradeConfigNotFound, s1) \<and> current = empty_uc"
    "specprovider_New (um_spec um) s1 = (Ok provider, s2)" "provider s2 = (Ok specs, s3)"
    "apply_specs um ns found current specs s3 = (Ok changed, s')"
proof -
  obtain ns where ns: "GetOperatorNamespace (um_env um) = Ok ns"
    using assms by (auto simp: Refresh_def split: outcome.splits)
  obtain g s1 where g: "ucm_Get (um_env um) (um_uc um) s = (g, s1)" by fastforce
  define found where "found = (\<exists>uc. g = Ok uc)"
  define current where "current = (case g of Ok uc \<Rightarrow> uc | _ \<Rightarrow> empty_uc)"
  have gg: "(\<exists>uc. g = Ok uc) \<or> g = Err ErrUpgradeConfigNotFound"
    using assms ns g by (cases g) (auto simp: Refresh_def split: if_splits)
  have run: "(case specprovider_New (um_spec um) s1 of
        (Panic, s) \<Rightarrow> (Panic, s)
      | (Err e, s) \<Rightarrow> (Err (if e = ErrNoSpecProviderConfig then ErrNotConfigured else e), s)
      | (Ok provider, s) \<Rightarrow>
          (case provider s of
             (Panic, s) \<Rightarrow> (Panic, s)
           | (Err _, s) \<Rightarrow> (Err ErrProviderSpecPull, s)
           | (Ok specs, s) \<Rightarrow> apply_specs um ns found current specs s)) = (Ok changed, s')"
    using gg assms by (elim disjE exE) (simp_all add: Refresh_def ns g found_def current_def cong: outcome.case_cong prod.case_cong)
  obtain provider s2 where p: "specprovider_New (um_spec um) s1 = (Ok provider, s2)"
    using run by (auto split: prod.splits outcome.splits)
  obtain specs s3 where sp: "provider s2 = (Ok specs, s3)"
    using run p by (auto split: prod.splits outcome.splits)
  show thesis
    using that [OF _ p sp, of found current ns] run p sp g gg by (auto simp: found_def current_def)
qed

lemma recreate_view:
  assumes "uc_store (um_uc um) view" "recreateUpgradeConfigOnChange um found existing new s = (Ok u, s')"
  shows "view s' = Some new"
proof -
  from assms(2) obtain s1 where "call (create_uc (um_uc um) new) s1 = (Ok (), s')"
    by (auto simp: recreateUpgradeConfigOnChange_def bindO_Ok_iff simp del: call_eq_iff)
  then show ?thesis using uc_storeD(4) [OF assms(1)] by auto
qed

lemma apply_specs_view:
  assumes st: "uc_store (um_uc um) view" and run: "apply_specs um ns found current specs s = (Ok changed, s')"
    and cur: "found \<Longrightarrow> view s = Some current" "\<not> found \<Longrightarrow> view s = None \<and> current = empty_uc"
  shows "(specs = [] \<longrightarrow> view s' = None) \<and> (\<not> changed \<longrightarrow> view s' = view s) \<and>
         (\<forall>sp rest. specs = sp # rest \<and> sp \<noteq> Spec empty_uc \<longrightarrow> (\<exists>uc. view s' = Some uc \<and> Spec uc = sp))"
proof (cases specs)
  case Nil
  then show ?thesis
    using run cur uc_storeD(5) [OF st, of current s]
    by (auto simp: apply_specs_def split: if_splits prod.splits sum.splits)
next
  case (Cons sp rest)
  let ?new = "empty_uc\<lparr>ucName := UPGRADECONFIG_CR_NAME, ucNamespace := ns, Spec := sp\<rparr>"
  show ?thesis
  proof (cases "sp = Spec current")
    case True
    then show ?thesis using run Cons cur by (cases found) (auto simp: apply_specs_def Let_def)
  next
    case False
    then have "recreateUpgradeConfigOnChange um found current ?new s = (Ok (), s')" changed
      using run Cons by (auto simp: apply_specs_def Let_def bindO_Ok_iff)
    then show ?thesis using recreate_view [OF st] Cons by fastforce
  qed
qed

section \<open>Properties\<close>

text \<open>
  An API server that holds at most one UpgradeConfig, and a configuration with the given source of specs on a
  network that answers no request.
\<close>

definition mem_uc :: "UpgradeConfig option uc_api" where
  "mem_uc =
     \<lparr>get_uc = (\<lambda>n _ s. (case s of None \<Rightarrow> Inl (ApiNotFound n) | Some uc \<Rightarrow> Inr uc, s)),
      list_ucs = (\<lambda>_ _ s. (Inr (case s of None \<Rightarrow> [] | Some uc \<Rightarrow> [uc]), s)),
      create_uc = (\<lambda>uc s. (Inr (), Some uc)), delete_uc = (\<lambda>uc s. (Inr (), None)),
      update_uc = (\<lambda>uc s. (Inr uc, Some uc)), update_uc_status = (\<lambda>uc s. (Inr uc, Some uc))\<rparr>"

definition sample_spec_env :: "instant \<Rightarrow> string \<Rightarrow> 's uc_api \<Rightarrow> 's spec_env" where
  "sample_spec_env now source api =
     \<lparr>se_nb = \<lparr>nb_ocm = \<lparr>oe_net = offline_net now, url_parse = (\<lambda>u. Inr \<lparr>uOther = u, uPath = [], uRawQuery = []\<rparr>),
                        url_String = uOther, sdk_connect = (\<lambda>_. Inl (ApiError [])), build_state = Inr, build_log = Inr,
                        decode_cluster = (\<lambda>_. Inl (ApiError [])), build_cluster = Inr, platform = (''linux'', ''amd64'')\<rparr>,
              nb_uc = api,
              nb_cm = \<lparr>environ = [''OPERATOR_NAMESPACE'' \<mapsto> ''muo''], get_configmap = (\<lambda>_ _ s. (Inr Map.empty, s))\<rparr>,
              decode_source = (\<lambda>_. Inr source), decode_features = (\<lambda>_. Inr []), decode_base_url = (\<lambda>_. Inr ''https://ocm''),
              state_order = stateMap\<rparr>,
      se_semver = \<lparr>semver_Parse = (\<lambda>_. Inr \<lparr>Major = 4, Minor = 14, svRest = []\<rparr>), semver_Compare = (\<lambda>_ _. 0)\<rparr>,
      decode_spec_config = (\<lambda>_. Inr \<lparr>spUpgradeType = ''OSD'', spSource = source\<rparr>),
      decode_local_name = (\<lambda>_. Inr UPGRADECONFIG_CR_NAME)\<rparr>"

definition sample_um :: "string \<Rightarrow> 's uc_api \<Rightarrow> 's ucm_env" where
  "sample_um source api =
     \<lparr>um_spec = sample_spec_env 7 source api, um_decode = (\<lambda>_. Inr 60), poll_attempts = 12, um_sleep = (\<lambda>_ s. s),
      rand_seeded = (\<lambda>_ n. n div 2), backoff_duration = (\<lambda>n. int n * Second)\<rparr>"

lemma mem_uc_store: "uc_store mem_uc (\<lambda>s. s)"
  by (auto simp: uc_store_def mem_uc_def IsNotFound_def split: option.splits)

lemma sample_um_api [simp]:
  "um_spec (sample_um src api) = sample_spec_env 7 src api" "nb_uc (se_nb (sample_spec_env now src api)) = api"
  "net_env (oe_net (se_ocm (sample_spec_env now src api))) = [''OPERATOR_NAMESPACE'' \<mapsto> ''muo'']"
  by (simp_all add: sample_um_def sample_spec_env_def offline_net_def)

lemma sample_local_provider:
  "specprovider_New (sample_spec_env now ''LOCAL'' api) s =
     (Ok (localProvider_Get [''OPERATOR_NAMESPACE'' \<mapsto> ''muo''] api), s)"
  by (simp add: specprovider_New_def readSpecProviderConfig_def readLocalProviderConfig_def env_eval sample_spec_env_def
      SpecProviderConfig_IsValid_def ToUpper_def to_upper_char_def
      LocalProviderConfig_IsValid_def offline_net_def Let_def)

text \<open>
  C11: A refresh that reports success leaves the cluster with what the provider asked for: no UpgradeConfig
  when it gave no spec, and otherwise one with exactly the first spec, whatever was there before
  and whatever happened while the old one was being deleted. When it reports no change, the stored
  UpgradeConfig, with its status, is the one that was there.
\<close>

theorem Refresh_converges:
  assumes store: "uc_store (um_uc um) view" and run: "Refresh um s = (Ok changed, s')"
    and pure: "\<And>s provider s1. specprovider_New (um_spec um) s = (Ok provider, s1) \<Longrightarrow>
            view s1 = view s \<and> (\<forall>t. view (snd (provider t)) = view t)"
  shows "\<exists>provider t0 t specs t'. specprovider_New (um_spec um) t0 = (Ok provider, t) \<and> provider t = (Ok specs, t') \<and>
    (specs = [] \<longrightarrow> view s' = None) \<and> (\<not> changed \<longrightarrow> view s' = view s) \<and>
    (\<forall>sp rest. specs = sp # rest \<and> sp \<noteq> Spec empty_uc \<longrightarrow> (\<exists>uc. view s' = Some uc \<and> Spec uc = sp))"
proof -
  obtain ns current found s1 provider s2 specs s3 where r:
    "if found then ucm_Get (um_env um) (um_uc um) s = (Ok current, s1)
     else ucm_Get (um_env um) (um_uc um) s = (Err ErrUpgradeConfigNotFound, s1) \<and> current = empty_uc"
    "specprovider_New (um_spec um) s1 = (Ok provider, s2)" "provider s2 = (Ok specs, s3)"
    "apply_specs um ns found current specs s3 = (Ok changed, s')"
    using run by (rule Refresh_Ok)
  obtain g where g: "ucm_Get (um_env um) (um_uc um) s = (g, s1)" using r(1) by (auto split: if_splits)
  have v: "view s3 = view s"
    using pure [OF r(2)] r(3) ucm_Get_store [OF store g] by (metis snd_conv)
  have "found \<Longrightarrow> view s3 = Some current" "\<not> found \<Longrightarrow> view s3 = None \<and> current = empty_uc"
    using r(1) g v ucm_Get_store [OF store g] by auto
  note a = apply_specs_view [OF store r(4) this, unfolded v]
  show ?thesis
    by (rule exI [where x = provider], rule exI [where x = s1], rule exI [where x = s2], rule exI [where x = specs],
        rule exI [where x = s3]) (use r(2,3) a in simp)
qed

lemma localProvider_Get_pure: "snd (localProvider_Get env mem_uc t) = t"
  by (simp add: localProvider_Get_def fetchUpgradeConfigs_def env_eval mem_uc_def split: option.split)

lemma ucm_Get_mem [simp]: "ucm_Get [''OPERATOR_NAMESPACE'' \<mapsto> ''muo''] mem_uc (Some uc) = (Ok uc, Some uc)"
  by (simp add: env_eval mem_uc_def)

lemma sample_local_specs:
  "localProvider_Get [''OPERATOR_NAMESPACE'' \<mapsto> ''muo''] mem_uc (Some uc) = (Ok (readSpecFromConfig [uc]), Some uc)"
  by (simp add: localProvider_Get_def fetchUpgradeConfigs_def env_eval mem_uc_def)

lemma sample_refresh: "Refresh (sample_um ''LOCAL'' mem_uc) (Some sample_uc) = (Ok False, Some sample_uc)"
  by (simp add: Refresh_def GetOperatorNamespace_def sample_local_provider sample_local_specs readSpecFromConfig_def
      apply_specs_def, simp add: sample_uc_def GetHistory_def)

theorem Refresh_converges_witness:
  "\<exists>changed s'. Refresh (sample_um ''LOCAL'' mem_uc) (Some sample_uc) = (Ok changed, s') \<and> s' = Some sample_uc"
proof -
  let ?um = "sample_um ''LOCAL'' mem_uc"
  have "\<exists>provider t0 t specs t'. specprovider_New (um_spec ?um) t0 = (Ok provider, t) \<and> provider t = (Ok specs, t') \<and>
    (specs = [] \<longrightarrow> Some sample_uc = None) \<and> (\<not> False \<longrightarrow> Some sample_uc = Some sample_uc) \<and>
    (\<forall>sp rest. specs = sp # rest \<and> sp \<noteq> Spec empty_uc \<longrightarrow> (\<exists>uc. Some sample_uc = Some uc \<and> Spec uc = sp))"
    by (rule Refresh_converges [where view = "\<lambda>s. s", OF _ sample_refresh])
       (auto simp: mem_uc_store sample_local_provider localProvider_Get_pure)
  then show ?thesis using sample_refresh by blast
qed

text \<open>
  C38: With the local provider, an UpgradeConfig that the controller has not yet given a history is no spec to
  the provider, so a refresh at that moment deletes the UpgradeConfig the user has just created.
\<close>

theorem local_refresh_deletes_new:
  assumes "GetOperatorNamespace (um_env um) = Ok ns" "get_uc (um_uc um) UPGRADECONFIG_CR_NAME ns s = (Inr uc, s1)"
    and "current_history uc = None"
    and "specprovider_New (um_spec um) s1 = (Ok (localProvider_Get (um_env um) (um_uc um)), s2)"
    and "list_ucs (um_uc um) UPGRADECONFIG_CR_NAME ns s2 = (Inr [uc], s3)" "delete_uc (um_uc um) uc s3 = (Inr (), s4)"
  shows "Refresh um s = (Ok True, s4)"
  using assms
  by (simp add: Refresh_def ucm_Get_def call_def localProvider_Get_def fetchUpgradeConfigs_def readSpecFromConfig_def
      apply_specs_def)

theorem local_refresh_deletes_new_witness:
  "Refresh (sample_um ''LOCAL'' mem_uc) (Some (sample_uc\<lparr>History := []\<rparr>)) = (Ok True, None)"
  by (rule local_refresh_deletes_new [where uc = "sample_uc\<lparr>History := []\<rparr>" and ?s2.0 = "Some (sample_uc\<lparr>History := []\<rparr>)"
        and ?s3.0 = "Some (sample_uc\<lparr>History := []\<rparr>)"])
     (simp_all add: env_eval sample_local_provider, simp_all add: mem_uc_def GetHistory_def)

text \<open>
  For an interval between one nanosecond and 52 days and a source that returns a number below its
  argument, as \<open>Int63n\<close> does, the range of the jitter is not empty, so that \<open>Int63n\<close> does not panic, and the
  duration is within a tenth of the interval, up to two nanoseconds of rounding.
\<close>

theorem durationWithJitter_bounds:
  assumes "0 < t" "t < 2 ^ 52" and rand: "\<And>now n. 0 < n \<Longrightarrow> 0 \<le> rand_seeded um now n \<and> rand_seeded um now n < n"
    and run: "durationWithJitter um t s = (d, s')"
  shows "0 < jitter_max t - jitter_min t \<and> 9 * t - 20 \<le> 10 * d \<and> 10 * d < 11 * t + 20"
proof -
  obtain now where d: "d = rand_seeded um now (jitter_max t - jitter_min t) + jitter_min t"
    using run by (auto simp: durationWithJitter_def Let_def split: prod.splits)
  show ?thesis
    using jitter_min_bounds [OF assms(1,2)] jitter_max_bounds [OF assms(1,2)]
      rand [of "jitter_max t - jitter_min t" now] d by simp
qed

theorem durationWithJitter_bounds_witness:
  "0 < jitter_max Hour - jitter_min Hour"
proof -
  have "0 < jitter_max Hour - jitter_min Hour \<and>
      9 * Hour - 20 \<le> 10 * fst (durationWithJitter (sample_um ''LOCAL'' mem_uc) Hour None) \<and>
      10 * fst (durationWithJitter (sample_um ''LOCAL'' mem_uc) Hour None) < 11 * Hour + 20"
    by (rule durationWithJitter_bounds [where s = None and s' = "snd (durationWithJitter (sample_um ''LOCAL'' mem_uc) Hour None)"])
       (auto simp: sample_um_def)
  then show ?thesis by simp
qed

text \<open>The state before the attempt with the given number to read the configuration.\<close>

fun await_state :: "'w ucm_env \<Rightarrow> nat \<Rightarrow> 'w \<Rightarrow> 'w" where
  "await_state um 0 s = s"
| "await_state um (Suc n) s = await_state um n (um_sleep um Minute (snd (readConfigManagerConfig um s)))"

lemma await_config_waits:
  assumes "\<And>i wi. i < n \<Longrightarrow> fst (readConfigManagerConfig um (await_state um i s)) \<noteq> Ok wi"
  shows "await_config um n s = (None, await_state um n s)"
  using assms
proof (induction n arbitrary: s)
  case (Suc n)
  have "await_config um n (um_sleep um Minute (snd (readConfigManagerConfig um s))) =
      (None, await_state um n (um_sleep um Minute (snd (readConfigManagerConfig um s))))"
    using Suc.prems [of "Suc _"] by (intro Suc.IH) auto
  moreover have "\<nexists>wi. fst (readConfigManagerConfig um s) = Ok wi" using Suc.prems [of 0] by auto
  ultimately show ?case by (auto split: prod.splits outcome.splits)
qed simp

lemma await_config_first:
  assumes "fst (readConfigManagerConfig um (await_state um k s)) = Ok wi" "k < n"
  shows "\<exists>j wi' s'. j \<le> k \<and> await_config um n s = (Some wi', s') \<and> readConfigManagerConfig um (await_state um j s) = (Ok wi', s')"
  using assms
proof (induction n arbitrary: k s)
  case (Suc n)
  let ?r = "readConfigManagerConfig um s"
  show ?case
  proof (cases "\<exists>wi'. fst ?r = Ok wi'")
    case True
    then obtain wi' s' where "?r = (Ok wi', s')" by (metis prod.collapse)
    then show ?thesis by (intro exI [of _ "0::nat"]) simp
  next
    case False
    then obtain k' where k: "k = Suc k'" using Suc.prems(1) by (cases k) auto
    have step: "await_config um (Suc n) s = await_config um n (um_sleep um Minute (snd ?r))"
      using False by (cases ?r; cases "fst ?r") auto
    obtain j wi' s' where "j \<le> k'" "await_config um n (um_sleep um Minute (snd ?r)) = (Some wi', s')"
        "readConfigManagerConfig um (await_state um j (um_sleep um Minute (snd ?r))) = (Ok wi', s')"
      using Suc.IH [of k' "um_sleep um Minute (snd ?r)"] Suc.prems k by auto
    then show ?thesis
      unfolding step using k by (intro exI [of _ "Suc j"]) auto
  qed
qed simp

text \<open>
  C28: The synchronisation starts as soon as the configuration can be read: when some attempt succeeds, the wait
  ends at the first such attempt, with a positive watch interval, however many more attempts it was
  willing to make; and as long as none succeeds it does not end, and only time passes.
\<close>

theorem await_config_returns:
  "(\<forall>k wi. fst (readConfigManagerConfig um (await_state um k s)) = Ok wi \<longrightarrow>
      (\<forall>n > k. \<exists>j wi' s'. j \<le> k \<and> await_config um n s = (Some wi', s') \<and> 0 < wi' \<and>
                           readConfigManagerConfig um (await_state um j s) = (Ok wi', s'))) \<and>
   (\<forall>n. (\<forall>i < n. \<forall>wi. fst (readConfigManagerConfig um (await_state um i s)) \<noteq> Ok wi) \<longrightarrow>
      await_config um n s = (None, await_state um n s))"
proof (intro conjI allI impI)
  fix k wi n
  assume "fst (readConfigManagerConfig um (await_state um k s)) = Ok wi" "k < n"
  from await_config_first [OF this] obtain j wi' s' where
    j: "j \<le> k" "await_config um n s = (Some wi', s')" "readConfigManagerConfig um (await_state um j s) = (Ok wi', s')"
    by blast
  have "0 < wi'"
    using read_config_valid [OF j(3) [unfolded readConfigManagerConfig_def]]
    by (simp add: UpgradeConfigManagerConfig_IsValid_def split: if_splits)
  with j show "\<exists>j wi' s'. j \<le> k \<and> await_config um n s = (Some wi', s') \<and> 0 < wi' \<and>
      readConfigManagerConfig um (await_state um j s) = (Ok wi', s')" by blast
qed (auto intro: await_config_waits)

theorem await_config_returns_witness: "\<exists>s'. await_config (sample_um ''LOCAL'' mem_uc) 3 None = (Some 60, s')"
proof -
  let ?um = "sample_um ''LOCAL'' mem_uc"
  have r: "readConfigManagerConfig ?um s = (Ok 60, s)" for s
    by (simp add: readConfigManagerConfig_def env_eval
        sample_um_def sample_spec_env_def UpgradeConfigManagerConfig_IsValid_def Let_def)
  have "fst (readConfigManagerConfig ?um (await_state ?um 0 None)) = Ok 60" by (simp add: r)
  with await_config_returns [of ?um None] obtain wi' s' where
    "await_config ?um 3 None = (Some wi', s')" "\<exists>j. readConfigManagerConfig ?um (await_state ?um j None) = (Ok wi', s')"
    by (metis zero_less_numeral)
  then show ?thesis by (auto simp: r)
qed

text \<open>The same for writes of the status, which the server returns as it stored them.\<close>

definition status_store :: "'s uc_api \<Rightarrow> ('s \<Rightarrow> UpgradeConfig option) \<Rightarrow> bool" where
  "status_store api view \<longleftrightarrow> uc_store api view \<and>
     (\<forall>uc s r s'. update_uc_status api uc s = (r, s') \<longrightarrow>
        (case r of Inl _ \<Rightarrow> view s' = view s | Inr uc' \<Rightarrow> uc' = uc \<and> view s' = Some uc))"

lemma status_storeD:
  assumes "status_store api view"
  shows "update_uc_status api uc s = (Inl e, s') \<Longrightarrow> view s' = view s"
    "update_uc_status api uc s = (Inr uc', s') \<Longrightarrow> uc' = uc \<and> view s' = Some uc"
  using assms unfolding status_store_def by fastforce+

lemma mem_uc_status_store: "status_store mem_uc (\<lambda>s. s)"
  using mem_uc_store by (auto simp: status_store_def mem_uc_def)

section \<open>The start of the synchronisation\<close>

text \<open>
  \<open>StartSync\<close> up to its loop, with at most \<open>n\<close> attempts to read the configuration: the watch interval and
  the first state of the loop, or nothing when it returned (no metrics client) or is still waiting.
\<close>

definition StartSync :: "'w ucm_env \<Rightarrow> nat \<Rightarrow> 'w sys \<Rightarrow> (int \<times> 'w sync_state) option" where
  "StartSync um n s =
     (case lift (metrics_NewClient (oe_net (se_ocm (um_spec um)))) s of
        (Ok _, s) \<Rightarrow>
          (case lift (await_config um n) s of
             (Some wi, s) \<Rightarrow>
               let (d, s) = lift (durationWithJitter um INITIAL_SYNC_DURATION) s
               in Some (wi, \<lparr>ss_timer = d, ss_attempt = 0, ss_sys = s\<rparr>)
           | (None, s) \<Rightarrow> None)
      | _ \<Rightarrow> None)"

lemma await_config_positive: "await_config um n s = (Some wi, s') \<Longrightarrow> 0 < wi"
proof (induction n arbitrary: s)
  case (Suc n)
  then show ?case
    using read_config_valid [of "um_rt um" "nb_cm (se_nb (um_spec um))" "um_decode um" UpgradeConfigManagerConfig_IsValid s wi s']
    by (auto simp: readConfigManagerConfig_def UpgradeConfigManagerConfig_IsValid_def split: prod.splits outcome.splits if_splits)
qed simp

text \<open>The jitter of an interval between \<open>lo\<close> and \<open>hi\<close>, as a bound on the timer.\<close>

definition timer_between :: "duration \<Rightarrow> duration \<Rightarrow> duration \<Rightarrow> bool" where
  "timer_between lo hi d \<longleftrightarrow> 9 * lo - 20 \<le> 10 * d \<and> 10 * d < 11 * hi + 20"

lemma jittered_timer:
  assumes rand: "\<And>now n. 0 < n \<Longrightarrow> 0 \<le> rand_seeded um now n \<and> rand_seeded um now n < n"
    and "0 < t" "t < 2 ^ 52" "lo \<le> t" "t \<le> hi" "lift (durationWithJitter um t) s = (d, s')"
  shows "timer_between lo hi d"
proof -
  have "durationWithJitter um t (ext s) = (d, ext s')"
    using assms(6) by (auto simp: lift_def split: prod.splits)
  from durationWithJitter_bounds [OF assms(2,3) rand this] assms(4,5) show ?thesis
    by (simp add: timer_between_def)
qed

lemma sync_step_timer:
  assumes rand: "\<And>now n. 0 < n \<Longrightarrow> 0 \<le> rand_seeded um now n \<and> rand_seeded um now n < n"
    and retry: "\<And>n. Minute \<le> backoff_duration um n \<and> backoff_duration um n \<le> Hour"
    and wi: "0 < GetWatchInterval wi" "GetWatchInterval wi < 2 ^ 52"
    and step: "sync_step um wi (b, st) (b', st')"
    and inv: "timer_between (min Minute (GetWatchInterval wi)) (max Hour (GetWatchInterval wi)) (ss_timer st)"
  shows "timer_between (min Minute (GetWatchInterval wi)) (max Hour (GetWatchInterval wi)) (ss_timer st')"
  using step
proof cases
  case timeout
  let ?lo = "min Minute (GetWatchInterval wi)" and ?hi = "max Hour (GetWatchInterval wi)"
  have j: "timer_between ?lo ?hi d" if "lift (durationWithJitter um t) s = (d, s')" "t \<in> {GetWatchInterval wi, backoff_duration um (ss_attempt st)}"
    for t s d s'
    using jittered_timer [OF rand _ _ _ _ that(1), of ?lo ?hi] that(2) wi retry [of "ss_attempt st"] by fastforce
  show ?thesis
    using timeout(2) by (auto simp: sync_timeout_def Let_def dest: j split: prod.splits outcome.splits)
qed (use inv in auto)

text \<open>
  C29: From its start on, the synchronisation is never far from its next refresh: in every state the loop can reach,
  whatever refreshes fail and whatever the stop channel does, the timer is set to at least the shorter and at most the longer
  of the watch interval and the back-off's minute and hour, up to the tenth of jitter.
  The watch interval is one of at most 52 days; the back-off counter keeps between its minimum and its maximum.
\<close>

theorem sync_timer_bounded:
  assumes rand: "\<And>now n. 0 < n \<Longrightarrow> 0 \<le> rand_seeded um now n \<and> rand_seeded um now n < n"
    and retry: "\<And>n. Minute \<le> backoff_duration um n \<and> backoff_duration um n \<le> Hour"
    and start: "StartSync um n s = Some (wi, st0)"
    and wi: "wi \<le> 75000"
    and run: "(sync_step um wi)\<^sup>*\<^sup>* (False, st0) (b, st)"
  shows "timer_between (min Minute (GetWatchInterval wi)) (max Hour (GetWatchInterval wi)) (ss_timer st)"
proof -
  obtain d s1 s2 where d: "lift (durationWithJitter um INITIAL_SYNC_DURATION) s1 = (d, s2)" "ss_timer st0 = d"
    using start by (auto simp: StartSync_def Let_def split: prod.splits outcome.splits option.splits)
  have "0 < wi"
    using start await_config_positive
    by (fastforce simp: StartSync_def lift_def Let_def split: prod.splits outcome.splits option.splits)
  then have wi: "0 < GetWatchInterval wi" "GetWatchInterval wi < 2 ^ 52"
    using wi by (simp_all add: GetWatchInterval_def minutes_small)
  have "timer_between (min Minute (GetWatchInterval wi)) (max Hour (GetWatchInterval wi)) (ss_timer st0)"
    unfolding d(2) by (rule jittered_timer [OF rand _ _ _ _ d(1)]) (auto simp: INITIAL_SYNC_DURATION_def)
  moreover have "timer_between (min Minute (GetWatchInterval wi)) (max Hour (GetWatchInterval wi)) (ss_timer (snd x))"
    if "(sync_step um wi)\<^sup>*\<^sup>* y x" "timer_between (min Minute (GetWatchInterval wi)) (max Hour (GetWatchInterval wi)) (ss_timer (snd y))" for x y
    using that
  proof (induction rule: rtranclp_induct)
    case (step y z)
    then show ?case using sync_step_timer [OF rand retry wi, of "fst y" "snd y" "fst z" "snd z"] by simp
  qed simp
  ultimately show ?thesis using run by fastforce
qed

text \<open>A manager on a reachable network, with a back-off that doubles from a minute up to an hour.\<close>

definition steady_um :: "UpgradeConfig option ucm_env" where
  "steady_um =
     (let um = sample_um ''LOCAL'' mem_uc; se = um_spec um; nb = se_nb se; oe = nb_ocm nb
      in um\<lparr>um_spec := se\<lparr>se_nb := nb\<lparr>nb_ocm := oe\<lparr>oe_net := online_net 7\<rparr>\<rparr>\<rparr>,
            backoff_duration := (\<lambda>n. min Hour (Minute * 2 ^ n))\<rparr>)"

theorem sync_timer_bounded_witness:
  "\<exists>st0. StartSync steady_um 1 (no_gauges None) = Some (60, st0) \<and> timer_between Minute Hour (ss_timer st0)"
proof -
  have rand: "0 \<le> rand_seeded steady_um now n \<and> rand_seeded steady_um now n < n" if "0 < n" for now n
    using that by (simp add: steady_um_def sample_um_def Let_def)
  have retry: "Minute \<le> backoff_duration steady_um n \<and> backoff_duration steady_um n \<le> Hour" for n
    using one_le_power [of "2::int" n] by (simp add: steady_um_def Let_def)
  obtain m where m: "metrics_NewClient (online_net 7) (None :: UpgradeConfig option) = (Ok m, None)"
    using online_metrics [of 7 "None :: UpgradeConfig option"] by (elim exE)
  have "readConfigManagerConfig steady_um s = (Ok 60, s)" for s
    by (simp add: readConfigManagerConfig_def env_eval steady_um_def
        sample_um_def sample_spec_env_def UpgradeConfigManagerConfig_IsValid_def Let_def)
  then have a: "await_config steady_um (Suc 0) s = (Some 60, s)" for s by simp
  have n: "oe_net (se_ocm (um_spec steady_um)) = online_net 7" by (simp add: steady_um_def Let_def)
  obtain d w where j: "durationWithJitter steady_um INITIAL_SYNC_DURATION None = (d, w)" by fastforce
  obtain st0 where st: "StartSync steady_um 1 (no_gauges None) = Some (60, st0)"
    by (simp add: StartSync_def lift_def no_gauges_def Let_def n m a j del: await_config.simps)
  from sync_timer_bounded [OF rand retry st _ rtranclp.rtrancl_refl]
  have "timer_between Minute Hour (ss_timer st0)" by (simp add: GetWatchInterval_def minutes_small)
  with st show ?thesis by blast
qed

end
