(* ===== verification/Reconcile.thy ===== *)
theory Reconcile
  imports Upgraders Validation Uc_Manager
begin

text \<open>
  The upgradeconfig controller (\<open>controllers/upgradeconfig\<close>): one reconciliation of the
  UpgradeConfig, with its phases New, Pending, Upgrading, Upgraded and Failed, and the predicates
  that select the events. The instance the Go code holds in memory is part of the state, so that a
  property can name the status it was last written with.
\<close>

section \<open>Environment\<close>

record 'w reconcile_env =
  re_ucm :: "'w ucm_env"
  re_upgrader :: "'w upgrader_env"
  re_validation :: "'w validation_env"
  re_decode :: "string \<Rightarrow> goerr + config"
  re_decode_validation :: "string \<Rightarrow> goerr + bool"

abbreviation re_nb :: "'w reconcile_env \<Rightarrow> 'w notifier_builder" where
  "re_nb re \<equiv> se_nb (um_spec (re_ucm re))"

abbreviation re_net :: "'w reconcile_env \<Rightarrow> 'w net_api" where
  "re_net re \<equiv> oe_net (nb_ocm (re_nb re))"

abbreviation re_rt :: "'w reconcile_env \<Rightarrow> 'w runtime" where
  "re_rt re \<equiv> net_rt (re_net re)"

abbreviation re_uc :: "'w reconcile_env \<Rightarrow> 'w uc_api" where
  "re_uc re \<equiv> nb_uc (re_nb re)"

abbreviation re_cv :: "'w reconcile_env \<Rightarrow> 'w cv_api" where
  "re_cv re \<equiv> net_cv (re_net re)"

record Result =
  RequeueAfter :: duration

definition no_requeue :: Result where
  "no_requeue = \<lparr>RequeueAfter = 0\<rparr>"

text \<open>An operation that leaves the instance alone, and \<open>Status().Update(instance)\<close>.\<close>

definition keep_uc :: "('s, 'a) op \<Rightarrow> (UpgradeConfig \<times> 's, 'a) op" where
  "keep_uc f = (\<lambda>(uc, s). let (r, s) = f s in (r, uc, s))"

definition store_status :: "'w reconcile_env \<Rightarrow> (UpgradeConfig \<times> 'w sys, unit) op" where
  "store_status re = (\<lambda>(uc, s).
     case lift (update_uc_status (re_uc re) uc) s of
       (Inl e, s) \<Rightarrow> (Err e, uc, s)
     | (Inr uc', s) \<Rightarrow> (Ok (), uc', s))"

text \<open>\<open>SetHistory(*history)\<close> on the instance, and the write of the status.\<close>

definition store_history :: "'w reconcile_env \<Rightarrow> UpgradeHistory \<Rightarrow> (UpgradeConfig \<times> 'w sys, unit) op" where
  "store_history re h = (\<lambda>(uc, s). store_status re (uc\<lparr>History := SetHistory h (History uc)\<rparr>, s))"

section \<open>Metrics of a finished upgrade\<close>

text \<open>
  \<open>FindStringSubmatch\<close> of \<open>[0-9]+.([0-9]+)..*\<close> (with escaped dots): the second number of the
  leftmost place where two numbers are each followed by a dot.
\<close>

definition match_minor :: "string \<Rightarrow> string option" where
  "match_minor v =
     (case dropWhile isDigit v of
        [] \<Rightarrow> None
      | d1 # r1 \<Rightarrow>
          (case dropWhile isDigit r1 of
             [] \<Rightarrow> None
           | d2 # _ \<Rightarrow>
               if takeWhile isDigit v \<noteq> [] \<and> d1 = CHR ''.'' \<and> takeWhile isDigit r1 \<noteq> [] \<and> d2 = CHR ''.''
               then Some (takeWhile isDigit r1) else None))"

fun find_minor :: "string \<Rightarrow> string option" where
  "find_minor [] = None"
| "find_minor (c # v) = (case match_minor (c # v) of Some m \<Rightarrow> Some m | None \<Rightarrow> find_minor v)"

definition getMinorUpgrade :: "string \<Rightarrow> string \<Rightarrow> string" where
  "getMinorUpgrade precedingVersion version =
     (case (find_minor version, find_minor precedingVersion) of
        (Some m, Some p) \<Rightarrow> if m \<noteq> p then ''y'' else ''z''
      | _ \<Rightarrow> ''unknown'')"

definition reportUpgradeMetrics ::
    "'w runtime \<Rightarrow> 'w Counter \<Rightarrow> string \<Rightarrow> string \<Rightarrow> string \<Rightarrow> instant \<Rightarrow> instant \<Rightarrow> ('w sys, unit) op" where
  "reportUpgradeMetrics rt m n precedingVersion version upgradeStart upgradeEnd s =
     bindO (lift (AlertsFromUpgrade rt m upgradeStart upgradeEnd) s) (\<lambda>alerts s.
       (Ok (), UpdateMetricUpgradeResult n precedingVersion version (getMinorUpgrade precedingVersion version) alerts s))"

section \<open>Phases\<close>

text \<open>The history of the desired version, created where there is none.\<close>

definition init_history :: "'w reconcile_env \<Rightarrow> ClusterVersion \<Rightarrow> (UpgradeConfig \<times> 'w sys, UpgradeHistory) op" where
  "init_history re cv = (\<lambda>(uc, s).
     case GetHistory (History uc) (desired_version uc) of
       Some h \<Rightarrow> (Ok h, uc, s)
     | None \<Rightarrow>
         bindO (keep_uc (\<lambda>s. wrap_err (re_rt re) ''could not tell if cluster was upgrading: ''
                  (lift (HasUpgradeCommenced (re_cv re) uc) s)) (uc, s)) (\<lambda>upgraded (uc, s).
           let h0 = \<lparr>Version = desired_version uc, PrecedingVersion = GetPrecedingVersion cv uc, Phase = New,
                     HConditions = NewConditions [] [], StartTime = None, CompleteTime = None,
                     WorkerStartTime = None, WorkerCompleteTime = None\<rparr>;
               (h, s) = (if upgraded
                         then let (now, s) = lift (time_now (re_rt re)) s
                              in (h0\<lparr>Phase := Upgrading, StartTime := Some now\<rparr>, s)
                         else (h0, s))
           in bindO (store_status re (uc\<lparr>History := h # History uc\<rparr>, s)) (\<lambda>_ us. (Ok h, us))))"

text \<open>Both sides of the comparison are whole minutes.\<close>

definition new_phase ::
    "'w reconcile_env \<Rightarrow> config \<Rightarrow> 'w ClusterUpgrader \<Rightarrow> UpgradeHistory \<Rightarrow> (UpgradeConfig \<times> 'w sys, Result) op" where
  "new_phase re cfg upgrader h = (\<lambda>(uc, s).
     let (r, s) = lift (IsReadyToUpgrade (re_rt re) uc (GetUpgradeWindowTimeOutDuration (UpgradeWindow cfg))) s
     in bindO
          (if TimeUntilUpgrade r div Minute > GetHealthCheckDuration uc div Minute \<and>
              IsFeatureEnabled (FeatureGate cfg) PreHealthCheckFeatureGate
           then keep_uc (\<lambda>s. tryO (HealthCheck upgrader uc s) (\<lambda>_ s. (Ok (), s))) (uc, s)
           else (Ok (), uc, s)) (\<lambda>_ us.
        bindO (store_history re (h\<lparr>Phase := Pending\<rparr>) us) (\<lambda>_ us. (Ok \<lparr>RequeueAfter = Minute\<rparr>, us))))"

text \<open>\<open>multierror.Append(err, me)\<close> with the error in front; a nil error adds nothing.\<close>

definition multierror_Append :: "goerr option \<Rightarrow> goerr list \<Rightarrow> goerr list" where
  "multierror_Append err me =
     (case err of None \<Rightarrow> me | Some (MultiError es) \<Rightarrow> es @ me | Some e \<Rightarrow> e # me)"

definition upgradeCluster :: "'w reconcile_env \<Rightarrow> 'w ClusterUpgrader \<Rightarrow> (UpgradeConfig \<times> 'w sys, Result) op" where
  "upgradeCluster re upgrader us =
     bindO (UpgradeCluster upgrader us) (\<lambda>(phase, err) (uc, s).
       case GetHistory (History uc) (desired_version uc) of
         None \<Rightarrow> (Panic, uc, s)
       | Some h \<Rightarrow>
           let me = multierror_Append err [];
               (h1, s) = (if phase = Upgraded
                          then let (now, s) = lift (time_now (re_rt re)) s
                               in (h\<lparr>Phase := phase, CompleteTime := Some now\<rparr>, s)
                          else (h\<lparr>Phase := phase\<rparr>, s))
           in (case store_history re h1 (uc, s) of
                 (Panic, us) \<Rightarrow> (Panic, us)
               | (r, us) \<Rightarrow>
                   let me = multierror_Append (case r of Err e \<Rightarrow> Some e | _ \<Rightarrow> None) me
                   in (case ErrorOrNil me of None \<Rightarrow> (Ok \<lparr>RequeueAfter = Minute\<rparr>, us) | Some e \<Rightarrow> (Err e, us))))"

definition SyncPeriodDefault :: duration where
  "SyncPeriodDefault = 5 * Minute"

text \<open>An upgrade that is due: the policy is refreshed first; only an unchanged one starts.\<close>

definition start_upgrade ::
    "'w reconcile_env \<Rightarrow> 'w ClusterUpgrader \<Rightarrow> UpgradeHistory \<Rightarrow> (UpgradeConfig \<times> 'w sys, Result) op" where
  "start_upgrade re upgrader h us =
     bindO (keep_uc (lift (\<lambda>w. case Refresh (re_ucm re) w of
              (Err e, w) \<Rightarrow> if e \<noteq> ErrNotConfigured then (Err e, w) else (Ok False, w)
            | r \<Rightarrow> r)) us) (\<lambda>remoteChanged us.
       if remoteChanged
       then bindO (store_history re (h\<lparr>Phase := New\<rparr>) us) (\<lambda>_ us. (Ok no_requeue, us))
       else bindO (keep_uc (\<lambda>s. let (now, s) = lift (time_now (re_rt re)) s in (Ok now, s)) us) (\<lambda>now (uc, s).
         bindO (store_history re (h\<lparr>Phase := Upgrading, StartTime := Some now, Version := desired_version uc\<rparr>) (uc, s))
           (\<lambda>_ us. upgradeCluster re upgrader us)))"

text \<open>An upgrade that is due before the next resync is looked at again when it is due.\<close>

definition pending_requeue :: "SchedulerResult \<Rightarrow> Result" where
  "pending_requeue sr =
     (if TimeUntilUpgrade sr > 0 \<and> TimeUntilUpgrade sr < SyncPeriodDefault
      then \<lparr>RequeueAfter = TimeUntilUpgrade sr\<rparr> else no_requeue)"

definition pending_phase ::
    "'w reconcile_env \<Rightarrow> Target \<Rightarrow> config \<Rightarrow> 'w ClusterUpgrader \<Rightarrow> ClusterVersion \<Rightarrow> UpgradeHistory \<Rightarrow>
     (UpgradeConfig \<times> 'w sys, Result) op" where
  "pending_phase re t cfg upgrader cv h us =
     bindO (keep_uc (lift (validation_NewClient (re_rt re) (ue_cm (re_upgrader re)) t (re_decode_validation re))) us)
       (\<lambda>cincinnati (uc, s).
     bindO (let (r, uc, w) = IsValidUpgradeConfig (re_validation re) cincinnati cv (uc, ext s)
            in (r, uc, s\<lparr>ext := w\<rparr>)) (\<lambda>(r, err) (uc, s).
       if \<not> IsValid r \<or> err \<noteq> None
       then (case err of None \<Rightarrow> Ok no_requeue | Some e \<Rightarrow> Err e, uc, UpdateMetricValidationFailed (ucName uc) s)
       else
         let s = UpdateMetricValidationSucceeded (ucName uc) s
         in if \<not> IsAvailableUpdate r then (Ok no_requeue, uc, s)
            else
              let (sr, s) = lift (IsReadyToUpgrade (re_rt re) uc (GetUpgradeWindowTimeOutDuration (UpgradeWindow cfg))) s
              in if IsReady sr then start_upgrade re upgrader h (uc, s)
                 else bindO (store_history re (h\<lparr>Phase := Pending\<rparr>) (uc, s)) (\<lambda>_ us.
                   (Ok (pending_requeue sr), us))))"

definition upgraded_phase ::
    "'w reconcile_env \<Rightarrow> 'w Counter \<Rightarrow> UpgradeHistory \<Rightarrow> (UpgradeConfig \<times> 'w sys, Result) op" where
  "upgraded_phase re m h = (\<lambda>(uc, s).
     case (StartTime h, CompleteTime h) of
       (Some upgradeStart, Some upgradeEnd) \<Rightarrow>
         bindO (keep_uc (reportUpgradeMetrics (re_rt re) m (ucName uc) (PrecedingVersion h) (desired_version uc)
                           upgradeStart upgradeEnd) (uc, s)) (\<lambda>_ us. (Ok no_requeue, us))
     | _ \<Rightarrow> (Panic, uc, s))"

definition reconcile_phase ::
    "'w reconcile_env \<Rightarrow> Target \<Rightarrow> config \<Rightarrow> 'w Counter \<Rightarrow> 'w ClusterUpgrader \<Rightarrow> ClusterVersion \<Rightarrow> UpgradeHistory \<Rightarrow>
     (UpgradeConfig \<times> 'w sys, Result) op" where
  "reconcile_phase re t cfg m upgrader cv h us =
     (case Phase h of
        New \<Rightarrow> new_phase re cfg upgrader h us
      | Pending \<Rightarrow> pending_phase re t cfg upgrader cv h us
      | Upgrading \<Rightarrow> upgradeCluster re upgrader us
      | Upgraded \<Rightarrow> upgraded_phase re m h us
      | Failed \<Rightarrow> (Ok no_requeue, us)
      | UnknownPhase \<Rightarrow> (Ok no_requeue, us))"

section \<open>Reconcile\<close>

text \<open>From the ClusterVersion on, for an instance that was found.\<close>

definition reconcile_instance ::
    "'w reconcile_env \<Rightarrow> 'w Counter \<Rightarrow> 'w eventManager \<Rightarrow> string \<Rightarrow> (UpgradeConfig \<times> 'w sys, Result) op" where
  "reconcile_instance re m em ns us =
     bindO (keep_uc (lift (GetClusterVersion (re_cv re))) us) (\<lambda>cv us.
     bindO (init_history re cv us) (\<lambda>h us.
     bindO (NewCMTarget (net_env (re_net re)) \<lparr>tName = [], tNamespace = ns, tConfigKey = []\<rparr>, us) (\<lambda>t us.
     bindO (keep_uc (lift (Into (re_rt re) (ue_cm (re_upgrader re)) t (re_decode re) config_IsValid)) us) (\<lambda>cfg (uc, s).
     bindO (keep_uc (lift (NewClient (re_upgrader re) t m em (UType (Spec uc)))) (uc, s)) (\<lambda>upgrader us.
       reconcile_phase re t cfg m upgrader cv h us)))))"

definition Reconcile ::
    "'w reconcile_env \<Rightarrow> string \<Rightarrow> string \<Rightarrow> 'w sys \<Rightarrow> Result outcome \<times> UpgradeConfig \<times> 'w sys" where
  "Reconcile re n ns s =
     bindO (keep_uc (lift (metrics_NewClient (re_net re))) (empty_uc, s)) (\<lambda>m us.
     bindO (keep_uc (lift (eventManager_NewManager (re_nb re))) us) (\<lambda>em (uc, s).
       case lift (get_uc (re_uc re) n ns) s of
         (Inl e, s) \<Rightarrow>
           if IsNotFound e then (Ok no_requeue, uc, ResetEphemeralMetrics s) else (Err e, uc, s)
       | (Inr uc, s) \<Rightarrow> reconcile_instance re m em ns (uc, s)))"

section \<open>Event filters\<close>

text \<open>An update event passes the status filter when the status did not change.\<close>

definition StatusChangedPredicate :: "UpgradeConfig option \<Rightarrow> UpgradeConfig option \<Rightarrow> bool" where
  "StatusChangedPredicate old new =
     (case (old, new) of
        (Some o1, Some n1) \<Rightarrow> History n1 = History o1
      | _ \<Rightarrow> False)"

definition isManagedUpgrade :: "string \<Rightarrow> bool" where
  "isManagedUpgrade n \<longleftrightarrow> n = UPGRADECONFIG_CR_NAME"

section \<open>The life of an upgrade\<close>

text \<open>
  The abstract state machine of an upgrade: the phase of the history of the desired version, none
  before the controller has seen the UpgradeConfig. Upgraded and Failed are final, and an upgrade
  that has started never goes back to New or Pending.
\<close>

inductive phase_step :: "UpgradePhase option \<Rightarrow> UpgradePhase option \<Rightarrow> bool" where
  created: "phase_step None (Some New)"
| adopted: "phase_step None (Some Upgrading)"
| scheduled: "phase_step (Some New) (Some Pending)"
| replaced: "phase_step (Some Pending) (Some New)"
| started: "phase_step (Some Pending) (Some Upgrading)"
| finished: "phase_step (Some Upgrading) (Some Upgraded)"
| gave_up: "phase_step (Some Upgrading) (Some Failed)"

inductive_simps phase_step_simps [simp]:
  "phase_step (Some Upgraded) p" "phase_step (Some Failed) p" "phase_step (Some Upgrading) p"

definition phase_of :: "UpgradeConfig \<Rightarrow> UpgradePhase option" where
  "phase_of uc = map_option Phase (current_history uc)"

abbreviation phase_steps :: "UpgradeConfig \<Rightarrow> UpgradeConfig \<Rightarrow> bool" where
  "phase_steps uc uc' \<equiv> phase_step\<^sup>*\<^sup>* (phase_of uc) (phase_of uc')"

lemma final_phases:
  assumes "phase_step\<^sup>*\<^sup>* p q"
  shows "p \<in> {Some Upgraded, Some Failed} \<Longrightarrow> q = p"
    and "p = Some Upgrading \<Longrightarrow> q \<in> {Some Upgrading, Some Upgraded, Some Failed}"
  using assms by (induction rule: rtranclp_induct) auto

text \<open>The status writes of the API server return the object they were given.\<close>

definition status_echo :: "'s uc_api \<Rightarrow> bool" where
  "status_echo api \<longleftrightarrow> (\<forall>uc s uc' s'. update_uc_status api uc s = (Inr uc', s') \<longrightarrow> uc' = uc)"

lemma status_store_echo: "status_store api view \<Longrightarrow> status_echo api"
  using status_storeD(2) by (fastforce simp: status_echo_def)

lemma store_status_uc:
  assumes "status_echo (re_uc re)" "store_status re (uc, s) = (r, uc', s')"
  shows "uc' = uc"
  using assms by (auto simp: store_status_def lift_def status_echo_def split: prod.splits sum.splits)

lemma store_history_uc:
  assumes "status_echo (re_uc re)" "store_history re h (uc, s) = (r, uc', s')"
  shows "uc' = uc\<lparr>History := SetHistory h (History uc)\<rparr>"
  using store_status_uc [OF assms(1)] assms(2) by (simp add: store_history_def)

lemma store_history_phase:
  assumes "status_echo (re_uc re)" "store_history re h (uc, s) = (r, uc', s')" "Version h = desired_version uc"
  shows "phase_of uc' = Some (Phase h)" "Spec uc' = Spec uc" "current_history uc' = Some h"
proof -
  note uc' = store_history_uc [OF assms(1,2)]
  show "Spec uc' = Spec uc" by (simp add: uc')
  show c: "current_history uc' = Some h" using GetHistory_SetHistory [of h "History uc"] assms(3) by (simp add: uc')
  then show "phase_of uc' = Some (Phase h)" by (simp add: phase_of_def)
qed

lemma keep_uc_eq: "keep_uc f (uc, s) = (r, uc', s') \<longleftrightarrow> uc' = uc \<and> f s = (r, s')"
  by (auto simp: keep_uc_def Let_def split: prod.splits)

text \<open>A bind over a part that keeps the UpgradeConfig: either it ends there or the rest runs on the same UpgradeConfig.\<close>

lemma bind_keep_uc:
  assumes "bindO (keep_uc f (uc, s)) g = (r, uc', s')"
  obtains (stop) "uc' = uc" | (more) a s1 where "f s = (Ok a, s1)" "g a (uc, s1) = (r, uc', s')"
proof -
  obtain q s1 where "f s = (q, s1)" by fastforce
  then show thesis using assms that by (cases q) (auto simp: keep_uc_def)
qed

lemma bind_store:
  assumes "bindO (x, uc, s) g = (r, uc', s')"
  obtains (stop) "uc' = uc" | (more) a where "x = Ok a" "g a (uc, s) = (r, uc', s')"
  using assms that by (cases x) auto

section \<open>What the upgraders' contract gives the controller\<close>

context cluster_upgrader
begin

lemma upgradeCluster_phase:
  assumes echo: "status_echo (re_uc re)" and u: "UpgradeCluster u = upgrade"
    and run: "upgradeCluster re u (uc, s) = (r, uc', s')"
    and h: "current_history uc = Some h" "Phase h = Upgrading"
  shows "phase_of uc' \<in> {Some Upgrading, Some Upgraded, Some Failed}"
proof -
  obtain q uc1 s1 where q: "upgrade (uc, s) = (q, uc1, s1)" by (metis prod.exhaust)
  obtain cs where c: "current_history uc1 = Some (h\<lparr>HConditions := cs\<rparr>)" "Spec uc1 = Spec uc"
    using q h(1) by (rule history_kept)
  have v: "Version h = desired_version uc" using h(1) by (rule GetHistory_Version)
  show ?thesis
  proof (cases q)
    case (Ok pe)
    obtain p err where pe: "pe = (p, err)" by fastforce
    have p: "p \<in> {Upgrading, Upgraded, Failed}" using running_stays [OF q [unfolded Ok pe] h] .
    obtain h1 s2 where h1: "(if p = Upgraded
         then let (now, s) = lift (time_now (re_rt re)) s1 in ((h\<lparr>HConditions := cs\<rparr>)\<lparr>Phase := p, CompleteTime := Some now\<rparr>, s)
         else ((h\<lparr>HConditions := cs\<rparr>)\<lparr>Phase := p\<rparr>, s1)) = (h1, s2)" "Phase h1 = p" "Version h1 = Version h"
      by (cases "p = Upgraded"; cases "lift (time_now (re_rt re)) s1") auto
    obtain q2 uc2 s3 where st: "store_history re h1 (uc1, s2) = (q2, uc2, s3)" by (metis prod.exhaust)
    have "uc' = uc2"
      using run q Ok pe u c h1(1) st
      by (cases q2) (auto simp: upgradeCluster_def Let_def split: if_splits prod.splits option.splits)
    then show ?thesis
      using store_history_phase(1) [OF echo st] h1(2,3) v c(2) p by auto
  next
    case (Err e)
    then show ?thesis using no_error [of uc s e uc1 s1] q h by simp
  next
    case Panic
    then have "uc' = uc1" using run q u by (auto simp: upgradeCluster_def)
    then show ?thesis using c h by (simp add: phase_of_def)
  qed
qed

end

lemma new_phase_steps:
  assumes echo: "status_echo (re_uc re)" and run: "new_phase re cfg u h (uc, s) = (r, uc', s')"
    and h: "current_history uc = Some h" "Phase h = New"
  shows "phase_steps uc uc'"
proof -
  have v: "Version (h\<lparr>Phase := Pending\<rparr>) = desired_version uc" using h(1) GetHistory_Version by simp
  have new: "phase_of uc = Some New" using h by (simp add: phase_of_def)
  have store: "phase_steps uc uc'"
    if "bindO (store_history re (h\<lparr>Phase := Pending\<rparr>) (uc, t)) (\<lambda>_ us. (Ok \<lparr>RequeueAfter = Minute\<rparr>, us)) = (r, uc', s')" for t
  proof -
    obtain q uc1 s1 where st: "store_history re (h\<lparr>Phase := Pending\<rparr>) (uc, t) = (q, uc1, s1)" by (metis prod.exhaust)
    then have "uc' = uc1" using that by (cases q) auto
    then show ?thesis
      using store_history_phase(1) [OF echo st v] new by (auto intro: phase_step.scheduled)
  qed
  obtain sr s1 where sr: "lift (IsReadyToUpgrade (re_rt re) uc (GetUpgradeWindowTimeOutDuration (UpgradeWindow cfg))) s = (sr, s1)"
    by fastforce
  let ?check = "TimeUntilUpgrade sr div Minute > GetHealthCheckDuration uc div Minute \<and>
              IsFeatureEnabled (FeatureGate cfg) PreHealthCheckFeatureGate"
  show ?thesis
  proof (cases ?check)
    case True
    then have "bindO (keep_uc (\<lambda>s. tryO (HealthCheck u uc s) (\<lambda>_ s. (Ok (), s))) (uc, s1)) (\<lambda>_ us.
        bindO (store_history re (h\<lparr>Phase := Pending\<rparr>) us) (\<lambda>_ us. (Ok \<lparr>RequeueAfter = Minute\<rparr>, us))) = (r, uc', s')"
      using run sr by (simp add: new_phase_def)
    then show ?thesis by (cases rule: bind_keep_uc) (auto intro: store)
  next
    case False
    then show ?thesis using run sr by (intro store [of s1]) (auto simp: new_phase_def Let_def)
  qed
qed

lemma upgradeCluster_steps:
  assumes "cluster_upgrader (UpgradeCluster u)" "status_echo (re_uc re)" "upgradeCluster re u (uc, s) = (r, uc', s')"
    and "current_history uc = Some h" "Phase h = Upgrading"
  shows "phase_steps uc uc'"
proof -
  have "phase_of uc' \<in> {Some Upgrading, Some Upgraded, Some Failed}"
    by (rule cluster_upgrader.upgradeCluster_phase [OF assms(1,2) refl assms(3-5)])
  moreover have "phase_of uc = Some Upgrading" using assms(4,5) by (simp add: phase_of_def)
  ultimately show ?thesis by (auto intro: phase_step.finished phase_step.gave_up)
qed

lemma start_upgrade_steps:
  assumes cu: "cluster_upgrader (UpgradeCluster u)" and echo: "status_echo (re_uc re)"
    and run: "start_upgrade re u h (uc, s) = (r, uc', s')" and h: "current_history uc = Some h" "Phase h = Pending"
  shows "phase_steps uc uc'"
proof -
  have v: "Version h = desired_version uc" using h(1) by (rule GetHistory_Version)
  have p: "phase_of uc = Some Pending" using h by (simp add: phase_of_def)
  from run [unfolded start_upgrade_def] show ?thesis
  proof (cases rule: bind_keep_uc)
    case (more changed s1)
    show ?thesis
    proof (cases changed)
      case True
      obtain q uc1 s2 where st: "store_history re (h\<lparr>Phase := New\<rparr>) (uc, s1) = (q, uc1, s2)" by (metis prod.exhaust)
      have "uc' = uc1" using more(2) True st by (cases q) auto
      then show ?thesis using store_history_phase(1) [OF echo st] v p by (auto intro: phase_step.replaced)
    next
      case False
      with more(2) have "bindO (keep_uc (\<lambda>s. let (now, s) = lift (time_now (re_rt re)) s in (Ok now, s)) (uc, s1)) (\<lambda>now (uc, s).
         bindO (store_history re (h\<lparr>Phase := Upgrading, StartTime := Some now, Version := desired_version uc\<rparr>) (uc, s))
           (\<lambda>_ us. upgradeCluster re u us)) = (r, uc', s')" by simp
      then show ?thesis
      proof (cases rule: bind_keep_uc)
        case (more now s2)
        let ?h = "h\<lparr>Phase := Upgrading, StartTime := Some now, Version := desired_version uc\<rparr>"
        obtain q uc1 s3 where st: "store_history re ?h (uc, s2) = (q, uc1, s3)" by (metis prod.exhaust)
        note ph = store_history_phase [OF echo st]
        have one: "phase_steps uc uc1" using ph(1) p by (auto intro: phase_step.started)
        show ?thesis
        proof (cases q)
          case (Ok x)
          then have "upgradeCluster re u (uc1, s3) = (r, uc', s')" using more(2) st by simp
          from upgradeCluster_steps [OF cu echo this, of ?h] ph(3) one show ?thesis by auto
        qed (use more(2) st one in auto)
      qed simp
    qed
  qed simp
qed

text \<open>
  A pending upgrade is started only from here: the UpgradeConfig is valid, its time has come, and
  a refresh of the policies found no change (or there is no provider to ask).
\<close>

definition cleared_to_start ::
    "'w reconcile_env \<Rightarrow> Target \<Rightarrow> config \<Rightarrow> ClusterVersion \<Rightarrow> UpgradeConfig \<Rightarrow> 'w \<Rightarrow> bool" where
  "cleared_to_start re t cfg cv uc w \<longleftrightarrow>
     (\<exists>cin w1 vr uc1 w2 sr w3.
        validation_NewClient (re_rt re) (ue_cm (re_upgrader re)) t (re_decode_validation re) w = (Ok cin, w1) \<and>
        IsValidUpgradeConfig (re_validation re) cin cv (uc, w1) = (Ok (vr, None), uc1, w2) \<and> IsValid vr \<and> IsAvailableUpdate vr \<and>
        IsReadyToUpgrade (re_rt re) uc1 (GetUpgradeWindowTimeOutDuration (UpgradeWindow cfg)) w2 = (sr, w3) \<and> IsReady sr \<and>
        fst (Refresh (re_ucm re) w3) \<in> {Ok False, Err ErrNotConfigured})"

lemma ext_gauge_updates [simp]:
  "ext (UpdateMetricValidationSucceeded n s) = ext s" "ext (UpdateMetricValidationFailed n s) = ext s"
  by (simp_all add: gauge_update_defs)

text \<open>The steps of a pending phase, one result after the other; \<open>stop\<close> is every way not to get to the schedule.\<close>

lemma pending_phase_cases:
  obtains (stop) x us where "\<And>u. pending_phase re t cfg u cv h (uc, s) = (x, us)"
      "us = (uc, snd us) \<or> (\<exists>w1 cin r w2. IsValidUpgradeConfig (re_validation re) cin cv (uc, w1) = (r, fst us, w2))"
    | (waiting) cin w1 vr uc1 w2 s1 x where
      "IsValidUpgradeConfig (re_validation re) cin cv (uc, w1) = (Ok (vr, None), uc1, w2)"
      "\<And>u. pending_phase re t cfg u cv h (uc, s) =
             bindO (store_history re (h\<lparr>Phase := Pending\<rparr>) (uc1, s1)) (\<lambda>_ us. (Ok x, us))"
    | (due) cin w1 vr uc1 w2 sr s3 where
      "validation_NewClient (re_rt re) (ue_cm (re_upgrader re)) t (re_decode_validation re) (ext s) = (Ok cin, w1)"
      "IsValidUpgradeConfig (re_validation re) cin cv (uc, w1) = (Ok (vr, None), uc1, w2)" "IsValid vr" "IsAvailableUpdate vr"
      "IsReadyToUpgrade (re_rt re) uc1 (GetUpgradeWindowTimeOutDuration (UpgradeWindow cfg)) w2 = (sr, ext s3)" "IsReady sr"
      "\<And>u. pending_phase re t cfg u cv h (uc, s) = start_upgrade re u h (uc1, s3)"
proof -
  obtain c s1 where c: "lift (validation_NewClient (re_rt re) (ue_cm (re_upgrader re)) t (re_decode_validation re)) s = (c, s1)"
    by fastforce
  show thesis
  proof (cases c)
    case (Ok cin)
    obtain v uc1 w2 where v: "IsValidUpgradeConfig (re_validation re) cin cv (uc, ext s1) = (v, uc1, w2)" by (metis prod.exhaust)
    show thesis
    proof (cases "\<exists>vr. v = Ok (vr, None) \<and> IsValid vr \<and> IsAvailableUpdate vr")
      case False
      define res where "res = pending_phase re t cfg undefined cv h (uc, s)"
      have "pending_phase re t cfg u cv h (uc, s) = res" "fst (snd res) = uc1" for u
        using c Ok v False
        by (cases v; auto simp: res_def pending_phase_def keep_uc_def split: if_splits option.splits)+
      then show thesis using stop [of "fst res" "snd res"] v by auto
    next
      case True
      then obtain vr where vr: "v = Ok (vr, None)" "IsValid vr" "IsAvailableUpdate vr" by blast
      let ?s2 = "UpdateMetricValidationSucceeded (ucName uc1) (s1\<lparr>ext := w2\<rparr>)"
      obtain sr s3 where sr: "lift (IsReadyToUpgrade (re_rt re) uc1 (GetUpgradeWindowTimeOutDuration (UpgradeWindow cfg))) ?s2 = (sr, s3)"
        by fastforce
      show thesis
      proof (cases "IsReady sr")
        case True
        have "pending_phase re t cfg u cv h (uc, s) = start_upgrade re u h (uc1, s3)" for u
          using c Ok v vr sr True by (simp add: pending_phase_def keep_uc_def Let_def)
        then show thesis
          using due [of cin "ext s1" vr uc1 w2 sr s3] c Ok v vr sr True by (simp add: lift_eq_iff)
      next
        case False
        have "pending_phase re t cfg u cv h (uc, s) =
            bindO (store_history re (h\<lparr>Phase := Pending\<rparr>) (uc1, s3)) (\<lambda>_ us. (Ok (pending_requeue sr), us))" for u
          using c Ok v vr sr False by (simp add: pending_phase_def keep_uc_def Let_def)
        then show thesis using waiting [of cin "ext s1" vr uc1 w2] v vr by blast
      qed
    qed
  next
    case (Err e)
    then show thesis using stop [of "Err e" "(uc, s1)"] c by (simp add: pending_phase_def keep_uc_def)
  next
    case Panic
    then show thesis using stop [of Panic "(uc, s1)"] c by (simp add: pending_phase_def keep_uc_def)
  qed
qed

lemma pending_phase_steps:
  assumes cu: "cluster_upgrader (UpgradeCluster u)" and echo: "status_echo (re_uc re)"
    and noimg: "dImage (Desired (Spec uc)) = []"
    and run: "pending_phase re t cfg u cv h (uc, s) = (r, uc', s')" and h: "current_history uc = Some h" "Phase h = Pending"
  shows "phase_steps uc uc'"
proof (cases rule: pending_phase_cases [of re t cfg cv h uc s])
  case (stop x us)
  then have "uc' = uc" using run IsValidUpgradeConfig_version_kept [OF noimg] by (cases us) auto
  then show ?thesis by simp
next
  case (waiting cin w1 vr uc1 w2 s1 x)
  have uc1: "uc1 = uc" using IsValidUpgradeConfig_version_kept [OF noimg waiting(1)] .
  obtain q uc2 s2 where st: "store_history re (h\<lparr>Phase := Pending\<rparr>) (uc, s1) = (q, uc2, s2)" by (metis prod.exhaust)
  have "uc' = uc2" using run waiting(2) st uc1 by (cases q) auto
  then show ?thesis
    using store_history_phase(1) [OF echo st] h GetHistory_Version by (auto simp: phase_of_def)
next
  case (due cin w1 vr uc1 w2 sr s3)
  have "uc1 = uc" using IsValidUpgradeConfig_version_kept [OF noimg due(2)] .
  then show ?thesis using start_upgrade_steps [OF cu echo _ h] run due(7) by auto
qed

lemma upgraded_phase_uc: "upgraded_phase re m h (uc, s) = (r, uc', s') \<Longrightarrow> uc' = uc"
  by (auto simp: upgraded_phase_def split: option.splits elim: bind_keep_uc)

lemma reconcile_phase_steps:
  assumes "cluster_upgrader (UpgradeCluster u)" "status_echo (re_uc re)" "dImage (Desired (Spec uc)) = []"
    and run: "reconcile_phase re t cfg m u cv h (uc, s) = (r, uc', s')" and h: "current_history uc = Some h"
  shows "phase_steps uc uc'"
proof (cases "Phase h")
  case New
  then show ?thesis using new_phase_steps [OF assms(2) _ h] run by (simp add: reconcile_phase_def)
next
  case Pending
  then show ?thesis using pending_phase_steps [OF assms(1-3) _ h] run by (simp add: reconcile_phase_def)
next
  case Upgrading
  then show ?thesis using upgradeCluster_steps [OF assms(1,2) _ h] run by (simp add: reconcile_phase_def)
next
  case Upgraded
  then show ?thesis using upgraded_phase_uc run by (fastforce simp: reconcile_phase_def)
qed (use run in \<open>auto simp: reconcile_phase_def\<close>)

lemma init_history_steps:
  assumes echo: "status_echo (re_uc re)" and run: "init_history re cv (uc, s) = (r, uc', s')"
  shows "phase_steps uc uc' \<and> Spec uc' = Spec uc \<and> (\<forall>h. r = Ok h \<longrightarrow> current_history uc' = Some h)"
proof (cases "current_history uc")
  case (Some h)
  then show ?thesis using run by (auto simp: init_history_def)
next
  case None
  obtain q s1 where q: "wrap_err (re_rt re) ''could not tell if cluster was upgrading: ''
      (lift (HasUpgradeCommenced (re_cv re) uc) s) = (q, s1)" by fastforce
  show ?thesis
  proof (cases q)
    case (Ok up)
    obtain h s2 where h: "init_history re cv (uc, s) =
        bindO (store_status re (uc\<lparr>History := h # History uc\<rparr>, s2)) (\<lambda>_ us. (Ok h, us))"
        "Version h = desired_version uc" "Phase h \<in> {New, Upgrading}"
      using None Ok q
      by (cases up; cases "lift (time_now (re_rt re)) s1") (auto simp: init_history_def keep_uc_def Let_def)
    obtain q2 uc2 s3 where st: "store_status re (uc\<lparr>History := h # History uc\<rparr>, s2) = (q2, uc2, s3)" by (metis prod.exhaust)
    have "uc' = uc2 \<and> (\<forall>h'. r = Ok h' \<longrightarrow> h' = h)"
      using run h(1) st by (cases q2) auto
    then have uc': "uc' = uc\<lparr>History := h # History uc\<rparr>" "\<forall>h'. r = Ok h' \<longrightarrow> h' = h"
      using store_status_uc [OF echo st] by blast+
    have cur: "current_history uc' = Some h" using uc' h(2) by (simp add: GetHistory_def)
    have "phase_of uc = None" "phase_of uc' = Some (Phase h)" using None cur by (simp_all add: phase_of_def)
    then have "phase_steps uc uc'" using h(3) r_into_rtranclp [of phase_step, OF phase_step.created] r_into_rtranclp [of phase_step, OF phase_step.adopted] by auto
    then show ?thesis using uc' cur by auto
  qed (use run None q in \<open>auto simp: init_history_def keep_uc_def\<close>)
qed

lemma reconcile_instance_steps:
  assumes echo: "status_echo (re_uc re)" and noimg: "dImage (Desired (Spec uc)) = []"
    and run: "reconcile_instance re m em ns (uc, s) = (r, uc', s')"
  shows "phase_steps uc uc'"
  using run [unfolded reconcile_instance_def]
proof (cases rule: bind_keep_uc)
  case (more cv s1)
  obtain q uc1 s2 where i: "init_history re cv (uc, s1) = (q, uc1, s2)" by (metis prod.exhaust)
  note ih = init_history_steps [OF echo i]
  show ?thesis
  proof (cases q)
    case (Ok h)
    then have cur: "current_history uc1 = Some h" and noimg1: "dImage (Desired (Spec uc1)) = []" using ih noimg by auto
    have "phase_steps uc1 uc'"
      using more(2) [unfolded i Ok bindO_simps]
    proof (cases rule: bind_store)
      case (more t)
      from more(2) show ?thesis
      proof (cases rule: bind_keep_uc)
        case (more cfg s3)
        from more(2) have "bindO (keep_uc (lift (NewClient (re_upgrader re) t m em (UType (Spec uc1)))) (uc1, s3))
            (\<lambda>upgrader us. reconcile_phase re t cfg m upgrader cv h us) = (r, uc', s')" by simp
        then show ?thesis
        proof (cases rule: bind_keep_uc)
          case (more u s4)
          have "cluster_upgrader (UpgradeCluster u)" using more(1) NewClient_contract by (auto simp: lift_eq_iff)
          then show ?thesis using reconcile_phase_steps [OF _ echo noimg1 more(2) cur] by simp
        qed simp
      qed simp
    qed simp
    then show ?thesis using ih by auto
  qed (use more(2) i ih in auto)
qed simp

text \<open>A run that consults the upgrader: what the controller has checked before.\<close>

lemma start_upgrade_gate:
  assumes "start_upgrade re u1 h (uc, s) \<noteq> start_upgrade re u2 h (uc, s)"
  shows "fst (Refresh (re_ucm re) (ext s)) \<in> {Ok False, Err ErrNotConfigured}"
proof (rule ccontr)
  assume not: "\<not> ?thesis"
  obtain q w where q: "Refresh (re_ucm re) (ext s) = (q, w)" by fastforce
  then show False
    using assms not by (cases q) (auto simp: start_upgrade_def keep_uc_def lift_def split: if_splits)
qed

lemma new_phase_upgrader: "new_phase re cfg (u\<lparr>UpgradeCluster := f\<rparr>) h us = new_phase re cfg u h us"
  by (simp add: new_phase_def cong: if_cong prod.case_cong)

lemma pending_phase_gate:
  assumes "pending_phase re t cfg u1 cv h (uc, s) \<noteq> pending_phase re t cfg u2 cv h (uc, s)"
  shows "cleared_to_start re t cfg cv uc (ext s)"
proof (cases rule: pending_phase_cases [of re t cfg cv h uc s])
  case (due cin w1 vr uc1 w2 sr s3)
  have "fst (Refresh (re_ucm re) (ext s3)) \<in> {Ok False, Err ErrNotConfigured}"
    using assms due(7) by (intro start_upgrade_gate) auto
  then show ?thesis
    using due(1-6) unfolding cleared_to_start_def by blast
qed (use assms in auto)

text \<open>
  An operator without a provider of policies, an hour after the epoch, whose API server holds one
  UpgradeConfig; the cluster answers and the versions are those of \<open>sample_cv\<close>.
\<close>

definition sample_re :: "UpgradeConfig option reconcile_env" where
  "sample_re =
     \<lparr>re_ucm = (sample_um [] mem_uc)\<lparr>um_spec := sample_spec_env Hour [] mem_uc\<rparr>,
      re_upgrader =
        \<lparr>ue_net = online_net Hour,
         ue_cm = \<lparr>environ = [''OPERATOR_NAMESPACE'' \<mapsto> ''muo''], get_configmap = (\<lambda>_ _ s. (Inr Map.empty, s))\<rparr>,
         ue_decode = (\<lambda>_. Inr sample_config),
         ue_http = \<lparr>http_rt = sample_clock, http_get = (\<lambda>_ _ s. (Inr 200, s)), rand_Int63n = (\<lambda>_ s. (0, s)), sleep_for = (\<lambda>_ s. s)\<rparr>,
         ue_schedule = (\<lambda>us. us), ue_machines = quiet_machines, ue_drain = quiet_drain,
         ue_get_mcp = (\<lambda>n s. (Inr \<lparr>mcpName = n, mcpMachineCount = 3, mcpUpdatedMachineCount = 0\<rparr>, s)),
         ue_list_nodes = (\<lambda>_ s. (Inr [], s)), ue_semver = ve_semver (sample_validation :: unit validation_env),
         ue_fio_get = (\<lambda>s. (Inr (), s)), ue_fio_annotate = (\<lambda>_ s. (Inr (), s))\<rparr>,
      re_validation = sample_validation,
      re_decode = (\<lambda>_. Inr \<lparr>UpgradeWindow = \<lparr>TimeOut = 120, DelayTrigger = 30\<rparr>, FeatureGate = []\<rparr>),
      re_decode_validation = (\<lambda>_. Inr True)\<rparr>"

definition sample_cfg :: config where
  "sample_cfg = \<lparr>UpgradeWindow = \<lparr>TimeOut = 120, DelayTrigger = 30\<rparr>, FeatureGate = []\<rparr>"

definition sample_target :: Target where
  "sample_target = \<lparr>tName = ''managed-upgrade-operator-config'', tNamespace = ''muo'', tConfigKey = ''config.yaml''\<rparr>"

definition pending_history :: UpgradeHistory where
  "pending_history = started_history\<lparr>Phase := Pending, StartTime := None\<rparr>"

definition pending_uc :: UpgradeConfig where
  "pending_uc = sample_uc\<lparr>History := [pending_history]\<rparr>"

lemma pending_uc_history: "current_history pending_uc = Some pending_history"
  by (simp add: pending_uc_def pending_history_def started_history_def sample_uc_def GetHistory_def)

lemma sample_re_api [simp]:
  "re_uc sample_re = mem_uc" "re_rt sample_re = \<lparr>time_now = (\<lambda>s. (Hour, s)), error_string = (\<lambda>_. ''error'')\<rparr>"
  "re_validation sample_re = sample_validation"
  by (simp_all add: sample_re_def sample_spec_env_def offline_net_def)

lemma sample_cleared: "cleared_to_start sample_re sample_target sample_cfg sample_cv pending_uc (Some pending_uc)"
proof -
  have "validation_NewClient (re_rt sample_re) (ue_cm (re_upgrader sample_re)) sample_target (re_decode_validation sample_re) (Some pending_uc)
      = (Ok True, Some pending_uc)"
    by (simp add: validation_NewClient_def Into_def call_def) (simp add: sample_re_def)
  moreover have "IsValidUpgradeConfig (re_validation sample_re) True sample_cv (pending_uc, Some pending_uc) =
      (Ok (\<lparr>IsValid = True, IsAvailableUpdate = True, VMessage = ''Upgrade config is valid''\<rparr>, None), pending_uc, Some pending_uc)"
    using sample_valid_spec [of pending_uc "Some pending_uc"] by (simp add: validationPassed_def pending_uc_def)
  moreover have "IsReadyToUpgrade (re_rt sample_re) pending_uc (GetUpgradeWindowTimeOutDuration (UpgradeWindow sample_cfg)) (Some pending_uc) =
      (\<lparr>IsReady = True, IsBreached = False, TimeUntilUpgrade = 0\<rparr>, Some pending_uc)"
    using sample_upgradeAt
    by (simp add: IsReadyToUpgrade_def pending_uc_def sample_cfg_def GetUpgradeWindowTimeOutDuration_def minutes_small Let_def)
  moreover have "Refresh (re_ucm sample_re) (Some pending_uc) = (Err ErrNotConfigured, Some pending_uc)"
    by (simp add: Refresh_def sample_re_def specprovider_New_def readSpecProviderConfig_def read_config_def GetOperatorNamespace_def)
       (simp add: sample_spec_env_def env_eval SpecProviderConfig_IsValid_def Let_def)
  ultimately show ?thesis
    unfolding cleared_to_start_def by fastforce
qed

text \<open>The status writes of the API server succeed.\<close>

definition status_writable :: "'s uc_api \<Rightarrow> bool" where
  "status_writable api \<longleftrightarrow> (\<forall>uc s. \<exists>s'. update_uc_status api uc s = (Inr uc, s'))"

lemma store_history_writable:
  assumes "status_writable (re_uc re)"
  obtains s' where "store_history re h (uc, s) = (Ok (), uc\<lparr>History := SetHistory h (History uc)\<rparr>, s')"
proof -
  obtain w where "update_uc_status (re_uc re) (uc\<lparr>History := SetHistory h (History uc)\<rparr>) (ext s) =
      (Inr (uc\<lparr>History := SetHistory h (History uc)\<rparr>), w)"
    using assms by (auto simp: status_writable_def)
  then show thesis using that by (simp add: store_history_def store_status_def lift_def)
qed

text \<open>The history a due upgrade starts with.\<close>

abbreviation start_history :: "UpgradeConfig \<Rightarrow> UpgradeHistory \<Rightarrow> instant \<Rightarrow> UpgradeHistory" where
  "start_history uc h now \<equiv> h\<lparr>Phase := Upgrading, StartTime := Some now, Version := desired_version uc\<rparr>"

text \<open>With the policies unchanged, or no provider configured, a due upgrade is recorded as running and run.\<close>

lemma start_upgrade_unchanged:
  assumes fresh: "fst (Refresh (re_ucm re) (ext s)) \<in> {Ok False, Err ErrNotConfigured}" and wr: "status_writable (re_uc re)"
  obtains now s1 where "\<And>u. start_upgrade re u h (uc, s) =
      upgradeCluster re u (uc\<lparr>History := SetHistory (start_history uc h now) (History uc)\<rparr>, s1)"
    "\<exists>w w'. time_now (re_rt re) w = (now, w')"
proof -
  obtain q w where q: "Refresh (re_ucm re) (ext s) = (q, w)" by fastforce
  obtain now w' where now: "time_now (re_rt re) w = (now, w')" by fastforce
  obtain s1 where s1: "store_history re (start_history uc h now) (uc, s\<lparr>ext := w'\<rparr>) =
      (Ok (), uc\<lparr>History := SetHistory (start_history uc h now) (History uc)\<rparr>, s1)"
    using wr by (rule store_history_writable)
  have "start_upgrade re u h (uc, s) = upgradeCluster re u (uc\<lparr>History := SetHistory (start_history uc h now) (History uc)\<rparr>, s1)" for u
    using fresh q now s1 by (auto simp: start_upgrade_def keep_uc_def lift_def Let_def)
  then show thesis using that [of now s1] now by blast
qed

lemma cleared_starts:
  assumes clear: "cleared_to_start re t cfg cv uc (ext s)" and noimg: "dImage (Desired (Spec uc)) = []"
    and wr: "status_writable (re_uc re)" and h: "Phase h = Pending"
  obtains now s1 where "\<And>u. reconcile_phase re t cfg m u cv h (uc, s) =
      upgradeCluster re u (uc\<lparr>History := SetHistory (start_history uc h now) (History uc)\<rparr>, s1)"
    "\<exists>w w'. time_now (re_rt re) w = (now, w')"
proof -
  obtain cin w1 vr uc1 w2 sr w3 where c:
      "validation_NewClient (re_rt re) (ue_cm (re_upgrader re)) t (re_decode_validation re) (ext s) = (Ok cin, w1)"
      "IsValidUpgradeConfig (re_validation re) cin cv (uc, w1) = (Ok (vr, None), uc1, w2)" "IsValid vr" "IsAvailableUpdate vr"
      "IsReadyToUpgrade (re_rt re) uc1 (GetUpgradeWindowTimeOutDuration (UpgradeWindow cfg)) w2 = (sr, w3)" "IsReady sr"
      "fst (Refresh (re_ucm re) w3) \<in> {Ok False, Err ErrNotConfigured}"
    using clear unfolding cleared_to_start_def by blast
  have uc1: "uc1 = uc" using IsValidUpgradeConfig_version_kept [OF noimg c(2)] .
  let ?s3 = "UpdateMetricValidationSucceeded (ucName uc) (s\<lparr>ext := w2\<rparr>)\<lparr>ext := w3\<rparr>"
  have p: "reconcile_phase re t cfg m u cv h (uc, s) = start_upgrade re u h (uc, ?s3)" for u
    using c uc1 h by (simp add: reconcile_phase_def pending_phase_def keep_uc_def lift_def Let_def)
  have "fst (Refresh (re_ucm re) (ext ?s3)) \<in> {Ok False, Err ErrNotConfigured}" using c(7) by simp
  then show thesis by (rule start_upgrade_unchanged [OF _ wr, where h = h and uc = uc]) (rule that, simp_all add: p)
qed

definition quiet_em :: "UpgradeConfig option eventManager" where
  "quiet_em = \<lparr>em_rt = sample_clock, em_env = [''OPERATOR_NAMESPACE'' \<mapsto> ''muo''], em_uc = mem_uc, em_metrics = quiet_metrics,
               em_NotifyState = (\<lambda>_ _ s. (Ok (), s))\<rparr>"

lemma mem_uc_writable: "status_writable mem_uc" "status_echo mem_uc"
  by (simp_all add: status_writable_def status_echo_def mem_uc_def)

lemma sample_starts:
  "cleared_to_start sample_re sample_target sample_cfg sample_cv pending_uc (ext (no_gauges (Some pending_uc)))"
  "dImage (Desired (Spec pending_uc)) = []" "status_writable (re_uc sample_re)" "Phase pending_history = Pending"
  by (simp_all add: sample_cleared no_gauges_def mem_uc_writable pending_history_def) (simp add: pending_uc_def sample_uc_def)

text \<open>An upgrader that reports the given phase at once.\<close>

definition instant_upgrader :: "UpgradePhase \<Rightarrow> 'w ClusterUpgrader" where
  "instant_upgrader p = \<lparr>HealthCheck = (\<lambda>_ s. (Ok True, s)), UpgradeCluster = (\<lambda>us. (Ok (p, None), us))\<rparr>"

lemma instant_upgradeCluster:
  assumes "current_history uc = Some h" "p \<noteq> Upgraded" "status_writable (re_uc re)"
  shows "\<exists>s'. upgradeCluster re (instant_upgrader p) (uc, s) =
    (Ok \<lparr>RequeueAfter = Minute\<rparr>, uc\<lparr>History := SetHistory (h\<lparr>Phase := p\<rparr>) (History uc)\<rparr>, s')"
proof -
  obtain s' where "store_history re (h\<lparr>Phase := p\<rparr>) (uc, s) = (Ok (), uc\<lparr>History := SetHistory (h\<lparr>Phase := p\<rparr>) (History uc)\<rparr>, s')"
    using assms(3) by (rule store_history_writable)
  then show ?thesis
    using assms(1,2) by (simp add: upgradeCluster_def instant_upgrader_def multierror_Append_def ErrorOrNil_def)
qed

section \<open>Properties\<close>

text \<open>
  C1: One reconciliation of a version upgrade (no image) moves the UpgradeConfig along the abstract
  state machine \<open>phase_step\<close>, whatever the API server, the cluster and the other services answer: also
  when it ends early with an error or a panic. So an upgrade starts only from Pending or by adopting a
  cluster that is already upgrading, an upgrade that runs never becomes New or Pending again, and Upgraded
  and Failed are final.
\<close>

theorem Reconcile_refines_phases:
  assumes "status_echo (re_uc re)" "dImage (Desired (Spec uc)) = []"
    and "reconcile_instance re m em ns (uc, s) = (r, uc', s')"
  shows "phase_step\<^sup>*\<^sup>* (phase_of uc) (phase_of uc')"
  using assms by (rule reconcile_instance_steps)

theorem Reconcile_refines_phases_witness:
  "phase_of (fst (snd (reconcile_instance sample_re quiet_metrics quiet_em ''muo''
     (sample_uc\<lparr>History := [pending_history\<lparr>Phase := Failed\<rparr>]\<rparr>, no_gauges None)))) = Some Failed"
proof -
  let ?uc = "sample_uc\<lparr>History := [pending_history\<lparr>Phase := Failed\<rparr>]\<rparr>"
  obtain r uc' s' where run: "reconcile_instance sample_re quiet_metrics quiet_em ''muo'' (?uc, no_gauges None) = (r, uc', s')"
    by (metis prod.exhaust)
  have "phase_step\<^sup>*\<^sup>* (phase_of ?uc) (phase_of uc')"
    by (rule Reconcile_refines_phases [OF _ _ run]) (simp add: mem_uc_writable, simp add: sample_uc_def)
  moreover have "phase_of ?uc = Some Failed"
    by (simp add: phase_of_def GetHistory_def pending_history_def started_history_def sample_uc_def)
  ultimately show ?thesis using final_phases(1) run by auto
qed

text \<open>
  C2: The controller hands an UpgradeConfig that is not already Upgrading to the upgrader only when it is
  Pending, validation has passed, its time has come and the refreshed policies have not changed: if any of
  these fails, the result of the reconciliation does not depend on what the upgrader would do.
\<close>

theorem upgrade_gate:
  assumes "reconcile_phase re t cfg m (u\<lparr>UpgradeCluster := f\<rparr>) cv h (uc, s) \<noteq>
           reconcile_phase re t cfg m (u\<lparr>UpgradeCluster := g\<rparr>) cv h (uc, s)"
    and "Phase h \<noteq> Upgrading"
  shows "Phase h = Pending \<and> cleared_to_start re t cfg cv uc (ext s)"
proof (cases "Phase h")
  case Pending
  then show ?thesis using assms(1) pending_phase_gate by (auto simp: reconcile_phase_def)
next
  case New
  then show ?thesis using assms(1) by (simp add: reconcile_phase_def new_phase_upgrader)
qed (use assms in \<open>auto simp: reconcile_phase_def\<close>)

theorem upgrade_gate_witness: "cleared_to_start sample_re sample_target sample_cfg sample_cv pending_uc (Some pending_uc)"
proof -
  let ?run = "\<lambda>u. reconcile_phase sample_re sample_target sample_cfg quiet_metrics u sample_cv pending_history
      (pending_uc, no_gauges (Some pending_uc))"
  obtain now s1 where now: "\<And>u. ?run u =
      upgradeCluster sample_re u (pending_uc\<lparr>History := SetHistory (start_history pending_uc pending_history now) (History pending_uc)\<rparr>, s1)"
    by (rule cleared_starts [OF sample_starts, of quiet_metrics]) blast
  let ?uc = "pending_uc\<lparr>History := SetHistory (start_history pending_uc pending_history now) (History pending_uc)\<rparr>"
  have cur: "current_history ?uc = Some (start_history pending_uc pending_history now)"
    using GetHistory_SetHistory [of "start_history pending_uc pending_history now"] by simp
  have "phase_of (fst (snd (?run (instant_upgrader p)))) = Some p" if "p \<noteq> Upgraded" for p
    using instant_upgradeCluster [OF cur that, of sample_re s1]
      GetHistory_SetHistory [of "(start_history pending_uc pending_history now)\<lparr>Phase := p\<rparr>"]
    by (auto simp: now mem_uc_writable phase_of_def)
  from this [of Upgrading] this [of Failed] have "?run (instant_upgrader Upgrading) \<noteq> ?run (instant_upgrader Failed)"
    by (metis UpgradePhase.distinct(1,17,19,21,23) UpgradePhase.simps option.inject)
  then have "?run ((instant_upgrader New)\<lparr>UpgradeCluster := UpgradeCluster (instant_upgrader Upgrading)\<rparr>) \<noteq>
      ?run ((instant_upgrader New)\<lparr>UpgradeCluster := UpgradeCluster (instant_upgrader Failed)\<rparr>)"
    by (simp add: instant_upgrader_def)
  from upgrade_gate [OF this] show ?thesis by (simp add: sample_starts(4) no_gauges_def)
qed

text \<open>
  C12: A pending version upgrade that is valid and due, whose policies have not changed, starts in this very
  reconciliation when the status can be written: its history is stored as Upgrading with the time of the
  clock as its start, and the upgrader is run on it at once.
\<close>

theorem due_upgrade_starts:
  assumes "cleared_to_start re t cfg cv uc (ext s)" "dImage (Desired (Spec uc)) = []" "status_writable (re_uc re)"
    and "Phase h = Pending"
  shows "\<exists>now s1. (\<exists>w w'. time_now (re_rt re) w = (now, w')) \<and>
    (\<forall>u. reconcile_phase re t cfg m u cv h (uc, s) =
      upgradeCluster re u (uc\<lparr>History := SetHistory (h\<lparr>Phase := Upgrading, StartTime := Some now, Version := desired_version uc\<rparr>)
        (History uc)\<rparr>, s1))"
  using assms by (rule cleared_starts [where m = m]) blast

theorem due_upgrade_starts_witness:
  "\<exists>s1. reconcile_phase sample_re sample_target sample_cfg quiet_metrics (instant_upgrader Upgrading) sample_cv pending_history
          (pending_uc, no_gauges (Some pending_uc)) =
        upgradeCluster sample_re (instant_upgrader Upgrading)
          (pending_uc\<lparr>History := SetHistory (start_history pending_uc pending_history Hour) (History pending_uc)\<rparr>, s1)"
proof -
  from due_upgrade_starts [OF sample_starts, of quiet_metrics] show ?thesis by auto
qed

end
