(* ===== verification/Controllers.thy ===== *)
theory Controllers
  imports Reconcile
begin

text \<open>
  The two smaller controllers: the NodeKeeper (\<open>controllers/nodekeeper\<close>), which drives the drain
  strategies of a cordoned worker and raises or clears its drain alert, and the MachineConfigPool
  controller (\<open>controllers/machineconfigpool\<close>), which records when the workers of an upgrade start
  and finish.
\<close>

section \<open>NodeKeeper\<close>

record 'w nodekeeper_env =
  nk_net :: "'w net_api"
  nk_uc :: "'w uc_api"
  nk_cm :: "'w cm_api"
  nk_decode :: "string \<Rightarrow> goerr + NodeDrain"
  nk_drain :: "'w drain_env"
  nk_get_mcp :: "string \<Rightarrow> ('w, MachineConfigPool) ext_op"
  nk_get_node :: "string \<Rightarrow> ('w, Node) ext_op"

definition nodeKeeperConfig_IsValid :: "NodeDrain \<Rightarrow> unit outcome" where
  "nodeKeeperConfig_IsValid nd =
     (if Timeout nd < 0 then Err (Errorf ''config nodeDrain timeOut is invalid'') else Ok ())"

definition hasMasterLabel :: "(string \<rightharpoonup> string) \<Rightarrow> bool" where
  "hasMasterLabel labels \<longleftrightarrow> labels ''node-role.kubernetes.io/master'' \<noteq> None"

text \<open>An event of the watched kind; an update carries an object that may be of another kind.\<close>

datatype 'a event = UpdateEvent "'a option" | CreateEvent 'a | DeleteEvent 'a | GenericEvent 'a

fun IgnoreMasterPredicate :: "Node event \<Rightarrow> bool" where
  "IgnoreMasterPredicate (UpdateEvent None) = False"
| "IgnoreMasterPredicate (UpdateEvent (Some n)) = (\<not> hasMasterLabel (nodeLabels n))"
| "IgnoreMasterPredicate (CreateEvent n) = (\<not> hasMasterLabel (nodeLabels n))"
| "IgnoreMasterPredicate (DeleteEvent n) = (\<not> hasMasterLabel (nodeLabels n))"
| "IgnoreMasterPredicate (GenericEvent n) = (\<not> hasMasterLabel (nodeLabels n))"

definition NodeDrainResult :: "Node \<Rightarrow> bool \<Rightarrow> 'w sys \<Rightarrow> 'w sys" where
  "NodeDrainResult node hasFailed s =
     (if hasFailed
      then if nodeDeletionTimestamp node \<noteq> None then ResetMetricNodeDrainFailed (nodeName node) s
           else if IsNodeUpgrading node then UpdateMetricNodeDrainFailed (nodeName node) s else s
      else ResetMetricNodeDrainFailed (nodeName node) s)"

text \<open>The drain of a cordoned node, with the configuration read.\<close>

definition drain_node ::
    "'w nodekeeper_env \<Rightarrow> UpgradeConfig \<Rightarrow> NodeDrain \<Rightarrow> Node \<Rightarrow> ('w sys, Result) op" where
  "drain_node nk uc cfg node s =
     (if \<not> DisableDrainStrategies cfg
      then bindO (lift (NewNodeDrainStrategy (nk_drain nk) uc cfg) s) (\<lambda>ds s.
           bindO (drain_Execute ds node s) (\<lambda>_ s.
           bindO (lift (drain_HasFailed ds node) s) (\<lambda>failed s.
             (Ok \<lparr>RequeueAfter = Minute\<rparr>, NodeDrainResult node failed s))))
      else bindO (lift (NewDefaultNodeDrainStrategy (nk_drain nk) uc cfg) s) (\<lambda>ds s.
           bindO (lift (drain_HasFailed ds node) s) (\<lambda>failed s.
             (Ok \<lparr>RequeueAfter = Minute\<rparr>, NodeDrainResult node failed s))))"

definition found_node ::
    "'w nodekeeper_env \<Rightarrow> UpgradeConfig \<Rightarrow> Node \<Rightarrow> ('w sys, Result) op" where
  "found_node nk uc node s =
     bindO (lift (metrics_NewClient (nk_net nk)) s) (\<lambda>_ s.
       if \<not> IsCordoned (IsNodeCordoned node)
       then (Ok no_requeue, ResetMetricNodeDrainFailed (nodeName node) s)
       else
         bindO (NewCMTarget (net_env (nk_net nk)) default_target, s) (\<lambda>t s.
         bindO (lift (Into (net_rt (nk_net nk)) (nk_cm nk) t (nk_decode nk) nodeKeeperConfig_IsValid) s) (\<lambda>cfg s.
           drain_node nk uc cfg node s)))"

definition nodekeeper_Reconcile :: "'w nodekeeper_env \<Rightarrow> string \<Rightarrow> ('w sys, Result) op" where
  "nodekeeper_Reconcile nk name s =
     (case lift (ucm_Get (net_env (nk_net nk)) (nk_uc nk)) s of
        (Panic, s) \<Rightarrow> (Panic, s)
      | (Err e, s) \<Rightarrow> if e = ErrUpgradeConfigNotFound then (Ok no_requeue, s) else (Err e, s)
      | (Ok uc, s) \<Rightarrow>
          bindO (lift (mcp_IsUpgrading (nk_get_mcp nk) ''worker'') s) (\<lambda>upgradeResult s.
            case GetHistory (History uc) (desired_version uc) of
              None \<Rightarrow> (Ok no_requeue, s)
            | Some history \<Rightarrow>
                if Phase history \<noteq> Upgrading \<or> \<not> IsUpgrading upgradeResult then (Ok no_requeue, s)
                else
                  (case lift (nk_get_node nk name) s of
                     (Inl e, s) \<Rightarrow>
                       if IsNotFound e
                       then (case lift (metrics_NewClient (nk_net nk)) s of
                               (Panic, s) \<Rightarrow> (Panic, s)
                             | (Err _, s) \<Rightarrow> (Ok no_requeue, s)
                             | (Ok _, s) \<Rightarrow> (Ok no_requeue, ResetMetricNodeDrainFailed name s))
                       else (Err e, s)
                   | (Inr node, s) \<Rightarrow> found_node nk uc node s)))"

section \<open>MachineConfigPool\<close>

record 'w mcp_env =
  mc_env :: environ
  mc_rt :: "'w runtime"
  mc_uc :: "'w uc_api"
  mc_get :: "string \<Rightarrow> ('w, MachineConfigPool) ext_op"

definition isWorkerPool :: "string \<Rightarrow> bool" where
  "isWorkerPool name \<longleftrightarrow> name = ''worker''"

fun isWorkerPredicate :: "MachineConfigPool event \<Rightarrow> bool" where
  "isWorkerPredicate (UpdateEvent None) = False"
| "isWorkerPredicate (UpdateEvent (Some p)) = isWorkerPool (mcpName p)"
| "isWorkerPredicate (CreateEvent p) = isWorkerPool (mcpName p)"
| "isWorkerPredicate (DeleteEvent p) = isWorkerPool (mcpName p)"
| "isWorkerPredicate (GenericEvent p) = isWorkerPool (mcpName p)"

definition worker_start :: "'s runtime \<Rightarrow> MachineConfigPool \<Rightarrow> UpgradeHistory \<Rightarrow> 's \<Rightarrow> UpgradeHistory \<times> 's" where
  "worker_start rt p h s =
     (if mcpUpdatedMachineCount p = 0 \<and> WorkerStartTime h = None
      then let (now, s) = time_now rt s in (h\<lparr>WorkerStartTime := Some now\<rparr>, s)
      else (h, s))"

definition worker_complete :: "'s runtime \<Rightarrow> MachineConfigPool \<Rightarrow> UpgradeHistory \<Rightarrow> 's \<Rightarrow> UpgradeHistory \<times> 's" where
  "worker_complete rt p h s =
     (if mcpMachineCount p = mcpUpdatedMachineCount p \<and> WorkerStartTime h \<noteq> None \<and> WorkerCompleteTime h = None
      then let (now, s) = time_now rt s in (h\<lparr>WorkerCompleteTime := Some now\<rparr>, s)
      else (h, s))"

definition mcp_Reconcile :: "'w mcp_env \<Rightarrow> string \<Rightarrow> ('w, Result) op" where
  "mcp_Reconcile mc name s =
     (case mc_get mc name s of
        (Inl e, s) \<Rightarrow> if IsNotFound e then (Ok no_requeue, s) else (Err e, s)
      | (Inr p, s) \<Rightarrow>
          (case ucm_Get (mc_env mc) (mc_uc mc) s of
             (Panic, s) \<Rightarrow> (Panic, s)
           | (Err e, s) \<Rightarrow> if e = ErrUpgradeConfigNotFound then (Ok no_requeue, s) else (Err e, s)
           | (Ok uc, s) \<Rightarrow>
               (case GetHistory (History uc) (desired_version uc) of
                  None \<Rightarrow> (Ok no_requeue, s)
                | Some h \<Rightarrow>
                    if Phase h = Upgrading
                    then let (h, s) = worker_start (mc_rt mc) p h s;
                             (h, s) = worker_complete (mc_rt mc) p h s
                         in bindO (call (update_uc_status (mc_uc mc) (uc\<lparr>History := SetHistory h (History uc)\<rparr>)) s)
                              (\<lambda>_ s. (Ok no_requeue, s))
                    else (Ok no_requeue, s))))"

section \<open>Lemmas\<close>

text \<open>An observation of the state that no part of a call changes.\<close>

lemma bindO_observe:
  "v (snd r) = x \<Longrightarrow> (\<And>a s. v s = x \<Longrightarrow> v (snd (f a s)) = x) \<Longrightarrow> v (snd (bindO r f)) = x"
  by (cases r; cases "fst r") auto

abbreviation drain_alerts :: "'w sys \<Rightarrow> string list \<Rightarrow> int option" where
  "drain_alerts s \<equiv> gauges s MNodeDrainFailed"

lemma notify_pdb_delay_alerts: "drain_alerts (snd (notify_pdb_delay ds s)) = drain_alerts s"
  unfolding notify_pdb_delay_def Let_def
  by (rule bindO_observe [where v = drain_alerts]) (auto simp: gauge_update_defs intro!: bindO_observe [where v = drain_alerts])

lemma execute_loop_alerts: "drain_alerts (snd (execute_loop ds node t ts s)) = drain_alerts s"
proof (induction ts arbitrary: s)
  case (Cons tds ts)
  obtain b s1 where a: "lift (isAfter (ds_rt ds) (Some t) (waitDuration tds)) s = (b, s1)" by fastforce
  then have s1: "drain_alerts s1 = drain_alerts s" using gauges_lift by metis
  show ?case
    using s1 Cons.IH
    by (cases b) (auto simp: a intro!: bindO_observe [where v = drain_alerts] simp: notify_pdb_delay_alerts)
qed simp

lemma drain_Execute_alerts: "drain_alerts (snd (drain_Execute ds node s)) = drain_alerts s"
  by (simp add: drain_Execute_def Let_def execute_loop_alerts split: option.split)

text \<open>The alert of a node goes from not raised to raised.\<close>

definition raised :: "'w sys \<Rightarrow> 'w sys \<Rightarrow> string \<Rightarrow> bool" where
  "raised s s' n \<longleftrightarrow> drain_alerts s [n] \<noteq> Some 1 \<and> drain_alerts s' [n] = Some 1"

lemma not_raised [simp]: "\<not> raised s s n"
  by (simp add: raised_def)

lemma bindO_raised:
  assumes "raised s (snd (bindO r f)) n" "drain_alerts (snd r) = drain_alerts s"
  obtains a s1 where "r = (Ok a, s1)" "raised s1 (snd (f a s1)) n"
proof (cases r)
  case (Pair q s1)
  then show thesis using assms that by (cases q) (auto simp: raised_def)
qed

lemma NodeDrainResult_raised:
  assumes "raised s (NodeDrainResult node failed s) n"
  shows "n = nodeName node \<and> failed \<and> nodeDeletionTimestamp node = None \<and> IsNodeUpgrading node"
  using assms by (auto simp: raised_def NodeDrainResult_def gauge_update_defs split: if_splits)

lemma drain_result_raised:
  assumes "raised s (snd (bindO (lift (drain_HasFailed ds node) s) (\<lambda>failed s. (Ok x, NodeDrainResult node failed s)))) n"
  shows "\<exists>w. drain_HasFailed ds node (ext s) = (Ok True, w) \<and> n = nodeName node \<and> nodeDeletionTimestamp node = None \<and> IsNodeUpgrading node"
proof -
  obtain failed s1 where r: "lift (drain_HasFailed ds node) s = (Ok failed, s1)" "raised s1 (NodeDrainResult node failed s1) n"
    using assms by (rule bindO_raised) auto
  then show ?thesis
    using NodeDrainResult_raised [OF r(2)] by (auto simp: lift_eq_iff)
qed

text \<open>The strategy of the drain that a reconciliation makes, and the state after it has drained the node with it.\<close>

definition drained_with ::
    "'w nodekeeper_env \<Rightarrow> UpgradeConfig \<Rightarrow> NodeDrain \<Rightarrow> Node \<Rightarrow> 'w sys \<Rightarrow> 'w osdDrainStrategy \<Rightarrow> 'w sys \<Rightarrow> bool" where
  "drained_with nk uc cfg node s ds s' \<longleftrightarrow>
     (if DisableDrainStrategies cfg then lift (NewDefaultNodeDrainStrategy (nk_drain nk) uc cfg) s = (Ok ds, s')
      else \<exists>s1 x. lift (NewNodeDrainStrategy (nk_drain nk) uc cfg) s = (Ok ds, s1) \<and> drain_Execute ds node s1 = (Ok x, s'))"

lemma drained_with_parts:
  assumes "drained_with nk uc cfg node s ds s'"
  shows "ds_rt ds = de_rt (nk_drain nk)" "ds_cfg ds = cfg"
  using assms
  by (auto simp: drained_with_def lift_eq_iff NewNodeDrainStrategy_def NewDefaultNodeDrainStrategy_def new_strategy_def bindO_Ok_iff
      split: if_splits prod.splits sum.splits)

lemma drained_failed_late:
  assumes "drained_with nk uc cfg node s ds s'" "drain_HasFailed ds node (ext s') = (Ok True, w)"
  shows "\<exists>t0 v now. AddedAt (IsNodeCordoned node) = Some t0 \<and> time_now (de_rt (nk_drain nk)) v = (now, w) \<and>
    t0 + GetTimeOutDuration cfg < now"
  using drain_HasFailed_timeout [OF assms(2)] unfolding drained_with_parts [OF assms(1)] .

lemma drain_node_judges:
  assumes "drained_with nk uc cfg node s ds s1" "drain_HasFailed ds node (ext s1) = (Ok failed, w)"
  shows "drain_node nk uc cfg node s = (Ok \<lparr>RequeueAfter = Minute\<rparr>, NodeDrainResult node failed (s1\<lparr>ext := w\<rparr>))"
  using assms by (auto simp: drained_with_def drain_node_def lift_eq split: if_splits)

lemma drain_node_raised:
  fixes nk :: "'w nodekeeper_env"
  assumes "raised s (snd (drain_node nk uc cfg node s)) n"
  shows "\<exists>ds s1 w. drained_with nk uc cfg node s ds s1 \<and> drain_HasFailed ds node (ext s1) = (Ok True, w) \<and>
    n = nodeName node \<and> nodeDeletionTimestamp node = None \<and> IsNodeUpgrading node"
proof (cases "DisableDrainStrategies cfg")
  case True
  with assms have "raised s (snd (bindO (lift (NewDefaultNodeDrainStrategy (nk_drain nk) uc cfg) s) (\<lambda>ds s.
      bindO (lift (drain_HasFailed ds node) s) (\<lambda>failed s. (Ok \<lparr>RequeueAfter = Minute\<rparr>, NodeDrainResult node failed s))))) n"
    by (simp add: drain_node_def)
  then show ?thesis
    by (rule bindO_raised) (use True in \<open>auto simp: drained_with_def dest!: drain_result_raised\<close>)
next
  case False
  with assms have "raised s (snd (bindO (lift (NewNodeDrainStrategy (nk_drain nk) uc cfg) s) (\<lambda>ds s.
      bindO (drain_Execute ds node s) (\<lambda>_ s.
      bindO (lift (drain_HasFailed ds node) s) (\<lambda>failed s. (Ok \<lparr>RequeueAfter = Minute\<rparr>, NodeDrainResult node failed s)))))) n"
    by (simp add: drain_node_def)
  then show ?thesis
  proof (rule bindO_raised)
    fix ds :: "'w osdDrainStrategy" and s1
    assume new: "lift (NewNodeDrainStrategy (nk_drain nk) uc cfg) s = (Ok ds, s1)"
    assume "raised s1 (snd (bindO (drain_Execute ds node s1) (\<lambda>_ s.
        bindO (lift (drain_HasFailed ds node) s) (\<lambda>failed s. (Ok \<lparr>RequeueAfter = Minute\<rparr>, NodeDrainResult node failed s))))) n"
    then show ?thesis
      by (rule bindO_raised)
         (use False new in \<open>auto simp: drain_Execute_alerts drained_with_def dest!: drain_result_raised\<close>)
  qed simp
qed

text \<open>What the controller reads between finding the node and draining it.\<close>

definition drain_configured :: "'w nodekeeper_env \<Rightarrow> 'w sys \<Rightarrow> NodeDrain \<Rightarrow> 'w sys \<Rightarrow> bool" where
  "drain_configured nk s cfg s' \<longleftrightarrow>
     (\<exists>m s1 t. lift (metrics_NewClient (nk_net nk)) s = (Ok m, s1) \<and> NewCMTarget (net_env (nk_net nk)) default_target = Ok t \<and>
        lift (Into (net_rt (nk_net nk)) (nk_cm nk) t (nk_decode nk) nodeKeeperConfig_IsValid) s1 = (Ok cfg, s'))"

lemma found_node_drains:
  "IsCordoned (IsNodeCordoned node) \<Longrightarrow> drain_configured nk s cfg s1 \<Longrightarrow> found_node nk uc node s = drain_node nk uc cfg node s1"
  by (auto simp: drain_configured_def found_node_def)

lemma found_node_raised:
  fixes nk :: "'w nodekeeper_env"
  assumes "raised s (snd (found_node nk uc node s)) n"
  shows "IsCordoned (IsNodeCordoned node) \<and> (\<exists>cfg s1. drain_configured nk s cfg s1 \<and> raised s1 (snd (drain_node nk uc cfg node s1)) n)"
proof -
  obtain m s1 where m: "lift (metrics_NewClient (nk_net nk)) s = (Ok m, s1)"
    and r1: "raised s1 (snd (if \<not> IsCordoned (IsNodeCordoned node)
       then (Ok no_requeue, ResetMetricNodeDrainFailed (nodeName node) s1)
       else bindO (NewCMTarget (net_env (nk_net nk)) default_target, s1) (\<lambda>t s.
         bindO (lift (Into (net_rt (nk_net nk)) (nk_cm nk) t (nk_decode nk) nodeKeeperConfig_IsValid) s) (\<lambda>cfg s.
           drain_node nk uc cfg node s)))) n"
    using assms unfolding found_node_def by (rule bindO_raised) auto
  from r1 have c: "IsCordoned (IsNodeCordoned node)"
    by (auto simp: raised_def gauge_update_defs split: if_splits)
  with r1 have "raised s1 (snd (bindO (NewCMTarget (net_env (nk_net nk)) default_target, s1) (\<lambda>t s.
         bindO (lift (Into (net_rt (nk_net nk)) (nk_cm nk) t (nk_decode nk) nodeKeeperConfig_IsValid) s) (\<lambda>cfg s.
           drain_node nk uc cfg node s)))) n" by simp
  then show ?thesis
  proof (rule bindO_raised)
    fix t s2
    assume t: "(NewCMTarget (net_env (nk_net nk)) default_target, s1) = (Ok t, s2)"
    assume "raised s2 (snd (bindO (lift (Into (net_rt (nk_net nk)) (nk_cm nk) t (nk_decode nk) nodeKeeperConfig_IsValid) s2)
        (\<lambda>cfg s. drain_node nk uc cfg node s))) n"
    then show ?thesis by (rule bindO_raised) (use m t c in \<open>auto simp: drain_configured_def\<close>)
  qed simp
qed

text \<open>The first calls of the reconciliation: during an upgrade of the workers, the node by its name.\<close>

definition upgrading_node :: "'w nodekeeper_env \<Rightarrow> string \<Rightarrow> 'w sys \<Rightarrow> UpgradeConfig \<Rightarrow> Node \<Rightarrow> 'w sys \<Rightarrow> bool" where
  "upgrading_node nk name s uc node s' \<longleftrightarrow>
     (\<exists>s1 h mcp s2. lift (ucm_Get (net_env (nk_net nk)) (nk_uc nk)) s = (Ok uc, s1) \<and>
        current_history uc = Some h \<and> Phase h = Upgrading \<and>
        lift (mcp_IsUpgrading (nk_get_mcp nk) ''worker'') s1 = (Ok mcp, s2) \<and> IsUpgrading mcp \<and>
        lift (nk_get_node nk name) s2 = (Inr node, s'))"

lemma nodekeeper_Reconcile_finds:
  "upgrading_node nk name s uc node s1 \<Longrightarrow> nodekeeper_Reconcile nk name s = found_node nk uc node s1"
  by (auto simp: upgrading_node_def nodekeeper_Reconcile_def)

lemma nodekeeper_Reconcile_raised:
  assumes "nodekeeper_Reconcile nk name s = (r, s')" "raised s s' n"
  shows "\<exists>uc node s1. upgrading_node nk name s uc node s1 \<and> raised s1 (snd (found_node nk uc node s1)) n"
proof -
  obtain g s1 where g: "lift (ucm_Get (net_env (nk_net nk)) (nk_uc nk)) s = (g, s1)" by fastforce
  then have s1: "drain_alerts s1 = drain_alerts s" using gauges_lift by metis
  obtain uc where uc: "g = Ok uc"
    using assms g s1 by (cases g) (auto simp: nodekeeper_Reconcile_def raised_def split: if_splits)
  obtain q s2 where q: "lift (mcp_IsUpgrading (nk_get_mcp nk) ''worker'') s1 = (q, s2)" by fastforce
  then have s2: "drain_alerts s2 = drain_alerts s" using gauges_lift s1 by metis
  obtain mcp h where h: "q = Ok mcp" "current_history uc = Some h" "Phase h = Upgrading" "IsUpgrading mcp"
    using assms g uc q s2
    by (cases q) (auto simp: nodekeeper_Reconcile_def raised_def split: option.splits if_splits)
  obtain nd s3 where nd: "lift (nk_get_node nk name) s2 = (nd, s3)" by fastforce
  then have s3: "drain_alerts s3 = drain_alerts s" using gauges_lift s2 by metis
  obtain node where node: "nd = Inr node"
  proof (cases nd)
    case (Inl e)
    obtain m s4 where m: "lift (metrics_NewClient (nk_net nk)) s3 = (m, s4)" by fastforce
    then have "drain_alerts s4 = drain_alerts s" using gauges_lift s3 by metis
    then have False
      using assms g uc q h nd Inl m s3
      by (cases m) (auto simp: nodekeeper_Reconcile_def raised_def gauge_update_defs split: if_splits)
    then show thesis ..
  qed
  have up: "upgrading_node nk name s uc node s3" using g uc q h nd node by (auto simp: upgrading_node_def)
  moreover have "raised s3 (snd (found_node nk uc node s3)) n"
    unfolding nodekeeper_Reconcile_finds [OF up, symmetric] using assms s3 by (simp add: raised_def)
  ultimately show ?thesis by blast
qed

section \<open>Properties\<close>

text \<open>
  C21: Exactly when one reconciliation of a node raises a drain alert that was not there: the current history is Upgrading, the worker pool is being
  updated, the alert is that of the node the request names, the node is cordoned, is being upgraded and is not being deleted, and
  the drain strategy that this very reconciliation has built from the configuration it read, and, unless the strategies are disabled, has just
  run on the node, reports failure in the state it left. The node was then cordoned longer ago than the configured
  drain time-out, by the clock of the drain.
\<close>

theorem drain_alert_only_when_stuck:
  fixes nk :: "'w nodekeeper_env"
  assumes "nodekeeper_Reconcile nk name s = (r, s')"
  shows "raised s s' n \<longleftrightarrow> gauges s MNodeDrainFailed [n] \<noteq> Some 1 \<and>
    (\<exists>uc s1 h mcp s2 node s3 m s4 t cfg s5 (ds :: 'w osdDrainStrategy) s6 w.
       lift (ucm_Get (net_env (nk_net nk)) (nk_uc nk)) s = (Ok uc, s1) \<and> current_history uc = Some h \<and> Phase h = Upgrading \<and>
       lift (mcp_IsUpgrading (nk_get_mcp nk) ''worker'') s1 = (Ok mcp, s2) \<and> IsUpgrading mcp \<and>
       lift (nk_get_node nk name) s2 = (Inr node, s3) \<and> nodeName node = n \<and> IsCordoned (IsNodeCordoned node) \<and>
       IsNodeUpgrading node \<and> nodeDeletionTimestamp node = None \<and>
       lift (metrics_NewClient (nk_net nk)) s3 = (Ok m, s4) \<and> NewCMTarget (net_env (nk_net nk)) default_target = Ok t \<and>
       lift (Into (net_rt (nk_net nk)) (nk_cm nk) t (nk_decode nk) nodeKeeperConfig_IsValid) s4 = (Ok cfg, s5) \<and>
       (if DisableDrainStrategies cfg then lift (NewDefaultNodeDrainStrategy (nk_drain nk) uc cfg) s5 = (Ok ds, s6)
        else \<exists>s7 x. lift (NewNodeDrainStrategy (nk_drain nk) uc cfg) s5 = (Ok ds, s7) \<and> drain_Execute ds node s7 = (Ok x, s6)) \<and>
       drain_HasFailed ds node (ext s6) = (Ok True, w) \<and>
       (\<exists>t0 v now. AddedAt (IsNodeCordoned node) = Some t0 \<and> time_now (de_rt (nk_drain nk)) v = (now, w) \<and>
          t0 + GetTimeOutDuration cfg < now))"
    (is "_ \<longleftrightarrow> _ \<and> ?stuck")
proof -
  have stuck: "?stuck \<longleftrightarrow> (\<exists>uc node s3 cfg s5 ds s6 w. upgrading_node nk name s uc node s3 \<and> nodeName node = n \<and>
      IsCordoned (IsNodeCordoned node) \<and> IsNodeUpgrading node \<and> nodeDeletionTimestamp node = None \<and>
      drain_configured nk s3 cfg s5 \<and> drained_with nk uc cfg node s5 ds s6 \<and> drain_HasFailed ds node (ext s6) = (Ok True, w))"
    (is "_ \<longleftrightarrow> ?parts")
    unfolding upgrading_node_def drain_configured_def drained_with_def [symmetric]
    by (rule iffI, elim exE conjE, intro exI conjI, assumption+, elim exE conjE, frule (1) drained_failed_late,
        elim exE conjE, intro exI conjI, assumption+)
  show ?thesis
  proof (rule iffI)
    assume raised: "raised s s' n"
    then obtain uc node s3 cfg s5 where p: "upgrading_node nk name s uc node s3" "IsCordoned (IsNodeCordoned node)"
        "drain_configured nk s3 cfg s5" "raised s5 (snd (drain_node nk uc cfg node s5)) n"
      using nodekeeper_Reconcile_raised [OF assms] found_node_raised by blast
    from p(1-3) drain_node_raised [OF p(4)] have ?parts by blast
    with raised show "gauges s MNodeDrainFailed [n] \<noteq> Some 1 \<and> ?stuck" unfolding stuck raised_def by blast
  next
    assume "gauges s MNodeDrainFailed [n] \<noteq> Some 1 \<and> ?stuck"
    then have quiet: "gauges s MNodeDrainFailed [n] \<noteq> Some 1" and ?parts unfolding stuck by blast+
    then obtain uc node s3 cfg s5 ds s6 w where p: "upgrading_node nk name s uc node s3" "nodeName node = n"
      "IsCordoned (IsNodeCordoned node)" "IsNodeUpgrading node" "nodeDeletionTimestamp node = None"
      "drain_configured nk s3 cfg s5" "drained_with nk uc cfg node s5 ds s6" "drain_HasFailed ds node (ext s6) = (Ok True, w)"
      by blast
    then have "s' = NodeDrainResult node True (s6\<lparr>ext := w\<rparr>)"
      using assms nodekeeper_Reconcile_finds [OF p(1)] found_node_drains [OF p(3,6)] drain_node_judges [OF p(7,8)] by simp
    then show "raised s s' n"
      using quiet p(2,4,5) by (simp add: raised_def NodeDrainResult_def gauge_update_defs)
  qed
qed

text \<open>A node that was cordoned three hours ago and is still being upgraded, on a cluster that answers.\<close>

definition working_node :: Node where
  "working_node = cordoned_node\<lparr>nodeAnnotations := [''machineconfiguration.openshift.io/state'' \<mapsto> ''Working'']\<rparr>"

definition sample_nk :: "nat nodekeeper_env" where
  "sample_nk =
     \<lparr>nk_net = online_net (3 * Hour), nk_uc = n_uc sample_ne,
      nk_cm = \<lparr>environ = [''OPERATOR_NAMESPACE'' \<mapsto> ''muo''], get_configmap = (\<lambda>_ _ s. (Inr Map.empty, s))\<rparr>,
      nk_decode = (\<lambda>_. Inr (sample_drain_cfg\<lparr>DisableDrainStrategies := True\<rparr>)), nk_drain = quiet_drain,
      nk_get_mcp = (\<lambda>n s. (Inr \<lparr>mcpName = n, mcpMachineCount = 3, mcpUpdatedMachineCount = 0\<rparr>, s)),
      nk_get_node = (\<lambda>_ s. (Inr working_node, s))\<rparr>"

lemma working_node_cordoned: "IsNodeCordoned working_node = \<lparr>IsCordoned = True, AddedAt = Some 0\<rparr>"
  by (simp add: IsNodeCordoned_def working_node_def cordoned_node_def)

lemma sample_nk_raises:
  "\<exists>r s'. nodekeeper_Reconcile sample_nk ''node1'' (no_gauges 0) = (r, s') \<and> raised (no_gauges 0) s' ''node1''"
proof -
  obtain m where m: "metrics_NewClient (nk_net sample_nk) 0 = (Ok m, 0)"
    using online_metrics [of "3 * Hour" 0] by (auto simp: sample_nk_def)
  have get: "ucm_Get (net_env (nk_net sample_nk)) (nk_uc sample_nk) 0 = (Ok sample_uc, 0)"
    by (simp add: env_eval sample_nk_def online_net_def offline_net_def sample_ne_def)
  have h: "\<exists>h. current_history sample_uc = Some h \<and> Phase h = Upgrading"
    by (simp add: sample_uc_def GetHistory_def)
  have node: "nk_get_node sample_nk ''node1'' 0 = (Inr working_node, 0)" by (simp add: sample_nk_def)
  have mcp: "mcp_IsUpgrading (nk_get_mcp sample_nk) ''worker'' 0 =
      (Ok \<lparr>IsUpgrading = True, UpdatedCount = 0, MachineCount = 3\<rparr>, 0)"
    by (simp add: mcp_IsUpgrading_def sample_nk_def call_def)
  have t: "NewCMTarget (net_env (nk_net sample_nk)) default_target =
      Ok \<lparr>tName = ''managed-upgrade-operator-config'', tNamespace = ''muo'', tConfigKey = ''config.yaml''\<rparr>"
    by (simp add: env_eval sample_nk_def online_net_def offline_net_def)
  have cfg: "Into rt (nk_cm sample_nk) t (nk_decode sample_nk) nodeKeeperConfig_IsValid 0 =
      (Ok (sample_drain_cfg\<lparr>DisableDrainStrategies := True\<rparr>), 0)" for rt t
    by (simp add: Into_def sample_nk_def call_def nodeKeeperConfig_IsValid_def sample_drain_cfg_def Let_def)
  have drain: "drain_node sample_nk sample_uc (sample_drain_cfg\<lparr>DisableDrainStrategies := True\<rparr>) working_node (no_gauges 0) =
      (Ok \<lparr>RequeueAfter = Minute\<rparr>, NodeDrainResult working_node True (no_gauges 0))"
    by (simp add: drain_node_def NewDefaultNodeDrainStrategy_def new_strategy_def sample_nk_def quiet_drain_def lift_def no_gauges_def
        drain_HasFailed_def working_node_cordoned isAfter_def GetTimeOutDuration_def minutes_small sample_drain_cfg_def
        sample_clock_def Let_def)
  have "nodekeeper_Reconcile sample_nk ''node1'' (no_gauges 0) =
      (Ok \<lparr>RequeueAfter = Minute\<rparr>, NodeDrainResult working_node True (no_gauges 0))"
    using h by (auto simp: nodekeeper_Reconcile_def found_node_def lift_def no_gauges_def get mcp node m t cfg working_node_cordoned
        drain [unfolded no_gauges_def])
  moreover have "raised (no_gauges 0) (NodeDrainResult working_node True (no_gauges (0 :: nat))) ''node1''"
    by (simp add: raised_def NodeDrainResult_def gauge_update_defs working_node_def cordoned_node_def IsNodeUpgrading_def no_gauges_def)
  ultimately show ?thesis by blast
qed

theorem drain_alert_only_when_stuck_witness:
  "\<exists>r s' cfg t0 now. nodekeeper_Reconcile sample_nk ''node1'' (no_gauges 0) = (r, s') \<and> gauges s' MNodeDrainFailed [''node1''] = Some 1 \<and>
     AddedAt (IsNodeCordoned working_node) = Some t0 \<and> t0 + GetTimeOutDuration cfg < now \<and> now = 3 * Hour"
proof -
  obtain r s' where r: "nodekeeper_Reconcile sample_nk ''node1'' (no_gauges 0) = (r, s')" "raised (no_gauges 0) s' ''node1''"
    using sample_nk_raises by blast
  have "nk_get_node sample_nk n w = (Inr working_node, w)" "time_now (de_rt (nk_drain sample_nk)) w = (3 * Hour, w)" for n w
    by (simp_all add: sample_nk_def quiet_drain_def sample_clock_def)
  with r(2) [unfolded drain_alert_only_when_stuck [OF r(1)]]
  have "\<exists>cfg t0. AddedAt (IsNodeCordoned working_node) = Some t0 \<and> t0 + GetTimeOutDuration cfg < 3 * Hour"
    by (auto simp: lift_eq_iff)
  with r show ?thesis by (auto simp: raised_def)
qed

text \<open>
  A history whose worker times were written at most once: a time that is set stays, and a
  completion is only added to a start.
\<close>

definition worker_times :: "UpgradeHistory \<Rightarrow> UpgradeHistory \<Rightarrow> bool" where
  "worker_times h h' \<longleftrightarrow>
     h' = h\<lparr>WorkerStartTime := WorkerStartTime h', WorkerCompleteTime := WorkerCompleteTime h'\<rparr> \<and>
     (WorkerStartTime h \<noteq> None \<longrightarrow> WorkerStartTime h' = WorkerStartTime h) \<and>
     (WorkerCompleteTime h \<noteq> None \<longrightarrow> WorkerCompleteTime h' = WorkerCompleteTime h) \<and>
     (WorkerCompleteTime h' \<noteq> None \<longrightarrow> WorkerCompleteTime h \<noteq> None \<or> WorkerStartTime h' \<noteq> None)"

lemma worker_start_complete:
  assumes "worker_start rt p h s = (h1, s1)" "worker_complete rt p h1 s1 = (h2, s2)"
  shows "worker_times h h2"
  using assms
  by (auto simp: worker_start_def worker_complete_def worker_times_def Let_def split: if_splits prod.splits)

lemma worker_clock:
  assumes "\<And>s. view (snd (time_now rt s)) = view s"
  shows "view (snd (worker_start rt p h s)) = view s" "view (snd (worker_complete rt p h s)) = view s"
  using assms [of s] by (auto simp: worker_start_def worker_complete_def Let_def split: prod.split)

text \<open>
  C22: The MachineConfigPool controller changes the stored UpgradeConfig only while the current history is Upgrading,
  and then only in the two worker times of that history: each is written once, and the workers are
  never recorded as complete before they were recorded as started.
\<close>

theorem worker_times_written_once:
  assumes store: "status_store (mc_uc mc) view"
    and clock: "\<And>s. view (snd (time_now (mc_rt mc) s)) = view s" and get: "\<And>n s. view (snd (mc_get mc n s)) = view s"
    and run: "mcp_Reconcile mc name s = (r, s')" and uc: "view s = Some uc"
  shows "view s' = Some uc \<or>
    (\<exists>h h'. current_history uc = Some h \<and> Phase h = Upgrading \<and> worker_times h h' \<and>
            view s' = Some (uc\<lparr>History := SetHistory h' (History uc)\<rparr>))"
proof -
  have st: "uc_store (mc_uc mc) view" using store by (simp add: status_store_def)
  obtain p s1 where p: "mc_get mc name s = (p, s1)" by fastforce
  then have s1: "view s1 = Some uc" using get [of name s] uc by simp
  obtain g s2 where g: "ucm_Get (mc_env mc) (mc_uc mc) s1 = (g, s2)" by fastforce
  note gs = ucm_Get_store [OF st g]
  show ?thesis
  proof (cases "\<exists>pool uc2 h. p = Inr pool \<and> g = Ok uc2 \<and> current_history uc2 = Some h \<and> Phase h = Upgrading")
    case False
    then show ?thesis
      using run p g gs s1
      by (cases p; cases g) (auto simp: mcp_Reconcile_def split: option.splits if_splits)
  next
    case True
    then obtain pool uc2 h where h2: "p = Inr pool" "g = Ok uc2" "current_history uc2 = Some h" "Phase h = Upgrading" by blast
    have "uc2 = uc" using gs s1 h2(2) by simp
    note h = h2 [unfolded this]
    obtain h1 s3 where w1: "worker_start (mc_rt mc) pool h s2 = (h1, s3)" by fastforce
    obtain h2 s4 where w2: "worker_complete (mc_rt mc) pool h1 s3 = (h2, s4)" by fastforce
    have s4: "view s4 = Some uc"
      using worker_clock(1) [where view = view, OF clock, of pool h s2]
        worker_clock(2) [where view = view, OF clock, of pool h1 s3] w1 w2 gs s1 by simp
    obtain q s5 where q: "update_uc_status (mc_uc mc) (uc\<lparr>History := SetHistory h2 (History uc)\<rparr>) s4 = (q, s5)" by fastforce
    then have s5: "view s5 = (case q of Inl _ \<Rightarrow> Some uc | Inr _ \<Rightarrow> Some (uc\<lparr>History := SetHistory h2 (History uc)\<rparr>))"
      using status_storeD [OF store] s4 by (cases q) auto
    have "s' = s5"
      using run p g h w1 w2 q by (cases q) (auto simp: mcp_Reconcile_def call_def)
    then show ?thesis
      using s5 h worker_start_complete [OF w1 w2] by (cases q) auto
  qed
qed

definition sample_mc :: "UpgradeConfig option mcp_env" where
  "sample_mc =
     \<lparr>mc_env = [''OPERATOR_NAMESPACE'' \<mapsto> ''muo''], mc_rt = \<lparr>time_now = (\<lambda>s. (7, s)), error_string = (\<lambda>_. ''error'')\<rparr>,
      mc_uc = mem_uc, mc_get = (\<lambda>n s. (Inr \<lparr>mcpName = n, mcpMachineCount = 3, mcpUpdatedMachineCount = 0\<rparr>, s))\<rparr>"

theorem worker_times_written_once_witness:
  "\<exists>s' h'. mcp_Reconcile sample_mc ''worker'' (Some started_uc) = (Ok no_requeue, s') \<and>
     s' = Some (started_uc\<lparr>History := SetHistory h' [started_history]\<rparr>) \<and> worker_times started_history h'"
proof -
  define s' where "s' = snd (mcp_Reconcile sample_mc ''worker'' (Some started_uc))"
  have r: "mcp_Reconcile sample_mc ''worker'' (Some started_uc) = (Ok no_requeue, s')" "s' \<noteq> Some started_uc"
    using started_uc_history
    by (simp_all add: s'_def mcp_Reconcile_def sample_mc_def worker_start_def worker_complete_def env_eval started_history_def mem_uc_def
        started_uc_def sample_uc_def SetHistory_def GetHistory_def)
  have "s' = Some started_uc \<or>
    (\<exists>h h'. current_history started_uc = Some h \<and> Phase h = Upgrading \<and> worker_times h h' \<and>
            s' = Some (started_uc\<lparr>History := SetHistory h' (History started_uc)\<rparr>))"
    by (rule worker_times_written_once [where view = "\<lambda>s. s", OF _ _ _ r(1)])
       (simp_all add: sample_mc_def mem_uc_status_store)
  then show ?thesis using r started_uc_history by (auto simp: started_uc_def)
qed

end
