(* ===== verification/Triggers.thy ===== *)
theory Triggers
  imports Controllers
begin

text \<open>
  What makes the controllers run: the event filters their \<open>SetupWithManager\<close> registers, and the time between two
  reconciliations of a pending upgrade, which the resync of the manager and the requeue of the last
  result determine.
\<close>

section \<open>Event filters\<close>

text \<open>
  The filters of a controller are asked in the order in which they were added, and the event is dropped at the first that
  refuses it; an event without an object makes a filter that reads the object panic.
\<close>

fun event_filter :: "('e \<Rightarrow> bool outcome) list \<Rightarrow> 'e \<Rightarrow> bool outcome" where
  "event_filter [] e = Ok True"
| "event_filter (p # ps) e = (case p e of Ok True \<Rightarrow> event_filter ps e | r \<Rightarrow> r)"

datatype uc_event =
    UcUpdate "UpgradeConfig option" "UpgradeConfig option"
  | UcCreate UpgradeConfig
  | UcDelete UpgradeConfig
  | UcGeneric UpgradeConfig

text \<open>The status filter has a function for updates only; \<open>predicate.Funcs\<close> lets every other event through.\<close>

fun status_filter :: "uc_event \<Rightarrow> bool outcome" where
  "status_filter (UcUpdate old new) = Ok (StatusChangedPredicate old new)"
| "status_filter _ = Ok True"

fun ManagedUpgradePredicate :: "uc_event \<Rightarrow> bool outcome" where
  "ManagedUpgradePredicate (UcUpdate _ new) =
     (case new of None \<Rightarrow> Panic | Some uc \<Rightarrow> Ok (isManagedUpgrade (ucName uc)))"
| "ManagedUpgradePredicate (UcCreate uc) = Ok (isManagedUpgrade (ucName uc))"
| "ManagedUpgradePredicate (UcDelete uc) = Ok (isManagedUpgrade (ucName uc))"
| "ManagedUpgradePredicate (UcGeneric uc) = Ok (isManagedUpgrade (ucName uc))"

definition upgradeconfig_events :: "uc_event \<Rightarrow> bool outcome" where
  "upgradeconfig_events = event_filter [status_filter, ManagedUpgradePredicate]"

definition nodekeeper_events :: "Node event \<Rightarrow> bool outcome" where
  "nodekeeper_events = event_filter [\<lambda>e. Ok (IgnoreMasterPredicate e)]"

definition machineconfigpool_events :: "MachineConfigPool event \<Rightarrow> bool outcome" where
  "machineconfigpool_events = event_filter [\<lambda>e. Ok (isWorkerPredicate e)]"

fun event_uc :: "uc_event \<Rightarrow> UpgradeConfig option" where
  "event_uc (UcUpdate _ new) = new"
| "event_uc (UcCreate uc) = Some uc"
| "event_uc (UcDelete uc) = Some uc"
| "event_uc (UcGeneric uc) = Some uc"

lemma event_filter_Ok_True: "event_filter ps e = Ok True \<longleftrightarrow> (\<forall>p \<in> set ps. p e = Ok True)"
  by (induction ps) (auto split: outcome.splits bool.splits)

text \<open>The order of the two filters matters: asked first, the second would panic on an update without a new object.\<close>

lemma upgradeconfig_events_total: "upgradeconfig_events e \<noteq> Panic"
  by (cases e) (auto simp: upgradeconfig_events_def StatusChangedPredicate_def split: option.splits bool.splits)

lemma filters_swapped_panic: "event_filter [ManagedUpgradePredicate, status_filter] (UcUpdate old None) = Panic"
  by simp

text \<open>
  The upgradeconfig controller never panics on an event, and reconciles for it exactly when it concerns the managed
  UpgradeConfig and is not an update of the status: a write of the status, the controller's own included,
  does not trigger it, while a resync, an update to the same object, always does.
\<close>

theorem upgradeconfig_triggers:
  "upgradeconfig_events e =
     Ok ((\<exists>uc. event_uc e = Some uc \<and> ucName uc = ''managed-upgrade-config'') \<and>
         (case e of UcUpdate old new \<Rightarrow> old \<noteq> None \<and> map_option History new = map_option History old | _ \<Rightarrow> True))"
  by (cases e)
     (auto simp: upgradeconfig_events_def StatusChangedPredicate_def isManagedUpgrade_def UPGRADECONFIG_CR_NAME_def
       split: option.splits bool.splits)

lemma resync_triggers:
  "ucName uc = UPGRADECONFIG_CR_NAME \<Longrightarrow> upgradeconfig_events (UcUpdate (Some uc) (Some uc)) = Ok True"
  by (simp add: upgradeconfig_events_def StatusChangedPredicate_def isManagedUpgrade_def)

lemma nodekeeper_events_worker:
  "nodekeeper_events (CreateEvent n) = Ok (nodeLabels n ''node-role.kubernetes.io/master'' = None)"
  by (simp add: nodekeeper_events_def hasMasterLabel_def split: bool.splits)

section \<open>The time between two reconciliations\<close>

text \<open>
  The work queue of the manager runs the controller again after \<open>RequeueAfter\<close>, when that is set; the resync, which the
  filter lets through, runs it again after the synchronisation period in any case.
\<close>

definition next_reconcile :: "Result \<Rightarrow> duration" where
  "next_reconcile res =
     (if 0 < RequeueAfter res then min (RequeueAfter res) SyncPeriodDefault else SyncPeriodDefault)"

text \<open>
  Reconciliations at the instants \<open>T 0 < T 1 < \<dots>\<close> with the results \<open>r 0, r 1, \<dots>\<close>, each at most \<open>lat\<close> later than the queue
  asks for.
\<close>

definition queued :: "duration \<Rightarrow> (nat \<Rightarrow> instant) \<Rightarrow> (nat \<Rightarrow> Result outcome) \<Rightarrow> bool" where
  "queued lat T r \<longleftrightarrow>
     (\<forall>i. T i < T (Suc i) \<and> (\<forall>res. r i = Ok res \<longrightarrow> T (Suc i) \<le> T i + next_reconcile res + lat))"

text \<open>
  A reconciliation of the pending UpgradeConfig that gets as far as the schedule, which reads the clock at \<open>now\<close>, and once
  the upgrade is due finds the policies unchanged, or no provider configured.
\<close>

definition validated_at ::
    "'w reconcile_env \<Rightarrow> Target \<Rightarrow> ClusterVersion \<Rightarrow> UpgradeConfig \<Rightarrow> instant \<Rightarrow> 'w \<Rightarrow> bool" where
  "validated_at re t cv uc now w \<longleftrightarrow>
     (\<exists>cin w1 vr w2 w3.
        validation_NewClient (re_rt re) (ue_cm (re_upgrader re)) t (re_decode_validation re) w = (Ok cin, w1) \<and>
        IsValidUpgradeConfig (re_validation re) cin cv (uc, w1) = (Ok (vr, None), uc, w2) \<and> IsValid vr \<and> IsAvailableUpdate vr \<and>
        time_now (re_rt re) w2 = (now, w3) \<and>
        (\<forall>due. Parse_RFC3339 (UpgradeAt (Spec uc)) = Some due \<longrightarrow> due < now \<longrightarrow>
           fst (Refresh (re_ucm re) w3) \<in> {Ok False, Err ErrNotConfigured}))"

lemma next_reconcile_pending:
  assumes "TimeUntilUpgrade sr = sat64 d" "0 \<le> d"
  shows "next_reconcile (pending_requeue sr) \<le> SyncPeriodDefault"
    and "0 < d \<Longrightarrow> next_reconcile (pending_requeue sr) \<le> d"
  using assms by (auto simp: next_reconcile_def pending_requeue_def no_requeue_def SyncPeriodDefault_def sat64_def)

text \<open>Before its time the upgrade stays pending; after it, the reconciliation records it as running and runs the upgrader.\<close>

lemma validated_reconcile:
  assumes v: "validated_at re t cv uc now (ext s)" and due: "Parse_RFC3339 (UpgradeAt (Spec uc)) = Some due"
    and h: "Phase h = Pending" and wr: "status_writable (re_uc re)"
  shows "if due < now
    then \<exists>now s1. \<forall>u. reconcile_phase re t cfg m u cv h (uc, s) =
           upgradeCluster re u (uc\<lparr>History := SetHistory (start_history uc h now) (History uc)\<rparr>, s1)
    else \<exists>res us. (\<forall>u. reconcile_phase re t cfg m u cv h (uc, s) = (Ok res, us)) \<and> next_reconcile res \<le> SyncPeriodDefault \<and>
      (now < due \<longrightarrow> next_reconcile res \<le> due - now)"
proof -
  obtain cin w1 vr w2 w3 where c:
      "validation_NewClient (re_rt re) (ue_cm (re_upgrader re)) t (re_decode_validation re) (ext s) = (Ok cin, w1)"
      "IsValidUpgradeConfig (re_validation re) cin cv (uc, w1) = (Ok (vr, None), uc, w2)" "IsValid vr" "IsAvailableUpdate vr"
      "time_now (re_rt re) w2 = (now, w3)" "due < now \<Longrightarrow> fst (Refresh (re_ucm re) w3) \<in> {Ok False, Err ErrNotConfigured}"
    using v due unfolding validated_at_def by blast
  let ?s = "UpdateMetricValidationSucceeded (ucName uc) (s\<lparr>ext := w2\<rparr>)\<lparr>ext := w3\<rparr>"
  obtain sr where sr: "IsReadyToUpgrade (re_rt re) uc (GetUpgradeWindowTimeOutDuration (UpgradeWindow cfg)) w2 = (sr, w3)"
      "IsReady sr \<longleftrightarrow> due < now" "now \<le> due \<Longrightarrow> TimeUntilUpgrade sr = sat64 (due - now)"
    using that [of "fst (IsReadyToUpgrade (re_rt re) uc (GetUpgradeWindowTimeOutDuration (UpgradeWindow cfg)) w2)"] due c(5)
    by (simp add: IsReadyToUpgrade_def)
  have p: "reconcile_phase re t cfg m u cv h (uc, s) =
      (if due < now then start_upgrade re u h (uc, ?s)
       else bindO (store_history re (h\<lparr>Phase := Pending\<rparr>) (uc, ?s)) (\<lambda>_ us. (Ok (pending_requeue sr), us)))" for u
    using c sr(1,2) h by (simp add: reconcile_phase_def pending_phase_def keep_uc_def lift_def Let_def)
  obtain s2 where "store_history re (h\<lparr>Phase := Pending\<rparr>) (uc, ?s) =
      (Ok (), uc\<lparr>History := SetHistory (h\<lparr>Phase := Pending\<rparr>) (History uc)\<rparr>, s2)"
    using wr by (rule store_history_writable)
  moreover have "\<exists>now s1. \<forall>u. start_upgrade re u h (uc, ?s) =
      upgradeCluster re u (uc\<lparr>History := SetHistory (start_history uc h now) (History uc)\<rparr>, s1)" if "due < now"
  proof -
    have "fst (Refresh (re_ucm re) (ext ?s)) \<in> {Ok False, Err ErrNotConfigured}" using c(6) [OF that] by simp
    from start_upgrade_unchanged [OF this wr] show ?thesis by metis
  qed
  ultimately show ?thesis using p next_reconcile_pending [OF sr(3)] by auto
qed

text \<open>The first instant of an increasing sequence that is past a given one.\<close>

lemma first_after:
  fixes T :: "nat \<Rightarrow> int"
  assumes "\<And>i. T i < T (Suc i)" "T 0 \<le> d"
  obtains k where "T k \<le> d" "d < T (Suc k)"
proof -
  have grows: "T 0 + int i \<le> T i" for i
  proof (induction i)
    case (Suc i)
    then show ?case using assms(1) [of i] by simp
  qed simp
  have ex: "d < T (nat (d - T 0) + 1)" using grows [of "nat (d - T 0) + 1"] assms(2) by simp
  define k where "k = (LEAST i. d < T i)"
  have "d < T k" unfolding k_def using ex by (rule LeastI)
  moreover from this assms(2) obtain k' where k': "k = Suc k'" by (cases k) auto
  moreover have "\<not> d < T k'" using not_less_Least [of k' "\<lambda>i. d < T i"] k' by (simp add: k_def)
  ultimately show thesis using that [of k'] by simp
qed

text \<open>
  C13: A pending upgrade is started on time. Let the controller reconcile the valid, pending UpgradeConfig at the instants
  \<open>T i\<close>, each at most \<open>lat\<close> later than the work queue was asked for, let the status be writable, and let a refresh of the policies, which an
  upgrade that is due is preceded by, change nothing. Then one of the reconciliations, past the scheduled time and at most
  \<open>lat\<close> after it, stores the history with the phase Upgrading, a start time and the version, and calls the upgrader; it may take
  another synchronisation period when an earlier one read the clock at exactly the scheduled time.
\<close>

theorem pending_upgrade_starts_in_time:
  assumes "Parse_RFC3339 (UpgradeAt (Spec uc)) = Some due" "T 0 \<le> due" "Phase h = Pending" "status_writable (re_uc re)"
    and valid: "\<And>i. validated_at re t cv uc (T i) (ext (S i))"
    and queue: "queued lat T (\<lambda>i. fst (reconcile_phase re t cfg m u cv h (uc, S i)))"
  shows "\<exists>i now s. reconcile_phase re t cfg m u cv h (uc, S i) =
      upgradeCluster re u
        (uc\<lparr>History := SetHistory (h\<lparr>Phase := Upgrading, StartTime := Some now, Version := desired_version uc\<rparr>) (History uc)\<rparr>, s) \<and>
    due < T i \<and> T i \<le> due + lat + (if \<exists>j < i. T j = due then SyncPeriodDefault else 0)"
proof -
  have "T i < T (Suc i)" for i using queue by (simp add: queued_def)
  then obtain k where k: "T k \<le> due" "due < T (Suc k)" using assms(2) by (rule first_after) blast
  note step = validated_reconcile [OF valid assms(1,3,4), of _ cfg m]
  obtain res us where r: "reconcile_phase re t cfg m u cv h (uc, S k) = (Ok res, us)" "next_reconcile res \<le> SyncPeriodDefault"
      "T k < due \<Longrightarrow> next_reconcile res \<le> due - T k"
    using step [of k] k(1) by auto
  have q: "T (Suc k) \<le> T k + next_reconcile res + lat" using queue r(1) by (simp add: queued_def)
  have "T (Suc k) \<le> due + lat + (if \<exists>j < Suc k. T j = due then SyncPeriodDefault else 0)"
    using q r(2,3) k(1) by (cases "T k = due") (auto simp: SyncPeriodDefault_def)
  moreover obtain now s where "reconcile_phase re t cfg m u cv h (uc, S (Suc k)) =
      upgradeCluster re u (uc\<lparr>History := SetHistory (start_history uc h now) (History uc)\<rparr>, s)"
    using step [of "Suc k"] k(2) by auto
  ultimately show ?thesis using k(2) by blast
qed

text \<open>The sample operator with a clock that goes by whole minutes, kept in the drain time-out of the stored object.\<close>

definition minutes_uc :: "nat \<Rightarrow> UpgradeConfig" where
  "minutes_uc i = pending_uc\<lparr>Spec := (Spec pending_uc)\<lparr>PDBForceDrainTimeout := int i\<rparr>\<rparr>"

definition minutes_clock :: "UpgradeConfig option runtime" where
  "minutes_clock =
     \<lparr>time_now = (\<lambda>w. (case w of None \<Rightarrow> 0 | Some uc \<Rightarrow> 570 * Second + PDBForceDrainTimeout (Spec uc) * Minute, w)),
      error_string = (\<lambda>_. ''error'')\<rparr>"

definition minutes_re :: "UpgradeConfig option reconcile_env" where
  "minutes_re =
     (let um = re_ucm sample_re; se = um_spec um; nb = se_nb se; oe = nb_ocm nb; net = oe_net oe
      in sample_re\<lparr>re_ucm := um\<lparr>um_spec := se\<lparr>se_nb := nb\<lparr>nb_ocm := oe\<lparr>oe_net := net\<lparr>net_rt := minutes_clock\<rparr>\<rparr>\<rparr>\<rparr>\<rparr>\<rparr>)"

lemma minutes_re_simps [simp]:
  "re_rt minutes_re = minutes_clock" "re_validation minutes_re = sample_validation" "re_uc minutes_re = mem_uc"
  "re_upgrader minutes_re = re_upgrader sample_re" "re_decode_validation minutes_re = re_decode_validation sample_re"
  by (simp_all add: minutes_re_def Let_def)

lemma minutes_validated: "validated_at minutes_re sample_target sample_cv pending_uc (570 * Second + int i * Minute) (Some (minutes_uc i))"
proof -
  have "validation_NewClient minutes_clock (ue_cm (re_upgrader sample_re)) sample_target (re_decode_validation sample_re) (Some (minutes_uc i))
      = (Ok True, Some (minutes_uc i))"
    by (simp add: validation_NewClient_def Into_def call_def) (simp add: sample_re_def)
  moreover have "IsValidUpgradeConfig sample_validation True sample_cv (pending_uc, Some (minutes_uc i)) =
      (Ok (\<lparr>IsValid = True, IsAvailableUpdate = True, VMessage = ''Upgrade config is valid''\<rparr>, None), pending_uc, Some (minutes_uc i))"
    using sample_valid_spec [of pending_uc "Some (minutes_uc i)"] by (simp add: validationPassed_def pending_uc_def)
  moreover have "Refresh (re_ucm minutes_re) (Some u) = (Err ErrNotConfigured, Some u)" for u
    by (simp add: Refresh_def minutes_re_def sample_re_def specprovider_New_def readSpecProviderConfig_def read_config_def
        GetOperatorNamespace_def Let_def)
       (simp add: sample_spec_env_def env_eval SpecProviderConfig_IsValid_def mem_uc_def Let_def)
  moreover have "time_now minutes_clock (Some (minutes_uc i)) = (570 * Second + int i * Minute, Some (minutes_uc i))"
    by (simp add: minutes_clock_def minutes_uc_def)
  ultimately show ?thesis
    unfolding validated_at_def minutes_re_simps
    by (intro exI [of _ True] exI [of _ "Some (minutes_uc i)"]
        exI [of _ "\<lparr>IsValid = True, IsAvailableUpdate = True, VMessage = ''Upgrade config is valid''\<rparr>"]) simp
qed

theorem pending_upgrade_starts_in_time_witness:
  "\<exists>i now s. reconcile_phase minutes_re sample_target sample_cfg quiet_metrics (instant_upgrader Upgrading) sample_cv pending_history
        (pending_uc, no_gauges (Some (minutes_uc i))) =
      upgradeCluster minutes_re (instant_upgrader Upgrading)
        (pending_uc\<lparr>History := SetHistory (start_history pending_uc pending_history now) (History pending_uc)\<rparr>, s) \<and>
    570 * Second + int i * Minute \<le> 600 * Second + Minute"
proof -
  let ?T = "\<lambda>i. 570 * Second + int i * Minute" and ?S = "\<lambda>i. no_gauges (Some (minutes_uc i))"
  let ?run = "\<lambda>i. reconcile_phase minutes_re sample_target sample_cfg quiet_metrics (instant_upgrader Upgrading) sample_cv pending_history
      (pending_uc, ?S i)"
  have v: "validated_at minutes_re sample_target sample_cv pending_uc (?T i) (ext (?S i))" for i
    using minutes_validated by (simp add: no_gauges_def)
  have due: "Parse_RFC3339 (UpgradeAt (Spec pending_uc)) = Some (600 * Second)"
    using sample_upgradeAt by (simp add: pending_uc_def)
  have h: "Phase pending_history = Pending" by (simp add: pending_history_def)
  have w: "status_writable (re_uc minutes_re)" by (simp add: mem_uc_writable)
  have "0 \<le> next_reconcile res" for res by (simp add: next_reconcile_def SyncPeriodDefault_def)
  then have q: "queued Minute ?T (\<lambda>i. fst (?run i))" by (simp add: queued_def algebra_simps)
  from pending_upgrade_starts_in_time [OF due _ h w v q] obtain i now s where
    "?run i = upgradeCluster minutes_re (instant_upgrader Upgrading)
        (pending_uc\<lparr>History := SetHistory (start_history pending_uc pending_history now) (History pending_uc)\<rparr>, s)"
    "?T i \<le> 600 * Second + Minute + (if \<exists>j < i. ?T j = 600 * Second then SyncPeriodDefault else 0)" by auto
  moreover have "?T j \<noteq> 600 * Second" for j by simp presburger
  ultimately show ?thesis by auto
qed

end
