(* ===== verification/Completion.thy ===== *)
theory Completion
  imports Reconcile
begin

text \<open>
  The end of an upgrade: on a cluster that has arrived at the desired version and answers, every step of either upgrader
  is done, and one reconciliation takes the UpgradeConfig to Upgraded. The steps are shown to succeed with
  the calculus of operations that always return a value of the theory of the upgraders.
\<close>

section \<open>A cluster that has arrived\<close>

text \<open>The ClusterVersion has the desired version as its desired update and as a completed update.\<close>

definition version_reached :: "UpgradeConfigSpec \<Rightarrow> ClusterVersion \<Rightarrow> bool" where
  "version_reached sp cv \<longleftrightarrow>
     (case cvDesiredUpdate cv of None \<Rightarrow> False | Some u \<Rightarrow> rVersion u = dVersion (Desired sp)) \<and>
     (\<exists>h \<in> set (cvHistory cv). uhVersion h = dVersion (Desired sp) \<and> uhState h = CompletedUpdate) \<and>
     (\<exists>v. GetCurrentVersion cv = Ok v)"

text \<open>Extra capacity is not asked for, or gone.\<close>

definition capacity_released :: "'w clusterUpgrader \<Rightarrow> UpgradeConfigSpec \<Rightarrow> bool" where
  "capacity_released cu sp \<longleftrightarrow>
     \<not> CapacityReservation sp \<or>
     (scale_IsValid (cu_config cu) = Ok () \<and>
      answers (list_machinesets (cu_machines cu) [MatchingLabel LABEL_MACHINE_POOL ''worker'']) (\<lambda>_. True) \<and>
      answers (list_machinesets (cu_machines cu) [MatchingLabel LABEL_UPGRADE ''true'']) (\<lambda>ms. ms = []) \<and>
      answers (list_machines (cu_machines cu) [MatchingLabel LABEL_UPGRADE ''true'']) (\<lambda>ms. ms = []) \<and>
      answers (list_all_nodes (cu_machines cu)) (\<lambda>_. True) \<and>
      answers (list_pdbs (cu_drain cu)) (\<lambda>_. True) \<and>
      succeeds (new_notifier (cu_drain cu)) (\<lambda>_. True) \<and> succeeds (new_metrics (cu_drain cu)) (\<lambda>_. True))"

text \<open>
  Notifications go out: the UpgradeConfig can be read or is not there, the metrics can be queried and the notifier
  takes what it is given.
\<close>

definition notifies :: "'w eventManager \<Rightarrow> bool" where
  "notifies em \<longleftrightarrow>
     (\<forall>w. fst (ucm_Get (em_env em) (em_uc em) w) = Err ErrUpgradeConfigNotFound \<or>
          (\<exists>uc. fst (ucm_Get (em_env em) (em_uc em) w) = Ok uc)) \<and>
     (\<forall>q. succeeds (Query (em_rt em) (em_metrics em) q) (\<lambda>_. True)) \<and>
     (\<forall>st d. succeeds (em_NotifyState em st d) (\<lambda>_. True))"

text \<open>
  The services answer: the version is reached, no worker is left to update, no critical alert fires, no operator is
  degraded, silences can be read, posted and removed, and notifications go out.
\<close>

definition cluster_arrived :: "'w clusterUpgrader \<Rightarrow> UpgradeConfigSpec \<Rightarrow> bool" where
  "cluster_arrived cu sp \<longleftrightarrow>
     dImage (Desired sp) = [] \<and> dChannel (Desired sp) \<noteq> [] \<and> dVersion (Desired sp) \<noteq> [] \<and>
     answers (get_cv (cu_cv cu)) (version_reached sp) \<and>
     answers (list_clusteroperators (cu_cv cu)) (list_all (\<lambda>co. \<not> list_ex operator_degraded (coConditions co))) \<and>
     answers (cu_get_mcp cu ''worker'') (\<lambda>p. mcpMachineCount p = mcpUpdatedMachineCount p) \<and>
     succeeds (Query (cu_rt cu) (cu_metrics cu) (healthCheckQuery (cu_config cu))) (\<lambda>rs. rs = []) \<and>
     answers (get_silences (cu_am cu)) (\<lambda>_. True) \<and>
     (\<forall>p. answers (post_silence (cu_am cu) p) (\<lambda>_. True)) \<and>
     (\<forall>i. answers (delete_silence (cu_am cu) i) (\<lambda>_. True)) \<and>
     notifies (cu_notifier cu) \<and>
     (Fedramp (cu_config cu) \<longrightarrow> answers (fio_get cu) (\<lambda>_. True) \<and> (\<forall>a. answers (fio_annotate cu a) (\<lambda>_. True))) \<and>
     capacity_released cu sp"

section \<open>The steps on such a cluster\<close>

lemma reads_cv:
  assumes arrived: "cluster_arrived cu (Spec uc)"
  shows "succeeds (GetClusterVersion (cu_cv cu)) (version_reached (Spec uc))"
  using arrived unfolding cluster_arrived_def GetClusterVersion_def by (blast intro: succeeds_call)

lemma commenced:
  assumes arrived: "cluster_arrived cu (Spec uc)"
  shows "succeeds (HasUpgradeCommenced (cu_cv cu) uc) (\<lambda>b. b)"
  unfolding HasUpgradeCommenced_def [abs_def] using arrived
  by (intro succeeds_bind [OF reads_cv [OF arrived]] succeeds_bind [of "\<lambda>s. (checkUpgradeSource uc, s)" "\<lambda>src. src = UpgradeWithChannelVersion"])
     (auto simp: succeeds_def checkUpgradeSource_def cluster_arrived_def version_reached_def isEqualVersion_def)

lemma notified:
  assumes arrived: "cluster_arrived cu (Spec uc)"
    and st: "\<And>x. notify_description x st \<noteq> None"
  shows "succeeds (Notify (cu_notifier cu) st) (\<lambda>_. True)"
proof -
  let ?em = "cu_notifier cu"
  have n: "notifies ?em" using arrived by (simp add: cluster_arrived_def)
  have q: "succeeds (\<lambda>s. wrap_err (em_rt ?em) m (lift (IsMetricNotificationEventSentSet (em_rt ?em) (em_metrics ?em) x y z) s)) (\<lambda>_. True)"
    for m x y z
  proof -
    have "succeeds (IsMetricNotificationEventSentSet (em_rt ?em) (em_metrics ?em) x y z) (\<lambda>_. True)"
      unfolding IsMetricNotificationEventSentSet_def [abs_def]
      by (rule succeeds_bind [where P = "\<lambda>_. True"]) (use n in \<open>auto simp: notifies_def intro!: succeeds_ret\<close>)
    from succeeds_lift [OF this] show ?thesis unfolding succeeds_def by (metis wrap_err_simps(1))
  qed
  have "\<exists>s'. Notify ?em st s = (Ok (), s')" for s
  proof (cases "ucm_Get (em_env ?em) (em_uc ?em) (ext s)")
    case (Pair r w)
    have "r = Err ErrUpgradeConfigNotFound \<or> (\<exists>x. r = Ok x)"
      using n Pair unfolding notifies_def by (metis fst_conv)
    then consider "r = Err ErrUpgradeConfigNotFound" | x where "r = Ok x" by blast
    then show ?thesis
    proof cases
      case 1
      then show ?thesis using Pair by (simp add: Notify_def notify_with_def lift_def)
    next
      case (2 x)
      obtain d where d: "notify_description x st = Some d" using st by blast
      obtain b s1 where b: "wrap_err (em_rt ?em) ''can't check cluster metric NotificationSent: ''
          (lift (IsMetricNotificationEventSentSet (em_rt ?em) (em_metrics ?em) (ucName x) (toString st) (desired_version x)) (s\<lparr>ext := w\<rparr>))
          = (Ok b, s1)"
        using succeedsD [OF q [of "''can't check cluster metric NotificationSent: ''" "ucName x" "toString st" "desired_version x"],
            of "s\<lparr>ext := w\<rparr>"] by blast
      have "succeeds (lift (em_NotifyState ?em st d)) (\<lambda>_. True)"
        using n by (intro succeeds_lift) (simp add: notifies_def)
      from succeedsD [OF this, of s1] obtain s2 where "lift (em_NotifyState ?em st d) s1 = (Ok (), s2)" by auto
      with b d Pair 2 show ?thesis by (simp add: Notify_def notify_with_def lift_def [of "ucm_Get _ _"])
    qed
  qed
  then show ?thesis by (simp add: succeeds_def)
qed

lemma silences:
  assumes arrived: "cluster_arrived cu (Spec uc)"
  shows "succeeds (am_Filter (cu_am cu) ps) (\<lambda>_. True)"
  unfolding am_Filter_def [abs_def] am_List_def using arrived
  by (auto simp: cluster_arrived_def intro!: succeeds_rules)

text \<open>Every step before the request to upgrade stops at the question whether it was made.\<close>

lemma commenced_first:
  assumes arrived: "cluster_arrived cu (Spec uc)" and run: "\<And>s. f s = bindO (HasUpgradeCommenced (cu_cv cu) uc s) (\<lambda>b s. if b then (Ok True, s) else g s)"
  shows "succeeds f (\<lambda>b. b)"
proof -
  have "f = (\<lambda>s. bindO (HasUpgradeCommenced (cu_cv cu) uc s) (\<lambda>b s. if b then (Ok True, s) else g s))"
    using run by (rule ext)
  then show ?thesis by (simp only:) (rule succeeds_bind [OF commenced [OF arrived]], auto simp: succeeds_def)
qed

lemma commenced_first_sys:
  assumes arrived: "cluster_arrived cu (Spec uc)" and run: "\<And>s. f s = bindO (commenced_sys cu uc (h s)) (\<lambda>b s. if b then (Ok True, s) else g s)"
  shows "succeeds f (\<lambda>b. b)"
proof -
  have "f = (\<lambda>s. bindO (commenced_sys cu uc (h s)) (\<lambda>b s. if b then (Ok True, s) else g s))"
    using run by (rule ext)
  then show ?thesis
    by (simp only:) (rule succeeds_bind [OF succeeds_pre [OF succeeds_lift [OF commenced [OF arrived]]]], auto simp: succeeds_def)
qed

lemma before_commencing:
  assumes arrived: "cluster_arrived cu (Spec uc)"
  shows "succeeds (SendStartedNotification cu uc) (\<lambda>b. b)" "succeeds (UpgradeDelayedCheck cu uc) (\<lambda>b. b)"
  "succeeds (PreUpgradeHealthCheck cu uc) (\<lambda>b. b)" "succeeds (CommenceUpgrade cu uc) (\<lambda>b. b)"
  by (rule commenced_first_sys [OF arrived], simp only: SendStartedNotification_def UpgradeDelayedCheck_def PreUpgradeHealthCheck_def
      CommenceUpgrade_def Let_def)+

lemma before_commencing_world:
  assumes arrived: "cluster_arrived cu (Spec uc)"
  shows "succeeds (IsUpgradeable cu uc) (\<lambda>b. b)" "succeeds (ExternalDependencyAvailabilityCheck cu uc) (\<lambda>b. b)"
  by (rule commenced_first [OF arrived], simp only: IsUpgradeable_def ExternalDependencyAvailabilityCheck_def)+

lemma gets_capacity:
  assumes arrived: "cluster_arrived cu (Spec uc)"
  shows "succeeds (EnsureExtraUpgradeWorkers cu uc) (\<lambda>b. b)"
proof (cases "CapacityReservation (Spec uc)")
  case True
  then have v: "scale_IsValid (cu_config cu) = Ok ()"
    using arrived by (simp add: cluster_arrived_def capacity_released_def)
  show ?thesis
    by (rule commenced_first_sys [OF arrived], simp only: EnsureExtraUpgradeWorkers_def Let_def True v not_True_eq_False if_False bindO_simps)
qed (auto simp: EnsureExtraUpgradeWorkers_def succeeds_def)

lemma posted_silence:
  assumes arrived: "cluster_arrived cu (Spec uc)"
  shows "succeeds (am_Create (cu_am cu) ms t1 t2 c k) (\<lambda>_. True)"
  unfolding am_Create_def using arrived by (auto simp: cluster_arrived_def intro!: succeeds_call)

lemma removed_silences:
  assumes arrived: "cluster_arrived cu (Spec uc)"
  shows "\<exists>s'. delete_silences (cu_am cu) xs errs s = (errs, s')"
proof (induction xs arbitrary: s)
  case (Cons x xs)
  have "answers (delete_silence (cu_am cu) (silID x)) (\<lambda>_. True)" using arrived by (simp add: cluster_arrived_def)
  from succeedsD [OF succeeds_call [OF this], of s] obtain s' where "am_Delete (cu_am cu) (silID x) s = (Ok (), s')"
    by (auto simp: am_Delete_def)
  with Cons.IH show ?case by simp
qed simp

lemma ended_silences:
  assumes arrived: "cluster_arrived cu (Spec uc)"
  shows "succeeds (EndSilences (cu_am cu) c) (\<lambda>_. True)"
  unfolding EndSilences_def [abs_def]
proof (rule succeeds_bind [OF silences [OF arrived]])
  fix xs
  have "\<exists>s'. delete_silences (cu_am cu) xs [] s = ([], s')" for s by (rule removed_silences [OF arrived])
  then show "succeeds (\<lambda>s. let (errs, s) = delete_silences (cu_am cu) xs [] s
      in case ErrorOrNil errs of None \<Rightarrow> (Ok (), s) | Some e \<Rightarrow> (Err e, s)) (\<lambda>_. True)"
    unfolding succeeds_def by (metis (no_types, lifting) ErrorOrNil_def case_prod_conv list.case(1) option.case(1))
qed

lemma StartControlPlane_succeeds:
  assumes arrived: "cluster_arrived cu (Spec uc)"
  shows "succeeds (StartControlPlane (cu_rt cu) (cu_am cu) t v ignored) (\<lambda>_. True)"
  unfolding StartControlPlane_def [abs_def] Let_def [of "length _ > 0"]
  by (intro succeeds_bind [OF silences [OF arrived]] succeeds_if succeeds_let succeeds_bind [where P = "\<lambda>_. True"] posted_silence [OF arrived] succeeds_ret TrueI)

lemma workers_done:
  assumes arrived: "cluster_arrived cu (Spec uc)"
  shows "succeeds (mcp_IsUpgrading (cu_get_mcp cu) ''worker'') (\<lambda>r. \<not> IsUpgrading r)"
  unfolding mcp_IsUpgrading_def [abs_def]
  by (rule succeeds_bind [OF succeeds_call]) (use arrived in \<open>auto simp: cluster_arrived_def succeeds_def\<close>)

lemma windows:
  assumes arrived: "cluster_arrived cu (Spec uc)"
  shows "succeeds (CreateControlPlaneMaintWindow cu uc) (\<lambda>b. b)" "succeeds (RemoveControlPlaneMaintWindow cu uc) (\<lambda>b. b)"
  "succeeds (CreateWorkerMaintWindow cu uc) (\<lambda>b. b)" "succeeds (RemoveMaintWindow cu uc) (\<lambda>b. b)"
proof -
  show "succeeds (CreateControlPlaneMaintWindow cu uc) (\<lambda>b. b)"
    unfolding CreateControlPlaneMaintWindow_def [abs_def] Let_def [of "_ + _"]
    by (intro succeeds_let succeeds_bind [OF StartControlPlane_succeeds [OF arrived]] succeeds_ret TrueI)
  show "succeeds (RemoveControlPlaneMaintWindow cu uc) (\<lambda>b. b)" "succeeds (RemoveMaintWindow cu uc) (\<lambda>b. b)"
    unfolding RemoveControlPlaneMaintWindow_def [abs_def] RemoveMaintWindow_def [abs_def] EndControlPlane_def EndWorker_def
    by (intro succeeds_bind [OF ended_silences [OF arrived]] succeeds_ret TrueI)+
  show "succeeds (CreateWorkerMaintWindow cu uc) (\<lambda>b. b)"
    unfolding CreateWorkerMaintWindow_def [abs_def] by (rule succeeds_bind [OF workers_done [OF arrived]]) (auto simp: succeeds_def)
qed

lemma control_plane:
  assumes arrived: "cluster_arrived cu (Spec uc)"
  shows "succeeds (ControlPlaneUpgraded cu uc) (\<lambda>b. b)"
  unfolding ControlPlaneUpgraded_def [abs_def]
proof (rule succeeds_bind [OF succeeds_lift [OF reads_cv [OF arrived]]])
  fix cv
  assume "version_reached (Spec uc) cv"
  then have "HasUpgradeCompleted cv uc" by (auto simp: version_reached_def HasUpgradeCompleted_iff completed_entries_def)
  moreover have "succeeds (control_plane_done cu uc) (\<lambda>b. b)"
    unfolding control_plane_done_def [abs_def] Let_def [of "ResetMetricUpgradeControlPlaneTimeout _ _ _"]
    by (rule succeeds_bind [OF notified [OF arrived]]) (auto simp: succeeds_def Let_def split: prod.splits)
  ultimately show "succeeds (\<lambda>s. if HasUpgradeCompleted cv uc then control_plane_done cu uc s else f s) (\<lambda>b. b)" for f
    by simp
qed

lemma workers:
  assumes arrived: "cluster_arrived cu (Spec uc)"
  shows "succeeds (AllWorkersUpgraded cu uc) (\<lambda>b. b)"
proof -
  have "succeeds (lift (IsActive (cu_am cu))) (\<lambda>_. True)"
    unfolding IsActive_def [abs_def] by (intro succeeds_lift succeeds_bind [OF silences [OF arrived]] succeeds_ret TrueI)
  then show ?thesis
    unfolding AllWorkersUpgraded_def [abs_def]
    by (intro succeeds_bind [OF succeeds_lift [OF workers_done [OF arrived]]] succeeds_bind [where P = "\<lambda>_. True"])
       (auto simp: split_def Let_def intro!: succeeds_bind [OF notified [OF arrived]] succeeds_ret)
qed

lemma completed_notified:
  assumes arrived: "cluster_arrived cu (Spec uc)"
  shows "succeeds (SendCompletedNotification cu uc) (\<lambda>b. b)"
  unfolding SendCompletedNotification_def [abs_def]
  by (rule succeeds_bind [OF notified [OF arrived]]) (auto simp: split_def Let_def intro!: succeeds_ret)

lemma history_state_Ok:
  assumes history: "current_history uc \<noteq> None"
  shows "\<exists>st. history_state uc = Ok st"
  using history by (auto simp: history_state_def)

lemma no_critical_alerts:
  assumes arrived: "cluster_arrived cu (Spec uc)" and history: "current_history uc \<noteq> None"
  shows "succeeds (CriticalAlerts (cu_rt cu) (cu_metrics cu) (cu_config cu) uc v) (\<lambda>b. b)"
proof -
  obtain st where st: "history_state uc = Ok st" using history_state_Ok [OF history] by blast
  have q: "succeeds (lift (Query (cu_rt cu) (cu_metrics cu) (healthCheckQuery (cu_config cu)))) (\<lambda>rs. rs = [])"
    using arrived by (intro succeeds_lift) (simp add: cluster_arrived_def)
  show ?thesis
    unfolding CriticalAlerts_def [abs_def] st bindO_simps by (rule succeeds_try [OF q]) (auto intro!: succeeds_ret)
qed

lemma no_degraded_operators:
  assumes arrived: "cluster_arrived cu (Spec uc)" and history: "current_history uc \<noteq> None"
  shows "succeeds (ClusterOperators (cu_cv cu) uc v) (\<lambda>b. b)"
proof -
  obtain st where st: "history_state uc = Ok st" using history_state_Ok [OF history] by blast
  have "answers (list_clusteroperators (cu_cv cu)) (list_all (\<lambda>co. \<not> list_ex operator_degraded (coConditions co)))"
    using arrived by (simp add: cluster_arrived_def)
  then have d: "succeeds (HasDegradedOperators (cu_cv cu)) (\<lambda>d. d = [])"
    unfolding HasDegradedOperators_def [abs_def]
    by (rule succeeds_bind [OF succeeds_call]) (auto simp: filter_empty_conv list_all_iff intro!: succeeds_ret)
  show ?thesis
    unfolding ClusterOperators_def [abs_def] st bindO_simps by (rule succeeds_try [OF succeeds_lift [OF d]]) (auto intro!: succeeds_ret)
qed

lemma reads_version:
  assumes arrived: "cluster_arrived cu (Spec uc)"
  shows "succeeds (getCurrentVersion (cu_cv cu)) (\<lambda>_. True)"
  unfolding getCurrentVersion_def [abs_def]
  by (rule succeeds_try [OF reads_cv [OF arrived]]) (auto simp: version_reached_def succeeds_def tryO_def)

lemma after_upgrade:
  assumes arrived: "cluster_arrived cu (Spec uc)" and history: "current_history uc \<noteq> None"
  shows "succeeds (PostUpgradeHealthCheck cu uc) (\<lambda>b. b)" "succeeds (PostUpgradeProcedures cu uc) (\<lambda>b. b)"
proof -
  show "succeeds (PostUpgradeHealthCheck cu uc) (\<lambda>b. b)"
    unfolding PostUpgradeHealthCheck_def [abs_def]
    by (intro succeeds_bind [OF succeeds_lift [OF reads_version [OF arrived]]])
       (auto intro!: succeeds_bind [OF no_critical_alerts [OF arrived history]] succeeds_bind [OF no_degraded_operators [OF arrived history]] succeeds_ret)
  have "succeeds (postUpgradeFIOReInit cu) (\<lambda>_. True)" if "Fedramp (cu_config cu)"
    unfolding postUpgradeFIOReInit_def [abs_def]
  proof (rule succeeds_bind)
    have f: "answers (fio_get cu) (\<lambda>_. True)" "answers (fio_annotate cu a) (\<lambda>_. True)" for a
      using arrived that by (auto simp: cluster_arrived_def)
    show "succeeds (\<lambda>s. wrap_err (cu_rt cu) m (call (fio_get cu) s)) (\<lambda>_. True)" for m
      using f(1) unfolding answers_def succeeds_def by (metis call_eq_iff(1) wrap_err_simps(1))
    show "succeeds (\<lambda>s. call (fio_annotate cu a) s) (\<lambda>_. True)" for a by (rule succeeds_call [OF f(2)])
  qed
  then show "succeeds (PostUpgradeProcedures cu uc) (\<lambda>b. b)"
    unfolding PostUpgradeProcedures_def [abs_def]
    by (cases "Fedramp (cu_config cu)") (auto intro!: succeeds_ret succeeds_bind [where P = "\<lambda>_. True"])
qed

lemma capacity_removed:
  assumes arrived: "cluster_arrived cu (Spec uc)"
  shows "succeeds (RemoveExtraScaledNodes cu uc) (\<lambda>b. b)"
proof (cases "CapacityReservation (Spec uc)")
  case True
  let ?api = "cu_machines cu"
  have c: "scale_IsValid (cu_config cu) = Ok ()"
      "answers (list_machinesets ?api [MatchingLabel LABEL_MACHINE_POOL ''worker'']) (\<lambda>_. True)"
      "answers (list_machinesets ?api [MatchingLabel LABEL_UPGRADE ''true'']) (\<lambda>ms. ms = [])"
      "answers (list_machines ?api [MatchingLabel LABEL_UPGRADE ''true'']) (\<lambda>ms. ms = [])"
      "answers (list_all_nodes ?api) (\<lambda>_. True)" "answers (list_pdbs (cu_drain cu)) (\<lambda>_. True)"
      "succeeds (new_notifier (cu_drain cu)) (\<lambda>_. True)" "succeeds (new_metrics (cu_drain cu)) (\<lambda>_. True)"
    using arrived True by (auto simp: cluster_arrived_def capacity_released_def)
  have can: "succeeds (CanScale ?api) (\<lambda>_. True)"
    unfolding CanScale_def [abs_def] by (intro succeeds_bind [OF succeeds_call [OF c(2)]] succeeds_ret TrueI)
  have nodes: "succeeds (getExtraUpgradeNodes ?api) (\<lambda>ns. ns = [])"
    unfolding getExtraUpgradeNodes_def [abs_def]
    by (intro succeeds_bind [OF succeeds_call [OF c(5)]] succeeds_bind [OF succeeds_call [OF c(4)]]) (auto simp: succeeds_def)
  have strategy: "succeeds (new_strategy (cu_drain cu) ts uc cfg) (\<lambda>_. True)" for ts cfg
    unfolding new_strategy_def [abs_def] by (intro succeeds_bind [OF c(7)] succeeds_bind [OF c(8)] succeeds_ret TrueI)
  have new: "succeeds (NewNodeDrainStrategy (cu_drain cu) uc cfg) (\<lambda>_. True)" for cfg
    using c(6) strategy [of "osd_strategies (de_regex (cu_drain cu)) _ uc cfg" cfg]
    unfolding succeeds_def answers_def NewNodeDrainStrategy_def by (metis (no_types, lifting) case_prod_conv sum.case(2))
  have drained: "succeeds (\<lambda>s. bindO (lift (getExtraUpgradeNodes ?api) s) (\<lambda>nodes s. handleDrainStrategy n nodes s)) (\<lambda>_. True)" for n
    by (rule succeeds_bind [OF succeeds_lift [OF nodes]]) (auto simp: handleDrainStrategy_def succeeds_def)
  have down: "succeeds (EnsureScaleDownNodes ?api (Some n)) (\<lambda>b. b)" for n
    unfolding EnsureScaleDownNodes_def [abs_def] option.case
    by (intro succeeds_bind [OF succeeds_lift [OF succeeds_call [OF c(3)]]] succeeds_bind [where P = "\<lambda>_. True"]
        succeeds_bind [OF succeeds_lift [OF succeeds_call [OF c(4)]]] drained)
       (auto intro!: succeeds_ret simp: succeeds_def lift_def)
  show ?thesis
    unfolding RemoveExtraScaledNodes_def [abs_def] Let_def [of "cu_config cu"] Let_def [of ?api]
    by (simp only: True c(1) not_True_eq_False if_False bindO_simps,
        intro succeeds_bind [OF succeeds_lift [OF can]] succeeds_if succeeds_bind [OF succeeds_lift [OF new]] succeeds_try [OF down])
       (auto intro!: succeeds_ret)
qed (auto simp: RemoveExtraScaledNodes_def succeeds_def)

lemmas arrived_steps =
  before_commencing before_commencing_world gets_capacity windows control_plane workers completed_notified after_upgrade capacity_removed

lemma osd_steps_done:
  assumes "cluster_arrived cu (Spec uc)" "current_history uc \<noteq> None" "st \<in> set (osd_steps cu)"
  shows "succeeds (step_f st uc) (\<lambda>b. b)"
  using assms(3) arrived_steps [OF assms(1)] after_upgrade [OF assms(1,2)]
  by (auto simp: osd_steps_def Action_def lift_step_def intro: succeeds_lift)

lemma aro_steps_done:
  assumes "cluster_arrived cu (Spec uc)" "current_history uc \<noteq> None" "st \<in> set (aro_steps cu)"
  shows "succeeds (step_f st uc) (\<lambda>b. b)"
  using assms(3) arrived_steps [OF assms(1)] after_upgrade [OF assms(1,2)]
  by (auto simp: aro_steps_def Action_def lift_step_def intro: succeeds_lift)

section \<open>Upgraders that finish\<close>

text \<open>
  What the controller can count on beyond the contract of an upgrader: on a cluster that has arrived the upgrade is
  reported as done.
\<close>

locale finishing_upgrader = cluster_upgrader upgrade
  for upgrade :: "(UpgradeConfig \<times> 'w sys, run_result) op" +
  fixes arrived :: "UpgradeConfig \<Rightarrow> bool"
  assumes finishes: "arrived uc \<Longrightarrow> current_history uc \<noteq> None \<Longrightarrow>
    \<exists>uc' s'. upgrade (uc, s) = (Ok (Upgraded, None), uc', s')"
begin

lemma controller_finishes:
  assumes "UpgradeCluster u = upgrade" "arrived uc" "current_history uc = Some h" "status_writable (re_uc re)"
  shows "\<exists>uc' s' cs now. upgradeCluster re u (uc, s) = (Ok \<lparr>RequeueAfter = Minute\<rparr>, uc', s') \<and>
    current_history uc' = Some (h\<lparr>HConditions := cs, Phase := Upgraded, CompleteTime := Some now\<rparr>)"
proof -
  obtain uc1 s1 where r: "upgrade (uc, s) = (Ok (Upgraded, None), uc1, s1)" using finishes assms(2,3) by blast
  obtain cs where h1: "current_history uc1 = Some (h\<lparr>HConditions := cs\<rparr>)"
    by (rule history_kept [OF r assms(3)])
  obtain now s2 where now: "lift (time_now (re_rt re)) s1 = (now, s2)" by fastforce
  let ?h = "h\<lparr>HConditions := cs, Phase := Upgraded, CompleteTime := Some now\<rparr>"
  obtain s3 where st: "store_history re ?h (uc1, s2) = (Ok (), uc1\<lparr>History := SetHistory ?h (History uc1)\<rparr>, s3)"
    using assms(4) by (rule store_history_writable)
  have "Version h = desired_version uc1" using GetHistory_Version [OF h1] by simp
  then have "current_history (uc1\<lparr>History := SetHistory ?h (History uc1)\<rparr>) = Some ?h"
    using GetHistory_SetHistory [of ?h "History uc1"] by simp
  moreover have "upgradeCluster re u (uc, s) = (Ok \<lparr>RequeueAfter = Minute\<rparr>, uc1\<lparr>History := SetHistory ?h (History uc1)\<rparr>, s3)"
    using r h1 now st assms(1) by (simp add: upgradeCluster_def multierror_Append_def ErrorOrNil_def)
  ultimately show ?thesis by blast
qed

end

interpretation aro_finishing: finishing_upgrader "aro_UpgradeCluster cu" "\<lambda>uc. cluster_arrived cu (Spec uc)" for cu
proof unfold_locales
  fix uc :: UpgradeConfig and s
  assume a: "cluster_arrived cu (Spec uc)" "current_history uc \<noteq> None"
  show "\<exists>uc' s'. aro_UpgradeCluster cu (uc, s) = (Ok (Upgraded, None), uc', s')"
    unfolding aro_UpgradeCluster_def runSteps_def by (rule Run_succeeds) (use a in \<open>auto intro: aro_steps_done\<close>)
qed

interpretation osd_finishing: finishing_upgrader "osd_UpgradeCluster cu" "\<lambda>uc. cluster_arrived cu (Spec uc)" for cu
proof unfold_locales
  fix uc :: UpgradeConfig and s
  assume a: "cluster_arrived cu (Spec uc)" "current_history uc \<noteq> None"
  have "succeeds (lift (shouldFailUpgrade cu uc)) (\<lambda>b. \<not> b)"
    unfolding shouldFailUpgrade_def [abs_def] by (intro succeeds_lift succeeds_bind [OF commenced [OF a(1)]]) (auto simp: succeeds_def)
  from succeedsD [OF this, of s] obtain s1 where "lift (shouldFailUpgrade cu uc) s = (Ok False, s1)" by auto
  moreover have "\<exists>uc' s'. Run (lift_runtime (cu_rt cu)) (osd_steps cu) (uc, s1) = (Ok (Upgraded, None), uc', s')"
    by (rule Run_succeeds) (use a in \<open>auto intro: osd_steps_done\<close>)
  ultimately show "\<exists>uc' s'. osd_UpgradeCluster cu (uc, s) = (Ok (Upgraded, None), uc', s')"
    by (simp add: osd_UpgradeCluster_def runSteps_def)
qed

text \<open>
  C14: An upgrade that has arrived is recorded as done. When the ClusterVersion has completed the desired version, no worker
  is left to update, no critical alert fires, no operator is degraded, extra capacity is gone or was not asked for, and the
  services answer, one reconciliation of a running upgrade, with either upgrader, takes it through all its steps: its
  history is Upgraded with a completion time, and keeps everything else but its conditions.
\<close>

theorem arrived_upgrade_completes:
  assumes "UpgradeCluster u \<in> {osd_UpgradeCluster cu, aro_UpgradeCluster cu}" "cluster_arrived cu (Spec uc)"
    and "status_writable (re_uc re)" "current_history uc = Some h" "Phase h = Upgrading"
  shows "\<exists>uc' s' cs now. reconcile_phase re t cfg m u cv h (uc, s) = (Ok \<lparr>RequeueAfter = Minute\<rparr>, uc', s') \<and>
    current_history uc' = Some (h\<lparr>HConditions := cs, Phase := Upgraded, CompleteTime := Some now\<rparr>)"
  using assms aro_finishing.controller_finishes [OF _ assms(2,4,3)] osd_finishing.controller_finishes [OF _ assms(2,4,3)]
  by (auto simp: reconcile_phase_def)

text \<open>A cluster at 4.14.2, three of three workers updated, whose services all answer.\<close>

definition arrived_cv :: ClusterVersion where
  "arrived_cv = sample_cv\<lparr>cvDesiredUpdate := Some \<lparr>rVersion = ''4.14.2'', rImage = ''i2''\<rparr>,
     cvHistory := \<lparr>uhState = CompletedUpdate, uhVersion = ''4.14.2'', uhStartedTime = 10, uhCompletionTime = Some 12\<rparr> # cvHistory sample_cv\<rparr>"

definition arrived_cu :: "UpgradeConfig option clusterUpgrader" where
  "arrived_cu =
     \<lparr>cu_rt = sample_clock, cu_metrics = quiet_metrics,
      cu_cv = \<lparr>get_cv = (\<lambda>s. (Inr arrived_cv, s)), patch_cv = (\<lambda>_ s. (Inr (), s)), list_clusteroperators = (\<lambda>s. (Inr [], s))\<rparr>,
      cu_notifier = quiet_em, cu_config = sample_config, cu_machines = quiet_machines, cu_drain = quiet_drain,
      cu_am = \<lparr>post_silence = (\<lambda>_ s. (Inr (), s)), get_silences = (\<lambda>s. (Inr [], s)),
               get_silence = (\<lambda>i s. (Inl (ApiNotFound i), s)), delete_silence = (\<lambda>_ s. (Inr (), s))\<rparr>,
      cu_get_mcp = (\<lambda>n s. (Inr \<lparr>mcpName = n, mcpMachineCount = 3, mcpUpdatedMachineCount = 3\<rparr>, s)),
      cu_list_nodes = (\<lambda>_ s. (Inr [], s)), cu_checkers = [], cu_dvo = None,
      cu_semver = \<lparr>semver_Parse = (\<lambda>_. Inr \<lparr>Major = 4, Minor = 14, svRest = []\<rparr>), semver_Compare = (\<lambda>_ _. 0)\<rparr>,
      fio_get = (\<lambda>s. (Inr (), s)), fio_annotate = (\<lambda>_ s. (Inr (), s))\<rparr>"

lemma quiet_Query [simp]: "Query rt quiet_metrics q s = (Ok [], s)"
  by (simp add: Query_def quiet_metrics_def call_def)

lemma quiet_em_notifies: "notifies quiet_em"
  by (auto simp: notifies_def quiet_em_def succeeds_def ucm_Get_def GetOperatorNamespace_def IsNotFound_def mem_uc_def env_eval
      split: option.splits)

lemma arrived_cv_reached: "version_reached (Spec started_uc) arrived_cv"
proof -
  have "GetCurrentVersion arrived_cv = Ok ''4.14.2''" by code_simp
  then show ?thesis by (simp add: version_reached_def arrived_cv_def started_uc_def sample_uc_def)
qed

lemma sample_arrived: "cluster_arrived arrived_cu (Spec started_uc)"
proof -
  have "dImage (Desired (Spec started_uc)) = []" "dChannel (Desired (Spec started_uc)) \<noteq> []"
      "dVersion (Desired (Spec started_uc)) \<noteq> []"
    by (simp_all add: started_uc_def sample_uc_def)
  moreover have "capacity_released arrived_cu (Spec started_uc)"
    by (simp add: capacity_released_def arrived_cu_def quiet_machines_def quiet_drain_def sample_config_def answers_def
        succeeds_def scale_IsValid_def)
  ultimately show ?thesis
    unfolding cluster_arrived_def
    by (simp add: arrived_cv_reached quiet_em_notifies answers_def succeeds_def arrived_cu_def sample_config_def)
qed

theorem arrived_upgrade_completes_witness:
  "\<exists>uc' s' cs now. reconcile_phase sample_re sample_target sample_cfg quiet_metrics
      \<lparr>HealthCheck = osd_HealthCheck arrived_cu, UpgradeCluster = osd_UpgradeCluster arrived_cu\<rparr> arrived_cv started_history
      (started_uc, no_gauges (Some started_uc)) = (Ok \<lparr>RequeueAfter = Minute\<rparr>, uc', s') \<and>
    current_history uc' = Some (started_history\<lparr>HConditions := cs, Phase := Upgraded, CompleteTime := Some now\<rparr>)"
  by (rule arrived_upgrade_completes [OF _ sample_arrived _ started_uc_history])
     (simp_all add: mem_uc_writable started_history_def)

end
