(* ===== verification/Collector.thy ===== *)
theory Collector
  imports Reconcile
begin

text \<open>
  The two Prometheus collectors (\<open>pkg/collector\<close> and \<open>pkg/metrics/collector\<close>): what a scrape
  reports of the UpgradeConfig and the ClusterVersion. A channel is the list of what was sent on
  it, so that a scrape that fails or panics half-way shows the samples it had already sent.
\<close>

section \<open>Descriptions and samples\<close>

record Desc =
  fqName :: string
  descHelp :: string
  descLabels :: "string list"

record sample =
  smDesc :: Desc
  smValue :: int
  smLabelValues :: "string list"

datatype channel_item = Sample sample | InvalidMetric string goerr

text \<open>\<open>BuildFQName\<close> with three names that are not empty.\<close>

definition BuildFQName :: "string \<Rightarrow> string \<Rightarrow> string \<Rightarrow> string" where
  "BuildFQName namespace subsystem name = namespace @ ''_'' @ subsystem @ ''_'' @ name"

definition MetricsNamespace :: string where "MetricsNamespace = ''managed_upgrade''"
definition subSystemUpgrade :: string where "subSystemUpgrade = ''upgrade''"
definition subSystemCollector :: string where "subSystemCollector = ''collector''"
definition subSystemCondition :: string where "subSystemCondition = ''condition''"

definition keyPhase :: string where "keyPhase = ''phase''"
definition keyUpgradeConfigName :: string where "keyUpgradeConfigName = ''upgradeconfig_name''"
definition keyVersion :: string where "keyVersion = ''version''"
definition keyDesiredVersion :: string where "keyDesiredVersion = ''desired_version''"
definition keyCondition :: string where "keyCondition = ''condition''"

text \<open>
  \<open>MustNewConstMetric\<close> panics unless there is a value for each label. The client library also refuses a value that is not
  UTF-8; every value here is a fixed word or a field of an object the API server has decoded from JSON, and so is UTF-8.
\<close>

definition MustNewConstMetric :: "Desc \<Rightarrow> int \<Rightarrow> string list \<Rightarrow> sample outcome" where
  "MustNewConstMetric d v ls =
     (if length ls = length (descLabels d) then Ok \<lparr>smDesc = d, smValue = v, smLabelValues = ls\<rparr> else Panic)"

definition send :: "Desc \<Rightarrow> int \<Rightarrow> string list \<Rightarrow> (channel_item list, unit) op" where
  "send d v ls ch = bindO (MustNewConstMetric d v ls, ch) (\<lambda>m ch. (Ok (), ch @ [Sample m]))"

section \<open>The collector of an upgrade\<close>

record ManagedOSMetrics =
  mm_upgradeAt :: Desc
  mm_pdbTimeout :: Desc
  mm_startTime :: Desc
  mm_completeTime :: Desc
  mm_condition :: "(UpgradeConditionType \<times> Desc) list"

definition upgrade_desc :: "string \<Rightarrow> string \<Rightarrow> Desc" where
  "upgrade_desc n help =
     \<lparr>fqName = BuildFQName MetricsNamespace subSystemUpgrade n, descHelp = help,
      descLabels = [keyVersion, keyDesiredVersion, keyPhase]\<rparr>"

definition condition_desc :: "string \<Rightarrow> string \<Rightarrow> Desc" where
  "condition_desc n help =
     \<lparr>fqName = BuildFQName MetricsNamespace subSystemCondition n, descHelp = help,
      descLabels = [keyUpgradeConfigName, keyVersion, keyDesiredVersion, keyCondition]\<rparr>"

text \<open>The descriptions of the conditions, with the condition type the collector reports under each.\<close>

definition condition_descs :: "(UpgradeConditionType \<times> Desc) list" where
  "condition_descs =
     [(SendStartedNotification_t, condition_desc ''notification_start_timestamp''
         ''Unix Timestamp indicating time of start upgrade notification event''),
      (UpgradePreHealthCheck_t, condition_desc ''health_check_timestamp''
         ''Unix Timestamp indicating time of cluster health check''),
      (ExtDepAvailabilityCheck_t, condition_desc ''external_dep_check_timestamp''
         ''Unix Timestamp indicating time of external dependency availability check''),
      (UpgradeScaleUpExtraNodes_t, condition_desc ''capacity_added_timestamp''
         ''Unix Timestamp indicating time of additional compute added''),
      (ControlPlaneMaintWindow_t, condition_desc ''control_plane_maint_start_timestamp''
         ''Unix Timestamp indicating start time of control plane maintenance''),
      (CommenceUpgrade_t, condition_desc ''control_plane_upgrade_start_timestamp''
         ''Unix Timestamp indicating start time of upgrade''),
      (ControlPlaneUpgraded_t, condition_desc ''control_plane_completion_timestamp''
         ''Unix Timestamp indicating completion of upgrade upgrade''),
      (RemoveControlPlaneMaintWindow_t, condition_desc ''control_plane_maint_removed_timestamp''
         ''Unix Timestamp indicating removal of control plane maintenance window''),
      (WorkersMaintWindow_t, condition_desc ''workers_maint_start_timestamp''
         ''Unix Timestamp indicating start time of workers maintenance''),
      (AllWorkerNodesUpgraded_t, condition_desc ''workers_upgraded_timestamp''
         ''Unix Timestamp indicating all worker nodes have upgraded''),
      (RemoveExtraScaledNodes_t, condition_desc ''capacity_removed_timestamp''
         ''Unix Timestamp indicating time of additional compute removed''),
      (RemoveMaintWindow_t, condition_desc ''workers_maint_removed_timestamp''
         ''Unix Timestamp indicating end of workers maintenance''),
      (PostClusterHealthCheck_t, condition_desc ''post_upgrade_healthcheck_timestamp''
         ''Unix Timestamp indicating time of post cluster health check''),
      (SendCompletedNotification_t, condition_desc ''notification_complete_timestamp''
         ''Unix Timestamp indicating time of complete upgrade notification event'')]"

definition bootstrapMetrics :: ManagedOSMetrics where
  "bootstrapMetrics =
     \<lparr>mm_upgradeAt = upgrade_desc ''scheduled'' ''Unix Timestamp indicating when the upgrade will execute'',
      mm_pdbTimeout =
        \<lparr>fqName = BuildFQName MetricsNamespace subSystemUpgrade ''pdb_timeout_minutes'',
         descHelp = ''Int indicating when the value of PDB timeout in minutes'',
         descLabels = [keyVersion, keyDesiredVersion]\<rparr>,
      mm_startTime = upgrade_desc ''start_timestamp'' ''Timestamp of when an upgrade starts'',
      mm_completeTime = upgrade_desc ''complete_timestamp'' ''Timestamp of when an upgrade completes entirely'',
      mm_condition = condition_descs\<rparr>"

definition Describe :: "ManagedOSMetrics \<Rightarrow> Desc list" where
  "Describe mm =
     [mm_upgradeAt mm, mm_pdbTimeout mm, mm_startTime mm, mm_completeTime mm] @ map snd (mm_condition mm)"

record 'w collector_env =
  ce_env :: environ
  ce_uc :: "'w uc_api"
  ce_cv :: "'w cv_api"
  ce_rt :: "'w runtime"
  ce_sort :: "(nat \<times> instant \<Rightarrow> nat \<times> instant \<Rightarrow> bool) \<Rightarrow> (nat \<times> instant) list \<Rightarrow> (nat \<times> instant) list"

fun status_string :: "ConditionStatus \<Rightarrow> string" where
  "status_string CTrue = ''True''"
| "status_string CFalse = ''False''"
| "status_string CUnknown = ''Unknown''"

text \<open>\<open>t.Unix()\<close> through a nil pointer panics.\<close>

definition unix_ptr :: "instant option \<Rightarrow> int outcome" where
  "unix_ptr t = (case t of None \<Rightarrow> Panic | Some t \<Rightarrow> Ok (Unix t))"

definition collectCondition ::
    "UpgradeCondition \<Rightarrow> Desc \<Rightarrow> UpgradeConfig \<Rightarrow> string \<Rightarrow> (channel_item list, unit) op" where
  "collectCondition c d uc cvV ch =
     bindO (unix_ptr (if CStatus c = CTrue then CCompleteTime c else CStartTime c), ch) (\<lambda>v ch.
       send d v [ucName uc, cvV, desired_version uc, status_string (CStatus c)] ch)"

definition collectSpec :: "ManagedOSMetrics \<Rightarrow> UpgradeConfig \<Rightarrow> string \<Rightarrow> (channel_item list, unit) op" where
  "collectSpec mm uc cvV ch =
     (case GetHistory (History uc) (desired_version uc) of
        None \<Rightarrow> (Err (Errorf ''not able to fetch upgrade history''), ch)
      | Some h \<Rightarrow>
          (case Parse_RFC3339 (UpgradeAt (Spec uc)) of
             None \<Rightarrow> (Err (Errorf ''parsing time''), ch)
           | Some t \<Rightarrow>
               bindO (send (mm_upgradeAt mm) (Unix t) [cvV, desired_version uc, phase_string (Phase h)] ch) (\<lambda>_ ch.
                 send (mm_pdbTimeout mm) (PDBForceDrainTimeout (Spec uc)) [cvV, desired_version uc] ch)))"

definition send_time :: "Desc \<Rightarrow> instant option \<Rightarrow> string list \<Rightarrow> (channel_item list, unit) op" where
  "send_time d t ls ch = (case t of None \<Rightarrow> (Ok (), ch) | Some t \<Rightarrow> send d (Unix t) ls ch)"

definition collectStatus :: "ManagedOSMetrics \<Rightarrow> UpgradeConfig \<Rightarrow> string \<Rightarrow> (channel_item list, unit) op" where
  "collectStatus mm uc cvV ch =
     (case GetHistory (History uc) (desired_version uc) of
        None \<Rightarrow> (Err (Errorf ''not able to fetch upgrade history''), ch)
      | Some h \<Rightarrow>
          let ls = [cvV, desired_version uc, phase_string (Phase h)]
          in bindO (send_time (mm_startTime mm) (StartTime h) ls ch) (\<lambda>_ ch.
               send_time (mm_completeTime mm) (CompleteTime h) ls ch))"

fun collect_conditions ::
    "ManagedOSMetrics \<Rightarrow> UpgradeConfig \<Rightarrow> string \<Rightarrow> UpgradeCondition list \<Rightarrow> (channel_item list, unit) op" where
  "collect_conditions mm uc cvV [] ch = (Ok (), ch)"
| "collect_conditions mm uc cvV (c # cs) ch =
     bindO (case map_of (mm_condition mm) (CType c) of
              None \<Rightarrow> (Ok (), ch)
            | Some d \<Rightarrow> collectCondition c d uc cvV ch)
       (\<lambda>_ ch. collect_conditions mm uc cvV cs ch)"

definition collect_samples :: "ManagedOSMetrics \<Rightarrow> UpgradeConfig \<Rightarrow> string \<Rightarrow> (channel_item list, unit) op" where
  "collect_samples mm uc cvV ch =
     bindO (collectSpec mm uc cvV ch) (\<lambda>_ ch.
       case GetHistory (History uc) (desired_version uc) of
         None \<Rightarrow> (Err (Errorf ''no upgrade history yet''), ch)
       | Some h \<Rightarrow>
           bindO (collectStatus mm uc cvV ch) (\<lambda>_ ch. collect_conditions mm uc cvV (HConditions h) ch))"

text \<open>The version the cluster came from: the current one, or the one before it once the desired one runs.\<close>

definition from_version ::
    "'w collector_env \<Rightarrow> ClusterVersion \<Rightarrow> UpgradeConfig \<Rightarrow> string outcome" where
  "from_version ce cv uc =
     (case GetCurrentVersion cv of
        Ok v \<Rightarrow> if desired_version uc = v then GetCurrentVersionMinusOne (ce_sort ce) cv else Ok v
      | r \<Rightarrow> r)"

definition collectUpgradeConditions ::
    "'w collector_env \<Rightarrow> ManagedOSMetrics \<Rightarrow> (channel_item list \<times> 'w, unit) op" where
  "collectUpgradeConditions ce mm = (\<lambda>(ch, s).
     case ucm_Get (ce_env ce) (ce_uc ce) s of
       (Panic, s) \<Rightarrow> (Panic, ch, s)
     | (Err e, s) \<Rightarrow>
         if e = ErrUpgradeConfigNotFound then (Ok (), ch, s)
         else (Err (Errorf (''unable to find UpgradeConfig: '' @ error_string (ce_rt ce) e)), ch, s)
     | (Ok uc, s) \<Rightarrow>
         (case GetClusterVersion (ce_cv ce) s of
            (Panic, s) \<Rightarrow> (Panic, ch, s)
          | (Err e, s) \<Rightarrow> (Err e, ch, s)
          | (Ok cv, s) \<Rightarrow>
              bindO (from_version ce cv uc, ch, s) (\<lambda>cvV (ch, s).
                let (r, ch) = collect_samples mm uc cvV ch in (r, ch, s))))"

definition Collect :: "'w collector_env \<Rightarrow> ManagedOSMetrics \<Rightarrow> (channel_item list \<times> 'w, unit) op" where
  "Collect ce mm us =
     (case collectUpgradeConditions ce mm us of
        (Err e, ch, s) \<Rightarrow>
          (Ok (), ch @ [InvalidMetric (BuildFQName MetricsNamespace subSystemCollector ''scrape_failed'') e], s)
      | r \<Rightarrow> r)"

section \<open>The collector of the upgrade's states\<close>

definition upgradeState :: Desc where
  "upgradeState =
     \<lparr>fqName = BuildFQName ''upgradeoperator'' ''upgrade'' ''state_timestamp'',
      descHelp = ''Timestamps of upgrade state'', descLabels = [''version'', ''state'']\<rparr>"

definition send_cv_state :: "string \<Rightarrow> UpdateHistory \<Rightarrow> (channel_item list, unit) op" where
  "send_cv_state v h ch =
     bindO (send upgradeState (Unix (uhStartedTime h)) [v, ''control_plane_started''] ch) (\<lambda>_ ch.
       send_time upgradeState (uhCompletionTime h) [v, ''control_plane_completed''] ch)"

definition send_states :: "string \<Rightarrow> UpgradeHistory \<Rightarrow> (channel_item list, unit) op" where
  "send_states v h ch =
     bindO (send_time upgradeState (StartTime h) [v, ''started''] ch) (\<lambda>_ ch.
     bindO (send_time upgradeState (WorkerStartTime h) [v, ''workers_started''] ch) (\<lambda>_ ch.
     bindO (send_time upgradeState (WorkerCompleteTime h) [v, ''workers_completed''] ch) (\<lambda>_ ch.
       send_time upgradeState (CompleteTime h) [v, ''finished''] ch)))"

definition collectUpgradeMetrics :: "'w collector_env \<Rightarrow> (channel_item list \<times> 'w, unit) op" where
  "collectUpgradeMetrics ce = (\<lambda>(ch, s).
     case ucm_Get (ce_env ce) (ce_uc ce) s of
       (Panic, s) \<Rightarrow> (Panic, ch, s)
     | (Err e, s) \<Rightarrow> (Ok (), ch, s)
     | (Ok uc, s) \<Rightarrow>
         let v = desired_version uc
         in (case Parse_RFC3339 (UpgradeAt (Spec uc)) of
               None \<Rightarrow> (Ok (), ch, s)
             | Some t \<Rightarrow>
                 let (r, ch) = send upgradeState (Unix t) [v, ''scheduled''] ch
                 in bindO (r, ch, s) (\<lambda>_ (ch, s).
                      case GetHistory (History uc) v of
                        None \<Rightarrow> (Ok (), ch, s)
                      | Some h \<Rightarrow>
                          let (r, ch) = send_states v h ch
                          in bindO (r, ch, s) (\<lambda>_ (ch, s).
                               case GetClusterVersion (ce_cv ce) s of
                                 (Panic, s) \<Rightarrow> (Panic, ch, s)
                               | (Err e, s) \<Rightarrow> (Ok (), ch, s)
                               | (Ok cv, s) \<Rightarrow>
                                   (case cv_GetHistory cv v of
                                      None \<Rightarrow> (Ok (), ch, s)
                                    | Some ch_h \<Rightarrow> let (r, ch) = send_cv_state v ch_h ch in (r, ch, s))))))"

section \<open>Properties\<close>

text \<open>
  What a collector may send: a metric that it has described, with one value per label.
\<close>

fun well_typed :: "Desc set \<Rightarrow> channel_item \<Rightarrow> bool" where
  "well_typed ds (Sample m) = (smDesc m \<in> ds \<and> length (smLabelValues m) = length (descLabels (smDesc m)))"
| "well_typed ds (InvalidMetric n e) = False"

text \<open>A stretch of the collector that adds well-typed samples and, unless \<open>b\<close>, does not panic.\<close>

definition sends_typed :: "Desc set \<Rightarrow> bool \<Rightarrow> (channel_item list, unit) op \<Rightarrow> bool" where
  "sends_typed ds b f \<longleftrightarrow>
     (\<forall>ch r ch'. f ch = (r, ch') \<longrightarrow>
        (\<exists>items. ch' = ch @ items \<and> list_all (well_typed ds) items) \<and> (r = Panic \<longrightarrow> b))"

lemma sends_typed_send:
  assumes "d \<in> ds" "length ls = length (descLabels d)"
  shows "sends_typed ds b (send d v ls)"
  using assms by (auto simp: sends_typed_def send_def MustNewConstMetric_def)

lemma sends_typed_nothing: "(\<And>e. x \<noteq> Panic) \<Longrightarrow> sends_typed ds b (\<lambda>ch. (x, ch))"
  by (auto simp: sends_typed_def)

lemma sends_typed_bind:
  assumes f: "sends_typed ds b f" and g: "sends_typed ds b g"
  shows "sends_typed ds b (\<lambda>ch. bindO (f ch) (\<lambda>_ ch. g ch))"
  unfolding sends_typed_def
proof (intro allI impI)
  fix ch r ch' assume run: "bindO (f ch) (\<lambda>_ ch. g ch) = (r, ch')"
  obtain q ch1 where f1: "f ch = (q, ch1)" by fastforce
  then obtain xs where xs: "ch1 = ch @ xs" "list_all (well_typed ds) xs" "q = Panic \<longrightarrow> b"
    using f unfolding sends_typed_def by blast
  show "(\<exists>items. ch' = ch @ items \<and> list_all (well_typed ds) items) \<and> (r = Panic \<longrightarrow> b)"
  proof (cases q)
    case (Ok u)
    then have "g ch1 = (r, ch')" using run f1 by simp
    then obtain ys where "ch' = ch1 @ ys" "list_all (well_typed ds) ys" "r = Panic \<longrightarrow> b"
      using g unfolding sends_typed_def by blast
    then show ?thesis using xs by (intro conjI exI [of _ "xs @ ys"]) auto
  qed (use run f1 xs in auto)
qed

lemma sends_typed_time:
  assumes "d \<in> ds" "length ls = length (descLabels d)"
  shows "sends_typed ds b (send_time d t ls)"
  unfolding send_time_def using sends_typed_send [OF assms] sends_typed_nothing
  by (cases t) simp_all

lemmas desc_defs = bootstrapMetrics_def upgrade_desc_def condition_descs_def condition_desc_def Describe_def

lemma condition_desc_typed:
  assumes "map_of condition_descs t = Some d"
  shows "d \<in> set (Describe bootstrapMetrics) \<and> length (descLabels d) = 4"
proof -
  have "d \<in> snd ` set condition_descs" using map_of_SomeD [OF assms] by (auto intro: rev_image_eqI)
  moreover have "\<forall>d \<in> snd ` set condition_descs. length (descLabels d) = 4"
    by (simp add: condition_descs_def condition_desc_def)
  ultimately show ?thesis by (auto simp: Describe_def bootstrapMetrics_def)
qed

lemma collectCondition_typed:
  assumes "map_of condition_descs (CType c) = Some d"
  shows "sends_typed (set (Describe bootstrapMetrics)) (\<not> timed c) (collectCondition c d uc v)"
proof (cases "if CStatus c = CTrue then CCompleteTime c else CStartTime c")
  case None
  then show ?thesis
    by (auto simp: sends_typed_def collectCondition_def unix_ptr_def timed_def IsTrue_def split: if_splits)
next
  case (Some t)
  then have "collectCondition c d uc v = send d (Unix t) [ucName uc, v, desired_version uc, status_string (CStatus c)]"
    by (auto simp: collectCondition_def unix_ptr_def fun_eq_iff)
  then show ?thesis
    using condition_desc_typed [OF assms] by (simp add: sends_typed_send)
qed

lemma sends_typed_mono: "sends_typed ds b f \<Longrightarrow> (b \<Longrightarrow> b') \<Longrightarrow> sends_typed ds b' f"
  by (auto simp: sends_typed_def)

lemma collect_conditions_typed:
  "sends_typed (set (Describe bootstrapMetrics)) (\<exists>c \<in> set cs. \<not> timed c) (collect_conditions bootstrapMetrics uc v cs)"
proof (induction cs)
  case Nil
  then show ?case using sends_typed_nothing [of "Ok ()"] by (simp add: sends_typed_def)
next
  case (Cons c cs)
  let ?b = "\<exists>d \<in> set (c # cs). \<not> timed d"
  have first: "sends_typed (set (Describe bootstrapMetrics)) ?b
      (\<lambda>ch. case map_of (mm_condition bootstrapMetrics) (CType c) of None \<Rightarrow> (Ok (), ch) | Some d \<Rightarrow> collectCondition c d uc v ch)"
  proof (cases "map_of condition_descs (CType c)")
    case None
    then show ?thesis by (simp add: bootstrapMetrics_def sends_typed_nothing)
  next
    case (Some d)
    then show ?thesis
      using sends_typed_mono [OF collectCondition_typed [OF Some], of ?b uc v] by (simp add: bootstrapMetrics_def)
  qed
  show ?case
    using sends_typed_bind [OF first sends_typed_mono [OF Cons.IH, of ?b]] by (simp add: fun_eq_iff)
qed

lemma collectSpec_typed: "sends_typed (set (Describe bootstrapMetrics)) b (collectSpec bootstrapMetrics uc v)"
proof (cases "\<exists>h t. GetHistory (History uc) (desired_version uc) = Some h \<and> Parse_RFC3339 (UpgradeAt (Spec uc)) = Some t")
  case True
  then obtain h t where "GetHistory (History uc) (desired_version uc) = Some h" "Parse_RFC3339 (UpgradeAt (Spec uc)) = Some t"
    by blast
  then have "collectSpec bootstrapMetrics uc v = (\<lambda>ch.
      bindO (send (mm_upgradeAt bootstrapMetrics) (Unix t) [v, desired_version uc, phase_string (Phase h)] ch) (\<lambda>_ ch.
        send (mm_pdbTimeout bootstrapMetrics) (PDBForceDrainTimeout (Spec uc)) [v, desired_version uc] ch))"
    by (simp add: collectSpec_def fun_eq_iff)
  then show ?thesis
    by (simp only:) (intro sends_typed_bind sends_typed_send; simp add: desc_defs)
next
  case False
  then show ?thesis by (auto simp: sends_typed_def collectSpec_def split: option.splits)
qed

lemma collectStatus_typed: "sends_typed (set (Describe bootstrapMetrics)) b (collectStatus bootstrapMetrics uc v)"
proof (cases "GetHistory (History uc) (desired_version uc)")
  case None
  then show ?thesis by (auto simp: sends_typed_def collectStatus_def)
next
  case (Some h)
  let ?ls = "[v, desired_version uc, phase_string (Phase h)]"
  from Some have "collectStatus bootstrapMetrics uc v = (\<lambda>ch.
      bindO (send_time (mm_startTime bootstrapMetrics) (StartTime h) ?ls ch) (\<lambda>_ ch.
        send_time (mm_completeTime bootstrapMetrics) (CompleteTime h) ?ls ch))"
    by (simp add: collectStatus_def fun_eq_iff Let_def)
  then show ?thesis
    by (simp only:) (intro sends_typed_bind sends_typed_time; simp add: desc_defs)
qed

lemma collect_samples_typed:
  "sends_typed (set (Describe bootstrapMetrics)) (\<not> timed_conditions uc) (collect_samples bootstrapMetrics uc v)"
proof (cases "GetHistory (History uc) (desired_version uc)")
  case None
  then show ?thesis by (auto simp: sends_typed_def collect_samples_def collectSpec_def)
next
  case (Some h)
  from Some have "collect_samples bootstrapMetrics uc v = (\<lambda>ch.
      bindO (collectSpec bootstrapMetrics uc v ch) (\<lambda>_ ch.
      bindO (collectStatus bootstrapMetrics uc v ch) (\<lambda>_ ch.
        collect_conditions bootstrapMetrics uc v (HConditions h) ch)))"
    by (simp add: collect_samples_def fun_eq_iff)
  moreover have "sends_typed (set (Describe bootstrapMetrics)) (\<not> timed_conditions uc)
      (collect_conditions bootstrapMetrics uc v (HConditions h))"
    using Some by (intro sends_typed_mono [OF collect_conditions_typed]) (auto simp: timed_conditions_def)
  ultimately show ?thesis
    by (simp only:) (intro sends_typed_bind collectSpec_typed collectStatus_typed)
qed

text \<open>The panics of the versions are those of a completed update without its completion time.\<close>

lemma current_loop_Panic:
  "current_loop v l hs = Panic \<Longrightarrow> \<exists>h \<in> set hs. uhState h = CompletedUpdate \<and> uhCompletionTime h = None"
  by (induction v l hs rule: current_loop.induct) (auto split: if_splits option.splits)

lemma from_version_Panic:
  assumes "from_version ce cv uc = Panic"
  shows "\<exists>h \<in> set (cvHistory cv). uhState h = CompletedUpdate \<and> uhCompletionTime h = None"
proof (cases "current_loop [] None (cvHistory cv) = Panic")
  case False
  with assms have "list_ex (\<lambda>(i, t). t = None) (completed_times (cvHistory cv))"
    by (auto simp: from_version_def GetCurrentVersion_def GetCurrentVersionMinusOne_def Let_def split: outcome.splits if_splits)
  then show ?thesis
    by (auto simp: completed_times_def list_ex_iff in_set_enumerate_eq split: if_splits)
qed (rule current_loop_Panic)

lemma ucm_Get_no_Panic: "ucm_Get env api s \<noteq> (Panic, s')"
  by (auto simp: ucm_Get_def GetOperatorNamespace_def call_def split: outcome.splits prod.splits if_splits option.splits)

text \<open>What a run of the collector appends, and when it panics, before \<open>Collect\<close> looks at its error.\<close>

lemma collectUpgradeConditions_typed:
  assumes "collectUpgradeConditions ce bootstrapMetrics (ch, s) = (r, ch', s')"
  shows "(\<exists>items. ch' = ch @ items \<and> list_all (well_typed (set (Describe bootstrapMetrics))) items) \<and>
    (r = Panic \<longrightarrow> (\<exists>uc w. ucm_Get (ce_env ce) (ce_uc ce) s = (Ok uc, w) \<and> (\<not> timed_conditions uc \<or>
       (\<exists>cv w'. GetClusterVersion (ce_cv ce) w = (Ok cv, w') \<and>
          (\<exists>h \<in> set (cvHistory cv). uhState h = CompletedUpdate \<and> uhCompletionTime h = None)))))"
proof (cases "\<exists>uc w cv w' v. ucm_Get (ce_env ce) (ce_uc ce) s = (Ok uc, w) \<and> GetClusterVersion (ce_cv ce) w = (Ok cv, w') \<and>
    from_version ce cv uc = Ok v")
  case True
  then obtain uc w cv w' v where c: "ucm_Get (ce_env ce) (ce_uc ce) s = (Ok uc, w)" "GetClusterVersion (ce_cv ce) w = (Ok cv, w')"
    "from_version ce cv uc = Ok v" by blast
  then have "collect_samples bootstrapMetrics uc v ch = (r, ch')"
    using assms by (auto simp: collectUpgradeConditions_def split: prod.splits)
  then show ?thesis using collect_samples_typed [of uc v] c(1) unfolding sends_typed_def by blast
next
  case False
  obtain g w where g: "ucm_Get (ce_env ce) (ce_uc ce) s = (g, w)" by fastforce
  show ?thesis
  proof (cases g)
    case (Ok uc)
    obtain q w' where q: "GetClusterVersion (ce_cv ce) w = (q, w')" by fastforce
    show ?thesis
    proof (cases q)
      case cv: (Ok cv)
      then show ?thesis
        using assms g q Ok False from_version_Panic [of ce cv uc]
        by (cases "from_version ce cv uc") (auto simp: collectUpgradeConditions_def)
    next
      case Panic
      then show ?thesis using q by (auto simp: GetClusterVersion_def call_def split: prod.splits)
    qed (use assms g q Ok in \<open>auto simp: collectUpgradeConditions_def\<close>)
  next
    case Panic
    then show ?thesis using g ucm_Get_no_Panic by metis
  qed (use assms g in \<open>auto simp: collectUpgradeConditions_def split: if_splits\<close>)
qed

text \<open>
  C24: A scrape keeps what was on the channel and appends samples the collector has described to Prometheus, each with a value for every label
  of its description; when collecting returned an error, and only then, one invalid metric named
  \<open>managed_upgrade_collector_scrape_failed\<close> with that error follows them, which no description announces. The scrape itself
  never returns an error, and it panics only if the UpgradeConfig it found has, in the current history, a condition without a start time or a true
  one without a completion time, or the ClusterVersion has a completed update without its completion time.
\<close>

theorem scrape_well_typed:
  assumes "Collect ce bootstrapMetrics (ch, s) = (r, ch', s')"
  shows "r \<in> {Ok (), Panic} \<and>
    (\<exists>items failed. ch' = ch @ items @ failed \<and> list_all (well_typed (set (Describe bootstrapMetrics))) items \<and>
       failed = (case fst (collectUpgradeConditions ce bootstrapMetrics (ch, s)) of
                   Err e \<Rightarrow> [InvalidMetric ''managed_upgrade_collector_scrape_failed'' e] | _ \<Rightarrow> [])) \<and>
    (r = Panic \<longrightarrow> (\<exists>uc w. ucm_Get (ce_env ce) (ce_uc ce) s = (Ok uc, w) \<and> (\<not> timed_conditions uc \<or>
       (\<exists>cv w'. GetClusterVersion (ce_cv ce) w = (Ok cv, w') \<and>
          (\<exists>h \<in> set (cvHistory cv). uhState h = CompletedUpdate \<and> uhCompletionTime h = None)))))"
proof -
  obtain q ch1 s1 where q: "collectUpgradeConditions ce bootstrapMetrics (ch, s) = (q, ch1, s1)" by (metis prod.exhaust)
  have n: "BuildFQName MetricsNamespace subSystemCollector ''scrape_failed'' = ''managed_upgrade_collector_scrape_failed''"
    by (simp add: BuildFQName_def MetricsNamespace_def subSystemCollector_def)
  show ?thesis
    using collectUpgradeConditions_typed [OF q] assms q n by (cases q) (auto simp: Collect_def)
qed

text \<open>A scrape of an upgrade that has started, on a cluster that answers.\<close>

definition sample_ce :: "unit collector_env" where
  "sample_ce =
     \<lparr>ce_env = [''OPERATOR_NAMESPACE'' \<mapsto> ''muo''],
      ce_uc = \<lparr>get_uc = (\<lambda>_ _ s. (Inr started_uc, s)), list_ucs = (\<lambda>_ _ s. (Inr [started_uc], s)),
               create_uc = (\<lambda>_ s. (Inr (), s)), delete_uc = (\<lambda>_ s. (Inr (), s)),
               update_uc = (\<lambda>uc s. (Inr uc, s)), update_uc_status = (\<lambda>uc s. (Inr uc, s))\<rparr>,
      ce_cv = \<lparr>get_cv = (\<lambda>s. (Inr sample_cv, s)), patch_cv = (\<lambda>_ s. (Inr (), s)), list_clusteroperators = (\<lambda>s. (Inr [], s))\<rparr>,
      ce_rt = still_clock, ce_sort = (\<lambda>_ xs. xs)\<rparr>"

theorem scrape_well_typed_witness:
  "\<exists>items. Collect sample_ce bootstrapMetrics ([], ()) = (Ok (), items, ()) \<and>
     list_all (well_typed (set (Describe bootstrapMetrics))) items"
proof -
  obtain r ch' s' where r: "Collect sample_ce bootstrapMetrics ([], ()) = (r, ch', s')" by (metis prod.exhaust)
  have get: "ucm_Get (ce_env sample_ce) (ce_uc sample_ce) () = (Ok started_uc, ())"
    by (simp add: sample_ce_def env_eval)
  have cv: "GetClusterVersion (ce_cv sample_ce) () = (Ok sample_cv, ())"
    by (simp add: sample_ce_def GetClusterVersion_def call_def)
  have timed: "timed_conditions started_uc"
    by (simp add: timed_conditions_def started_uc_history started_history_def)
  have "Parse_RFC3339 (UpgradeAt (Spec started_uc)) = Some (600 * Second)"
    using sample_upgradeAt by (simp add: started_uc_def)
  then have "fst (collect_samples bootstrapMetrics started_uc v []) = Ok ()" for v
    by (simp add: collect_samples_def collectSpec_def collectStatus_def started_uc_history started_history_def send_def send_time_def
        MustNewConstMetric_def desc_defs)
  moreover have "from_version sample_ce sample_cv started_uc = Ok ''4.14.1''"
    using sample_current by (simp add: from_version_def started_uc_def sample_uc_def)
  ultimately have "fst (collectUpgradeConditions sample_ce bootstrapMetrics ([], ())) = Ok ()"
    by (simp add: collectUpgradeConditions_def get cv split_def)
  moreover have "\<forall>h \<in> set (cvHistory sample_cv). uhCompletionTime h \<noteq> None" by (simp add: sample_cv_def)
  ultimately show ?thesis using scrape_well_typed [OF r] r get cv timed by auto
qed

end
