(* ===== verification/Process_Start.thy ===== *)
theory Process_Start
  imports Collector
begin

text \<open>
  The start of the process: the environment it reads (\<open>pkg/k8sutil\<close>), the sequence of \<open>main\<close> in
  \<open>main.go\<close> with every \<open>os.Exit(1)\<close>, and \<open>addMetrics\<close>. The manager of controller-runtime, the API server,
  the Prometheus client and \<open>operator-custom-metrics\<close> are the record \<open>boot_api\<close>; the parsed flags are an
  argument. Logger set-up is left out. The last section is the collector of \<open>pkg/metrics/collector\<close>: its
  constructor, \<open>Describe\<close> and \<open>Collect\<close>.
\<close>

section \<open>The environment of the operator (\<open>pkg/k8sutil\<close>)\<close>

definition ForceRunModeEnv :: string where "ForceRunModeEnv = ''OSDK_FORCE_RUN_MODE''"

datatype RunModeType = LocalRunMode | ClusterRunMode

fun run_mode_string :: "RunModeType \<Rightarrow> string" where
  "run_mode_string LocalRunMode = ''local''"
| "run_mode_string ClusterRunMode = ''cluster''"

definition OperatorNameEnvVar :: string where "OperatorNameEnvVar = ''OPERATOR_NAME''"
definition WatchNamespaceEnvVar :: string where "WatchNamespaceEnvVar = ''WATCH_NAMESPACE''"

text \<open>The errors of \<open>os.ReadFile\<close> as \<open>os.IsNotExist\<close> tells them apart, and those of the package.\<close>

datatype file_error = NotExist | FileError goerr

datatype namespace_error = ErrNoNamespace | ErrRunLocal | ReadError goerr

definition k8s_isRunModeLocal :: "environ \<Rightarrow> bool" where
  "k8s_isRunModeLocal env \<longleftrightarrow> Getenv env ForceRunModeEnv = run_mode_string LocalRunMode"

definition GetWatchNamespace :: "environ \<Rightarrow> string outcome" where
  "GetWatchNamespace env =
     (case env WatchNamespaceEnvVar of
        None \<Rightarrow> Err (Errorf (WatchNamespaceEnvVar @ '' must be set''))
      | Some ns \<Rightarrow> Ok ns)"

text \<open>
  \<open>strings.TrimSpace\<close> on the bytes of a string: the characters of \<open>unicode.IsSpace\<close> in UTF-8 are dropped at
  both ends.
\<close>

definition space_runes :: "string list" where
  "space_runes =
     map (\<lambda>c. [c]) [CHR 0x09, CHR 0x0A, CHR 0x0B, CHR 0x0C, CHR 0x0D, CHR '' ''] @
     [[CHR 0xC2, CHR 0x85], [CHR 0xC2, CHR 0xA0], [CHR 0xE1, CHR 0x9A, CHR 0x80]] @
     map (\<lambda>c. [CHR 0xE2, CHR 0x80, c])
       [CHR 0x80, CHR 0x81, CHR 0x82, CHR 0x83, CHR 0x84, CHR 0x85, CHR 0x86, CHR 0x87, CHR 0x88, CHR 0x89,
        CHR 0x8A, CHR 0xA8, CHR 0xA9, CHR 0xAF] @
     [[CHR 0xE2, CHR 0x81, CHR 0x9F], [CHR 0xE3, CHR 0x80, CHR 0x80]]"

lemma space_runes_ne: "r \<in> set space_runes \<Longrightarrow> r \<noteq> []"
  by (auto simp: space_runes_def)

function trim_left :: "string list \<Rightarrow> string \<Rightarrow> string" where
  "trim_left rs s =
     (case filter (\<lambda>r. r \<noteq> [] \<and> prefix r s) rs of
        [] \<Rightarrow> s
      | r # _ \<Rightarrow> trim_left rs (drop (length r) s))"
  by pat_completeness auto
termination
  by (relation "measure (\<lambda>(rs, s). length s)") (auto simp: filter_eq_Cons_iff prefix_def)

declare trim_left.simps [simp del]

definition TrimSpace :: "string \<Rightarrow> string" where
  "TrimSpace s = rev (trim_left (map rev space_runes) (rev (trim_left space_runes s)))"

definition k8s_GetOperatorNamespace ::
    "environ \<Rightarrow> (string \<Rightarrow> file_error + string) \<Rightarrow> namespace_error + string" where
  "k8s_GetOperatorNamespace env read_file =
     (if k8s_isRunModeLocal env then Inl ErrRunLocal
      else case read_file ''/var/run/secrets/kubernetes.io/serviceaccount/namespace'' of
             Inl NotExist \<Rightarrow> Inl ErrNoNamespace
           | Inl (FileError e) \<Rightarrow> Inl (ReadError e)
           | Inr nsBytes \<Rightarrow> Inr (TrimSpace nsBytes))"

definition GetOperatorName :: "environ \<Rightarrow> string outcome" where
  "GetOperatorName env =
     (case env OperatorNameEnvVar of
        None \<Rightarrow> Err (Errorf (OperatorNameEnvVar @ '' must be set''))
      | Some operatorName \<Rightarrow>
          if operatorName = [] then Err (Errorf (OperatorNameEnvVar @ '' must not be empty''))
          else Ok operatorName)"

section \<open>What \<open>main\<close> calls\<close>

definition metricsPort :: int where "metricsPort = 8383"
definition customMetricsPath :: string where "customMetricsPath = ''/metrics''"

datatype api_group = ClientGo | MachineConfiguration | UpgradeV1alpha1 | Monitoring | Route | ConfigV1 | MachineApi

datatype controller = UpgradeConfigController | NodeKeeperController | MachineConfigPoolController

text \<open>The flags after \<open>flag.Parse\<close>, with their defaults.\<close>

record main_flags =
  metricsAddr :: string
  probeAddr :: string
  enableLeaderElection :: bool

definition default_flags :: main_flags where
  "default_flags = \<lparr>metricsAddr = '':8383'', probeAddr = '':8081'', enableLeaderElection = True\<rparr>"

record manager_options =
  DefaultNamespaces :: "string list"
  SyncPeriod :: duration
  BindAddress :: string
  HealthProbeBindAddress :: string
  LeaderElection :: bool
  LeaderElectionID :: string
  LeaderElectionNamespace :: string
  ClientCache :: bool

definition mgr_options :: "main_flags \<Rightarrow> string \<Rightarrow> manager_options" where
  "mgr_options fl operatorNS =
     \<lparr>DefaultNamespaces = [operatorNS], SyncPeriod = SyncPeriodDefault, BindAddress = metricsAddr fl,
      HealthProbeBindAddress = probeAddr fl, LeaderElection = enableLeaderElection fl,
      LeaderElectionID = ''managed-upgrade-operator-lock'', LeaderElectionNamespace = operatorNS,
      ClientCache = False\<rparr>"

record custom_metrics =
  cmNamespace :: string
  cmServiceName :: string
  cmPath :: string
  cmCollector :: ManagedOSMetrics
  cmServiceMonitor :: bool
  cmServiceLabel :: "(string \<times> string) list"

text \<open>
  The configuration \<open>'c\<close> of the API server, services \<open>'v\<close> and service monitors \<open>'m\<close> are opaque.
  \<open>new_monitoring\<close> is \<open>NewForConfigOrDie\<close>, which panics instead of returning an error, and \<open>go_StartSync\<close> the
  \<open>go\<close> statement that sets the synchronisation loop going beside \<open>main\<close>.
\<close>

record ('w, 'c, 'v, 'm) boot_api =
  boot_env :: environ
  read_file :: "string \<Rightarrow> file_error + string"
  add_to_scheme :: "api_group \<Rightarrow> ('w, unit) ext_op"
  get_config :: "('w, 'c) ext_op"
  new_mgr :: "'c \<Rightarrow> manager_options \<Rightarrow> ('w, unit) ext_op"
  setup_with_manager :: "controller \<Rightarrow> ('w, unit) ext_op"
  new_client :: "'c \<Rightarrow> ('w, unit) ext_op"
  generate_service :: "int \<Rightarrow> string \<Rightarrow> string \<Rightarrow> string \<Rightarrow> (string \<times> string) list \<Rightarrow> goerr + 'v"
  create_service :: "'v \<Rightarrow> ('w, unit) ext_op"
  is_already_exists :: "goerr \<Rightarrow> bool"
  new_monitoring :: "'c \<Rightarrow> goerr + unit"
  generate_service_monitor :: "'v \<Rightarrow> 'm"
  create_service_monitor :: "string \<Rightarrow> 'm \<Rightarrow> ('w, unit) ext_op"
  err_text :: "goerr \<Rightarrow> string"
  configure_metrics :: "custom_metrics \<Rightarrow> ('w, unit) ext_op"
  add_healthz :: "('w, unit) ext_op"
  add_readyz :: "('w, unit) ext_op"
  go_StartSync :: "'w \<Rightarrow> 'w"
  start_mgr :: "('w, unit) ext_op"

text \<open>\<open>NewManager\<close> of \<open>pkg/upgradeconfigmanager\<close> only builds the manager with its back-off: it cannot fail.\<close>

record Backoff =
  bMin :: duration
  bMax :: duration
  bFactor :: int
  bJitter :: bool

definition ucm_NewManager :: "Backoff outcome" where
  "ucm_NewManager = Ok \<lparr>bMin = 1 * Minute, bMax = 1 * Hour, bFactor = 2, bJitter = False\<rparr>"

definition NewUpgradeCollector :: "ManagedOSMetrics outcome" where
  "NewUpgradeCollector = (case ucm_NewManager of Ok _ \<Rightarrow> Ok bootstrapMetrics | Err e \<Rightarrow> Err e | Panic \<Rightarrow> Panic)"

section \<open>\<open>addMetrics\<close>\<close>

definition ErrSMMetricsExists :: string where
  "ErrSMMetricsExists = ''servicemonitors.monitoring.coreos.com \"'' @ OperatorName @ ''-metrics\" already exists''"

fun add_service_monitors ::
    "('w, 'c, 'v, 'm) boot_api \<Rightarrow> string \<Rightarrow> 'v option list \<Rightarrow> ('w, unit) op" where
  "add_service_monitors b operatorNs [] w = (Ok (), w)"
| "add_service_monitors b operatorNs (None # ss) w = add_service_monitors b operatorNs ss w"
| "add_service_monitors b operatorNs (Some s # ss) w =
     (case create_service_monitor b operatorNs (generate_service_monitor b s) w of
        (Inl e, w) \<Rightarrow> if err_text b e \<noteq> ErrSMMetricsExists then (Err e, w) else add_service_monitors b operatorNs ss w
      | (Inr _, w) \<Rightarrow> add_service_monitors b operatorNs ss w)"

definition create_metrics ::
    "('w, 'c, 'v, 'm) boot_api \<Rightarrow> 'c \<Rightarrow> string \<Rightarrow> ('w, unit) op" where
  "create_metrics b cfg operatorNs w =
     (let operatorName = (case GetOperatorName (boot_env b) of Ok n \<Rightarrow> n | _ \<Rightarrow> [])
      in case generate_service b metricsPort ''http-metrics'' (operatorName @ ''-metrics'') operatorNs
                [(''name'', operatorName)] of
           Inl e \<Rightarrow> (Err e, w)
         | Inr service \<Rightarrow>
             (let (r, w) = create_service b service w
              in case r of
                   Inl e \<Rightarrow>
                     if \<not> is_already_exists b e then (Err e, w)
                     else (case new_monitoring b cfg of
                             Inl _ \<Rightarrow> (Panic, w)
                           | Inr _ \<Rightarrow> add_service_monitors b operatorNs [Some service] w)
                 | Inr _ \<Rightarrow>
                     (case new_monitoring b cfg of
                        Inl _ \<Rightarrow> (Panic, w)
                      | Inr _ \<Rightarrow> add_service_monitors b operatorNs [Some service] w)))"

text \<open>An error of \<open>GetOperatorNamespace\<close> other than the two sentinels is dropped: the namespace is empty then.\<close>

definition addMetrics :: "('w, 'c, 'v, 'm) boot_api \<Rightarrow> 'c \<Rightarrow> ('w, unit) op" where
  "addMetrics b cfg w =
     (case k8s_GetOperatorNamespace (boot_env b) (read_file b) of
        Inl ErrRunLocal \<Rightarrow> (Ok (), w)
      | Inl ErrNoNamespace \<Rightarrow> (Ok (), w)
      | Inl (ReadError _) \<Rightarrow> create_metrics b cfg [] w
      | Inr operatorNs \<Rightarrow> create_metrics b cfg operatorNs w)"

section \<open>\<open>init\<close> and \<open>main\<close>\<close>

text \<open>\<open>utilruntime.Must\<close> panics on an error.\<close>

fun add_schemes :: "('w, 'c, 'v, 'm) boot_api \<Rightarrow> api_group list \<Rightarrow> ('w, unit) op" where
  "add_schemes b [] w = (Ok (), w)"
| "add_schemes b (g # gs) w =
     (case add_to_scheme b g w of
        (Inl _, w) \<Rightarrow> (Panic, w)
      | (Inr _, w) \<Rightarrow> add_schemes b gs w)"

definition main_init :: "('w, 'c, 'v, 'm) boot_api \<Rightarrow> ('w, unit) op" where
  "main_init b = add_schemes b
     [ClientGo, MachineConfiguration, UpgradeV1alpha1, Monitoring, Route, ConfigV1, MachineApi]"

datatype exit_status = Exited nat | Crashed

text \<open>\<open>if err != nil { log.Error(...); os.Exit(1) }\<close>\<close>

definition orExit ::
    "'a outcome \<times> 's \<Rightarrow> ('a \<Rightarrow> 's \<Rightarrow> exit_status \<times> 's) \<Rightarrow> exit_status \<times> 's" where
  "orExit r f = (case r of
      (Ok a, s) \<Rightarrow> f a s
    | (Err _, s) \<Rightarrow> (Exited 1, s)
    | (Panic, s) \<Rightarrow> (Crashed, s))"

definition custom_metrics_config :: "string \<Rightarrow> ManagedOSMetrics \<Rightarrow> custom_metrics" where
  "custom_metrics_config ns uCollector =
     \<lparr>cmNamespace = ns, cmServiceName = ''managed-upgrade-operator-custom-metrics'', cmPath = customMetricsPath,
      cmCollector = uCollector, cmServiceMonitor = True, cmServiceLabel = [(''name'', OperatorName)]\<rparr>"

definition register ::
    "('w, 'c, 'v, 'm) boot_api \<Rightarrow> controller \<Rightarrow> ('w \<Rightarrow> exit_status \<times> 'w) \<Rightarrow> 'w \<Rightarrow> exit_status \<times> 'w" where
  "register b c rest w = orExit (call (setup_with_manager b c) w) (\<lambda>_ w. rest w)"

text \<open>From the metrics to the end of \<open>main\<close>, once the controllers are registered.\<close>

definition main_serve :: "('w, 'c, 'v, 'm) boot_api \<Rightarrow> 'w \<Rightarrow> exit_status \<times> 'w" where
  "main_serve b w =
     orExit (call (get_config b) w) (\<lambda>cfg w.
     orExit (call (new_client b cfg) w) (\<lambda>_ w.
     orExit (addMetrics b cfg w) (\<lambda>_ w.
     orExit (NewUpgradeCollector, w) (\<lambda>uCollector w.
     orExit (GetOperatorNamespace (boot_env b), w) (\<lambda>ns w.
     orExit (call (configure_metrics b (custom_metrics_config ns uCollector)) w) (\<lambda>_ w.
     orExit (call (add_healthz b) w) (\<lambda>_ w.
     orExit (call (add_readyz b) w) (\<lambda>_ w.
     orExit (call (new_client b cfg) w) (\<lambda>_ w.
     case ucm_NewManager of
       Ok _ \<Rightarrow> orExit (call (start_mgr b) (go_StartSync b w)) (\<lambda>_ w. (Exited 0, w))
     | _ \<Rightarrow> (Crashed, w))))))))))"

definition watch_namespace :: "environ \<Rightarrow> string \<Rightarrow> string" where
  "watch_namespace env ns = (if ns = [] then Getenv env ''OPERATOR_NAMESPACE'' else ns)"

definition main :: "('w, 'c, 'v, 'm) boot_api \<Rightarrow> main_flags \<Rightarrow> 'w \<Rightarrow> exit_status \<times> 'w" where
  "main b fl w =
     orExit (GetWatchNamespace (boot_env b), w) (\<lambda>operatorNS w.
     let opts = mgr_options fl (watch_namespace (boot_env b) operatorNS) in
     orExit (call (get_config b) w) (\<lambda>cfg w.
     orExit (call (new_mgr b cfg opts) w) (\<lambda>_ w.
     register b UpgradeConfigController
       (register b NodeKeeperController
         (register b MachineConfigPoolController (main_serve b))) w)))"

section \<open>Lemmas\<close>

lemma trim_left_suffix: "suffix (trim_left rs s) s"
proof (induction rs s rule: trim_left.induct)
  case (1 rs s)
  then show ?case
    by (subst trim_left.simps) (auto split: list.splits intro: suffix_order.trans suffix_drop)
qed

lemma trim_left_trimmed: "r \<in> set rs \<Longrightarrow> r \<noteq> [] \<Longrightarrow> \<not> prefix r (trim_left rs s)"
proof (induction rs s rule: trim_left.induct)
  case (1 rs s)
  then show ?case
    by (subst trim_left.simps) (auto split: list.splits simp: filter_empty_conv)
qed

lemma trim_left_id: "(\<And>r. r \<in> set rs \<Longrightarrow> r \<noteq> [] \<Longrightarrow> \<not> prefix r s) \<Longrightarrow> trim_left rs s = s"
  by (subst trim_left.simps) (auto split: list.splits simp: filter_eq_Cons_iff)

text \<open>A trimmed string neither begins nor ends with white space.\<close>

lemma TrimSpace_trimmed:
  assumes "r \<in> set space_runes"
  shows "\<not> prefix r (TrimSpace s) \<and> \<not> suffix r (TrimSpace s)"
proof
  let ?t = "trim_left space_runes s"
  have "prefix (TrimSpace s) ?t"
    using trim_left_suffix [of "map rev space_runes" "rev ?t"] by (simp add: TrimSpace_def suffix_to_prefix)
  then show "\<not> prefix r (TrimSpace s)"
    using trim_left_trimmed [OF assms space_runes_ne [OF assms]] by (auto intro: prefix_order.trans)
  show "\<not> suffix r (TrimSpace s)"
    using trim_left_trimmed [of "rev r" "map rev space_runes" "rev ?t"] assms space_runes_ne [OF assms]
    by (simp add: TrimSpace_def suffix_to_prefix)
qed

lemma GetOperatorName_or_empty:
  "(case GetOperatorName env of Ok n \<Rightarrow> n | _ \<Rightarrow> []) = Getenv env OperatorNameEnvVar"
  by (simp add: GetOperatorName_def Getenv_def split: option.split)

text \<open>
  \<open>registered b fl w cfg w'\<close>: from world \<open>w\<close> the manager is built with the options of the watched namespace and
  takes the three controllers, and \<open>cfg\<close> is the configuration read after that, in world \<open>w'\<close>.
\<close>

definition registered ::
    "('w, 'c, 'v, 'm) boot_api \<Rightarrow> main_flags \<Rightarrow> 'w \<Rightarrow> 'c \<Rightarrow> 'w \<Rightarrow> bool" where
  "registered b fl w cfg w' \<longleftrightarrow>
     (\<exists>wns cfg0 w1 w2 w3 w4 w5.
        boot_env b WatchNamespaceEnvVar = Some wns \<and>
        get_config b w = (Inr cfg0, w1) \<and>
        new_mgr b cfg0
          (mgr_options fl (if wns = [] then Getenv (boot_env b) ''OPERATOR_NAMESPACE'' else wns)) w1 = (Inr (), w2) \<and>
        setup_with_manager b UpgradeConfigController w2 = (Inr (), w3) \<and>
        setup_with_manager b NodeKeeperController w3 = (Inr (), w4) \<and>
        setup_with_manager b MachineConfigPoolController w4 = (Inr (), w5) \<and>
        get_config b w5 = (Inr cfg, w'))"

text \<open>
  \<open>serving b cfg w w'\<close>: from \<open>w\<close> the metrics service is added, the custom metrics are served with the operator's
  collector in its namespace, both probes are in place and the client of the synchronisation is there.
\<close>

definition serving :: "('w, 'c, 'v, 'm) boot_api \<Rightarrow> 'c \<Rightarrow> 'w \<Rightarrow> 'w \<Rightarrow> bool" where
  "serving b cfg w w' \<longleftrightarrow>
     (\<exists>ns w1 w2 w3 w4 w5.
        new_client b cfg w = (Inr (), w1) \<and> addMetrics b cfg w1 = (Ok (), w2) \<and>
        boot_env b ''OPERATOR_NAMESPACE'' = Some ns \<and>
        configure_metrics b (custom_metrics_config ns bootstrapMetrics) w2 = (Inr (), w3) \<and>
        add_healthz b w3 = (Inr (), w4) \<and> add_readyz b w4 = (Inr (), w5) \<and>
        new_client b cfg w5 = (Inr (), w'))"

definition set_up :: "('w, 'c, 'v, 'm) boot_api \<Rightarrow> main_flags \<Rightarrow> 'w \<Rightarrow> 'w \<Rightarrow> bool" where
  "set_up b fl w w' \<longleftrightarrow> (\<exists>cfg v. registered b fl w cfg v \<and> serving b cfg v w')"

text \<open>
  What ends short of the manager: with status 1, or with a crash when the monitoring client cannot be built, and in
  the same way whatever the synchronisation and the manager would have done.
\<close>

definition ends_early :: "('w, 'c, 'v, 'm) boot_api \<Rightarrow> (('w, 'c, 'v, 'm) boot_api \<Rightarrow> exit_status \<times> 'w) \<Rightarrow> bool" where
  "ends_early b f \<longleftrightarrow>
     (fst (f b) = Exited 1 \<or> fst (f b) = Crashed \<and> (\<exists>cfg e. new_monitoring b cfg = Inl e)) \<and>
     (\<forall>go start. f (b\<lparr>go_StartSync := go, start_mgr := start\<rparr>) = f b)"

lemma orExit_simps [simp]:
  "orExit (Ok a, w) f = f a w"
  "orExit (Err e, w) f = (Exited 1, w)"
  "orExit (Panic, w) f = (Crashed, w)"
  by (simp_all add: orExit_def)

lemma orExit_call:
  "orExit (call g w) f = (case g w of (Inr a, w') \<Rightarrow> f a w' | (Inl _, w') \<Rightarrow> (Exited 1, w'))"
  by (simp add: call_def split: prod.split sum.split)

lemma collector_built [simp]: "NewUpgradeCollector = Ok bootstrapMetrics"
  by (simp add: NewUpgradeCollector_def ucm_NewManager_def)

lemma add_service_monitors_no_manager [simp]:
  "add_service_monitors (b\<lparr>go_StartSync := go, start_mgr := start\<rparr>) ns vs w = add_service_monitors b ns vs w"
  by (induction b ns vs w rule: add_service_monitors.induct) (auto split: prod.split sum.split)

lemma create_metrics_no_manager [simp]:
  "create_metrics (b\<lparr>go_StartSync := go, start_mgr := start\<rparr>) cfg ns w = create_metrics b cfg ns w"
  by (simp add: create_metrics_def Let_def del: add_service_monitors.simps split: prod.split sum.split)

lemma addMetrics_no_manager [simp]:
  "addMetrics (b\<lparr>go_StartSync := go, start_mgr := start\<rparr>) cfg w = addMetrics b cfg w"
  by (simp add: addMetrics_def split: sum.split namespace_error.split)

lemma add_service_monitors_no_Panic: "add_service_monitors b ns vs w \<noteq> (Panic, w')"
  by (induction b ns vs w rule: add_service_monitors.induct) (auto split: prod.split sum.split)

lemma addMetrics_Panic: "addMetrics b cfg w = (Panic, w') \<Longrightarrow> \<exists>cfg e. new_monitoring b cfg = Inl e"
  by (auto simp: addMetrics_def create_metrics_def Let_def add_service_monitors_no_Panic
      simp del: add_service_monitors.simps split: sum.splits namespace_error.splits prod.splits if_splits)

lemma main_set_up:
  assumes "set_up b fl w w'"
  shows "main b fl w = orExit (call (start_mgr b) (go_StartSync b w')) (\<lambda>_ w. (Exited 0, w))"
  using assms
  by (auto simp: set_up_def registered_def serving_def main_def main_serve_def register_def orExit_call watch_namespace_def
      GetWatchNamespace_def GetOperatorNamespace_def ucm_NewManager_def)

text \<open>The first call that fails ends \<open>main\<close>.\<close>

lemma orExit_ends_early:
  assumes "\<And>go start. g (b\<lparr>go_StartSync := go, start_mgr := start\<rparr>) = g b"
    and "\<And>v. g b = (Panic, v) \<Longrightarrow> \<exists>cfg e. new_monitoring b cfg = Inl e"
    and "\<And>a v. g b = (Ok a, v) \<Longrightarrow> ends_early b (\<lambda>b. f b a v)"
  shows "ends_early b (\<lambda>b. orExit (g b) (f b))"
proof -
  obtain r v where r: "g b = (r, v)" by (cases "g b")
  show ?thesis
    using assms(2, 3) r by (cases r) (auto simp: ends_early_def assms(1))
qed

lemma call_ends_early:
  assumes "\<And>go start. g (b\<lparr>go_StartSync := go, start_mgr := start\<rparr>) = g b"
    and "\<And>a v. g b w = (Inr a, v) \<Longrightarrow> ends_early b (\<lambda>b. f b a v)"
  shows "ends_early b (\<lambda>b. orExit (call (g b) w) (f b))"
  using assms by (intro orExit_ends_early) (auto simp: call_def split: prod.splits sum.splits)

lemma main_serve_ends_early:
  assumes "\<And>cfg v w'. get_config b w = (Inr cfg, v) \<Longrightarrow> \<not> serving b cfg v w'"
  shows "ends_early b (\<lambda>b. main_serve b w)"
  unfolding main_serve_def collector_built ucm_NewManager_def outcome.case
  by (intro call_ends_early orExit_ends_early)
     (use assms in \<open>auto simp: serving_def GetOperatorNamespace_def intro: addMetrics_Panic split: option.splits\<close>)

lemma main_ends_early:
  assumes "\<And>w'. \<not> set_up b fl w w'"
  shows "ends_early b (\<lambda>b. main b fl w)"
  unfolding main_def Let_def register_def
  by (intro call_ends_early orExit_ends_early main_serve_ends_early)
     (use assms in \<open>auto simp: set_up_def registered_def watch_namespace_def GetWatchNamespace_def split: option.splits\<close>)

section \<open>Properties\<close>

text \<open>
  C26: the start-up is all or nothing and in order. If every set-up call succeeds, in the order of \<open>set_up\<close>
  (the manager confined to the watched namespace, or the operator's when that is empty; the three
  controllers; the metrics; both probes), then the process sets the synchronisation loop going, runs the manager
  and ends with the manager, with status 0 or, after an error of it, 1. If any of them fails, or a namespace variable is not set, neither the
  synchronisation nor the manager is started: \<open>main\<close> does the same whatever they would do, and ends with status 1, or
  with a crash when the monitoring client cannot be built.
\<close>

theorem start_up_sequence:
  "(set_up b fl w w' \<longrightarrow>
      main b fl w =
        (case start_mgr b (go_StartSync b w') of
           (Inr _, v) \<Rightarrow> (Exited 0, v)
         | (Inl _, v) \<Rightarrow> (Exited 1, v))) \<and>
   ((\<nexists>v. set_up b fl w v) \<longrightarrow>
      (\<forall>go start. main (b\<lparr>go_StartSync := go, start_mgr := start\<rparr>) fl w = main b fl w) \<and>
      (fst (main b fl w) = Exited 1 \<or>
       fst (main b fl w) = Crashed \<and> (\<exists>cfg e. new_monitoring b cfg = Inl e)))"
proof -
  have "main b fl w = (case start_mgr b (go_StartSync b w') of (Inr _, v) \<Rightarrow> (Exited 0, v) | (Inl _, v) \<Rightarrow> (Exited 1, v))"
    if "set_up b fl w w'"
    unfolding main_set_up [OF that] orExit_call by (simp split: prod.split sum.split)
  moreover have "ends_early b (\<lambda>b. main b fl w)" if "\<nexists>v. set_up b fl w v"
    using that by (intro main_ends_early) simp
  ultimately show ?thesis
    unfolding ends_early_def by blast
qed

text \<open>The monitor of the metrics service is there already: the text of the error decides.\<close>

lemma add_service_monitors_exist:
  assumes "create_service_monitor b ns (generate_service_monitor b v) w = (Inl e, w')"
  shows "add_service_monitors b ns [Some v] w =
    (if err_text b e = ErrSMMetricsExists then (Ok (), w') else (Err e, w'))"
  using assms by simp

text \<open>
  C34: when the operator restarts and both the metrics service and its monitor exist, \<open>addMetrics\<close> succeeds
  exactly when the operator runs under its own name. With any other \<open>OPERATOR_NAME\<close>, or none, the
  text the API server answers differs from the one compared with, and \<open>main\<close> exits.
\<close>

theorem addMetrics_restart:
  assumes "k8s_GetOperatorNamespace (boot_env b) (read_file b) = Inr ns"
    and "n = Getenv (boot_env b) OperatorNameEnvVar"
    and "generate_service b metricsPort ''http-metrics'' (n @ ''-metrics'') ns [(''name'', n)] = Inr v"
    and "create_service b v w = (Inl e, w1)" "is_already_exists b e"
    and "new_monitoring b cfg = Inr ()"
    and "create_service_monitor b ns (generate_service_monitor b v) w1 = (Inl e', w2)"
    and "err_text b e' = ''servicemonitors.monitoring.coreos.com \"'' @ (n @ ''-metrics'') @ ''\" already exists''"
  shows "addMetrics b cfg w = (if n = OperatorName then (Ok (), w2) else (Err e', w2))"
proof -
  have "err_text b e' = ErrSMMetricsExists \<longleftrightarrow> n = OperatorName"
    using assms(8) by (simp add: ErrSMMetricsExists_def)
  then show ?thesis
    using assms(1-7) add_service_monitors_exist [OF assms(7)]
    by (simp add: addMetrics_def create_metrics_def GetOperatorName_or_empty del: add_service_monitors.simps)
qed

text \<open>An API server that holds the names of the services and of the monitors it has.\<close>

definition mem_boot :: "environ \<Rightarrow> (string list \<times> string list, unit, string, string) boot_api" where
  "mem_boot env =
     \<lparr>boot_env = env, read_file = (\<lambda>_. Inr ''muo\<newline>''),
      add_to_scheme = (\<lambda>_ w. (Inr (), w)), get_config = (\<lambda>w. (Inr (), w)),
      new_mgr = (\<lambda>_ _ w. (Inr (), w)), setup_with_manager = (\<lambda>_ w. (Inr (), w)),
      new_client = (\<lambda>_ w. (Inr (), w)),
      generate_service = (\<lambda>_ _ name _ _. Inr name),
      create_service = (\<lambda>v (vs, ms).
        if v \<in> set vs then (Inl (ApiError (''services \"'' @ v @ ''\" already exists'')), (vs, ms))
        else (Inr (), (v # vs, ms))),
      is_already_exists = (\<lambda>e. case e of ApiError t \<Rightarrow> HasSuffix t ''already exists'' | _ \<Rightarrow> False),
      new_monitoring = (\<lambda>_. Inr ()), generate_service_monitor = (\<lambda>v. v),
      create_service_monitor = (\<lambda>_ m (vs, ms).
        if m \<in> set ms
        then (Inl (ApiError (''servicemonitors.monitoring.coreos.com \"'' @ m @ ''\" already exists'')), (vs, ms))
        else (Inr (), (vs, m # ms))),
      err_text = (\<lambda>e. case e of ApiError t \<Rightarrow> t | _ \<Rightarrow> []),
      configure_metrics = (\<lambda>_ w. (Inr (), w)), add_healthz = (\<lambda>w. (Inr (), w)),
      add_readyz = (\<lambda>w. (Inr (), w)), go_StartSync = (\<lambda>w. w), start_mgr = (\<lambda>w. (Inr (), w))\<rparr>"

lemma trimmed_namespace: "TrimSpace ''muo\<newline>'' = ''muo''"
  by code_simp

theorem addMetrics_restart_witness:
  "addMetrics (mem_boot [OperatorNameEnvVar \<mapsto> ''muo-copy'']) () ([''muo-copy-metrics''], [''muo-copy-metrics'']) =
     (Err (ApiError ''servicemonitors.monitoring.coreos.com \"muo-copy-metrics\" already exists''),
      ([''muo-copy-metrics''], [''muo-copy-metrics'']))"
proof -
  let ?w = "([''muo-copy-metrics''], [''muo-copy-metrics''])"
  let ?b = "mem_boot [OperatorNameEnvVar \<mapsto> ''muo-copy'']"
  have ns: "k8s_GetOperatorNamespace (boot_env ?b) (read_file ?b) = Inr ''muo''"
    by (simp add: mem_boot_def k8s_GetOperatorNamespace_def k8s_isRunModeLocal_def Getenv_def ForceRunModeEnv_def
        OperatorNameEnvVar_def trimmed_namespace)
  have e: "is_already_exists ?b (ApiError ''services \"muo-copy-metrics\" already exists'')"
    unfolding mem_boot_def HasSuffix_def by (simp add: suffix_to_prefix)
  show ?thesis
    by (subst addMetrics_restart [OF ns _ _ _ e, of "''muo-copy''" "''muo-copy-metrics''" ?w ?w "()"
          "ApiError ''servicemonitors.monitoring.coreos.com \"muo-copy-metrics\" already exists''" ?w])
       (simp_all add: mem_boot_def Getenv_def OperatorName_def)
qed

text \<open>A first start creates the service and its monitor; a restart under the operator's own name goes through.\<close>

theorem addMetrics_first_start:
  "snd (addMetrics (mem_boot [OperatorNameEnvVar \<mapsto> OperatorName]) () ([], [])) =
     ([OperatorName @ ''-metrics''], [OperatorName @ ''-metrics''])"
  by (simp add: addMetrics_def create_metrics_def GetOperatorName_or_empty mem_boot_def k8s_GetOperatorNamespace_def
      k8s_isRunModeLocal_def Getenv_def ForceRunModeEnv_def OperatorNameEnvVar_def trimmed_namespace)

text \<open>
  In the environment of the deployment a first start sets up all of it, and the manager runs in the world
  where the service and its monitor are created; without the namespace of the operator it exits.
\<close>

definition deployed :: environ where
  "deployed = [OperatorNameEnvVar \<mapsto> OperatorName, ''OPERATOR_NAMESPACE'' \<mapsto> ''muo'', WatchNamespaceEnvVar \<mapsto> ''muo'']"

lemma deployed_set_up:
  "set_up (mem_boot deployed) fl ([], []) ([OperatorName @ ''-metrics''], [OperatorName @ ''-metrics''])"
  by (simp add: set_up_def registered_def serving_def deployed_def mem_boot_def addMetrics_def create_metrics_def
      GetOperatorName_or_empty k8s_GetOperatorNamespace_def k8s_isRunModeLocal_def Getenv_def ForceRunModeEnv_def
      OperatorNameEnvVar_def WatchNamespaceEnvVar_def trimmed_namespace)

theorem start_up_sequence_witness:
  "main (mem_boot deployed) default_flags ([], []) =
     (Exited 0, [OperatorName @ ''-metrics''], [OperatorName @ ''-metrics'']) \<and>
   fst (main (mem_boot [WatchNamespaceEnvVar \<mapsto> ''muo'']) default_flags ([], [])) = Exited 1"
proof
  show "main (mem_boot deployed) default_flags ([], []) =
     (Exited 0, [OperatorName @ ''-metrics''], [OperatorName @ ''-metrics''])"
    using start_up_sequence [of "mem_boot deployed" default_flags "([], [])"] deployed_set_up by (simp add: mem_boot_def)
  have "\<not> set_up (mem_boot [WatchNamespaceEnvVar \<mapsto> ''muo'']) default_flags ([], []) v" for v
    by (simp add: set_up_def serving_def mem_boot_def WatchNamespaceEnvVar_def)
  then show "fst (main (mem_boot [WatchNamespaceEnvVar \<mapsto> ''muo'']) default_flags ([], [])) = Exited 1"
    using start_up_sequence [of "mem_boot [WatchNamespaceEnvVar \<mapsto> ''muo'']" default_flags "([], [])"]
    by (simp add: mem_boot_def)
qed

section \<open>The collector of upgrade states\<close>

text \<open>\<open>pkg/metrics/collector\<close>, which is built like the collector that \<open>main\<close> registers.\<close>

definition state_NewUpgradeCollector :: "Desc outcome" where
  "state_NewUpgradeCollector = (case ucm_NewManager of Ok _ \<Rightarrow> Ok upgradeState | Err e \<Rightarrow> Err e | Panic \<Rightarrow> Panic)"

definition state_Describe :: "Desc list" where
  "state_Describe = [upgradeState]"

definition state_Collect :: "'w collector_env \<Rightarrow> (channel_item list \<times> 'w, unit) op" where
  "state_Collect ce = collectUpgradeMetrics ce"

lemma state_sends:
  "sends_typed (set state_Describe) False (send upgradeState t [v, n])"
  "sends_typed (set state_Describe) False (send_states v h)"
  "sends_typed (set state_Describe) False (send_cv_state v c)"
  unfolding send_states_def [abs_def] send_cv_state_def [abs_def]
  by (intro sends_typed_bind sends_typed_send sends_typed_time; simp add: state_Describe_def upgradeState_def)+

lemma sends_typedD:
  "sends_typed ds False f \<Longrightarrow> f ch = (r, ch') \<Longrightarrow> r \<noteq> Panic \<and> (\<exists>items. ch' = ch @ items \<and> list_all (well_typed ds) items)"
  unfolding sends_typed_def by blast

text \<open>
  A scrape of this collector never panics, and sends only the metric it describes, with a version and a state each.
\<close>

theorem state_scrape_well_typed:
  assumes "state_Collect ce (ch, s) = (r, ch', s')"
  shows "r \<noteq> Panic \<and> (\<exists>items. ch' = ch @ items \<and> list_all (well_typed (set state_Describe)) items)"
proof -
  note D = sends_typedD [OF state_sends(1)] sends_typedD [OF state_sends(2)] sends_typedD [OF state_sends(3)]
  have cv: "GetClusterVersion api w \<noteq> (Panic, w')" for api :: "'a cv_api" and w w'
    by (auto simp: GetClusterVersion_def call_def split: prod.splits sum.splits)
  show ?thesis
    using assms unfolding state_Collect_def collectUpgradeMetrics_def
    by (auto simp: Let_def ucm_Get_no_Panic cv split: prod.splits outcome.splits option.splits bindO_splits dest!: D)
qed

end
