(* ===== verification/Go_Memory.thy ===== *)
theory Go_Memory
  imports Prelude
begin

text \<open>
  Go memory as far as the operator's data needs it: cells allocated in regions, one region per type, and
  slices as windows on arrays. Two slices may share an array; \<open>append\<close> writes in place when the
  capacity suffices and allocates otherwise. How much an allocation grows is up to the Go runtime and is the
  argument \<open>grow\<close>.
\<close>

section \<open>Regions\<close>

record 'a region =
  cell :: "nat \<Rightarrow> 'a"
  lim :: nat

definition alloc :: "'a \<Rightarrow> 'a region \<Rightarrow> nat \<times> 'a region" where
  "alloc x R = (lim R, R\<lparr>cell := (cell R)(lim R := x), lim := Suc (lim R)\<rparr>)"

definition poke :: "nat \<Rightarrow> 'a \<Rightarrow> 'a region \<Rightarrow> 'a region" where
  "poke a x R = R\<lparr>cell := (cell R)(a := x)\<rparr>"

lemma alloc_simps [simp]:
  "fst (alloc x R) = lim R" "lim (snd (alloc x R)) = Suc (lim R)"
  "cell (snd (alloc x R)) = (cell R)(lim R := x)"
  by (simp_all add: alloc_def)

lemma poke_simps [simp]: "lim (poke a x R) = lim R" "cell (poke a x R) = (cell R)(a := x)"
  by (simp_all add: poke_def)

text \<open>\<open>grown A R R'\<close>: cells were added to \<open>R\<close>, and of the old ones only those in \<open>A\<close> have changed.\<close>

definition grown :: "nat set \<Rightarrow> 'a region \<Rightarrow> 'a region \<Rightarrow> bool" where
  "grown A R R' \<longleftrightarrow> lim R \<le> lim R' \<and> (\<forall>a < lim R. a \<notin> A \<longrightarrow> cell R' a = cell R a)"

lemma grown_refl [simp, intro]: "grown A R R"
  by (simp add: grown_def)

lemma grown_mono: "grown A R R' \<Longrightarrow> A \<subseteq> B \<Longrightarrow> grown B R R'"
  by (auto simp: grown_def)

lemma grown_trans: "grown A R R' \<Longrightarrow> grown B R' R'' \<Longrightarrow> B \<inter> {..<lim R} \<subseteq> A \<Longrightarrow> grown A R R''"
  unfolding grown_def by (metis IntI lessThan_iff order.strict_trans2 order_trans subsetD)

lemma grown_alloc [simp, intro]: "grown A R (snd (alloc x R))"
  by (auto simp: grown_def)

lemma grown_poke [simp]: "a \<in> A \<Longrightarrow> grown A R (poke a x R)"
  by (auto simp: grown_def)

lemma grown_cell: "grown A R R' \<Longrightarrow> a < lim R \<Longrightarrow> a \<notin> A \<Longrightarrow> cell R' a = cell R a"
  by (simp add: grown_def)

lemma grown_lim: "grown A R R' \<Longrightarrow> lim R \<le> lim R'"
  by (simp add: grown_def)

text \<open>The size of an array never changes.\<close>

definition sized :: "'a list region \<Rightarrow> 'a list region \<Rightarrow> bool" where
  "sized R R' \<longleftrightarrow> (\<forall>a < lim R. length (cell R' a) = length (cell R a))"

lemma sized_refl [simp, intro]: "sized R R"
  by (simp add: sized_def)

lemma sized_trans: "sized R R' \<Longrightarrow> sized R' R'' \<Longrightarrow> lim R \<le> lim R' \<Longrightarrow> sized R R''"
  by (simp add: sized_def)

lemma sized_alloc [simp, intro]: "sized R (snd (alloc x R))"
  by (simp add: sized_def)

section \<open>Slices\<close>

text \<open>Array, offset, length and capacity; the capacity counts from the offset.\<close>

datatype slice = NilSlice | Slice nat nat nat nat

fun slice_len :: "slice \<Rightarrow> nat" where
  "slice_len NilSlice = 0"
| "slice_len (Slice a i n c) = n"

fun slice_cap :: "slice \<Rightarrow> nat" where
  "slice_cap NilSlice = 0"
| "slice_cap (Slice a i n c) = c"

fun arrays_of :: "slice \<Rightarrow> nat list" where
  "arrays_of NilSlice = []"
| "arrays_of (Slice a i n c) = [a]"

fun elems :: "'a list region \<Rightarrow> slice \<Rightarrow> 'a list" where
  "elems R NilSlice = []"
| "elems R (Slice a i n c) = take n (drop i (cell R a))"

fun wf_slice :: "'a list region \<Rightarrow> slice \<Rightarrow> bool" where
  "wf_slice R NilSlice = True"
| "wf_slice R (Slice a i n c) \<longleftrightarrow> a < lim R \<and> n \<le> c \<and> i + c \<le> length (cell R a)"

text \<open>\<open>s[i] = x\<close> for an index in range; out of range Go panics, which no caller here does.\<close>

fun slice_set :: "slice \<Rightarrow> nat \<Rightarrow> 'a \<Rightarrow> 'a list region \<Rightarrow> 'a list region" where
  "slice_set NilSlice i x R = R"
| "slice_set (Slice a k n c) i x R = poke a ((cell R a)[k + i := x]) R"

text \<open>\<open>s[:i]\<close> and \<open>s[i:]\<close>\<close>

fun slice_to :: "slice \<Rightarrow> nat \<Rightarrow> slice" where
  "slice_to NilSlice i = NilSlice"
| "slice_to (Slice a k n c) i = Slice a k i c"

fun slice_from :: "slice \<Rightarrow> nat \<Rightarrow> slice" where
  "slice_from NilSlice i = NilSlice"
| "slice_from (Slice a k n c) i = Slice a (k + i) (n - i) (c - i)"

text \<open>\<open>[]T{x, ...}\<close> and \<open>make([]T, n)\<close>\<close>

definition slice_lit :: "'a list \<Rightarrow> 'a list region \<Rightarrow> slice \<times> 'a list region" where
  "slice_lit xs R = (let (a, R) = alloc xs R in (Slice a 0 (length xs) (length xs), R))"

definition slice_make :: "'a \<Rightarrow> nat \<Rightarrow> 'a list region \<Rightarrow> slice \<times> 'a list region" where
  "slice_make zero n = slice_lit (replicate n zero)"

text \<open>
  \<open>append(s, xs...)\<close>: nothing to add gives \<open>s\<close>; what fits is written behind the elements of \<open>s\<close>; otherwise
  a new array of at least the needed size, its rest zeroed.
\<close>

fun overwrite :: "nat \<Rightarrow> 'a list \<Rightarrow> 'a list \<Rightarrow> 'a list" where
  "overwrite i ys xs = take i xs @ ys @ drop (i + length ys) xs"

definition grow_array :: "(nat \<Rightarrow> nat) \<Rightarrow> 'a \<Rightarrow> 'a list \<Rightarrow> 'a list region \<Rightarrow> slice \<times> 'a list region" where
  "grow_array grow zero ys R =
     (let n = length ys; c = max n (grow n); (a, R) = alloc (ys @ replicate (c - n) zero) R
      in (Slice a 0 n c, R))"

definition append_slice ::
    "(nat \<Rightarrow> nat) \<Rightarrow> 'a \<Rightarrow> slice \<Rightarrow> 'a list \<Rightarrow> 'a list region \<Rightarrow> slice \<times> 'a list region" where
  "append_slice grow zero s xs R =
     (if xs = [] then (s, R)
      else case s of
        NilSlice \<Rightarrow> grow_array grow zero xs R
      | Slice a k n c \<Rightarrow>
          if n + length xs \<le> c
          then (Slice a k (n + length xs) c, poke a (overwrite (k + n) xs (cell R a)) R)
          else grow_array grow zero (elems R s @ xs) R)"

section \<open>Laws of slices\<close>

lemma length_elems [simp]: "wf_slice R s \<Longrightarrow> length (elems R s) = slice_len s"
  by (cases s) auto

lemma elems_grown:
  "grown A R R' \<Longrightarrow> wf_slice R s \<Longrightarrow> set (arrays_of s) \<inter> A = {} \<Longrightarrow> elems R' s = elems R s"
  by (cases s) (auto simp: grown_def)

lemma wf_slice_grown: "grown A R R' \<Longrightarrow> sized R R' \<Longrightarrow> wf_slice R s \<Longrightarrow> wf_slice R' s"
  by (cases s) (auto simp: grown_def sized_def)

lemma wf_slice_arrays: "wf_slice R s \<Longrightarrow> set (arrays_of s) \<subseteq> {..<lim R}"
  by (cases s) auto

lemma slice_set_effect:
  assumes "wf_slice R s" "i < slice_len s"
  shows "elems (slice_set s i x R) s = (elems R s)[i := x]"
    and "grown (set (arrays_of s)) R (slice_set s i x R)" "sized R (slice_set s i x R)"
    and "lim (slice_set s i x R) = lim R"
  using assms by (cases s; auto simp: sized_def take_update_swap drop_update_swap)+

lemma slice_lit_effect:
  assumes "slice_lit xs R = (s, R')"
  shows "elems R' s = xs" "wf_slice R' s" "arrays_of s = [lim R]" "grown {} R R'" "sized R R'"
    "slice_len s = length xs" "lim R' = Suc (lim R)"
  using assms by (auto simp: slice_lit_def alloc_def grown_def sized_def)

lemma grow_array_effect:
  assumes "grow_array g z ys R = (s, R')"
  shows "elems R' s = ys" "wf_slice R' s" "arrays_of s = [lim R]" "grown {} R R'" "sized R R'"
  using assms by (auto simp: grow_array_def alloc_def grown_def sized_def Let_def)

text \<open>
  An append yields the elements and the new ones. It writes only behind the slice, in an array of its own
  when it does not fit.
\<close>

lemma elems_overwrite:
  "k + n + length xs \<le> length ys \<Longrightarrow>
     take (n + length xs) (drop k (overwrite (k + n) xs ys)) = take n (drop k ys) @ xs"
  by (simp add: take_drop) (simp add: drop_take add.commute)

lemma append_slice_effect:
  assumes "append_slice g z s xs R = (s', R')" "wf_slice R s"
  shows "elems R' s' = elems R s @ xs" "wf_slice R' s'" "grown (set (arrays_of s)) R R'" "sized R R'"
    and "set (arrays_of s') \<subseteq> set (arrays_of s) \<union> {lim R..}"
proof -
  have "elems R' s' = elems R s @ xs \<and> wf_slice R' s' \<and> grown (set (arrays_of s)) R R' \<and> sized R R' \<and>
        set (arrays_of s') \<subseteq> set (arrays_of s) \<union> {lim R..}"
  proof (cases "xs = [] \<or> slice_cap s < slice_len s + length xs")
    case True
    then consider "s' = s" "R' = R" "xs = []" | "grow_array g z (elems R s @ xs) R = (s', R')"
    proof (cases s)
      case NilSlice
      then show thesis using assms(1) that by (cases "xs = []") (simp_all add: append_slice_def)
    next
      case (Slice a k n c)
      then show thesis using assms(1) True that by (cases "xs = []") (simp_all add: append_slice_def)
    qed
    then show ?thesis
    proof cases
      case 2
      from grow_array_effect [OF this] show ?thesis
        by (auto intro: grown_mono)
    qed (use assms(2) in auto)
  next
    case False
    then obtain a k n c where s: "s = Slice a k n c" by (cases s) auto
    with False assms show ?thesis
      by (auto simp: append_slice_def elems_overwrite sized_def simp del: overwrite.simps)
         (auto simp: grown_def)
  qed
  then show "elems R' s' = elems R s @ xs" "wf_slice R' s'" "grown (set (arrays_of s)) R R'" "sized R R'"
    "set (arrays_of s') \<subseteq> set (arrays_of s) \<union> {lim R..}" by blast+
qed

end
