(* ===== verification/Api_Memory.thy ===== *)
theory Api_Memory
  imports Go_Memory Steps
begin

text \<open>
  The UpgradeConfig as it lies in memory: histories and conditions in slices, times behind pointers. The
  operations of \<open>api/v1alpha1/upgradeconfig_types.go\<close> work in place or allocate as the source does, and the deep
  copies of \<open>zz_generated.deepcopy.go\<close> allocate. The lemmas relate them to the operations on values in \<open>Api_Types\<close>:
  under the invariant that no two histories share an array of conditions, each operation on
  memory implements the operation on values. A value that a function returns a pointer to (\<open>&history\<close> of a loop
  variable) is a copy of its own and appears here as the value, whose slices still share their arrays.
\<close>

section \<open>Data\<close>

record m_condition =
  mType :: UpgradeConditionType
  mStatus :: ConditionStatus
  mLastProbeTime :: "nat option"
  mLastTransitionTime :: "nat option"
  mCStartTime :: "nat option"
  mCCompleteTime :: "nat option"
  mReason :: string
  mMessage :: string

record m_history =
  mVersion :: string
  mPrecedingVersion :: string
  mPhase :: UpgradePhase
  mConditions :: slice
  mStartTime :: "nat option"
  mCompleteTime :: "nat option"
  mWorkerStartTime :: "nat option"
  mWorkerCompleteTime :: "nat option"

record m_uc =
  mucName :: string
  mucNamespace :: string
  mSpec :: UpgradeConfigSpec
  mHistory :: slice

record mem =
  instants :: "instant region"
  conds :: "m_condition list region"
  hists :: "m_history list region"
  ucs :: "m_uc list region"

text \<open>Zero values of fresh cells; no cell is read before it is written.\<close>

definition zero_condition :: m_condition where
  "zero_condition = \<lparr>mType = [], mStatus = CUnknown, mLastProbeTime = None, mLastTransitionTime = None,
     mCStartTime = None, mCCompleteTime = None, mReason = [], mMessage = []\<rparr>"

definition zero_history :: m_history where
  "zero_history = \<lparr>mVersion = [], mPrecedingVersion = [], mPhase = UnknownPhase, mConditions = NilSlice,
     mStartTime = None, mCompleteTime = None, mWorkerStartTime = None, mWorkerCompleteTime = None\<rparr>"

definition zero_uc :: m_uc where
  "zero_uc = \<lparr>mucName = [], mucNamespace = [], mSpec = \<lparr>Desired = \<lparr>dVersion = [], dChannel = [], dImage = []\<rparr>,
     UpgradeAt = [], PDBForceDrainTimeout = 0, UType = OtherType [], CapacityReservation = False\<rparr>, mHistory = NilSlice\<rparr>"

section \<open>Operations\<close>

text \<open>\<open>&metav1.Time{Time: t}\<close>\<close>

definition new_time :: "instant \<Rightarrow> mem \<Rightarrow> nat option \<times> mem" where
  "new_time t M = (let (p, R) = alloc t (instants M) in (Some p, M\<lparr>instants := R\<rparr>))"

primrec index_of :: "('a \<Rightarrow> bool) \<Rightarrow> 'a list \<Rightarrow> nat option" where
  "index_of P [] = None"
| "index_of P (x # xs) = (if P x then Some 0 else map_option Suc (index_of P xs))"

definition m_GetCondition :: "mem \<Rightarrow> slice \<Rightarrow> UpgradeConditionType \<Rightarrow> m_condition option" where
  "m_GetCondition M s t = first_with (\<lambda>c. mType c = t) (elems (conds M) s)"

definition m_SetCondition ::
    "(nat \<Rightarrow> nat) \<Rightarrow> instant \<Rightarrow> instant \<Rightarrow> m_condition \<Rightarrow> slice \<Rightarrow> mem \<Rightarrow> (bool \<times> slice) \<times> mem" where
  "m_SetCondition grow now1 now2 newCond s M =
     (let (p1, M) = new_time now1 M; (p2, M) = new_time now2 M;
          c1 = newCond\<lparr>mLastTransitionTime := p1, mLastProbeTime := p2\<rparr>
      in case index_of (\<lambda>c. mType c = mType newCond) (elems (conds M) s) of
           Some i \<Rightarrow>
             (let old = elems (conds M) s ! i;
                  c2 = (if mStatus old = mStatus newCond
                        then c1\<lparr>mLastTransitionTime := mLastTransitionTime old\<rparr> else c1);
                  changed = (mStatus old \<noteq> mStatus newCond \<or> mReason old \<noteq> mReason newCond \<or>
                             mMessage old \<noteq> mMessage newCond)
              in ((changed, s), M\<lparr>conds := slice_set s i c2 (conds M)\<rparr>))
         | None \<Rightarrow>
             (let old = elems (conds M) s;
                  (lit, R) = slice_lit [c1] (conds M);
                  (s', R) = append_slice grow zero_condition lit old R
              in ((True, s'), M\<lparr>conds := R\<rparr>)))"

text \<open>\<open>append((*conditions)[:i], (*conditions)[i+1:]...)\<close> moves the rest forward in the same array.\<close>

definition m_RemoveCondition ::
    "(nat \<Rightarrow> nat) \<Rightarrow> UpgradeConditionType \<Rightarrow> slice \<Rightarrow> mem \<Rightarrow> (bool \<times> slice) \<times> mem" where
  "m_RemoveCondition grow t s M =
     (case index_of (\<lambda>c. mType c = t) (elems (conds M) s) of
        Some i \<Rightarrow>
          (let (s', R) = append_slice grow zero_condition (slice_to s i)
                           (elems (conds M) (slice_from s (Suc i))) (conds M)
           in ((True, s'), M\<lparr>conds := R\<rparr>))
      | None \<Rightarrow> ((False, s), M))"

definition m_GetHistory :: "mem \<Rightarrow> slice \<Rightarrow> string \<Rightarrow> m_history option" where
  "m_GetHistory M s v = first_with (\<lambda>h. mVersion h = v) (elems (hists M) s)"

definition m_SetHistory :: "(nat \<Rightarrow> nat) \<Rightarrow> m_history \<Rightarrow> slice \<Rightarrow> mem \<Rightarrow> slice \<times> mem" where
  "m_SetHistory grow h s M =
     (case index_of (\<lambda>x. mVersion x = mVersion h) (elems (hists M) s) of
        Some i \<Rightarrow> (s, M\<lparr>hists := slice_set s i h (hists M)\<rparr>)
      | None \<Rightarrow>
          (let old = elems (hists M) s;
               (lit, R) = slice_lit [h] (hists M);
               (s', R) = append_slice grow zero_history lit old R
           in (s', M\<lparr>hists := R\<rparr>)))"

section \<open>Deep copies\<close>

text \<open>\<open>Time.DeepCopy\<close> of the API machinery copies the cell.\<close>

definition time_DeepCopy :: "nat option \<Rightarrow> mem \<Rightarrow> nat option \<times> mem" where
  "time_DeepCopy p M = (case p of None \<Rightarrow> (None, M) | Some a \<Rightarrow> new_time (cell (instants M) a) M)"

text \<open>The hand-written copy of a condition is shallow: its times stay shared.\<close>

definition m_UpgradeCondition_DeepCopyInto :: "m_condition \<Rightarrow> m_condition" where
  "m_UpgradeCondition_DeepCopyInto c = c"

definition copy_condition_at :: "slice \<Rightarrow> slice \<Rightarrow> nat \<Rightarrow> mem \<Rightarrow> mem" where
  "copy_condition_at src dst i M =
     M\<lparr>conds := slice_set dst i (m_UpgradeCondition_DeepCopyInto (elems (conds M) src ! i)) (conds M)\<rparr>"

definition m_Conditions_DeepCopyInto :: "slice \<Rightarrow> mem \<Rightarrow> slice \<times> mem" where
  "m_Conditions_DeepCopyInto src M =
     (let (dst, R) = slice_make zero_condition (slice_len src) (conds M)
      in (dst, fold (copy_condition_at src dst) [0..<slice_len src] (M\<lparr>conds := R\<rparr>)))"

definition m_Conditions_DeepCopy :: "slice \<Rightarrow> mem \<Rightarrow> slice \<times> mem" where
  "m_Conditions_DeepCopy src M =
     (if src = NilSlice then (NilSlice, M) else m_Conditions_DeepCopyInto src M)"

definition m_UpgradeHistory_DeepCopyInto :: "m_history \<Rightarrow> mem \<Rightarrow> m_history \<times> mem" where
  "m_UpgradeHistory_DeepCopyInto h M =
     (let (cs, M) = m_Conditions_DeepCopy (mConditions h) M;
          (t1, M) = time_DeepCopy (mStartTime h) M;
          (t2, M) = time_DeepCopy (mCompleteTime h) M;
          (t3, M) = time_DeepCopy (mWorkerStartTime h) M;
          (t4, M) = time_DeepCopy (mWorkerCompleteTime h) M
      in (h\<lparr>mConditions := cs, mStartTime := t1, mCompleteTime := t2, mWorkerStartTime := t3,
            mWorkerCompleteTime := t4\<rparr>, M))"

definition copy_history_at :: "slice \<Rightarrow> slice \<Rightarrow> nat \<Rightarrow> mem \<Rightarrow> mem" where
  "copy_history_at src dst i M =
     (let (h, M) = m_UpgradeHistory_DeepCopyInto (elems (hists M) src ! i) M
      in M\<lparr>hists := slice_set dst i h (hists M)\<rparr>)"

definition m_UpgradeHistories_DeepCopyInto :: "slice \<Rightarrow> mem \<Rightarrow> slice \<times> mem" where
  "m_UpgradeHistories_DeepCopyInto src M =
     (let (dst, R) = slice_make zero_history (slice_len src) (hists M)
      in (dst, fold (copy_history_at src dst) [0..<slice_len src] (M\<lparr>hists := R\<rparr>)))"

definition m_UpgradeHistories_DeepCopy :: "slice \<Rightarrow> mem \<Rightarrow> slice \<times> mem" where
  "m_UpgradeHistories_DeepCopy src M =
     (if src = NilSlice then (NilSlice, M) else m_UpgradeHistories_DeepCopyInto src M)"

text \<open>The status is the slice of histories; the spec holds no pointers.\<close>

definition m_UpgradeConfigStatus_DeepCopyInto :: "slice \<Rightarrow> mem \<Rightarrow> slice \<times> mem" where
  "m_UpgradeConfigStatus_DeepCopyInto = m_UpgradeHistories_DeepCopy"

definition m_Update_DeepCopyInto :: "Update \<Rightarrow> Update" where
  "m_Update_DeepCopyInto u = u"

definition m_UpgradeConfigSpec_DeepCopyInto :: "UpgradeConfigSpec \<Rightarrow> UpgradeConfigSpec" where
  "m_UpgradeConfigSpec_DeepCopyInto sp = sp\<lparr>Desired := Desired sp\<rparr>"

definition m_UpgradeConfig_DeepCopyInto :: "m_uc \<Rightarrow> mem \<Rightarrow> m_uc \<times> mem" where
  "m_UpgradeConfig_DeepCopyInto uc M =
     (let (hs, M) = m_UpgradeConfigStatus_DeepCopyInto (mHistory uc) M
      in (uc\<lparr>mSpec := mSpec uc, mHistory := hs\<rparr>, M))"

definition copy_uc_at :: "slice \<Rightarrow> slice \<Rightarrow> nat \<Rightarrow> mem \<Rightarrow> mem" where
  "copy_uc_at src dst i M =
     (let (uc, M) = m_UpgradeConfig_DeepCopyInto (elems (ucs M) src ! i) M
      in M\<lparr>ucs := slice_set dst i uc (ucs M)\<rparr>)"

definition m_UpgradeConfigList_DeepCopyInto :: "slice \<Rightarrow> mem \<Rightarrow> slice \<times> mem" where
  "m_UpgradeConfigList_DeepCopyInto items M =
     (if items = NilSlice then (NilSlice, M)
      else let (dst, R) = slice_make zero_uc (slice_len items) (ucs M)
           in (dst, fold (copy_uc_at items dst) [0..<slice_len items] (M\<lparr>ucs := R\<rparr>)))"

text \<open>\<open>DeepCopy\<close> and \<open>DeepCopyObject\<close>: nil stays nil.\<close>

definition deep_copy :: "('a \<Rightarrow> mem \<Rightarrow> 'a \<times> mem) \<Rightarrow> 'a option \<Rightarrow> mem \<Rightarrow> 'a option \<times> mem" where
  "deep_copy into p M = (case p of None \<Rightarrow> (None, M) | Some x \<Rightarrow> let (y, M) = into x M in (Some y, M))"

definition m_UpgradeConfig_DeepCopy :: "m_uc option \<Rightarrow> mem \<Rightarrow> m_uc option \<times> mem" where
  "m_UpgradeConfig_DeepCopy = deep_copy m_UpgradeConfig_DeepCopyInto"

definition m_UpgradeConfig_DeepCopyObject :: "m_uc option \<Rightarrow> mem \<Rightarrow> m_uc option \<times> mem" where
  "m_UpgradeConfig_DeepCopyObject p M =
     (let (c, M) = m_UpgradeConfig_DeepCopy p M in (case c of Some x \<Rightarrow> Some x | None \<Rightarrow> None, M))"

definition m_Update_DeepCopy :: "Update option \<Rightarrow> mem \<Rightarrow> Update option \<times> mem" where
  "m_Update_DeepCopy = deep_copy (\<lambda>u M. (m_Update_DeepCopyInto u, M))"

definition m_UpgradeCondition_DeepCopy :: "m_condition option \<Rightarrow> mem \<Rightarrow> m_condition option \<times> mem" where
  "m_UpgradeCondition_DeepCopy = deep_copy (\<lambda>c M. (m_UpgradeCondition_DeepCopyInto c, M))"

definition m_UpgradeConfigSpec_DeepCopy :: "UpgradeConfigSpec option \<Rightarrow> mem \<Rightarrow> UpgradeConfigSpec option \<times> mem" where
  "m_UpgradeConfigSpec_DeepCopy = deep_copy (\<lambda>sp M. (m_UpgradeConfigSpec_DeepCopyInto sp, M))"

definition m_UpgradeHistory_DeepCopy :: "m_history option \<Rightarrow> mem \<Rightarrow> m_history option \<times> mem" where
  "m_UpgradeHistory_DeepCopy = deep_copy m_UpgradeHistory_DeepCopyInto"

definition m_UpgradeConfigStatus_DeepCopy :: "slice option \<Rightarrow> mem \<Rightarrow> slice option \<times> mem" where
  "m_UpgradeConfigStatus_DeepCopy = deep_copy m_UpgradeConfigStatus_DeepCopyInto"

definition m_UpgradeConfigList_DeepCopy :: "slice option \<Rightarrow> mem \<Rightarrow> slice option \<times> mem" where
  "m_UpgradeConfigList_DeepCopy = deep_copy m_UpgradeConfigList_DeepCopyInto"

definition m_UpgradeConfigList_DeepCopyObject :: "slice option \<Rightarrow> mem \<Rightarrow> slice option \<times> mem" where
  "m_UpgradeConfigList_DeepCopyObject p M =
     (let (c, M) = m_UpgradeConfigList_DeepCopy p M in (case c of Some x \<Rightarrow> Some x | None \<Rightarrow> None, M))"

section \<open>The values in memory\<close>

definition abs_time :: "mem \<Rightarrow> nat option \<Rightarrow> instant option" where
  "abs_time M p = map_option (cell (instants M)) p"

definition abs_condition :: "mem \<Rightarrow> m_condition \<Rightarrow> UpgradeCondition" where
  "abs_condition M c = \<lparr>CType = mType c, CStatus = mStatus c, LastProbeTime = abs_time M (mLastProbeTime c),
     LastTransitionTime = abs_time M (mLastTransitionTime c), CStartTime = abs_time M (mCStartTime c),
     CCompleteTime = abs_time M (mCCompleteTime c), CReason = mReason c, CMessage = mMessage c\<rparr>"

definition abs_conditions :: "mem \<Rightarrow> slice \<Rightarrow> Conditions" where
  "abs_conditions M s = map (abs_condition M) (elems (conds M) s)"

definition abs_history :: "mem \<Rightarrow> m_history \<Rightarrow> UpgradeHistory" where
  "abs_history M h = \<lparr>Version = mVersion h, PrecedingVersion = mPrecedingVersion h, Phase = mPhase h,
     HConditions = abs_conditions M (mConditions h), StartTime = abs_time M (mStartTime h),
     CompleteTime = abs_time M (mCompleteTime h), WorkerStartTime = abs_time M (mWorkerStartTime h),
     WorkerCompleteTime = abs_time M (mWorkerCompleteTime h)\<rparr>"

definition abs_histories :: "mem \<Rightarrow> slice \<Rightarrow> UpgradeHistories" where
  "abs_histories M s = map (abs_history M) (elems (hists M) s)"

definition abs_uc :: "mem \<Rightarrow> m_uc \<Rightarrow> UpgradeConfig" where
  "abs_uc M uc = \<lparr>ucName = mucName uc, ucNamespace = mucNamespace uc, Spec = mSpec uc,
     History = abs_histories M (mHistory uc)\<rparr>"

section \<open>Well-formed memory\<close>

definition wf_ptr :: "mem \<Rightarrow> nat option \<Rightarrow> bool" where
  "wf_ptr M p \<longleftrightarrow> (case p of None \<Rightarrow> True | Some a \<Rightarrow> a < lim (instants M))"

definition wf_condition :: "mem \<Rightarrow> m_condition \<Rightarrow> bool" where
  "wf_condition M c \<longleftrightarrow> wf_ptr M (mLastProbeTime c) \<and> wf_ptr M (mLastTransitionTime c) \<and>
     wf_ptr M (mCStartTime c) \<and> wf_ptr M (mCCompleteTime c)"

definition wf_conditions :: "mem \<Rightarrow> slice \<Rightarrow> bool" where
  "wf_conditions M s \<longleftrightarrow> wf_slice (conds M) s \<and> list_all (wf_condition M) (elems (conds M) s)"

definition wf_history :: "mem \<Rightarrow> m_history \<Rightarrow> bool" where
  "wf_history M h \<longleftrightarrow> wf_conditions M (mConditions h) \<and> wf_ptr M (mStartTime h) \<and> wf_ptr M (mCompleteTime h) \<and>
     wf_ptr M (mWorkerStartTime h) \<and> wf_ptr M (mWorkerCompleteTime h)"

text \<open>The arrays of conditions of a list of histories, which must be distinct.\<close>

definition cond_arrays :: "m_history list \<Rightarrow> nat list" where
  "cond_arrays hs = concat (map (\<lambda>h. arrays_of (mConditions h)) hs)"

definition wf_histories :: "mem \<Rightarrow> slice \<Rightarrow> bool" where
  "wf_histories M s \<longleftrightarrow> wf_slice (hists M) s \<and> list_all (wf_history M) (elems (hists M) s) \<and>
     distinct (cond_arrays (elems (hists M) s))"

text \<open>
  \<open>mem_grown H C M M'\<close>: \<open>M'\<close> is \<open>M\<close> with new cells, where at most the arrays \<open>H\<close> of histories and \<open>C\<close> of
  conditions have been written to. Times are never overwritten.
\<close>

definition mem_grown :: "nat set \<Rightarrow> nat set \<Rightarrow> mem \<Rightarrow> mem \<Rightarrow> bool" where
  "mem_grown H C M M' \<longleftrightarrow>
     grown {} (instants M) (instants M') \<and> grown C (conds M) (conds M') \<and> sized (conds M) (conds M') \<and>
     grown H (hists M) (hists M') \<and> sized (hists M) (hists M')"

section \<open>Frames\<close>

lemma mem_grown_refl [simp, intro]: "mem_grown H C M M"
  by (simp add: mem_grown_def)

lemma mem_grown_mono: "mem_grown H C M M' \<Longrightarrow> H \<subseteq> H' \<Longrightarrow> C \<subseteq> C' \<Longrightarrow> mem_grown H' C' M M'"
  by (auto simp: mem_grown_def intro: grown_mono)

lemma mem_grown_trans:
  assumes "mem_grown H C M M'" "mem_grown H' C' M' M''"
    and "H' \<inter> {..<lim (hists M)} \<subseteq> H" "C' \<inter> {..<lim (conds M)} \<subseteq> C"
  shows "mem_grown H C M M''"
  using assms unfolding mem_grown_def
  by (auto intro: grown_trans sized_trans dest: grown_lim)

lemma mem_grown_limD: "mem_grown H C M M' \<Longrightarrow> lim (conds M) \<le> lim (conds M') \<and> lim (hists M) \<le> lim (hists M')"
  by (auto simp: mem_grown_def dest: grown_lim)

lemma time_grown:
  "mem_grown H C M M' \<Longrightarrow> wf_ptr M p \<Longrightarrow> abs_time M' p = abs_time M p \<and> wf_ptr M' p"
  by (cases p) (auto simp: mem_grown_def wf_ptr_def abs_time_def grown_def)

lemma condition_grown:
  "mem_grown H C M M' \<Longrightarrow> wf_condition M c \<Longrightarrow> abs_condition M' c = abs_condition M c \<and> wf_condition M' c"
  by (simp add: wf_condition_def abs_condition_def time_grown)

lemma condition_same:
  assumes "instants M' = instants M"
  shows "abs_condition M' = abs_condition M" "wf_condition M' = wf_condition M"
    "abs_time M' = abs_time M" "wf_ptr M' = wf_ptr M"
proof -
  show t: "abs_time M' = abs_time M" "wf_ptr M' = wf_ptr M"
    using assms by (simp_all add: abs_time_def wf_ptr_def fun_eq_iff split: option.split)
  then show "abs_condition M' = abs_condition M" "wf_condition M' = wf_condition M"
    by (simp_all add: abs_condition_def wf_condition_def fun_eq_iff)
qed

lemma conditions_grown:
  assumes "mem_grown H C M M'" "wf_conditions M s" "set (arrays_of s) \<inter> C = {}"
  shows "elems (conds M') s = elems (conds M) s" "abs_conditions M' s = abs_conditions M s" "wf_conditions M' s"
proof -
  show e: "elems (conds M') s = elems (conds M) s"
    using assms by (auto simp: mem_grown_def wf_conditions_def intro: elems_grown)
  show "abs_conditions M' s = abs_conditions M s" "wf_conditions M' s"
    using assms condition_grown [OF assms(1)]
    by (auto simp: e abs_conditions_def wf_conditions_def list_all_iff mem_grown_def intro: wf_slice_grown)
qed

lemma history_grown:
  assumes "mem_grown H C M M'" "wf_history M h" "set (arrays_of (mConditions h)) \<inter> C = {}"
  shows "abs_history M' h = abs_history M h" "wf_history M' h"
  using assms conditions_grown [OF assms(1) _ assms(3)]
  by (simp_all add: wf_history_def abs_history_def time_grown)

lemma arrays_in_cond_arrays: "h \<in> set hs \<Longrightarrow> set (arrays_of (mConditions h)) \<subseteq> set (cond_arrays hs)"
  by (auto simp: cond_arrays_def)

lemma histories_grown:
  assumes "mem_grown H C M M'" "wf_histories M s" "set (arrays_of s) \<inter> H = {}"
    and "set (cond_arrays (elems (hists M) s)) \<inter> C = {}"
  shows "elems (hists M') s = elems (hists M) s" "abs_histories M' s = abs_histories M s" "wf_histories M' s"
proof -
  show e: "elems (hists M') s = elems (hists M) s"
    using assms(1-3) by (auto simp: mem_grown_def wf_histories_def intro: elems_grown)
  have "abs_history M' h = abs_history M h \<and> wf_history M' h" if "h \<in> set (elems (hists M) s)" for h
    using assms that arrays_in_cond_arrays [OF that]
    by (intro conjI history_grown [OF assms(1)]) (auto simp: wf_histories_def list_all_iff)
  then show "abs_histories M' s = abs_histories M s" "wf_histories M' s"
    using assms by (auto simp: e abs_histories_def wf_histories_def list_all_iff mem_grown_def intro: wf_slice_grown)
qed

lemma mem_grown_times: "grown {} (instants M) R \<Longrightarrow> mem_grown H C M (M\<lparr>instants := R\<rparr>)"
  by (simp add: mem_grown_def)

lemma mem_grown_conds: "grown C (conds M) R \<Longrightarrow> sized (conds M) R \<Longrightarrow> mem_grown H C M (M\<lparr>conds := R\<rparr>)"
  by (simp add: mem_grown_def)

lemma mem_grown_hists: "grown H (hists M) R \<Longrightarrow> sized (hists M) R \<Longrightarrow> mem_grown H C M (M\<lparr>hists := R\<rparr>)"
  by (simp add: mem_grown_def)

lemma new_time_effect:
  assumes "new_time t M = (p, M')"
  shows "mem_grown H C M M'" "abs_time M' p = Some t" "wf_ptr M' p" "conds M' = conds M" "hists M' = hists M"
    "ucs M' = ucs M"
  using assms by (auto simp: new_time_def alloc_def abs_time_def wf_ptr_def mem_grown_def grown_def)

section \<open>Searching\<close>

lemma index_of_None: "index_of P xs = None \<longleftrightarrow> first_with P xs = None"
  by (induction xs) auto

lemma index_of_Some:
  assumes "index_of P xs = Some i"
  shows "i < length xs" "first_with P xs = Some (xs ! i)" "replace_first P y xs = xs[i := y]"
    "remove_first P xs = take i xs @ drop (Suc i) xs" "P (xs ! i)"
proof -
  have "i < length xs \<and> first_with P xs = Some (xs ! i) \<and> replace_first P y xs = xs[i := y] \<and>
        remove_first P xs = take i xs @ drop (Suc i) xs \<and> P (xs ! i)"
    using assms by (induction xs arbitrary: i) (auto split: if_splits)
  then show "i < length xs" "first_with P xs = Some (xs ! i)" "replace_first P y xs = xs[i := y]"
    "remove_first P xs = take i xs @ drop (Suc i) xs" "P (xs ! i)" by blast+
qed

lemma index_of_map: "index_of P (map f xs) = index_of (P \<circ> f) xs"
  by (induction xs) auto

lemma first_with_map: "first_with P (map f xs) = map_option f (first_with (P \<circ> f) xs)"
  by (induction xs) auto

lemma abs_type [simp]: "CType (abs_condition M c) = mType c" "CStatus (abs_condition M c) = mStatus c"
    "CReason (abs_condition M c) = mReason c" "CMessage (abs_condition M c) = mMessage c"
  by (simp_all add: abs_condition_def)

lemma abs_version [simp]: "Version (abs_history M h) = mVersion h"
  by (simp add: abs_history_def)

lemma GetCondition_abs: "GetCondition (abs_conditions M s) t = map_option (abs_condition M) (m_GetCondition M s t)"
  by (simp add: GetCondition_def m_GetCondition_def abs_conditions_def first_with_map comp_def)

lemma GetHistory_abs: "GetHistory (abs_histories M s) v = map_option (abs_history M) (m_GetHistory M s v)"
  by (simp add: GetHistory_def m_GetHistory_def abs_histories_def first_with_map comp_def)

section \<open>Setting a condition\<close>

text \<open>The two times of the call, and the condition that carries them.\<close>

lemma stamped:
  assumes "new_time t1 M = (p1, M1)" "new_time t2 M1 = (p2, M2)" "wf_condition M c"
  defines "c1 \<equiv> c\<lparr>mLastTransitionTime := p1, mLastProbeTime := p2\<rparr>"
  shows "mem_grown {} {} M M2" "conds M2 = conds M" "hists M2 = hists M" "wf_condition M2 c1"
    and "abs_condition M2 c1 = (abs_condition M c)\<lparr>LastTransitionTime := Some t1, LastProbeTime := Some t2\<rparr>"
proof -
  note e1 = new_time_effect [OF assms(1)] and e2 = new_time_effect [OF assms(2)]
  show g: "mem_grown {} {} M M2" using mem_grown_trans [OF e1(1) e2(1)] by blast
  show "conds M2 = conds M" "hists M2 = hists M" using e1 e2 by simp_all
  show "wf_condition M2 c1"
    "abs_condition M2 c1 = (abs_condition M c)\<lparr>LastTransitionTime := Some t1, LastProbeTime := Some t2\<rparr>"
    using assms(3) e2 time_grown [OF g] time_grown [OF e2(1) e1(3)] e1(2)
    by (auto simp: c1_def wf_condition_def abs_condition_def)
qed

lemma slice_set_conditions:
  assumes "wf_conditions M s" "i < slice_len s" "wf_condition M c"
  defines "M' \<equiv> M\<lparr>conds := slice_set s i c (conds M)\<rparr>"
  shows "abs_conditions M' s = (abs_conditions M s)[i := abs_condition M c]" "wf_conditions M' s"
    "mem_grown {} (set (arrays_of s)) M M'"
proof -
  note e = slice_set_effect [of "conds M" s i c]
  show g: "mem_grown {} (set (arrays_of s)) M M'"
    unfolding M'_def using e assms(1,2) by (intro mem_grown_conds) (auto simp: wf_conditions_def)
  have el: "elems (conds M') s = (elems (conds M) s)[i := c]"
    using e(1) assms(1,2) by (simp add: M'_def wf_conditions_def)
  have old: "abs_condition M' d = abs_condition M d \<and> wf_condition M' d" if "wf_condition M d" for d
    using condition_grown [OF g that] .
  show "abs_conditions M' s = (abs_conditions M s)[i := abs_condition M c]"
    using assms(1,3) old
    by (auto simp: abs_conditions_def el map_update wf_conditions_def list_all_iff intro!: arg_cong2 [of _ _ _ _ "\<lambda>x y. x[i := y]"])
  show "wf_conditions M' s"
    using assms(1,3) old g set_update_subset_insert [of "elems (conds M) s" i c]
    by (auto simp: wf_conditions_def el list_all_iff mem_grown_def intro: wf_slice_grown)
qed

text \<open>\<open>append([]T{x}, old...)\<close>: a new array with the element in front.\<close>

lemma prepend_effect:
  assumes "slice_lit [x] R = (lit, R1)" "append_slice g z lit xs R1 = (s', R2)"
  shows "elems R2 s' = x # xs" "wf_slice R2 s'" "grown {} R R2" "sized R R2" "set (arrays_of s') \<subseteq> {lim R..}"
proof -
  note l = slice_lit_effect [OF assms(1)]
  note a = append_slice_effect [OF assms(2) l(2)]
  show "elems R2 s' = x # xs" "wf_slice R2 s'" using a l by simp_all
  show "grown {} R R2" using grown_trans [OF l(4) a(3)] l(3) by simp
  show "sized R R2" using sized_trans [OF l(5) a(4)] l(7) by simp
  show "set (arrays_of s') \<subseteq> {lim R..}" using a(5) l(3,7) by auto
qed

lemma prepend_conditions:
  assumes "wf_conditions M s" "wf_condition M c" "mem_grown {} {} M (M\<lparr>conds := R\<rparr>)"
    and "elems R s' = c # elems (conds M) s" "wf_slice R s'"
  defines "M' \<equiv> M\<lparr>conds := R\<rparr>"
  shows "abs_conditions M' s' = abs_condition M c # abs_conditions M s" "wf_conditions M' s'"
  using assms condition_grown [OF assms(3)]
  by (auto simp: abs_conditions_def wf_conditions_def list_all_iff M'_def)

lemma m_SetCondition_new:
  assumes run: "m_SetCondition g t1 t2 c s M = ((b, s'), M')" and wf: "wf_conditions M s" "wf_condition M c"
    and no: "m_GetCondition M s (mType c) = None"
  shows "SetCondition t1 t2 (abs_condition M c) (abs_conditions M s) = (b, abs_conditions M' s')"
    and "wf_conditions M' s'" "hists M' = hists M" "set (arrays_of s') \<subseteq> {lim (conds M)..}" "mem_grown {} {} M M'"
proof -
  obtain p1 M1 p2 M2 where t: "new_time t1 M = (p1, M1)" "new_time t2 M1 = (p2, M2)" by fastforce
  define c1 where "c1 = c\<lparr>mLastTransitionTime := p1, mLastProbeTime := p2\<rparr>"
  note st = stamped [OF t wf(2), folded c1_def] and s2 = conditions_grown [OF stamped(1) [OF t wf(2)] wf(1), simplified]
  have "index_of (\<lambda>d. mType d = mType c) (elems (conds M2) s) = None"
    using no st(2) by (simp add: m_GetCondition_def index_of_None)
  then obtain lit R1 R2 where ap: "slice_lit [c1] (conds M2) = (lit, R1)"
      "append_slice g zero_condition lit (elems (conds M2) s) R1 = (s', R2)" "M' = M2\<lparr>conds := R2\<rparr>" "b"
    using run t by (auto simp: m_SetCondition_def c1_def Let_def split: prod.splits)
  note pe = prepend_effect [OF ap(1,2)]
  have g: "mem_grown {} {} M2 M'" unfolding ap(3) by (rule mem_grown_conds [OF pe(3,4)])
  note pc = prepend_conditions [OF s2(3) st(4) g [unfolded ap(3)] pe(1,2), folded ap(3)]
  show "SetCondition t1 t2 (abs_condition M c) (abs_conditions M s) = (b, abs_conditions M' s')"
    using no ap(4) pc(1) s2(2) st(5) by (simp add: SetCondition_def GetCondition_abs)
  show "wf_conditions M' s'" "hists M' = hists M" "set (arrays_of s') \<subseteq> {lim (conds M)..}"
    using pc(2) pe(5) ap(3) st(2,3) by simp_all
  show "mem_grown {} {} M M'" using mem_grown_trans [OF st(1) g] by blast
qed

lemma m_SetCondition_old:
  assumes run: "m_SetCondition g t1 t2 c s M = ((b, s'), M')" and wf: "wf_conditions M s" "wf_condition M c"
    and yes: "m_GetCondition M s (mType c) \<noteq> None"
  shows "SetCondition t1 t2 (abs_condition M c) (abs_conditions M s) = (b, abs_conditions M' s')"
    and "wf_conditions M' s'" "hists M' = hists M" "s' = s" "mem_grown {} (set (arrays_of s)) M M'"
proof -
  obtain p1 M1 p2 M2 where t: "new_time t1 M = (p1, M1)" "new_time t2 M1 = (p2, M2)" by fastforce
  define c1 where "c1 = c\<lparr>mLastTransitionTime := p1, mLastProbeTime := p2\<rparr>"
  note st = stamped [OF t wf(2), folded c1_def] and s2 = conditions_grown [OF stamped(1) [OF t wf(2)] wf(1), simplified]
  obtain i where i: "index_of (\<lambda>d. mType d = mType c) (elems (conds M2) s) = Some i"
    using yes st(2) by (auto simp: m_GetCondition_def index_of_None [symmetric])
  let ?old = "elems (conds M2) s ! i"
  define c2 where "c2 = (if mStatus ?old = mStatus c then c1\<lparr>mLastTransitionTime := mLastTransitionTime ?old\<rparr> else c1)"
  have r: "M' = M2\<lparr>conds := slice_set s i c2 (conds M2)\<rparr>" "s' = s"
      "b = (mStatus ?old \<noteq> mStatus c \<or> mReason ?old \<noteq> mReason c \<or> mMessage ?old \<noteq> mMessage c)"
    using run i t by (auto simp: m_SetCondition_def c1_def c2_def Let_def split: prod.splits)
  have w2: "wf_condition M2 c2" and len: "i < slice_len s"
    using st(4) s2(3) index_of_Some(1) [OF i] by (auto simp: c2_def wf_condition_def wf_conditions_def list_all_length)
  note ss = slice_set_conditions [OF s2(3) len w2, folded r(1)]
  have a2: "abs_condition M2 c2 = (if mStatus ?old = mStatus c
      then (abs_condition M2 c1)\<lparr>LastTransitionTime := LastTransitionTime (abs_condition M2 ?old)\<rparr> else abs_condition M2 c1)"
    by (simp add: c2_def abs_condition_def)
  have ia: "index_of (\<lambda>d. CType d = mType c) (abs_conditions M s) = Some i"
    using i st(2) unfolding s2(2) [symmetric] abs_conditions_def index_of_map by (simp add: comp_def)
  have "GetCondition (abs_conditions M s) (mType c) = Some (abs_condition M2 ?old)"
    using index_of_Some(1) [OF i] index_of_Some(2) [OF ia]
    unfolding s2(2) [symmetric] by (simp add: GetCondition_def abs_conditions_def)
  then show "SetCondition t1 t2 (abs_condition M c) (abs_conditions M s) = (b, abs_conditions M' s')"
    using index_of_Some(3) [OF ia] ss(1) s2(2) by (simp add: SetCondition_def Let_def r(2,3) a2 st(5))
  show "wf_conditions M' s'" "hists M' = hists M" "s' = s"
    using ss(2) r(1,2) st(3) by simp_all
  show "mem_grown {} (set (arrays_of s)) M M'"
    using mem_grown_trans [OF mem_grown_mono [OF st(1)] ss(3)] by blast
qed

section \<open>Removing a condition\<close>

lemma window_overwrite:
  assumes "k + n \<le> length c" "i + length ys \<le> n"
  shows "take n (drop k (overwrite (k + i) ys c)) = overwrite i ys (take n (drop k c))"
proof -
  have "length (take (k + i) c) = k + i" using assms by simp
  then have "drop k (overwrite (k + i) ys c) = take i (drop k c) @ ys @ drop (k + (i + length ys)) c"
    using assms by (simp add: drop_take add.assoc)
  moreover have "length (take i (drop k c)) = i" "take i (take n (drop k c)) = take i (drop k c)" using assms by simp_all
  ultimately show ?thesis using assms by (simp add: drop_take) (simp add: ac_simps)
qed

lemma slice_to_effect:
  assumes "wf_slice R s" "i \<le> slice_len s"
  shows "wf_slice R (slice_to s i)" "elems R (slice_to s i) = take i (elems R s)" "arrays_of (slice_to s i) = arrays_of s"
    "slice_len (slice_to s i) = (if s = NilSlice then 0 else i)"
  using assms by (cases s; auto simp: min_def)+

lemma slice_from_elems: "wf_slice R s \<Longrightarrow> elems R (slice_from s i) = drop i (elems R s)"
  by (cases s) (auto simp: drop_take add.commute)

text \<open>
  What a slice of the same window sees after the removal at \<open>i\<close>: the rest moved forward, and the last element
  a second time.
\<close>

lemma remove_alias:
  assumes "wf_slice R s" "i < slice_len s"
    and "append_slice g z (slice_to s i) (elems R (slice_from s (Suc i))) R = (s', R')"
  shows "elems R' s = take i (elems R s) @ drop (Suc i) (elems R s) @ [last (elems R s)]"
proof -
  obtain a k n c where s: "s = Slice a k n c" using assms(2) by (cases s) auto
  let ?xs = "elems R s"
  have n: "length ?xs = n" "i < n" "n \<le> c" "k + n \<le> length (cell R a)" using assms(1,2) by (auto simp: s)
  then have l: "drop (n - 1) ?xs = [last ?xs]" by (cases ?xs rule: rev_cases) auto
  show ?thesis
  proof (cases "drop (Suc i) ?xs = []")
    case True
    then have "i = n - 1" using n by simp
    with True l n show ?thesis
      using assms(3) slice_from_elems [OF assms(1), of "Suc i"] append_take_drop_id [of i ?xs] by (simp add: append_slice_def)
  next
    case False
    have "append_slice g z (Slice a k i c) (drop (Suc i) ?xs) R = (s', R')"
      using assms(3) slice_from_elems [OF assms(1), of "Suc i"] by (simp only: s slice_to.simps)
    then have "R' = poke a (overwrite (k + i) (drop (Suc i) ?xs) (cell R a)) R"
      using False n unfolding append_slice_def by (simp del: overwrite.simps elems.simps split: if_splits)
    then have "elems R' s = overwrite i (drop (Suc i) ?xs) ?xs"
      using window_overwrite [of k n "cell R a" i "drop (Suc i) ?xs"] n by (simp add: s del: overwrite.simps)
    with n l show ?thesis by simp
  qed
qed

lemma m_RemoveCondition_effect:
  assumes "m_RemoveCondition g t s M = ((b, s'), M')" "wf_conditions M s"
  shows "RemoveCondition t (abs_conditions M s) = (b, abs_conditions M' s')" "wf_conditions M' s'"
    and "b \<Longrightarrow> \<exists>i < slice_len s. abs_conditions M' s =
           take i (abs_conditions M s) @ drop (Suc i) (abs_conditions M s) @ [last (abs_conditions M s)]"
proof -
  have w: "wf_slice (conds M) s" using assms(2) by (simp add: wf_conditions_def)
  have "RemoveCondition t (abs_conditions M s) = (b, abs_conditions M' s') \<and> wf_conditions M' s' \<and>
    (b \<longrightarrow> (\<exists>i < slice_len s. abs_conditions M' s =
       take i (abs_conditions M s) @ drop (Suc i) (abs_conditions M s) @ [last (abs_conditions M s)]))"
  proof (cases "index_of (\<lambda>c. mType c = t) (elems (conds M) s)")
    case None
    then have "m_GetCondition M s t = None" by (simp add: m_GetCondition_def index_of_None)
    then show ?thesis
      using assms None by (auto simp: m_RemoveCondition_def RemoveCondition_def GetCondition_abs)
  next
    case (Some i)
    note ix = index_of_Some [OF Some]
    have i: "i < slice_len s" using ix(1) w by simp
    obtain R where ap: "append_slice g zero_condition (slice_to s i) (elems (conds M) (slice_from s (Suc i))) (conds M) = (s', R)"
        "M' = M\<lparr>conds := R\<rparr>" "b"
      using assms(1) Some by (auto simp: m_RemoveCondition_def split: prod.splits)
    note st = slice_to_effect [OF w less_imp_le [OF i]]
    note e = append_slice_effect [OF ap(1) st(1)]
    have same: "abs_condition M' = abs_condition M" "wf_condition M' = wf_condition M"
      by (rule condition_same; simp add: ap(2))+
    have el: "elems (conds M') s' = take i (elems (conds M) s) @ drop (Suc i) (elems (conds M) s)"
      using e(1) st(2) slice_from_elems [OF w] by (simp add: ap(2))
    have al: "elems (conds M') s = take i (elems (conds M) s) @ drop (Suc i) (elems (conds M) s) @ [last (elems (conds M) s)]"
      using remove_alias [OF w i ap(1)] by (simp add: ap(2))
    have ia: "index_of (\<lambda>d. CType d = t) (abs_conditions M s) = Some i"
      using Some by (simp add: abs_conditions_def index_of_map comp_def)
    have "RemoveCondition t (abs_conditions M s) = (True, take i (abs_conditions M s) @ drop (Suc i) (abs_conditions M s))"
      using index_of_Some(2,4) [OF ia] by (simp add: RemoveCondition_def GetCondition_def)
    moreover have "wf_conditions M' s'"
      using assms(2) e(2) unfolding wf_conditions_def el same
      by (auto simp: ap(2) list_all_iff dest: in_set_takeD in_set_dropD)
    moreover have "elems (conds M) s \<noteq> []" using ix(1) by auto
    ultimately show ?thesis
      using el al ap(3) i by (auto simp: abs_conditions_def same take_map drop_map last_map intro!: exI [of _ i])
  qed
  then show "RemoveCondition t (abs_conditions M s) = (b, abs_conditions M' s')" "wf_conditions M' s'"
    "b \<Longrightarrow> \<exists>i < slice_len s. abs_conditions M' s =
           take i (abs_conditions M s) @ drop (Suc i) (abs_conditions M s) @ [last (abs_conditions M s)]" by blast+
qed

section \<open>Setting a history\<close>

lemma cond_arrays_append [simp]: "cond_arrays (xs @ ys) = cond_arrays xs @ cond_arrays ys"
  by (simp add: cond_arrays_def)

lemma cond_arrays_Cons [simp]: "cond_arrays (h # hs) = arrays_of (mConditions h) @ cond_arrays hs"
  by (simp add: cond_arrays_def)

lemma cond_arrays_Nil [simp]: "cond_arrays [] = []"
  by (simp add: cond_arrays_def)

lemma distinct_arrays_of [simp]: "distinct (arrays_of s)"
  by (cases s) simp_all

lemma cond_arrays_lim:
  "list_all (wf_history M) hs \<Longrightarrow> set (cond_arrays hs) \<subseteq> {..<lim (conds M)}"
  using wf_slice_arrays by (induction hs) (fastforce simp: wf_history_def wf_conditions_def)+

text \<open>The part of memory an UpgradeConfig with these histories owns.\<close>

definition owned_conds :: "mem \<Rightarrow> slice \<Rightarrow> nat set" where
  "owned_conds M s = set (cond_arrays (elems (hists M) s))"

lemma m_SetHistory_old:
  assumes "m_SetHistory g h s M = (s', M')" "wf_slice (hists M) s" "elems (hists M) s = xs @ h0 # ys"
    and "mVersion h0 = mVersion h" "\<forall>x \<in> set xs. mVersion x \<noteq> mVersion h"
  shows "elems (hists M') s' = xs @ h # ys" "s' = s" "wf_slice (hists M') s'" "mem_grown (set (arrays_of s)) {} M M'"
    "conds M' = conds M" "instants M' = instants M"
proof -
  have ix: "index_of (\<lambda>x. mVersion x = mVersion h) (elems (hists M) s) = Some (length xs)"
    unfolding assms(3) using assms(4,5) by (induction xs) auto
  then have r: "s' = s" "M' = M\<lparr>hists := slice_set s (length xs) h (hists M)\<rparr>"
    using assms(1) by (auto simp: m_SetHistory_def)
  have "length xs < slice_len s"
    using length_elems [OF assms(2)] by (simp add: assms(3))
  note e = slice_set_effect [OF assms(2) this]
  show "elems (hists M') s' = xs @ h # ys" using e(1) by (simp add: r assms(3))
  show "s' = s" "conds M' = conds M" "instants M' = instants M" using r by simp_all
  show g: "mem_grown (set (arrays_of s)) {} M M'" unfolding r using e by (intro mem_grown_hists)
  show "wf_slice (hists M') s'"
    using g r(1) wf_slice_grown [OF _ _ assms(2)] by (auto simp: mem_grown_def)
qed

lemma first_with_split:
  assumes "first_with P xs = Some x"
  obtains us vs where "xs = us @ x # vs" "P x" "\<forall>u \<in> set us. \<not> P u"
proof -
  have "\<exists>us vs. xs = us @ x # vs \<and> P x \<and> (\<forall>u \<in> set us. \<not> P u)"
    using assms
  proof (induction xs)
    case (Cons y ys)
    show ?case
    proof (cases "P y")
      case True
      with Cons.prems have "y # ys = [] @ x # ys \<and> P x \<and> (\<forall>u \<in> set []. \<not> P u)" by simp
      then show ?thesis by blast
    next
      case False
      with Cons obtain us vs where "ys = us @ x # vs" "P x" "\<forall>u \<in> set us. \<not> P u" by auto
      with False have "y # ys = (y # us) @ x # vs \<and> P x \<and> (\<forall>u \<in> set (y # us). \<not> P u)" by simp
      then show ?thesis by blast
    qed
  qed simp
  with that show thesis by blast
qed

lemma history_same:
  assumes "conds M' = conds M" "instants M' = instants M"
  shows "abs_history M' = abs_history M" "wf_history M' = wf_history M"
  by (simp_all add: fun_eq_iff abs_history_def abs_conditions_def wf_history_def wf_conditions_def
      assms(1) condition_same [OF assms(2)])

lemma SetHistory_split:
  assumes "\<forall>x \<in> set xs. Version x \<noteq> Version h" "Version h0 = Version h"
  shows "SetHistory h (xs @ h0 # ys) = xs @ h # ys"
proof -
  have "GetHistory (xs @ h0 # ys) (Version h) = Some h0" "replace_first (\<lambda>x. Version x = Version h) h (xs @ h0 # ys) = xs @ h # ys"
    using assms by (induction xs) (auto simp: GetHistory_def)
  then show ?thesis by (simp add: SetHistory_def)
qed

text \<open>
  The pattern of every writer: a copy of a history is read, changed (its conditions in their own array or in a
  new one), and stored back. The other histories keep their values because they share nothing with it.
\<close>

lemma SetHistory_refines:
  assumes wf: "wf_histories M s" and h0: "m_GetHistory M s v = Some h0"
    and g: "mem_grown {} C M M1" "C \<subseteq> set (arrays_of (mConditions h0))" "hists M1 = hists M"
    and h: "wf_history M1 h" "mVersion h = v" "set (arrays_of (mConditions h)) \<subseteq> set (arrays_of (mConditions h0)) \<union> {lim (conds M)..}"
    and run: "m_SetHistory gr h s M1 = (s', M')"
  shows "abs_histories M' s' = SetHistory (abs_history M1 h) (abs_histories M s)" "wf_histories M' s'" "s' = s"
    and "mem_grown (set (arrays_of s)) (owned_conds M s) M M'"
    and "owned_conds M' s' \<subseteq> owned_conds M s \<union> {lim (conds M)..}"
proof -
  obtain xs ys where hs: "elems (hists M) s = xs @ h0 # ys" "mVersion h0 = v" "\<forall>x \<in> set xs. mVersion x \<noteq> v"
    using h0 unfolding m_GetHistory_def by (rule first_with_split) blast
  have w: "list_all (wf_history M) (xs @ h0 # ys)" "distinct (cond_arrays (xs @ h0 # ys))" "wf_slice (hists M) s"
    using wf by (simp_all only: wf_histories_def hs(1))
  have e: "elems (hists M') s' = xs @ h # ys" "s' = s" "wf_slice (hists M') s'"
      "mem_grown (set (arrays_of s)) {} M1 M'" "conds M' = conds M1" "instants M' = instants M1"
    using m_SetHistory_old [OF run, of xs h0 ys] hs h(2) w(3) g(3) by simp_all
  have same: "abs_history M' = abs_history M1" "wf_history M' = wf_history M1"
    using history_same [OF e(5,6)] .
  have other: "abs_history M1 x = abs_history M x \<and> wf_history M1 x" if "x \<in> set xs \<union> set ys" for x
  proof -
    have "set (arrays_of (mConditions x)) \<subseteq> set (cond_arrays xs) \<union> set (cond_arrays ys)"
      using that arrays_in_cond_arrays by fast
    then have "set (arrays_of (mConditions x)) \<inter> C = {}"
      using w(2) g(2) by (auto simp: subset_iff disjoint_iff)
    with that w(1) show ?thesis
      by (intro conjI history_grown [OF g(1)]) (auto simp: list_all_iff)
  qed
  have "abs_histories M s = map (abs_history M) xs @ abs_history M h0 # map (abs_history M) ys"
    by (simp add: abs_histories_def hs(1))
  then have "SetHistory (abs_history M1 h) (abs_histories M s) = map (abs_history M) xs @ abs_history M1 h # map (abs_history M) ys"
    using hs(2,3) h(2) by (simp add: SetHistory_split)
  then show "abs_histories M' s' = SetHistory (abs_history M1 h) (abs_histories M s)"
    using other by (simp add: abs_histories_def e(1) same)
  have old: "set (cond_arrays xs) \<union> set (cond_arrays ys) \<subseteq> {..<lim (conds M)}"
    using cond_arrays_lim [OF w(1)] by simp
  then have "distinct (cond_arrays (xs @ h # ys))"
    using w(2) h(3) by (fastforce simp: subset_iff)
  then show "wf_histories M' s'"
    using other h(1) w(1) e(3) by (simp add: wf_histories_def e(1) same list_all_iff)
  show "s' = s" by (rule e(2))
  show "mem_grown (set (arrays_of s)) (owned_conds M s) M M'"
    by (rule mem_grown_trans [OF mem_grown_mono [OF g(1)] e(4)]) (use g(2,3) in \<open>auto simp: owned_conds_def hs(1)\<close>)
  show "owned_conds M' s' \<subseteq> owned_conds M s \<union> {lim (conds M)..}"
    using h(3) by (auto simp: owned_conds_def e(1) hs(1))
qed

section \<open>Deep copies are equal and separate\<close>

lemma copied_so_far:
  "k < length xs \<Longrightarrow> length zs = length xs \<Longrightarrow>
     (take k xs @ drop k zs)[k := xs ! k] = take (Suc k) xs @ drop (Suc k) zs"
  by (simp add: list_update_append take_Suc_conv_app_nth Cons_nth_drop_Suc [symmetric])

lemma copy_conditions_loop:
  assumes "wf_slice (conds M) src" "wf_slice (conds M) dst" "slice_len dst = slice_len src"
    and "set (arrays_of src) \<inter> set (arrays_of dst) = {}" "k \<le> slice_len src"
  shows "mem_grown {} (set (arrays_of dst)) M (fold (copy_condition_at src dst) [0..<k] M) \<and>
     hists (fold (copy_condition_at src dst) [0..<k] M) = hists M \<and>
     instants (fold (copy_condition_at src dst) [0..<k] M) = instants M \<and>
     ucs (fold (copy_condition_at src dst) [0..<k] M) = ucs M \<and>
     elems (conds (fold (copy_condition_at src dst) [0..<k] M)) dst = take k (elems (conds M) src) @ drop k (elems (conds M) dst)"
  using assms(5)
proof (induction k)
  case (Suc k)
  define N where "N = fold (copy_condition_at src dst) [0..<k] M"
  from Suc have IH: "mem_grown {} (set (arrays_of dst)) M N" "hists N = hists M" "instants N = instants M" "ucs N = ucs M"
      "elems (conds N) dst = take k (elems (conds M) src) @ drop k (elems (conds M) dst)" by (simp_all add: N_def)
  have src: "elems (conds N) src = elems (conds M) src"
    using IH(1) assms(1,4) by (auto simp: mem_grown_def intro: elems_grown)
  have dst: "wf_slice (conds N) dst"
    using IH(1) assms(2) by (auto simp: mem_grown_def intro: wf_slice_grown)
  have k: "k < slice_len dst" using Suc.prems assms(3) by simp
  note e = slice_set_effect [OF dst k, of "elems (conds M) src ! k"]
  have "mem_grown {} (set (arrays_of dst)) M (N\<lparr>conds := slice_set dst k (elems (conds M) src ! k) (conds N)\<rparr>)"
    by (rule mem_grown_trans [OF IH(1) mem_grown_conds [OF e(2,3)]]) auto
  moreover have "fold (copy_condition_at src dst) [0..<Suc k] M = N\<lparr>conds := slice_set dst k (elems (conds M) src ! k) (conds N)\<rparr>"
    by (simp add: N_def [symmetric]) (simp add: copy_condition_at_def m_UpgradeCondition_DeepCopyInto_def src)
  ultimately show ?case
    using e(1) k IH(2-5) assms(1-3)
    by (simp only:) (simp add: copied_so_far)
qed simp

lemma m_Conditions_DeepCopy_effect:
  assumes "m_Conditions_DeepCopy s M = (s', M')" "wf_conditions M s"
  shows "mem_grown {} {} M M'" "abs_conditions M' s' = abs_conditions M s" "wf_conditions M' s'"
    "set (arrays_of s') \<subseteq> {lim (conds M)..}" "hists M' = hists M" "ucs M' = ucs M"
    "elems (conds M') s' = elems (conds M) s"
proof -
  have "mem_grown {} {} M M' \<and> abs_conditions M' s' = abs_conditions M s \<and> wf_conditions M' s' \<and>
    set (arrays_of s') \<subseteq> {lim (conds M)..} \<and> hists M' = hists M \<and> ucs M' = ucs M \<and>
    elems (conds M') s' = elems (conds M) s"
  proof (cases "s = NilSlice")
    case True
    then show ?thesis using assms by (auto simp: m_Conditions_DeepCopy_def abs_conditions_def wf_conditions_def)
  next
    case False
    obtain R where mk: "slice_lit (replicate (slice_len s) zero_condition) (conds M) = (s', R)"
        "M' = fold (copy_condition_at s s') [0..<slice_len s] (M\<lparr>conds := R\<rparr>)"
      using assms(1) False
      by (auto simp: m_Conditions_DeepCopy_def m_Conditions_DeepCopyInto_def slice_make_def split: prod.splits)
    note l = slice_lit_effect [OF mk(1)]
    let ?M = "M\<lparr>conds := R\<rparr>"
    have g: "mem_grown {} {} M ?M" using l by (intro mem_grown_conds)
    note s1 = conditions_grown [OF g assms(2), simplified]
    have "set (arrays_of s) \<inter> set (arrays_of s') = {}"
      using assms(2) wf_slice_arrays [of "conds M" s] l(3) by (auto simp: wf_conditions_def)
    then have lp: "mem_grown {} (set (arrays_of s')) ?M M'" "hists M' = hists M" "ucs M' = ucs M"
        "elems (conds M') s' = elems (conds M) s"
      using copy_conditions_loop [of ?M s s' "slice_len s"] l(2,6) s1 assms(2)
      by (simp_all add: mk(2) wf_conditions_def)
    have g': "mem_grown {} {} M M'"
      using mem_grown_trans [OF g lp(1)] l(3) by simp
    have "wf_slice (conds M') s'"
      using lp(1) l(2) by (auto simp: mem_grown_def intro: wf_slice_grown)
    moreover have "abs_condition M' c = abs_condition M c \<and> wf_condition M' c" if "wf_condition M c" for c
      using condition_grown [OF g' that] .
    ultimately show ?thesis
      using g' lp(2-4) l(3) assms(2) by (auto simp: abs_conditions_def wf_conditions_def list_all_iff)
  qed
  then show "mem_grown {} {} M M'" "abs_conditions M' s' = abs_conditions M s" "wf_conditions M' s'"
    "set (arrays_of s') \<subseteq> {lim (conds M)..}" "hists M' = hists M" "ucs M' = ucs M"
    "elems (conds M') s' = elems (conds M) s" by blast+
qed

text \<open>
  The copy of a condition is shallow: the copied list holds the very same pointers to times as the original. Since no
  operation writes through a pointer to a time, the sharing does not show.
\<close>

theorem copied_conditions_share_times:
  assumes "m_Conditions_DeepCopy s M = (s', M')" "wf_conditions M s"
  shows "map mLastProbeTime (elems (conds M') s') = map mLastProbeTime (elems (conds M) s)"
    "map mLastTransitionTime (elems (conds M') s') = map mLastTransitionTime (elems (conds M) s)"
  using m_Conditions_DeepCopy_effect(7) [OF assms] by simp_all

lemma time_DeepCopy_effect:
  assumes "time_DeepCopy p M = (q, M')" "wf_ptr M p"
  shows "mem_grown {} {} M M'" "abs_time M' q = abs_time M p" "wf_ptr M' q" "conds M' = conds M" "hists M' = hists M"
    "ucs M' = ucs M"
proof -
  consider "p = None" "q = None" "M' = M" | a where "p = Some a" "new_time (cell (instants M) a) M = (q, M')"
    using assms(1) by (cases p) (auto simp: time_DeepCopy_def)
  then have "mem_grown {} {} M M' \<and> abs_time M' q = abs_time M p \<and> wf_ptr M' q \<and> conds M' = conds M \<and>
    hists M' = hists M \<and> ucs M' = ucs M"
  proof cases
    case 2
    from new_time_effect [OF 2(2)] show ?thesis by (auto simp: 2(1) abs_time_def)
  qed (auto simp: abs_time_def wf_ptr_def)
  then show "mem_grown {} {} M M'" "abs_time M' q = abs_time M p" "wf_ptr M' q" "conds M' = conds M" "hists M' = hists M"
    "ucs M' = ucs M" by blast+
qed

lemma m_UpgradeHistory_DeepCopyInto_effect:
  assumes "m_UpgradeHistory_DeepCopyInto h M = (h', M')" "wf_history M h"
  shows "mem_grown {} {} M M'" "abs_history M' h' = abs_history M h" "wf_history M' h'"
    "set (arrays_of (mConditions h')) \<subseteq> {lim (conds M)..}" "hists M' = hists M" "ucs M' = ucs M"
proof -
  obtain cs M0 t1 M1 t2 M2 t3 M3 t4 where r:
      "m_Conditions_DeepCopy (mConditions h) M = (cs, M0)" "time_DeepCopy (mStartTime h) M0 = (t1, M1)"
      "time_DeepCopy (mCompleteTime h) M1 = (t2, M2)" "time_DeepCopy (mWorkerStartTime h) M2 = (t3, M3)"
      "time_DeepCopy (mWorkerCompleteTime h) M3 = (t4, M')"
      "h' = h\<lparr>mConditions := cs, mStartTime := t1, mCompleteTime := t2, mWorkerStartTime := t3, mWorkerCompleteTime := t4\<rparr>"
    using assms(1) by (auto simp: m_UpgradeHistory_DeepCopyInto_def Let_def split: prod.splits)
  have w: "wf_conditions M (mConditions h)" "wf_ptr M (mStartTime h)" "wf_ptr M (mCompleteTime h)"
      "wf_ptr M (mWorkerStartTime h)" "wf_ptr M (mWorkerCompleteTime h)"
    using assms(2) by (simp_all add: wf_history_def)
  note e0 = m_Conditions_DeepCopy_effect [OF r(1) w(1)]
  note g0 = e0(1)
  note e1 = time_DeepCopy_effect [OF r(2)] time_grown [OF g0 w(2)]
  have g1: "mem_grown {} {} M M1" using mem_grown_trans [OF g0 e1(1)] e1(7) by blast
  note e2 = time_DeepCopy_effect [OF r(3)] time_grown [OF g1 w(3)]
  have g2: "mem_grown {} {} M M2" using mem_grown_trans [OF g1 e2(1)] e2(7) by blast
  note e3 = time_DeepCopy_effect [OF r(4)] time_grown [OF g2 w(4)]
  have g3: "mem_grown {} {} M M3" using mem_grown_trans [OF g2 e3(1)] e3(7) by blast
  note e4 = time_DeepCopy_effect [OF r(5)] time_grown [OF g3 w(5)]
  show g4: "mem_grown {} {} M M'" using mem_grown_trans [OF g3 e4(1)] e4(7) by blast
  show "hists M' = hists M" "ucs M' = ucs M"
    using e0(5,6) e1 e2 e3 e4 by simp_all
  show "set (arrays_of (mConditions h')) \<subseteq> {lim (conds M)..}" using e0(4) by (simp add: r(6))
  have b3: "mem_grown {} {} M3 M'" using e4(1,7) by blast
  have b2: "mem_grown {} {} M2 M'" using mem_grown_trans [OF _ b3] e3(1,7) by blast
  have b1: "mem_grown {} {} M1 M'" using mem_grown_trans [OF _ b2] e2(1,7) by blast
  have b0: "mem_grown {} {} M0 M'" using mem_grown_trans [OF _ b1] e1(1,7) by blast
  have t: "abs_time M' t1 = abs_time M (mStartTime h) \<and> wf_ptr M' t1" "abs_time M' t2 = abs_time M (mCompleteTime h) \<and> wf_ptr M' t2"
      "abs_time M' t3 = abs_time M (mWorkerStartTime h) \<and> wf_ptr M' t3" "abs_time M' t4 = abs_time M (mWorkerCompleteTime h) \<and> wf_ptr M' t4"
    using e1 e2 e3 e4 time_grown [OF b1] time_grown [OF b2] time_grown [OF b3] by auto
  then show "abs_history M' h' = abs_history M h" "wf_history M' h'"
    using conditions_grown [OF b0 e0(3)] e0(2) by (simp_all add: abs_history_def wf_history_def r(6))
qed

text \<open>After \<open>k\<close> rounds of the loop over histories: the first \<open>k\<close> are copied, in arrays of their own.\<close>

definition histories_copied :: "mem \<Rightarrow> slice \<Rightarrow> slice \<Rightarrow> nat \<Rightarrow> mem \<Rightarrow> m_history list \<Rightarrow> bool" where
  "histories_copied M0 src dst k M ds \<longleftrightarrow>
     mem_grown (set (arrays_of dst)) {} M0 M \<and> ucs M = ucs M0 \<and> length ds = k \<and>
     elems (hists M) dst = ds @ drop k (elems (hists M0) dst) \<and> list_all (wf_history M) ds \<and>
     map (abs_history M) ds = take k (abs_histories M0 src) \<and>
     distinct (cond_arrays ds) \<and> set (cond_arrays ds) \<subseteq> {lim (conds M0)..}"

lemma copy_history_step:
  assumes wf: "wf_histories M0 src" "wf_slice (hists M0) dst" "set (arrays_of src) \<inter> set (arrays_of dst) = {}"
      "slice_len dst = slice_len src" "k < slice_len src"
    and IH: "histories_copied M0 src dst k M ds"
  shows "\<exists>d. histories_copied M0 src dst (Suc k) (copy_history_at src dst k M) (ds @ [d])"
proof -
  have g: "mem_grown (set (arrays_of dst)) {} M0 M" using IH by (simp add: histories_copied_def)
  note s1 = histories_grown [OF g wf(1) wf(3), simplified]
  define h where "h = elems (hists M) src ! k"
  have k: "k < length (elems (hists M) src)" "k < length (elems (hists M0) dst)"
    using wf s1(1) by (simp_all add: wf_histories_def)
  have wh: "wf_history M h" using s1(3) k by (simp add: h_def wf_histories_def list_all_length)
  obtain d M1 where cp: "m_UpgradeHistory_DeepCopyInto h M = (d, M1)" by fastforce
  note e = m_UpgradeHistory_DeepCopyInto_effect [OF cp wh]
  define M' where "M' = M1\<lparr>hists := slice_set dst k d (hists M1)\<rparr>"
  have dst: "wf_slice (hists M1) dst" using g wf(2) e(5) by (auto simp: mem_grown_def intro: wf_slice_grown)
  have kd: "k < slice_len dst" using wf(4,5) by simp
  note st = slice_set_effect [OF dst kd, of d]
  have g2: "mem_grown (set (arrays_of dst)) {} M M'"
    unfolding M'_def by (rule mem_grown_trans [OF mem_grown_mono [OF e(1)] mem_grown_hists [OF st(2,3)]]) auto
  have g3: "mem_grown (set (arrays_of dst)) {} M0 M'" by (rule mem_grown_trans [OF g g2]) auto
  have keep: "abs_history M' x = abs_history M x \<and> wf_history M' x" if "wf_history M x" for x
    using history_grown [OF g2 that] by simp
  have new: "abs_history M' = abs_history M1" "wf_history M' = wf_history M1"
    by (rule history_same; simp add: M'_def)+
  have el: "elems (hists M') dst = (ds @ drop k (elems (hists M0) dst))[k := d]"
    using st(1) IH e(5) by (simp add: M'_def histories_copied_def)
  have "abs_history M h = abs_histories M0 src ! k"
    using k(1) unfolding s1(2) [symmetric] by (simp add: abs_histories_def h_def)
  then have d: "abs_history M' d = abs_histories M0 src ! k" using e(2) by (simp add: new(1))
  have "map (abs_history M') ds = map (abs_history M) ds"
    by (rule map_cong) (use IH keep in \<open>auto simp: histories_copied_def list_all_iff\<close>)
  also have "\<dots> = take k (abs_histories M0 src)" using IH by (simp add: histories_copied_def)
  finally have ab: "map (abs_history M') (ds @ [d]) = take (Suc k) (abs_histories M0 src)"
    using k(1) s1(1) by (simp add: d take_Suc_conv_app_nth abs_histories_def)
  have dj: "set (cond_arrays ds) \<inter> set (arrays_of (mConditions d)) = {}"
    using IH e(4) cond_arrays_lim [of M ds] by (fastforce simp: histories_copied_def)
  have ce: "copy_history_at src dst k M = M'" "ucs M' = ucs M1"
    using cp by (simp_all add: copy_history_at_def h_def M'_def)
  have all: "list_all (wf_history M') (ds @ [d])"
    using IH e(3) keep by (auto simp: histories_copied_def list_all_iff new(2) [symmetric])
  have fresh: "set (arrays_of (mConditions d)) \<subseteq> {lim (conds M0)..}"
    using e(4) mem_grown_limD [OF g] by auto
  have "histories_copied M0 src dst (Suc k) (copy_history_at src dst k M) (ds @ [d])"
    unfolding histories_copied_def ce(1) using IH g3 ab all dj fresh e(6) k(2) ce(2)
    by (intro conjI) (simp_all add: el histories_copied_def list_update_append Cons_nth_drop_Suc [symmetric])
  then show ?thesis ..
qed

lemma copy_histories_loop:
  assumes "wf_histories M0 src" "wf_slice (hists M0) dst" "set (arrays_of src) \<inter> set (arrays_of dst) = {}"
    and "slice_len dst = slice_len src" "k \<le> slice_len src"
  shows "\<exists>ds. histories_copied M0 src dst k (fold (copy_history_at src dst) [0..<k] M0) ds"
  using assms(5)
proof (induction k)
  case 0
  then show ?case by (simp add: histories_copied_def)
next
  case (Suc k)
  then obtain ds where "histories_copied M0 src dst k (fold (copy_history_at src dst) [0..<k] M0) ds" by auto
  from copy_history_step [OF assms(1-4) _ this] Suc.prems show ?case by auto
qed

lemma m_UpgradeHistories_DeepCopy_effect:
  assumes "m_UpgradeHistories_DeepCopy s M = (s', M')" "wf_histories M s"
  shows "mem_grown {} {} M M'" "abs_histories M' s' = abs_histories M s" "wf_histories M' s'"
    "set (arrays_of s') \<subseteq> {lim (hists M)..}" "owned_conds M' s' \<subseteq> {lim (conds M)..}" "ucs M' = ucs M"
proof -
  have "mem_grown {} {} M M' \<and> abs_histories M' s' = abs_histories M s \<and> wf_histories M' s' \<and>
    set (arrays_of s') \<subseteq> {lim (hists M)..} \<and> owned_conds M' s' \<subseteq> {lim (conds M)..} \<and> ucs M' = ucs M"
  proof (cases "s = NilSlice")
    case True
    then show ?thesis
      using assms by (auto simp: m_UpgradeHistories_DeepCopy_def abs_histories_def wf_histories_def owned_conds_def)
  next
    case False
    obtain R where mk: "slice_lit (replicate (slice_len s) zero_history) (hists M) = (s', R)"
        "M' = fold (copy_history_at s s') [0..<slice_len s] (M\<lparr>hists := R\<rparr>)"
      using assms(1) False
      by (auto simp: m_UpgradeHistories_DeepCopy_def m_UpgradeHistories_DeepCopyInto_def slice_make_def split: prod.splits)
    note l = slice_lit_effect [OF mk(1)]
    let ?M = "M\<lparr>hists := R\<rparr>"
    have g: "mem_grown {} {} M ?M" using l by (intro mem_grown_hists)
    note s1 = histories_grown [OF g assms(2), simplified]
    have "set (arrays_of s) \<inter> set (arrays_of s') = {}"
      using assms(2) wf_slice_arrays [of "hists M" s] l(3) by (auto simp: wf_histories_def)
    then obtain ds where c: "histories_copied ?M s s' (slice_len s) M' ds"
      using copy_histories_loop [of ?M s s' "slice_len s"] l(2,6) s1(3) by (auto simp: mk(2))
    have len: "length (elems R s') = slice_len s" "length (abs_histories ?M s) = slice_len s"
      using l(2,6) s1(3) by (simp_all add: abs_histories_def wf_histories_def)
    have c': "mem_grown (set (arrays_of s')) {} ?M M'" "ucs M' = ucs M" "elems (hists M') s' = ds"
        "list_all (wf_history M') ds" "map (abs_history M') ds = abs_histories M s" "distinct (cond_arrays ds)"
        "set (cond_arrays ds) \<subseteq> {lim (conds M)..}"
      using c len s1(2) by (simp_all add: histories_copied_def)
    have "mem_grown {} {} M M'" using mem_grown_trans [OF g c'(1)] l(3) by simp
    moreover have "wf_slice (hists M') s'"
      using c'(1) l(2) by (auto simp: mem_grown_def intro: wf_slice_grown)
    ultimately show ?thesis
      using c' l(3) by (simp add: abs_histories_def wf_histories_def owned_conds_def)
  qed
  then show "mem_grown {} {} M M'" "abs_histories M' s' = abs_histories M s" "wf_histories M' s'"
    "set (arrays_of s') \<subseteq> {lim (hists M)..}" "owned_conds M' s' \<subseteq> {lim (conds M)..}" "ucs M' = ucs M" by blast+
qed

end
