(* ===== verification/Runner_Memory.thy ===== *)
theory Runner_Memory
  imports Api_Memory Upgraders
begin

text \<open>
  The step runner (\<open>pkg/upgradesteps/runner.go\<close>) and the failure routine of the OSD upgrader on an UpgradeConfig in
  memory. They implement the definitions on values of \<open>Steps\<close> and \<open>Upgraders\<close>, and write only to arrays the
  UpgradeConfig owns, so that a deep copy and its original never see each other's changes.
\<close>

section \<open>The runner in memory\<close>

definition m_newUpgradeCondition ::
    "string \<Rightarrow> string \<Rightarrow> UpgradeConditionType \<Rightarrow> ConditionStatus \<Rightarrow> m_condition" where
  "m_newUpgradeCondition reason msg t st =
     \<lparr>mType = t, mStatus = st, mLastProbeTime = None, mLastTransitionTime = None, mCStartTime = None,
      mCCompleteTime = None, mReason = reason, mMessage = msg\<rparr>"

abbreviation m_desired_version :: "m_uc \<Rightarrow> string" where
  "m_desired_version uc \<equiv> dVersion (Desired (mSpec uc))"

type_synonym 's m_state = "m_uc \<times> mem \<times> 's"

definition m_store_condition ::
    "'s runtime \<Rightarrow> (nat \<Rightarrow> nat) \<Rightarrow> m_history \<Rightarrow> m_condition \<Rightarrow> 's m_state \<Rightarrow> 's m_state" where
  "m_store_condition rt g h c = (\<lambda>(uc, M, s).
     let (t1, s) = time_now rt s; (t2, s) = time_now rt s;
         ((_, cs), M) = m_SetCondition g t1 t2 c (mConditions h) M;
         (hs, M) = m_SetHistory g (h\<lparr>mConditions := cs\<rparr>) (mHistory uc) M
     in (uc\<lparr>mHistory := hs\<rparr>, M, s))"

definition m_setConditionStart :: "'s runtime \<Rightarrow> (nat \<Rightarrow> nat) \<Rightarrow> string \<Rightarrow> ('s m_state, unit) op" where
  "m_setConditionStart rt g n = (\<lambda>(uc, M, s).
     case m_GetHistory M (mHistory uc) (m_desired_version uc) of
       None \<Rightarrow> (Panic, uc, M, s)
     | Some h \<Rightarrow>
         (case m_GetCondition M (mConditions h) n of
            Some _ \<Rightarrow> (Ok (), uc, M, s)
          | None \<Rightarrow>
              let c = m_newUpgradeCondition (n @ '' not done'') (n @ '' has started'') n CFalse;
                  (t, s) = time_now rt s; (p, M) = new_time t M
              in (Ok (), m_store_condition rt g h (c\<lparr>mCStartTime := p\<rparr>) (uc, M, s))))"

definition m_setConditionInProgress ::
    "'s runtime \<Rightarrow> (nat \<Rightarrow> nat) \<Rightarrow> string \<Rightarrow> string \<Rightarrow> ('s m_state, unit) op" where
  "m_setConditionInProgress rt g n msg = (\<lambda>(uc, M, s).
     case m_GetHistory M (mHistory uc) (m_desired_version uc) of
       None \<Rightarrow> (Panic, uc, M, s)
     | Some h \<Rightarrow>
         (case m_GetCondition M (mConditions h) n of
            None \<Rightarrow> (Ok (), uc, M, s)
          | Some c \<Rightarrow>
              (Ok (), m_store_condition rt g h
                 (c\<lparr>mMessage := msg, mStatus := CFalse, mCCompleteTime := None\<rparr>) (uc, M, s))))"

text \<open>The completion time is only set when there is none.\<close>

definition m_with_completion ::
    "'s runtime \<Rightarrow> m_condition \<Rightarrow> m_condition \<Rightarrow> mem \<Rightarrow> 's \<Rightarrow> m_condition \<times> mem \<times> 's" where
  "m_with_completion rt c c1 M s = (case mCCompleteTime c of
      Some _ \<Rightarrow> (c1, M, s)
    | None \<Rightarrow> let (t, s) = time_now rt s; (p, M) = new_time t M in (c1\<lparr>mCCompleteTime := p\<rparr>, M, s))"

definition m_setConditionComplete :: "'s runtime \<Rightarrow> (nat \<Rightarrow> nat) \<Rightarrow> string \<Rightarrow> ('s m_state, unit) op" where
  "m_setConditionComplete rt g n = (\<lambda>(uc, M, s).
     case m_GetHistory M (mHistory uc) (m_desired_version uc) of
       None \<Rightarrow> (Panic, uc, M, s)
     | Some h \<Rightarrow>
         (case m_GetCondition M (mConditions h) n of
            None \<Rightarrow> (Ok (), uc, M, s)
          | Some c \<Rightarrow>
              let c1 = c\<lparr>mReason := n @ '' done'', mMessage := n @ '' is completed'', mStatus := CTrue\<rparr>;
                  (c2, M, s) = m_with_completion rt c c1 M s
              in (Ok (), m_store_condition rt g h c2 (uc, M, s))))"

fun m_Run :: "'s runtime \<Rightarrow> (nat \<Rightarrow> nat) \<Rightarrow> 's actionStep list \<Rightarrow> ('s m_state, run_result) op" where
  "m_Run rt g [] us = (Ok (Upgraded, None), us)"
| "m_Run rt g (st # steps) us =
     bindO (m_setConditionStart rt g (step_name st) us) (\<lambda>_ (uc, M, s).
       case step_f st (abs_uc M uc) s of
         (Panic, s) \<Rightarrow> (Panic, uc, M, s)
       | (Err e, s) \<Rightarrow>
           bindO (m_setConditionInProgress rt g (step_name st) (error_string rt e) (uc, M, s))
             (\<lambda>_ us. (Ok (Upgrading, Some e), us))
       | (Ok False, s) \<Rightarrow>
           bindO (m_setConditionInProgress rt g (step_name st) (step_name st @ '' still in progress'') (uc, M, s))
             (\<lambda>_ us. (Ok (Upgrading, None), us))
       | (Ok True, s) \<Rightarrow>
           bindO (m_setConditionComplete rt g (step_name st) (uc, M, s)) (\<lambda>_ us. m_Run rt g steps us))"

text \<open>\<open>h.Conditions.SetCondition(*condition)\<close> on the copy that \<open>GetHistory\<close> returned, and nothing stored back.\<close>

definition m_set_condition_of_copy ::
    "'w sys runtime \<Rightarrow> (nat \<Rightarrow> nat) \<Rightarrow> m_history \<Rightarrow> m_condition \<Rightarrow> 'w sys m_state \<Rightarrow> 'w sys m_state" where
  "m_set_condition_of_copy rt g h c = (\<lambda>(uc, M, s).
     let (t1, s) = time_now rt s; (t2, s) = time_now rt s;
         (_, M) = m_SetCondition g t1 t2 c (mConditions h) M
     in (uc, M, s))"

definition m_failed_condition :: "ConditionStatus \<Rightarrow> m_condition" where
  "m_failed_condition st =
     m_newUpgradeCondition ''Upgrade failed'' ''FailedUpgrade notification sent'' ''FailedUpgrade'' st"

definition m_record_failure ::
    "'w clusterUpgrader \<Rightarrow> (nat \<Rightarrow> nat) \<Rightarrow> m_history option \<Rightarrow> (m_history \<Rightarrow> UpgradePhase) \<Rightarrow> ConditionStatus \<Rightarrow>
     ('w sys m_state, run_result) op" where
  "m_record_failure cu g h ph st = (\<lambda>(uc, M, s).
     case h of
       None \<Rightarrow> (Panic, uc, M, s)
     | Some h \<Rightarrow>
         (Ok (ph h, None), m_set_condition_of_copy (lift_runtime (cu_rt cu)) g h (m_failed_condition st) (uc, M, s)))"

definition m_performUpgradeFailure ::
    "'w clusterUpgrader \<Rightarrow> (nat \<Rightarrow> nat) \<Rightarrow> ('w sys m_state, run_result) op" where
  "m_performUpgradeFailure cu g = (\<lambda>(uc, M, s).
     let h = m_GetHistory M (mHistory uc) (m_desired_version uc)
     in case EnsureScaleDownNodes (cu_machines cu) None s of
          (Panic, s) \<Rightarrow> (Panic, uc, M, s)
        | (Err _, s) \<Rightarrow> m_record_failure cu g h mPhase CFalse (uc, M, s)
        | (Ok _, s) \<Rightarrow>
            (case Notify (cu_notifier cu) MuoStateFailed s of
               (Panic, s) \<Rightarrow> (Panic, uc, M, s)
             | (Err _, s) \<Rightarrow> m_record_failure cu g h mPhase CFalse (uc, M, s)
             | (Ok _, s) \<Rightarrow>
                 m_record_failure cu g h (\<lambda>_. Failed) CTrue
                   (uc, M, ResetFailureMetrics (UpdateMetricUpgradeWindowBreached (mucName uc) s))))"

section \<open>Ownership\<close>

definition wf_uc :: "mem \<Rightarrow> m_uc \<Rightarrow> bool" where
  "wf_uc M uc \<longleftrightarrow> wf_histories M (mHistory uc)"

definition own_h :: "m_uc \<Rightarrow> nat set" where
  "own_h uc = set (arrays_of (mHistory uc))"

definition own_c :: "mem \<Rightarrow> m_uc \<Rightarrow> nat set" where
  "own_c M uc = owned_conds M (mHistory uc)"

text \<open>Between the two states only arrays of the UpgradeConfig were written, and it took over only new ones.\<close>

definition own_step :: "m_uc \<Rightarrow> mem \<Rightarrow> m_uc \<Rightarrow> mem \<Rightarrow> bool" where
  "own_step uc M uc' M' \<longleftrightarrow> mem_grown (own_h uc) (own_c M uc) M M' \<and>
     own_h uc' \<subseteq> own_h uc \<union> {lim (hists M)..} \<and> own_c M' uc' \<subseteq> own_c M uc \<union> {lim (conds M)..}"

lemma own_step_refl [simp, intro]: "own_step uc M uc M"
  by (simp add: own_step_def)

lemma own_step_trans:
  assumes "own_step uc M uc' M'" "own_step uc' M' uc'' M''"
  shows "own_step uc M uc'' M''"
proof -
  have l: "lim (hists M) \<le> lim (hists M')" "lim (conds M) \<le> lim (conds M')"
    using assms(1) mem_grown_limD unfolding own_step_def by blast+
  have "mem_grown (own_h uc) (own_c M uc) M M''"
    using assms l by (intro mem_grown_trans [of "own_h uc" "own_c M uc" M M' "own_h uc'" "own_c M' uc'" M''])
      (auto simp: own_step_def)
  then show ?thesis
    using assms l unfolding own_step_def by fastforce
qed

text \<open>Two UpgradeConfigs that share no array.\<close>

definition separate :: "mem \<Rightarrow> m_uc \<Rightarrow> m_uc \<Rightarrow> bool" where
  "separate M uc uc' \<longleftrightarrow> own_h uc \<inter> own_h uc' = {} \<and> own_c M uc \<inter> own_c M uc' = {}"

lemma own_step_frame:
  assumes "own_step uc M uc' M'" "separate M uc other" "wf_uc M other"
  shows "abs_uc M' other = abs_uc M other" "wf_uc M' other" "separate M' uc' other"
proof -
  have g: "mem_grown (own_h uc) (own_c M uc) M M'" using assms(1) by (simp add: own_step_def)
  have f: "elems (hists M') (mHistory other) = elems (hists M) (mHistory other)"
      "abs_histories M' (mHistory other) = abs_histories M (mHistory other)" "wf_histories M' (mHistory other)"
    by (rule histories_grown [OF g];
        use assms(2,3) in \<open>auto simp: separate_def wf_uc_def own_h_def own_c_def owned_conds_def\<close>)+
  then show "abs_uc M' other = abs_uc M other" "wf_uc M' other"
    by (simp_all add: abs_uc_def wf_uc_def)
  have "own_h other \<subseteq> {..<lim (hists M)}" "own_c M other \<subseteq> {..<lim (conds M)}" "own_c M' other = own_c M other"
    using assms(3) f(1) wf_slice_arrays cond_arrays_lim
    by (auto simp: wf_uc_def wf_histories_def own_h_def own_c_def owned_conds_def)
  then show "separate M' uc' other"
    using assms(1,2) unfolding own_step_def separate_def by fastforce
qed

section \<open>Implementing an operation on values\<close>

text \<open>
  The contract of a memory operation towards the operation on values it implements: same outcome, same state
  of the world, the value it leaves is the value the other computes, and only owned memory is written.
\<close>

locale implements =
  fixes mf :: "('s m_state, 'a) op"
    and f :: "(UpgradeConfig \<times> 's, 'a) op"
  assumes refines: "wf_uc M uc \<Longrightarrow> mf (uc, M, s) = (r, uc', M', s') \<Longrightarrow> f (abs_uc M uc, s) = (r, abs_uc M' uc', s')"
    and keeps_wf: "wf_uc M uc \<Longrightarrow> mf (uc, M, s) = (r, uc', M', s') \<Longrightarrow> wf_uc M' uc'"
    and owned: "wf_uc M uc \<Longrightarrow> mf (uc, M, s) = (r, uc', M', s') \<Longrightarrow> own_step uc M uc' M'"
begin

lemma outcome_equal:
  assumes "wf_uc M uc"
  shows "fst (mf (uc, M, s)) = fst (f (abs_uc M uc, s))"
proof -
  obtain r uc' M' s' where "mf (uc, M, s) = (r, uc', M', s')" by (metis prod.exhaust)
  with refines [OF assms] show ?thesis by simp
qed

lemma invisible_to_others:
  assumes "wf_uc M uc" "wf_uc M other" "separate M uc other" "mf (uc, M, s) = (r, uc', M', s')"
  shows "abs_uc M' other = abs_uc M other" "wf_uc M' other" "separate M' uc' other"
  using own_step_frame [OF owned [OF assms(1,4)] assms(3,2)] by blast+

end

text \<open>Composition: an early return, a case distinction, a read.\<close>

lemma implements_bind:
  assumes "implements mf f" "\<And>a. implements (mg a) (g a)"
  shows "implements (\<lambda>x. bindO (mf x) mg) (\<lambda>x. bindO (f x) g)"
proof -
  have "bindO (f (abs_uc M uc, s)) g = (r, abs_uc M' uc', s') \<and> wf_uc M' uc' \<and> own_step uc M uc' M'"
    if wf: "wf_uc M uc" and run: "bindO (mf (uc, M, s)) mg = (r, uc', M', s')" for M uc s r uc' M' s'
  proof -
    obtain r1 uc1 M1 s1 where m: "mf (uc, M, s) = (r1, uc1, M1, s1)" by (metis prod.exhaust)
    note A = implements.refines [OF assms(1) wf m] implements.keeps_wf [OF assms(1) wf m] implements.owned [OF assms(1) wf m]
    show ?thesis
    proof (cases r1)
      case (Ok a)
      then have "mg a (uc1, M1, s1) = (r, uc', M', s')" using run m by simp
      note B = implements.refines [OF assms(2) A(2) this] implements.keeps_wf [OF assms(2) A(2) this]
        implements.owned [OF assms(2) A(2) this]
      show ?thesis using A B Ok own_step_trans [OF A(3) B(3)] by simp
    qed (use run m A in auto)
  qed
  then show ?thesis by unfold_locales blast+
qed

lemma implements_return: "implements (\<lambda>us. (r, us)) (\<lambda>us. (r, us))"
  by unfold_locales auto

lemma implementsI:
  assumes "\<And>M uc s r uc' M' s'. wf_uc M uc \<Longrightarrow> mf (uc, M, s) = (r, uc', M', s') \<Longrightarrow>
    f (abs_uc M uc, s) = (r, abs_uc M' uc', s') \<and> wf_uc M' uc' \<and> own_step uc M uc' M'"
  shows "implements mf f"
  using assms by unfold_locales blast+

lemma wf_GetHistory:
  assumes "wf_uc M uc" "m_GetHistory M (mHistory uc) v = Some h"
  shows "wf_history M h" "mVersion h = v"
  using assms by (auto simp: wf_uc_def wf_histories_def m_GetHistory_def list_all_iff dest!: first_with_SomeD)

lemma wf_GetCondition:
  assumes "wf_history M h" "m_GetCondition M (mConditions h) n = Some c"
  shows "wf_condition M c" "mType c = n"
  using assms by (auto simp: wf_history_def wf_conditions_def m_GetCondition_def list_all_iff dest!: first_with_SomeD)

text \<open>A condition set on the copy of a history: what memory looks like before anything is stored back.\<close>

lemma set_condition_of_history:
  assumes wf: "wf_history M h" "wf_condition M c"
    and run: "m_SetCondition g t1 t2 c (mConditions h) M = ((b, cs), M')"
  obtains C where "mem_grown {} C M M'" "C \<subseteq> set (arrays_of (mConditions h))" "hists M' = hists M"
    "wf_history M' (h\<lparr>mConditions := cs\<rparr>)" "set (arrays_of cs) \<subseteq> set (arrays_of (mConditions h)) \<union> {lim (conds M)..}"
    "abs_history M' (h\<lparr>mConditions := cs\<rparr>) =
       (abs_history M h)\<lparr>HConditions := snd (SetCondition t1 t2 (abs_condition M c) (HConditions (abs_history M h)))\<rparr>"
    "m_GetCondition M (mConditions h) (mType c) = None \<Longrightarrow> C = {}"
    "m_GetCondition M (mConditions h) (mType c) \<noteq> None \<Longrightarrow> cs = mConditions h"
proof -
  have wc: "wf_conditions M (mConditions h)" using wf(1) by (simp add: wf_history_def)
  define C where "C = (if m_GetCondition M (mConditions h) (mType c) = None then {} else set (arrays_of (mConditions h)))"
  have e: "SetCondition t1 t2 (abs_condition M c) (abs_conditions M (mConditions h)) = (b, abs_conditions M' cs)"
      "wf_conditions M' cs" "hists M' = hists M" "mem_grown {} C M M'"
      "set (arrays_of cs) \<subseteq> set (arrays_of (mConditions h)) \<union> {lim (conds M)..}"
      "m_GetCondition M (mConditions h) (mType c) \<noteq> None \<Longrightarrow> cs = mConditions h"
    by (cases "m_GetCondition M (mConditions h) (mType c) = None";
        use m_SetCondition_new [OF run wc wf(2)] m_SetCondition_old [OF run wc wf(2)] in \<open>force simp: C_def\<close>)+
  show thesis
  proof (rule that [of C])
    show "wf_history M' (h\<lparr>mConditions := cs\<rparr>)"
      using wf(1) e(2) time_grown [OF e(4)] by (simp add: wf_history_def)
    show "abs_history M' (h\<lparr>mConditions := cs\<rparr>) =
       (abs_history M h)\<lparr>HConditions := snd (SetCondition t1 t2 (abs_condition M c) (HConditions (abs_history M h)))\<rparr>"
      using wf(1) e(1) time_grown [OF e(4)] by (simp add: abs_history_def wf_history_def)
  qed (use e in \<open>auto simp: C_def\<close>)
qed

lemma abs_uc_simps [simp]:
  "History (abs_uc M uc) = abs_histories M (mHistory uc)" "Spec (abs_uc M uc) = mSpec uc"
  "ucName (abs_uc M uc) = mucName uc"
  by (simp_all add: abs_uc_def)

lemma own_step_grown:
  assumes "mem_grown H C M M'" "H \<subseteq> own_h uc" "C \<subseteq> own_c M uc" "own_c M' uc = own_c M uc"
  shows "own_step uc M uc M'"
  using assms by (auto simp: own_step_def intro: mem_grown_mono)

text \<open>The pattern of the three setters.\<close>

lemma m_store_condition_refines:
  assumes wf: "wf_uc M uc" and h: "m_GetHistory M (mHistory uc) (m_desired_version uc) = Some h" and c: "wf_condition M c"
    and run: "m_store_condition rt g h c (uc, M, s) = (uc', M', s')"
  shows "store_condition rt (abs_history M h) (abs_condition M c) (abs_uc M uc, s) = (abs_uc M' uc', s')"
    "wf_uc M' uc'" "own_step uc M uc' M'"
proof -
  note wh = wf_GetHistory [OF wf h]
  obtain t1 s1 t2 b cs M1 hs where r: "time_now rt s = (t1, s1)" "time_now rt s1 = (t2, s')"
      "m_SetCondition g t1 t2 c (mConditions h) M = ((b, cs), M1)"
      "m_SetHistory g (h\<lparr>mConditions := cs\<rparr>) (mHistory uc) M1 = (hs, M')" "uc' = uc\<lparr>mHistory := hs\<rparr>"
    using run by (auto simp: m_store_condition_def Let_def split: prod.splits)
  obtain C where C: "mem_grown {} C M M1" "C \<subseteq> set (arrays_of (mConditions h))" "hists M1 = hists M"
      "wf_history M1 (h\<lparr>mConditions := cs\<rparr>)" "set (arrays_of cs) \<subseteq> set (arrays_of (mConditions h)) \<union> {lim (conds M)..}"
      "abs_history M1 (h\<lparr>mConditions := cs\<rparr>) =
         (abs_history M h)\<lparr>HConditions := snd (SetCondition t1 t2 (abs_condition M c) (HConditions (abs_history M h)))\<rparr>"
    using set_condition_of_history [OF wh(1) c r(3)] by blast
  have v: "mVersion (h\<lparr>mConditions := cs\<rparr>) = m_desired_version uc"
      "set (arrays_of (mConditions (h\<lparr>mConditions := cs\<rparr>))) \<subseteq> set (arrays_of (mConditions h)) \<union> {lim (conds M)..}"
    using wh(2) C(5) by simp_all
  note S = SetHistory_refines [OF wf [unfolded wf_uc_def] h C(1-4) v r(4)]
  show "store_condition rt (abs_history M h) (abs_condition M c) (abs_uc M uc, s) = (abs_uc M' uc', s')"
    using S(1) C(6) r(1,2,5) by (simp add: store_condition_def) (simp add: abs_uc_def)
  show "wf_uc M' uc'" using S(2) r(5) by (simp add: wf_uc_def)
  show "own_step uc M uc' M'"
    using S(3-5) r(5) by (auto simp: own_step_def own_h_def own_c_def)
qed

lemma new_time_frame:
  assumes "new_time t M = (p, M')" "wf_uc M uc"
  shows "abs_uc M' uc = abs_uc M uc" "wf_uc M' uc" "own_step uc M uc M'" "abs_time M' p = Some t" "wf_ptr M' p"
    "m_GetHistory M' = m_GetHistory M" "m_GetCondition M' = m_GetCondition M"
    "wf_history M h \<Longrightarrow> abs_history M' h = abs_history M h"
    "wf_condition M c \<Longrightarrow> wf_condition M' c" "wf_condition M c \<Longrightarrow> abs_condition M' c = abs_condition M c"
proof -
  note e = new_time_effect(1) [OF assms(1), of "{}" "{}"] new_time_effect(2-) [OF assms(1)]
  show "abs_uc M' uc = abs_uc M uc" "wf_uc M' uc"
    using histories_grown [OF e(1)] assms(2) by (simp_all add: abs_uc_def wf_uc_def)
  show "own_step uc M uc M'"
    using e(1,5) by (intro own_step_grown [of "{}" "{}"]) (simp_all add: own_c_def owned_conds_def)
  show "abs_time M' p = Some t" "wf_ptr M' p" by (rule e(2,3))+
  show "m_GetHistory M' = m_GetHistory M" "m_GetCondition M' = m_GetCondition M"
    using e(4,5) by (simp_all add: fun_eq_iff m_GetHistory_def m_GetCondition_def)
  show "wf_history M h \<Longrightarrow> abs_history M' h = abs_history M h" using history_grown [OF e(1)] by simp
  show "wf_condition M c \<Longrightarrow> wf_condition M' c" "wf_condition M c \<Longrightarrow> abs_condition M' c = abs_condition M c"
    using condition_grown [OF e(1)] by blast+
qed

lemma wf_new_condition [simp]: "wf_condition M (m_newUpgradeCondition r m t st)"
  by (simp add: wf_condition_def m_newUpgradeCondition_def wf_ptr_def)

lemma abs_new_condition [simp]: "abs_condition M (m_newUpgradeCondition r m t st) = newUpgradeCondition r m t st"
  by (simp add: abs_condition_def m_newUpgradeCondition_def newUpgradeCondition_def abs_time_def)

text \<open>The reads in front of a setter agree.\<close>

lemma history_lookup:
  "GetHistory (abs_histories M (mHistory uc)) v = map_option (abs_history M) (m_GetHistory M (mHistory uc) v)"
  "GetCondition (HConditions (abs_history M h)) n = map_option (abs_condition M) (m_GetCondition M (mConditions h) n)"
  by (simp_all add: GetHistory_abs GetCondition_abs abs_history_def)

interpretation start: implements "m_setConditionStart rt g n" "setConditionStart rt n" for rt g n
proof (rule implementsI)
  fix M uc s r uc' M' s'
  assume wf: "wf_uc M uc" and run: "m_setConditionStart rt g n (uc, M, s) = (r, uc', M', s')"
  let ?c = "m_newUpgradeCondition (n @ '' not done'') (n @ '' has started'') n CFalse"
  show "setConditionStart rt n (abs_uc M uc, s) = (r, abs_uc M' uc', s') \<and> wf_uc M' uc' \<and> own_step uc M uc' M'"
  proof (cases "\<exists>h. m_GetHistory M (mHistory uc) (m_desired_version uc) = Some h \<and> m_GetCondition M (mConditions h) n = None")
    case True
    then obtain h where h: "m_GetHistory M (mHistory uc) (m_desired_version uc) = Some h" "m_GetCondition M (mConditions h) n = None"
      by blast
    obtain t s1 p M1 where t: "time_now rt s = (t, s1)" "new_time t M = (p, M1)" by fastforce
    note f = new_time_frame [OF t(2) wf]
    have st: "m_store_condition rt g h (?c\<lparr>mCStartTime := p\<rparr>) (uc, M1, s1) = (uc', M', s')" "r = Ok ()"
      using run h t by (simp_all add: m_setConditionStart_def Let_def)
    have c: "wf_condition M1 (?c\<lparr>mCStartTime := p\<rparr>)"
        "abs_condition M1 (?c\<lparr>mCStartTime := p\<rparr>) =
           (newUpgradeCondition (n @ '' not done'') (n @ '' has started'') n CFalse)\<lparr>CStartTime := Some t\<rparr>"
      using f(4,5) by (simp_all add: wf_condition_def abs_condition_def m_newUpgradeCondition_def newUpgradeCondition_def
          wf_ptr_def abs_time_def)
    have "m_GetHistory M1 (mHistory uc) (m_desired_version uc) = Some h" using f(6) h(1) by simp
    note S = m_store_condition_refines [OF f(2) this c(1) st(1)]
    have "abs_history M1 h = abs_history M h" using f(8) wf_GetHistory(1) [OF wf h(1)] .
    with S(1) show ?thesis
      using h t f(1) c(2) S(2) st(2) own_step_trans [OF f(3) S(3)]
      by (simp add: setConditionStart_def history_lookup Let_def)
  next
    case False
    then show ?thesis
      using wf run by (auto simp: m_setConditionStart_def setConditionStart_def history_lookup split: option.splits)
  qed
qed

interpretation progress: implements "m_setConditionInProgress rt g n msg" "setConditionInProgress rt n msg" for rt g n msg
proof (rule implementsI)
  fix M uc s r uc' M' s'
  assume wf: "wf_uc M uc" and run: "m_setConditionInProgress rt g n msg (uc, M, s) = (r, uc', M', s')"
  show "setConditionInProgress rt n msg (abs_uc M uc, s) = (r, abs_uc M' uc', s') \<and> wf_uc M' uc' \<and> own_step uc M uc' M'"
  proof (cases "\<exists>h c. m_GetHistory M (mHistory uc) (m_desired_version uc) = Some h \<and> m_GetCondition M (mConditions h) n = Some c")
    case True
    then obtain h c where h: "m_GetHistory M (mHistory uc) (m_desired_version uc) = Some h" "m_GetCondition M (mConditions h) n = Some c"
      by blast
    let ?c = "c\<lparr>mMessage := msg, mStatus := CFalse, mCCompleteTime := None\<rparr>"
    have st: "m_store_condition rt g h ?c (uc, M, s) = (uc', M', s')" "r = Ok ()"
      using run h by (simp_all add: m_setConditionInProgress_def)
    have c: "wf_condition M ?c" "abs_condition M ?c = (abs_condition M c)\<lparr>CMessage := msg, CStatus := CFalse, CCompleteTime := None\<rparr>"
      using wf_GetCondition(1) [OF wf_GetHistory(1) [OF wf h(1)] h(2)]
      by (simp_all add: wf_condition_def abs_condition_def abs_time_def wf_ptr_def)
    show ?thesis
      using m_store_condition_refines [OF wf h(1) c(1) st(1)] h c(2) st(2)
      by (simp add: setConditionInProgress_def history_lookup)
  next
    case False
    then show ?thesis
      using wf run by (auto simp: m_setConditionInProgress_def setConditionInProgress_def history_lookup split: option.splits)
  qed
qed

lemma m_with_completion_effect:
  assumes "m_with_completion rt c c1 M s = (c2, M1, s1)" "wf_uc M uc" "wf_condition M c" "wf_condition M c1"
    and "mCCompleteTime c1 = mCCompleteTime c"
  shows "(case CCompleteTime (abs_condition M c) of
            Some _ \<Rightarrow> (abs_condition M c1, s)
          | None \<Rightarrow> let (t, s) = time_now rt s in ((abs_condition M c1)\<lparr>CCompleteTime := Some t\<rparr>, s)) = (abs_condition M1 c2, s1)"
    and "wf_condition M1 c2" "wf_uc M1 uc" "abs_uc M1 uc = abs_uc M uc" "own_step uc M uc M1"
    and "m_GetHistory M1 = m_GetHistory M" "wf_history M h \<Longrightarrow> abs_history M1 h = abs_history M h"
proof -
  have "((case CCompleteTime (abs_condition M c) of
            Some _ \<Rightarrow> (abs_condition M c1, s)
          | None \<Rightarrow> let (t, s) = time_now rt s in ((abs_condition M c1)\<lparr>CCompleteTime := Some t\<rparr>, s)) = (abs_condition M1 c2, s1)) \<and>
    wf_condition M1 c2 \<and> wf_uc M1 uc \<and> abs_uc M1 uc = abs_uc M uc \<and> own_step uc M uc M1 \<and>
    m_GetHistory M1 = m_GetHistory M \<and> (wf_history M h \<longrightarrow> abs_history M1 h = abs_history M h)"
  proof (cases "mCCompleteTime c")
    case None
    obtain t p where t: "time_now rt s = (t, s1)" "new_time t M = (p, M1)" "c2 = c1\<lparr>mCCompleteTime := p\<rparr>"
      using assms(1) None by (auto simp: m_with_completion_def split: prod.splits)
    note f = new_time_frame [OF t(2) assms(2)]
    have "abs_condition M1 c2 = (abs_condition M1 c1)\<lparr>CCompleteTime := Some t\<rparr>" "wf_condition M1 c2"
      using f(4,5,9) assms(4) by (simp_all add: t(3) abs_condition_def wf_condition_def)
    moreover have "CCompleteTime (abs_condition M c) = None"
      using None by (simp add: abs_condition_def abs_time_def)
    ultimately show ?thesis
      using f(1-3,6,8) f(10) [OF assms(4)] t(1) by simp
  next
    case (Some a)
    then have "CCompleteTime (abs_condition M c) = Some (cell (instants M) a)"
      by (simp add: abs_condition_def abs_time_def)
    with assms Some show ?thesis by (auto simp: m_with_completion_def)
  qed
  then show "(case CCompleteTime (abs_condition M c) of
            Some _ \<Rightarrow> (abs_condition M c1, s)
          | None \<Rightarrow> let (t, s) = time_now rt s in ((abs_condition M c1)\<lparr>CCompleteTime := Some t\<rparr>, s)) = (abs_condition M1 c2, s1)"
    "wf_condition M1 c2" "wf_uc M1 uc" "abs_uc M1 uc = abs_uc M uc" "own_step uc M uc M1"
    "m_GetHistory M1 = m_GetHistory M" "wf_history M h \<Longrightarrow> abs_history M1 h = abs_history M h" by blast+
qed

lemma setConditionComplete_eq:
  assumes "GetHistory (History uc) (desired_version uc) = Some h" "GetCondition (HConditions h) n = Some c"
    and "(case CCompleteTime c of
            Some _ \<Rightarrow> (c1, s)
          | None \<Rightarrow> let (t, s) = time_now rt s in (c1\<lparr>CCompleteTime := Some t\<rparr>, s)) = (c2, s1)"
    and "c1 = c\<lparr>CReason := n @ '' done'', CMessage := n @ '' is completed'', CStatus := CTrue\<rparr>"
  shows "setConditionComplete rt n (uc, s) = (Ok (), store_condition rt h c2 (uc, s1))"
  using assms(3) unfolding assms(4) by (simp add: setConditionComplete_def assms(1,2) Let_def)

interpretation complete: implements "m_setConditionComplete rt g n" "setConditionComplete rt n" for rt g n
proof (rule implementsI)
  fix M uc s r uc' M' s'
  assume wf: "wf_uc M uc" and run: "m_setConditionComplete rt g n (uc, M, s) = (r, uc', M', s')"
  show "setConditionComplete rt n (abs_uc M uc, s) = (r, abs_uc M' uc', s') \<and> wf_uc M' uc' \<and> own_step uc M uc' M'"
  proof (cases "\<exists>h c. m_GetHistory M (mHistory uc) (m_desired_version uc) = Some h \<and> m_GetCondition M (mConditions h) n = Some c")
    case True
    then obtain h c where h: "m_GetHistory M (mHistory uc) (m_desired_version uc) = Some h" "m_GetCondition M (mConditions h) n = Some c"
      by blast
    note wh = wf_GetHistory(1) [OF wf h(1)]
    note wc = wf_GetCondition(1) [OF wh h(2)]
    let ?c1 = "c\<lparr>mReason := n @ '' done'', mMessage := n @ '' is completed'', mStatus := CTrue\<rparr>"
    obtain c2 M1 s1 where w: "m_with_completion rt c ?c1 M s = (c2, M1, s1)" by (metis prod.exhaust)
    then have st: "m_store_condition rt g h c2 (uc, M1, s1) = (uc', M', s')" "r = Ok ()"
      using run h by (simp_all add: m_setConditionComplete_def Let_def)
    have c1: "wf_condition M ?c1" "abs_condition M ?c1 =
        (abs_condition M c)\<lparr>CReason := n @ '' done'', CMessage := n @ '' is completed'', CStatus := CTrue\<rparr>"
      using wc by (simp_all add: wf_condition_def abs_condition_def)
    have "mCCompleteTime ?c1 = mCCompleteTime c" by simp
    note E = m_with_completion_effect [OF w wf wc c1(1) this]
    have "m_GetHistory M1 (mHistory uc) (m_desired_version uc) = Some h" using E(6) h(1) by simp
    note S = m_store_condition_refines [OF E(3) this E(2) st(1)]
    have "setConditionComplete rt n (abs_uc M uc, s) =
        (Ok (), store_condition rt (abs_history M h) (abs_condition M1 c2) (abs_uc M uc, s1))"
      by (rule setConditionComplete_eq [OF _ _ E(1) c1(2)]) (simp_all add: history_lookup h)
    then show ?thesis
      using S(1,2) E(4) E(7) [OF wh] st(2) own_step_trans [OF E(5) S(3)] by simp
  next
    case False
    then show ?thesis
      using wf run by (auto simp: m_setConditionComplete_def setConditionComplete_def history_lookup split: option.splits)
  qed
qed

lemma implements_step:
  assumes "\<And>e. implements (merr e) (err e)" "implements mwait wait" "implements mdone goon"
  shows "implements
    (\<lambda>(uc, M, s). case step_f st (abs_uc M uc) s of
         (Panic, s) \<Rightarrow> (Panic, uc, M, s)
       | (Err e, s) \<Rightarrow> merr e (uc, M, s)
       | (Ok False, s) \<Rightarrow> mwait (uc, M, s)
       | (Ok True, s) \<Rightarrow> mdone (uc, M, s))
    (\<lambda>(uc, s). case step_f st uc s of
         (Panic, s) \<Rightarrow> (Panic, uc, s)
       | (Err e, s) \<Rightarrow> err e (uc, s)
       | (Ok False, s) \<Rightarrow> wait (uc, s)
       | (Ok True, s) \<Rightarrow> goon (uc, s))"
proof (rule implementsI)
  fix M uc s r uc' M' s'
  assume wf: "wf_uc M uc" and run: "(case (uc, M, s) of (uc, M, s) \<Rightarrow> case step_f st (abs_uc M uc) s of
         (Panic, s) \<Rightarrow> (Panic, uc, M, s)
       | (Err e, s) \<Rightarrow> merr e (uc, M, s)
       | (Ok False, s) \<Rightarrow> mwait (uc, M, s)
       | (Ok True, s) \<Rightarrow> mdone (uc, M, s)) = (r, uc', M', s')"
  obtain x s1 where st: "step_f st (abs_uc M uc) s = (x, s1)" by fastforce
  then consider "x = Panic" "r = Panic" "uc' = uc" "M' = M" "s' = s1"
    | e where "x = Err e" "merr e (uc, M, s1) = (r, uc', M', s')"
    | "x = Ok False" "mwait (uc, M, s1) = (r, uc', M', s')"
    | "x = Ok True" "mdone (uc, M, s1) = (r, uc', M', s')"
    using run by (cases x) (auto split: bool.splits)
  then show "(case (abs_uc M uc, s) of (uc, s) \<Rightarrow> case step_f st uc s of
         (Panic, s) \<Rightarrow> (Panic, uc, s)
       | (Err e, s) \<Rightarrow> err e (uc, s)
       | (Ok False, s) \<Rightarrow> wait (uc, s)
       | (Ok True, s) \<Rightarrow> goon (uc, s)) = (r, abs_uc M' uc', s') \<and> wf_uc M' uc' \<and> own_step uc M uc' M'"
  proof cases
    case 1
    then show ?thesis using st wf by simp
  next
    case (2 e)
    then show ?thesis using st implements.refines [OF assms(1) wf] implements.keeps_wf [OF assms(1) wf] implements.owned [OF assms(1) wf] by simp
  next
    case 3
    then show ?thesis using st implements.refines [OF assms(2) wf] implements.keeps_wf [OF assms(2) wf] implements.owned [OF assms(2) wf] by simp
  next
    case 4
    then show ?thesis using st implements.refines [OF assms(3) wf] implements.keeps_wf [OF assms(3) wf] implements.owned [OF assms(3) wf] by simp
  qed
qed

interpretation run: implements "m_Run rt g steps" "Run rt steps" for rt g steps
proof (induction steps)
  case Nil
  show ?case using implements_return by simp
next
  case (Cons st steps)
  have "implements
    (\<lambda>us. bindO (m_setConditionStart rt g (step_name st) us) (\<lambda>_ (uc, M, s). case step_f st (abs_uc M uc) s of
         (Panic, s) \<Rightarrow> (Panic, uc, M, s)
       | (Err e, s) \<Rightarrow> bindO (m_setConditionInProgress rt g (step_name st) (error_string rt e) (uc, M, s))
             (\<lambda>_ us. (Ok (Upgrading, Some e), us))
       | (Ok False, s) \<Rightarrow> bindO (m_setConditionInProgress rt g (step_name st) (step_name st @ '' still in progress'') (uc, M, s))
             (\<lambda>_ us. (Ok (Upgrading, None), us))
       | (Ok True, s) \<Rightarrow> bindO (m_setConditionComplete rt g (step_name st) (uc, M, s)) (\<lambda>_ us. m_Run rt g steps us)))
    (\<lambda>us. bindO (setConditionStart rt (step_name st) us) (\<lambda>_ (uc, s). case step_f st uc s of
         (Panic, s) \<Rightarrow> (Panic, uc, s)
       | (Err e, s) \<Rightarrow> bindO (setConditionInProgress rt (step_name st) (error_string rt e) (uc, s))
             (\<lambda>_ us. (Ok (Upgrading, Some e), us))
       | (Ok False, s) \<Rightarrow> bindO (setConditionInProgress rt (step_name st) (step_name st @ '' still in progress'') (uc, s))
             (\<lambda>_ us. (Ok (Upgrading, None), us))
       | (Ok True, s) \<Rightarrow> bindO (setConditionComplete rt (step_name st) (uc, s)) (\<lambda>_ us. Run rt steps us)))"
    by (intro implements_bind start.implements_axioms implements_step progress.implements_axioms
        complete.implements_axioms implements_return Cons.IH)
  then show ?case by (simp only: m_Run.simps [abs_def] Run.simps [abs_def])
qed

section \<open>The failure routine\<close>

lemma slice_set_same: "wf_slice R s \<Longrightarrow> i < slice_len s \<Longrightarrow> slice_set s i (elems R s ! i) R = R"
  by (cases s) (auto simp: poke_def list_update_id [of "cell R _"])

text \<open>Storing back the very history that is there changes nothing.\<close>

lemma m_SetHistory_same:
  assumes "wf_slice (hists M) s" "m_GetHistory M s (mVersion h) = Some h"
  shows "m_SetHistory g h s M = (s, M)"
proof -
  obtain i where i: "index_of (\<lambda>x. mVersion x = mVersion h) (elems (hists M) s) = Some i"
    using assms(2) index_of_None [of "\<lambda>x. mVersion x = mVersion h" "elems (hists M) s"]
    unfolding m_GetHistory_def by (cases "index_of (\<lambda>x. mVersion x = mVersion h) (elems (hists M) s)") simp_all
  note ix = index_of_Some [OF i]
  have "elems (hists M) s ! i = h" using ix(2) assms(2) by (simp add: m_GetHistory_def)
  then have "slice_set s i h (hists M) = hists M"
    using slice_set_same [OF assms(1), of i] ix(1) assms(1) by simp
  then show ?thesis using i by (simp add: m_SetHistory_def)
qed

lemma m_set_condition_of_copy_refines:
  assumes wf: "wf_uc M uc" and h: "m_GetHistory M (mHistory uc) (m_desired_version uc) = Some h" and c: "wf_condition M c"
    and run: "m_set_condition_of_copy rt g h c (uc, M, s) = (uc', M', s')"
  shows "set_condition_of_copy rt (abs_history M h) (abs_condition M c) (abs_uc M uc, s) = (abs_uc M' uc', s')"
    "wf_uc M' uc'" "own_step uc M uc' M'"
proof -
  note wh = wf_GetHistory [OF wf h]
  obtain t1 s1 t2 b cs where r: "time_now rt s = (t1, s1)" "time_now rt s1 = (t2, s')"
      "m_SetCondition g t1 t2 c (mConditions h) M = ((b, cs), M')" "uc' = uc"
    using run by (auto simp: m_set_condition_of_copy_def Let_def split: prod.splits)
  obtain C where C: "mem_grown {} C M M'" "C \<subseteq> set (arrays_of (mConditions h))" "hists M' = hists M"
      "wf_history M' (h\<lparr>mConditions := cs\<rparr>)"
      "abs_history M' (h\<lparr>mConditions := cs\<rparr>) =
         (abs_history M h)\<lparr>HConditions := snd (SetCondition t1 t2 (abs_condition M c) (HConditions (abs_history M h)))\<rparr>"
      "m_GetCondition M (mConditions h) (mType c) = None \<Longrightarrow> C = {}"
      "m_GetCondition M (mConditions h) (mType c) \<noteq> None \<Longrightarrow> cs = mConditions h"
    using set_condition_of_history [OF wh(1) c r(3)] by blast
  have "set_condition_of_copy rt (abs_history M h) (abs_condition M c) (abs_uc M uc, s) = (abs_uc M' uc', s') \<and>
    wf_uc M' uc' \<and> own_step uc M uc' M'"
  proof (cases "m_GetCondition M (mConditions h) (mType c)")
    case None
    then have g: "mem_grown {} {} M M'" using C(1,6) by simp
    have "abs_histories M' (mHistory uc) = abs_histories M (mHistory uc)" "wf_histories M' (mHistory uc)"
      using histories_grown [OF g] wf by (simp_all add: wf_uc_def)
    moreover have "own_step uc M uc M'"
      using C(3) by (intro own_step_grown [OF g]) (simp_all add: own_c_def owned_conds_def)
    ultimately show ?thesis
      using None r by (simp add: set_condition_of_copy_def store_condition_def history_lookup) (simp add: abs_uc_def wf_uc_def)
  next
    case (Some old)
    then have hc: "h\<lparr>mConditions := cs\<rparr> = h" using C(7) by simp
    have "m_SetHistory g h (mHistory uc) M' = (mHistory uc, M')"
      using wf h wh(2) C(3) mem_grown_def C(1) by (intro m_SetHistory_same) (simp_all add: wf_uc_def wf_histories_def m_GetHistory_def)
    from SetHistory_refines [OF wf [unfolded wf_uc_def] h C(1-3) C(4) [unfolded hc] wh(2) _ this]
    have S: "abs_histories M' (mHistory uc) = SetHistory (abs_history M' h) (abs_histories M (mHistory uc))"
        "wf_histories M' (mHistory uc)" "mem_grown (own_h uc) (own_c M uc) M M'"
        "own_c M' uc \<subseteq> own_c M uc \<union> {lim (conds M)..}"
      by (simp_all add: own_h_def own_c_def)
    have "own_step uc M uc M'" using S(3,4) by (simp add: own_step_def)
    then show ?thesis
      using Some r S(1,2) C(5) hc
      by (simp add: set_condition_of_copy_def store_condition_def history_lookup) (simp add: abs_uc_def wf_uc_def)
  qed
  then show "set_condition_of_copy rt (abs_history M h) (abs_condition M c) (abs_uc M uc, s) = (abs_uc M' uc', s')"
    "wf_uc M' uc'" "own_step uc M uc' M'" by blast+
qed

lemma abs_failed_condition [simp]:
  "wf_condition M (m_failed_condition st)" "abs_condition M (m_failed_condition st) = failed_condition st"
  by (simp_all add: m_failed_condition_def failed_condition_def)

interpretation failure: implements "m_performUpgradeFailure cu g" "performUpgradeFailure cu" for cu g
proof (rule implementsI)
  fix M uc s r uc' M' s'
  assume wf: "wf_uc M uc" and run: "m_performUpgradeFailure cu g (uc, M, s) = (r, uc', M', s')"
  let ?h = "m_GetHistory M (mHistory uc) (m_desired_version uc)"
  have R: "record_failure cu (map_option (abs_history M) ?h) ph st (abs_uc M uc, s) = (r, abs_uc M' uc', s') \<and>
      wf_uc M' uc' \<and> own_step uc M uc' M'"
    if "m_record_failure cu g ?h mph st (uc, M, s) = (r, uc', M', s')" "\<And>h. ph (abs_history M h) = mph h" for ph mph st s
  proof (cases ?h)
    case None
    then show ?thesis using that(1) wf by (simp add: m_record_failure_def record_failure_def)
  next
    case (Some h)
    then have c: "r = Ok (mph h, None)"
        "m_set_condition_of_copy (lift_runtime (cu_rt cu)) g h (m_failed_condition st) (uc, M, s) = (uc', M', s')"
      using that(1) by (auto simp: m_record_failure_def)
    from m_set_condition_of_copy_refines [OF wf Some abs_failed_condition(1) c(2)] Some c(1) that(2) show ?thesis
      by (simp add: record_failure_def)
  qed
  have "Phase (abs_history M h) = mPhase h" for h by (simp add: abs_history_def)
  then show "performUpgradeFailure cu (abs_uc M uc, s) = (r, abs_uc M' uc', s') \<and> wf_uc M' uc' \<and> own_step uc M uc' M'"
    using run wf R [of mPhase CFalse _ Phase] R [of "\<lambda>_. Failed" CTrue _ "\<lambda>_. Failed"]
    by (auto simp: m_performUpgradeFailure_def performUpgradeFailure_def history_lookup Let_def split: prod.splits outcome.splits)
qed

section \<open>Deep copies of an UpgradeConfig\<close>

lemma m_UpgradeConfig_DeepCopy_effect:
  assumes "m_UpgradeConfig_DeepCopy (Some uc) M = (r, M')" "wf_uc M uc"
  obtains cp where "r = Some cp" "abs_uc M' cp = abs_uc M uc" "wf_uc M' cp" "abs_uc M' uc = abs_uc M uc" "wf_uc M' uc"
    "separate M' cp uc"
proof -
  obtain hs where c: "m_UpgradeHistories_DeepCopy (mHistory uc) M = (hs, M')" "r = Some (uc\<lparr>mHistory := hs\<rparr>)"
    using assms(1)
    by (auto simp: m_UpgradeConfig_DeepCopy_def deep_copy_def m_UpgradeConfig_DeepCopyInto_def
        m_UpgradeConfigStatus_DeepCopyInto_def split: prod.splits)
  note e = m_UpgradeHistories_DeepCopy_effect [OF c(1) assms(2) [unfolded wf_uc_def]]
  note o = histories_grown [OF e(1) assms(2) [unfolded wf_uc_def], simplified]
  have lims: "set (arrays_of (mHistory uc)) \<subseteq> {..<lim (hists M)}" "owned_conds M' (mHistory uc) \<subseteq> {..<lim (conds M)}"
    using assms(2) wf_slice_arrays cond_arrays_lim o(1) by (auto simp: wf_uc_def wf_histories_def owned_conds_def)
  show thesis
  proof (rule that [OF c(2)])
    show "abs_uc M' (uc\<lparr>mHistory := hs\<rparr>) = abs_uc M uc" "wf_uc M' (uc\<lparr>mHistory := hs\<rparr>)"
      using e(2,3) by (simp_all add: abs_uc_def wf_uc_def)
    show "abs_uc M' uc = abs_uc M uc" "wf_uc M' uc" using o by (simp_all add: abs_uc_def wf_uc_def)
    show "separate M' (uc\<lparr>mHistory := hs\<rparr>) uc"
      using lims e(4,5) by (fastforce simp: separate_def own_h_def own_c_def)
  qed
qed

lemma separate_sym: "separate M uc uc' \<Longrightarrow> separate M uc' uc"
  by (auto simp: separate_def)

section \<open>Properties\<close>

definition sample_mem :: mem where
  "sample_mem =
     \<lparr>instants = \<lparr>cell = (\<lambda>_. 0), lim = 0\<rparr>, conds = \<lparr>cell = (\<lambda>_. []), lim = 0\<rparr>,
      hists = \<lparr>cell = (\<lambda>_. [\<lparr>mVersion = ''4.14.2'', mPrecedingVersion = ''4.14.1'', mPhase = Upgrading,
        mConditions = NilSlice, mStartTime = None, mCompleteTime = None, mWorkerStartTime = None,
        mWorkerCompleteTime = None\<rparr>]), lim = 1\<rparr>,
      ucs = \<lparr>cell = (\<lambda>_. []), lim = 0\<rparr>\<rparr>"

definition sample_muc :: m_uc where
  "sample_muc = \<lparr>mucName = ''managed-upgrade-config'', mucNamespace = ''muo'', mSpec = Spec sample_uc,
     mHistory = Slice 0 0 1 1\<rparr>"

lemma sample_muc_wf: "wf_uc sample_mem sample_muc" "abs_uc sample_mem sample_muc = sample_uc"
  by (simp_all add: wf_uc_def wf_histories_def sample_mem_def sample_muc_def wf_history_def wf_conditions_def wf_ptr_def
      cond_arrays_def abs_uc_def abs_histories_def abs_history_def abs_conditions_def abs_time_def sample_uc_def)

text \<open>
  C4: The step runner on the UpgradeConfig in memory, where histories and conditions are slices written in
  place or reallocated and times are pointers, does what the runner on values does: same outcome, same
  world, and the value left in memory is the value computed there. It keeps the histories' arrays apart.
\<close>

theorem Run_in_memory:
  assumes "wf_uc M uc" "m_Run rt g steps (uc, M, s) = (r, uc', M', s')"
  shows "Run rt steps (abs_uc M uc, s) = (r, abs_uc M' uc', s') \<and> wf_uc M' uc'"
  using run.refines [OF assms] run.keeps_wf [OF assms] by blast

theorem Run_in_memory_witness:
  "\<exists>uc' M'. m_Run still_clock (\<lambda>n. n) sample_steps (sample_muc, sample_mem, ()) = (Ok (Upgrading, None), uc', M', ()) \<and>
     abs_uc M' uc' = fst (snd (Run still_clock sample_steps (sample_uc, ())))"
proof -
  obtain r uc' M' where m: "m_Run still_clock (\<lambda>n. n) sample_steps (sample_muc, sample_mem, ()) = (r, uc', M', ())"
    by (metis prod.exhaust unit.exhaust)
  note R = Run_in_memory [OF sample_muc_wf(1) m, unfolded sample_muc_wf(2)]
  have "fst (Run still_clock sample_steps (sample_uc, ())) = Ok (Upgrading, None)"
    by (simp add: sample_defs setConditionStart_def setConditionInProgress_def setConditionComplete_def
        store_condition_def newUpgradeCondition_def GetHistory_def SetHistory_def GetCondition_def SetCondition_def
        Let_def)
  with R m show ?thesis by auto
qed

text \<open>
  C15: A deep copy of an UpgradeConfig has its value, and from then on neither sees the other's changes: after a run
  of any steps on the copy the original has its value still, and the other way round.
\<close>

theorem DeepCopy_isolated:
  assumes wf: "wf_uc M uc" and copy: "m_UpgradeConfig_DeepCopy (Some uc) M = (Some cp, M1)"
  shows "abs_uc M1 cp = abs_uc M uc \<and>
    (case m_Run rt g steps (cp, M1, s) of (r, cp', M2, s') \<Rightarrow> abs_uc M2 uc = abs_uc M uc) \<and>
    (case m_Run rt g steps (uc, M1, s) of (r, uc', M2, s') \<Rightarrow> abs_uc M2 cp = abs_uc M uc)"
proof -
  have e: "abs_uc M1 cp = abs_uc M uc" "wf_uc M1 cp" "abs_uc M1 uc = abs_uc M uc" "wf_uc M1 uc" "separate M1 cp uc"
    using m_UpgradeConfig_DeepCopy_effect [OF copy wf] by auto
  show ?thesis
    using e run.invisible_to_others [OF e(2,4,5)] run.invisible_to_others [OF e(4,2) separate_sym [OF e(5)]]
    by (auto split: prod.splits)
qed

theorem DeepCopy_isolated_witness:
  "\<exists>cp M1. m_UpgradeConfig_DeepCopy (Some sample_muc) sample_mem = (Some cp, M1) \<and> abs_uc M1 cp = sample_uc \<and>
     abs_uc (fst (snd (snd (m_Run still_clock (\<lambda>n. n) sample_steps (cp, M1, ()))))) sample_muc = sample_uc"
proof -
  obtain x M1 where "m_UpgradeConfig_DeepCopy (Some sample_muc) sample_mem = (x, M1)" by fastforce
  moreover from this obtain cp where "x = Some cp" using m_UpgradeConfig_DeepCopy_effect [OF _ sample_muc_wf(1)] by metis
  ultimately have c: "m_UpgradeConfig_DeepCopy (Some sample_muc) sample_mem = (Some cp, M1)" by simp
  show ?thesis
    using c DeepCopy_isolated [OF sample_muc_wf(1) c, of still_clock "\<lambda>n. n" sample_steps "()", unfolded sample_muc_wf(2)]
    by (auto split: prod.splits)
qed

text \<open>
  The failure routine sets its condition on the copy that \<open>GetHistory\<close> returned and stores nothing back; the copy
  shares its array of conditions with the original, and the effect on the UpgradeConfig is the one
  of \<open>performUpgradeFailure\<close> on values.
\<close>

theorem failure_in_memory:
  assumes "wf_uc M uc" "m_performUpgradeFailure cu g (uc, M, s) = (r, uc', M', s')"
  shows "performUpgradeFailure cu (abs_uc M uc, s) = (r, abs_uc M' uc', s') \<and> wf_uc M' uc' \<and> uc' = uc"
proof -
  have "uc' = uc"
    using assms(2) by (auto simp: m_performUpgradeFailure_def m_record_failure_def m_set_condition_of_copy_def Let_def
        split: option.splits prod.splits outcome.splits)
  then show ?thesis using failure.refines [OF assms] failure.keeps_wf [OF assms] by blast
qed

end
