(* ===== verification/Ocm_Service.thy ===== *)
theory Ocm_Service
  imports Uc_Manager Drain
begin

text \<open>
  The event manager, the notifier and the OCM clients together, over the policy states that OCM stores. The stored states
  are a view of the world; \<open>sdk_service\<close> says what the SDK's requests do to it, \<open>policy_store\<close> what the notifier needs
  of its client, and both clients provide it.
\<close>

section \<open>Stored policy states\<close>

text \<open>Cluster id, then policy id.\<close>

type_synonym stored_states = "string \<Rightarrow> string \<Rightarrow> UpgradePolicyState"

definition keeps :: "('w \<Rightarrow> 'v) \<Rightarrow> ('w \<Rightarrow> 'r \<times> 'w) \<Rightarrow> bool" where
  "keeps view f \<longleftrightarrow> (\<forall>s. view (snd (f s)) = view s)"

definition put_state :: "string \<Rightarrow> string \<Rightarrow> UpgradePolicyState \<Rightarrow> stored_states \<Rightarrow> stored_states" where
  "put_state c p ps m = m(c := (m c)(p := ps))"

lemma keepsD: "keeps view f \<Longrightarrow> f s = (r, s') \<Longrightarrow> view s' = view s"
  by (metis keeps_def snd_conv)

lemma keepsI: "(\<And>s r s'. f s = (r, s') \<Longrightarrow> view s' = view s) \<Longrightarrow> keeps view f"
  by (metis keeps_def prod.collapse)

lemma keeps_pure [simp]: "keeps view (\<lambda>s. (r, s))"
  by (simp add: keeps_def)

lemma keeps_call: "keeps view f \<Longrightarrow> keeps view (call f)"
  by (simp add: keeps_def call_def split: prod.splits) (metis snd_conv)

lemma keeps_bindO: "keeps view f \<Longrightarrow> (\<And>a. keeps view (g a)) \<Longrightarrow> keeps view (\<lambda>s. bindO (f s) g)"
  by (auto simp: keeps_def split: bindO_splits) (metis snd_conv)+

lemma keeps_wrap_err: "keeps view f \<Longrightarrow> keeps view (\<lambda>s. wrap_err rt m (f s))"
  by (simp add: keeps_def)

lemma request_failed_state [simp]: "snd (request_failed rt w u r) = snd r"
  by (simp add: request_failed_def split: prod.splits outcome.splits)

lemma keeps_request_failed: "keeps view f \<Longrightarrow> keeps view (\<lambda>s. request_failed rt w u (f s))"
  by (simp add: keeps_def)

lemma keeps_if: "keeps view f \<Longrightarrow> keeps view g \<Longrightarrow> keeps view (\<lambda>s. if b then f s else g s)"
  by (simp add: keeps_def)

lemmas keeps_intros = keeps_if keeps_pure keeps_call keeps_bindO keeps_wrap_err keeps_request_failed

lemma keeps_ucm_Get:
  assumes "\<And>n ns. keeps view (get_uc api n ns)"
  shows "keeps view (ucm_Get e api)"
  by (rule keepsI) (auto simp: ucm_Get_def split: outcome.splits prod.splits if_splits dest: keepsD [OF assms])

text \<open>A step that keeps the states, and what follows it.\<close>

lemma keeps_bindO_cases:
  assumes "bindO (f s) g = (r, s')" "keeps view f"
  obtains (stop) "view s' = view s" | (go) a t where "f s = (Ok a, t)" "view t = view s" "g a t = (r, s')"
  using assms(1) keepsD [OF assms(2), of s] by (auto simp: bindO_def split: prod.splits outcome.splits)

section \<open>The interfaces\<close>

text \<open>
  The SDK: only a \<open>PUT\<close> of a policy state changes the states; it stores the state it is given or, as when it fails, nothing,
  and a \<open>GET\<close> that succeeds answers the stored one. A request whose answer is lost may have been carried out.
\<close>

locale sdk_service =
  fixes env :: "'w ocm_env"
    and conn :: "'w sdk_conn"
    and view :: "'w \<Rightarrow> stored_states"
  assumes search_keeps: "keeps view (search_clusters conn q n)"
    and list_keeps: "keeps view (list_policies conn c i n)"
    and get_keeps: "keeps view (get_policy_state conn c p)"
    and log_keeps: "keeps view (add_log_entry conn le)"
    and root_keeps: "keeps view (get_root conn)"
    and cv_keeps: "keeps view (get_cv (net_cv (oe_net env)))"
    and get_reads: "get_policy_state conn c p s = (Inr r, s') \<Longrightarrow> rStatus r < 400 \<Longrightarrow> rBody r = view s c p"
    and put_writes: "put_policy_state conn c p st s = (a, s') \<Longrightarrow> view s' = view s \<or> view s' = put_state c p st (view s)"
    and built: "build_state env st = Inr st' \<Longrightarrow> st' = st"

text \<open>The client of the notifier.\<close>

locale policy_store =
  fixes client :: "'w OcmClient"
    and view :: "'w \<Rightarrow> stored_states"
  assumes cluster_keeps: "keeps view (GetCluster client)"
    and policies_keeps: "keeps view (GetClusterUpgradePolicies client c)"
    and state_keeps: "keeps view (GetClusterUpgradePolicyState client p c)"
    and post_keeps: "keeps view (PostServiceLog client sl d)"
    and state_reads: "GetClusterUpgradePolicyState client p c s = (Ok ps, s') \<Longrightarrow> ps = view s c p"
    and state_writes: "SetState client v d p c s = (r, s') \<Longrightarrow>
      view s' = view s \<or> view s' = put_state c p \<lparr>psValue = v, psDescription = d\<rparr> (view s)"
begin

lemma policy_id_keeps:
  assumes "\<And>n ns. keeps view (get_uc (n_uc ne) n ns)"
  shows "keeps view (getPolicyIdForUpgradeConfig ne client c)"
  unfolding getPolicyIdForUpgradeConfig_def
  by (intro keeps_bindO keeps_ucm_Get assms policies_keeps) (simp add: keeps_def split: option.splits)

lemma service_log_keeps:
  "keeps view (\<lambda>s. if b then case mapSLState st m of None \<Rightarrow> (Err e, s)
     | Some sl \<Rightarrow> let sl' = f sl in wrap_err rt x (PostServiceLog client sl' d s) else (Ok (), s))"
  using keeps_wrap_err [OF post_keeps] by (auto simp: keeps_def Let_def split: option.splits)

text \<open>A notification writes the policy state it has read, and only along an allowed transition.\<close>

lemma NotifyState_writes:
  assumes uc: "\<And>n ns. keeps view (get_uc (n_uc ne) n ns)"
    and run: "ocm_NotifyState ne client notifications order st d s = (r, s')"
  shows "view s' = view s \<or>
    (\<exists>c p cur v. muo_current order (view s c p) = Some cur \<and> validateStateTransition cur st \<and>
       map_of stateMap st = Some v \<and> view s' = put_state c p \<lparr>psValue = v, psDescription = d\<rparr> (view s))"
proof -
  let ?store = "\<lambda>policyId cluster currentState s.
       case muo_current order currentState of
         None \<Rightarrow> (Err (Errorf ''failed to convert OCM state''), s)
       | Some muoCurrent \<Rightarrow>
           if \<not> validateStateTransition muoCurrent st then (Ok (), s)
           else wrap_err (n_rt ne) ''can't send notification: ''
                  (SetState client (case map_of stateMap st of None \<Rightarrow> [] | Some v \<Rightarrow> v) d policyId (ocID cluster) s)"
  have upd: ?thesis
    if ps: "GetClusterUpgradePolicyState client pid c t = (Ok ps, t')" and t: "view t = view s"
      and w: "?store pid cl ps t' = (r, s')" and c: "c = ocID cl" for pid c t ps t' cl
  proof -
    have t': "view t' = view s" using keepsD [OF state_keeps ps] t by simp
    show ?thesis
    proof (cases "muo_current order ps")
      case (Some cur)
      show ?thesis
      proof (cases "validateStateTransition cur st")
        case True
        then obtain v where v: "map_of stateMap st = Some v" using validateStateTransition_target by blast
        obtain a where "SetState client v d pid c t' = (a, s')"
          using w True Some v c by (auto simp: wrap_err_def split: prod.splits outcome.splits)
        from state_writes [OF this] show ?thesis
          using True Some v t' state_reads [OF ps] t by auto
      qed (use w Some t' in auto)
    qed (use w t' in auto)
  qed
  note run' = run [unfolded ocm_NotifyState_def]
  show ?thesis
  proof (cases rule: keeps_bindO_cases [OF run' keeps_wrap_err [OF cluster_keeps]])
    case 1: (2 cluster s1)
    show ?thesis
    proof (cases rule: keeps_bindO_cases [OF 1(3) service_log_keeps])
      case 2: (2 u s2)
      show ?thesis
      proof (cases rule: keeps_bindO_cases [OF 2(3) keeps_wrap_err [OF policy_id_keeps [OF uc]]])
        case 3: (2 pid s3)
        show ?thesis
        proof (cases rule: keeps_bindO_cases [OF 3(3) keeps_wrap_err [OF state_keeps]])
          case 4: (2 ps s4)
          have "GetClusterUpgradePolicyState client pid (ocID cluster) s3 = (Ok ps, s4)" "view s3 = view s"
            using 1(2) 2(2) 3(2) 4(1) by simp_all
          then show ?thesis using 4(3) by (rule upd) simp
        qed (use 1 2 3 in auto)
      qed (use 1 2 in auto)
    qed (use 1 in auto)
  qed simp
qed

end

section \<open>The clients\<close>

context sdk_service
begin

lemma post_log_entry_keeps: "keeps view (post_log_entry env conn sl le)"
  unfolding post_log_entry_def
  by (intro keeps_intros keepsI) (auto split: prod.splits sum.splits option.splits dest: keepsD [OF log_keeps])

lemma ocm_GetCluster_keeps: "keeps view (ocm_GetCluster env base conn)"
  unfolding ocm_GetCluster_def Let_def
  by (intro keeps_intros cv_keeps search_keeps) (auto intro!: keeps_intros split: list.splits)

lemma agent_GetCluster_keeps: "keeps view (agent_GetCluster env base conn)"
  unfolding agent_GetCluster_def by (intro keeps_intros root_keeps)

lemmas client_keeps = ocm_GetCluster_keeps agent_GetCluster_keeps post_log_entry_keeps list_keeps get_keeps

text \<open>The request that sets a state, whatever becomes of the answer.\<close>

lemma put_request:
  assumes "bindO (request_failed rt w u (call (put_policy_state conn c p st) s)) (\<lambda>r s. (check_status x y r, s)) = (r, s')"
  shows "view s' = view s \<or> view s' = put_state c p st (view s)"
proof -
  obtain a t where a: "put_policy_state conn c p st s = (a, t)" by fastforce
  then have "t = s'"
    using assms by (cases a) (auto simp: call_def request_failed_def)
  with put_writes [OF a] show ?thesis by simp
qed

lemma ocm_SetState_writes:
  assumes "ocm_SetState env base conn v d p c s = (r, s')"
  shows "view s' = view s \<or> view s' = put_state c p \<lparr>psValue = v, psDescription = d\<rparr> (view s)"
  using assms unfolding ocm_SetState_def Let_def
  by (cases "build_state env \<lparr>psValue = v, psDescription = d\<rparr>"; cases "url_parse env (url_String env base)")
     (auto dest: built put_request)

lemma agent_SetState_writes:
  assumes "agent_SetState env base conn v d p c s = (r, s')"
  shows "view s' = view s \<or> view s' = put_state c p \<lparr>psValue = v, psDescription = d\<rparr> (view s)"
  using assms unfolding agent_SetState_def parseOcmBaseUrl_def
  by (cases "build_state env \<lparr>psValue = v, psDescription = d\<rparr>"; cases "url_parse env (url_String env base)")
     (auto dest: built put_request)

text \<open>Both clients are such stores.\<close>

lemma ocm_client_store: "policy_store (ocm_client env base conn) view"
  by unfold_locales
     (auto simp: ocm_client_def ocm_GetClusterUpgradePolicies_def [abs_def] ocm_GetClusterUpgradePolicyState_def [abs_def]
        ocm_PostServiceLog_def [abs_def] Let_def bindO_Ok_iff get_reads intro!: keeps_intros client_keeps
        dest: ocm_SetState_writes)

lemma agent_client_store: "policy_store (agent_client env base conn) view"
  by unfold_locales
     (auto simp: agent_client_def agent_GetClusterUpgradePolicies_def [abs_def] agent_GetClusterUpgradePolicyState_def [abs_def]
        agent_PostServiceLog_def [abs_def] Let_def bindO_Ok_iff get_reads intro!: keeps_intros client_keeps
        dest: agent_SetState_writes)

end

sublocale sdk_service \<subseteq> ocm: policy_store "ocm_client env base conn" view
  by (rule ocm_client_store)

sublocale sdk_service \<subseteq> agent: policy_store "agent_client env base conn" view
  by (rule agent_client_store)

section \<open>Ranks of stored states\<close>

text \<open>How far a stored state is, as the notifier reads it; a state it cannot read is never left.\<close>

definition policy_rank :: "UpgradePolicyState \<Rightarrow> nat" where
  "policy_rank ps = (case muo_current stateMap ps of None \<Rightarrow> 5 | Some st \<Rightarrow> state_rank st)"

text \<open>
  A skipped scale-up is written as \<open>delayed\<close> with a description that has no \<open>retry\<close>, and so it is read as
  \<open>MuoStateSkipped\<close>: no stored state is read as \<open>MuoStateScaleSkipped\<close>, and its row of the transitions is never used.
\<close>

lemma ScaleSkipped_never_read: "muo_current stateMap ps \<noteq> Some MuoStateScaleSkipped"
  by (auto simp: muo_current_def stateMap_def OcmStateDelayed_def)

lemma policy_rank_values: "policy_rank ps \<in> {0, 1, 3, 4, 5}"
proof (cases "muo_current stateMap ps")
  case (Some st)
  then show ?thesis using ScaleSkipped_never_read [of ps] by (cases st) (simp_all add: policy_rank_def)
qed (simp add: policy_rank_def)

lemma Contains_blank:
  "Contains (x @ CHR '' '' # y) ''retry'' \<longleftrightarrow> Contains x ''retry'' \<or> Contains y ''retry''"
  by (auto simp: Contains_iff_sublist sublist_append sublist_Cons_right prefix_Cons Cons_eq_append_conv)

lemma delayed_description_retries: "Contains (createDelayedDescription uc) ''retry''"
proof -
  have "Contains (UPGRADE_DEFAULT_DELAY_DESC v) ''retry''" "Contains (UPGRADE_PREHEALTHCHECK_DELAY_DESC v) ''retry''"
    "Contains (UPGRADE_EXTDEPCHECK_DELAY_DESC v) ''retry''" "Contains (UPGRADE_SCALE_DELAY_DESC v) ''retry''" for v
    by (simp_all add: UPGRADE_DEFAULT_DELAY_DESC_def UPGRADE_PREHEALTHCHECK_DELAY_DESC_def UPGRADE_EXTDEPCHECK_DELAY_DESC_def
        UPGRADE_SCALE_DELAY_DESC_def Contains_blank)
  then show ?thesis by (auto simp: createDelayedDescription_def Let_def split: option.split)
qed

lemma skip_descriptions_do_not_retry:
  assumes "\<not> Contains v ''retry''"
  shows "\<not> Contains (UPGRADE_SCALE_SKIP_DESC v) ''retry''" "\<not> Contains (UPGRADE_SCALE_DELAY_SKIP_DESC v) ''retry''"
  using assms by (simp_all add: UPGRADE_SCALE_SKIP_DESC_def UPGRADE_SCALE_DELAY_SKIP_DESC_def Contains_blank)

text \<open>What the event manager has written is read back as further on than what was read before.\<close>

lemma written_rank:
  assumes d: "notify_description uc st = Some d" and v: "\<not> Contains (desired_version uc) ''retry''"
    and t: "validateStateTransition cur st" "map_of stateMap st = Some v"
  shows "state_rank cur < policy_rank \<lparr>psValue = v, psDescription = d\<rparr>"
proof -
  note rank = validateStateTransition_rank [OF t(1)]
  show ?thesis
    using t(2) d rank skip_descriptions_do_not_retry [OF v] delayed_description_retries [of uc]
    by (cases st) (auto simp: policy_rank_def muo_current_def stateMap_def OcmStateDelayed_def)
qed

definition advances :: "stored_states \<Rightarrow> stored_states \<Rightarrow> bool" where
  "advances m m' \<longleftrightarrow> m' = m \<or> (\<exists>c p ps. m' = put_state c p ps m \<and> policy_rank (m c p) < policy_rank ps)"

text \<open>Every policy keeps its state or is further on.\<close>

definition forward :: "stored_states \<Rightarrow> stored_states \<Rightarrow> bool" where
  "forward m m' \<longleftrightarrow> (\<forall>c p. m' c p = m c p \<or> policy_rank (m c p) < policy_rank (m' c p))"

lemma forward_refl [simp]: "forward m m"
  by (simp add: forward_def)

lemma forward_trans: "forward m m' \<Longrightarrow> forward m' m'' \<Longrightarrow> forward m m''"
  unfolding forward_def by (metis less_trans)

lemma advances_forward: "advances m m' \<Longrightarrow> forward m m'"
  by (auto simp: advances_def forward_def put_state_def)

text \<open>A delay is further on than what it may follow, whether its description has it read back as a delay or as a skipped scale-up.\<close>

lemma delayed_rank:
  assumes "validateStateTransition cur MuoStateDelayed" "map_of stateMap MuoStateDelayed = Some v"
  shows "state_rank cur < policy_rank \<lparr>psValue = v, psDescription = d\<rparr>"
  using assms validateStateTransition_rank [OF assms(1)]
  by (auto simp: policy_rank_def muo_current_def stateMap_def OcmStateDelayed_def)

lemma advances_written:
  assumes "m' = m \<or> (\<exists>c p cur v. muo_current stateMap (m c p) = Some cur \<and> validateStateTransition cur st \<and>
      map_of stateMap st = Some v \<and> m' = put_state c p \<lparr>psValue = v, psDescription = d\<rparr> m)"
    and "mapSLState st serviceLogMap = None \<Longrightarrow> notify_description uc st = Some d"
    and "\<not> Contains (desired_version uc) ''retry''"
  shows "advances m m'"
proof (cases "m' = m")
  case False
  then obtain c p cur v where w: "muo_current stateMap (m c p) = Some cur" "validateStateTransition cur st"
      "map_of stateMap st = Some v" "m' = put_state c p \<lparr>psValue = v, psDescription = d\<rparr> m"
    using assms(1) by blast
  have "mapSLState st serviceLogMap = None" using SL_no_transition w(2) by blast
  from written_rank [OF assms(2) [OF this] assms(3) w(2,3)] have "policy_rank (m c p) < policy_rank \<lparr>psValue = v, psDescription = d\<rparr>"
    using w(1) by (simp add: policy_rank_def)
  with w(4) show ?thesis unfolding advances_def by blast
qed (simp add: advances_def)

section \<open>The service\<close>

text \<open>
  What the operator runs against: every connection is to the same service, the API server and Prometheus do not touch the
  policy states, and no desired version contains the word by which a delay is recognised.
\<close>

locale ocm_service =
  fixes nb :: "'w notifier_builder"
    and view :: "'w \<Rightarrow> stored_states"
  assumes connects: "sdk_connect (nb_ocm nb) opts = Inr conn \<Longrightarrow> sdk_service (nb_ocm nb) conn view"
    and uc_keeps: "keeps view (get_uc (nb_uc nb) n ns)"
    and http_keeps: "keeps view (http_do (oe_net (nb_ocm nb)) hs tls u q)"
    and version: "get_uc (nb_uc nb) n ns s = (Inr uc, s') \<Longrightarrow> \<not> Contains (desired_version uc) ''retry''"
    and iteration: "set (state_order nb) = set stateMap"
begin

lemma client_store:
  assumes "new_ocm_client (nb_ocm nb) base s = (Ok client, s')"
  shows "policy_store client view"
  using assms sdk_service.ocm_client_store [OF connects] sdk_service.agent_client_store [OF connects]
  by (auto simp: new_ocm_client_def ocm_builder_New_def agent_builder_New_def bindO_Ok_iff
      split: if_splits prod.splits outcome.splits)

lemma notifier_writes:
  assumes "notifier_New nb s0 = (Ok notify, s1)" "notify st d s = (r, s')"
  shows "view s' = view s \<or>
    (\<exists>c p cur v. muo_current stateMap (view s c p) = Some cur \<and> validateStateTransition cur st \<and>
       map_of stateMap st = Some v \<and> view s' = put_state c p \<lparr>psValue = v, psDescription = d\<rparr> (view s))"
proof (cases "notify = log_NotifyState")
  case False
  let ?ne = "\<lparr>n_rt = nb_rt nb, n_env = net_env (oe_net (nb_ocm nb)), n_uc = nb_uc nb\<rparr>"
  from False obtain client b where client: "policy_store client view"
      and n: "notify = ocm_NotifyState ?ne client b (state_order nb)"
    using assms(1)
    by (auto simp: notifier_New_def NewOCMNotifier_def Let_def bindO_Ok_iff dest: client_store split: if_splits)
  have "keeps view (get_uc (n_uc ?ne) n ns)" for n ns using uc_keeps by simp
  from policy_store.NotifyState_writes [OF client this assms(2) [unfolded n]] show ?thesis
    unfolding muo_current_order [OF iteration] .
qed (use assms(2) in \<open>simp add: log_NotifyState_def\<close>)

lemma manager_parts:
  assumes "eventManager_NewManager nb s0 = (Ok em, s1)"
  shows "em_uc em = nb_uc nb" "keeps view (prom_do (em_metrics em) u q)"
    "\<exists>t t'. notifier_New nb t = (Ok (em_NotifyState em), t')"
  using assms http_keeps
  by (auto simp: eventManager_NewManager_def metrics_NewClient_def prometheus_RoundTrip_def bindO_Ok_iff) blast

lemma found_version:
  assumes "ucm_Get e (nb_uc nb) s = (Ok uc, s')"
  shows "\<not> Contains (desired_version uc) ''retry''"
  using assms version by (auto simp: ucm_Get_def split: outcome.splits prod.splits if_splits)

lemma sent_query_keeps:
  assumes "\<And>u q. keeps view (prom_do m u q)"
  shows "keeps view (IsMetricNotificationEventSentSet rt m n event v)"
proof -
  have "keeps view (\<lambda>s. case a of HttpBody b \<Rightarrow> (f b, s) | HttpReadError e \<Rightarrow> (g e, s))"
    for a and f g :: "_ \<Rightarrow> AlertResult list outcome"
    by (cases a) simp_all
  then have "keeps view (Query rt m q)" for q
    unfolding Query_def Let_def
    by (cases "request_error m (''https://'' @ promTarget m @ ''/api/v1/query'')") (auto intro!: keeps_intros assms)
  then show ?thesis
    unfolding IsMetricNotificationEventSentSet_def by (intro keeps_intros)
qed


text \<open>A notification of the event manager leaves the states or takes one of them further.\<close>

lemma notify_with_moves:
  assumes em: "eventManager_NewManager nb s0 = (Ok em, s1)"
    and run: "notify_with em st describe failed sent s = (r, s')"
    and gauges: "\<And>uc s. ext (failed uc s) = ext s" "\<And>uc s. ext (sent uc s) = ext s"
    and describe: "\<And>uc d. describe uc = Some d \<Longrightarrow> mapSLState st serviceLogMap = None \<Longrightarrow> notify_description uc st = Some d"
  shows "advances (view (ext s)) (view (ext s'))"
proof -
  note parts = manager_parts [OF em]
  obtain g w1 where g: "ucm_Get (em_env em) (em_uc em) (ext s) = (g, w1)" by fastforce
  then have w1: "view w1 = view (ext s)" by (intro keepsD [OF keeps_ucm_Get [OF uc_keeps]]) (simp add: parts(1))
  show ?thesis
  proof (cases g)
    case (Ok uc)
    let ?ask = "IsMetricNotificationEventSentSet (em_rt em) (em_metrics em) (ucName uc) (toString st) (desired_version uc)"
    obtain q w2 where q: "?ask w1 = (q, w2)" by fastforce
    then have w2: "view w2 = view (ext s)" using keepsD [OF sent_query_keeps [OF parts(2)] q] w1 by simp
    show ?thesis
    proof (cases "q = Ok False \<and> describe uc \<noteq> None")
      case True
      then obtain d where d: "describe uc = Some d" by auto
      obtain n w3 where n: "em_NotifyState em st d w2 = (n, w3)" by fastforce
      have "ext s' = w3"
        using run g q True d n Ok gauges by (cases n) (auto simp: notify_with_def lift_def)
      moreover have "advances (view w2) (view w3)"
      proof (rule advances_written)
        show "notify_description uc st = Some d" if "mapSLState st serviceLogMap = None" using describe d that by blast
        show "\<not> Contains (desired_version uc) ''retry''" using found_version g Ok parts(1) by metis
      qed (use parts(3) n notifier_writes in blast)
      ultimately show ?thesis using w2 by simp
    next
      case False
      then show ?thesis
        using run g q w2 Ok by (cases q) (auto simp: notify_with_def lift_def advances_def split: if_splits option.splits)
    qed
  qed (use run g w1 in \<open>auto simp: notify_with_def lift_def advances_def split: if_splits\<close>)
qed

end

section \<open>Runs\<close>

text \<open>What a drain uses beside the notifier, the clock and the pods of the API server, holds no policy state.\<close>

definition drain_keeps :: "('w \<Rightarrow> stored_states) \<Rightarrow> 'w drain_env \<Rightarrow> bool" where
  "drain_keeps view de \<longleftrightarrow>
     keeps view (time_now (de_rt de)) \<and> (\<forall>sel. keeps view (list_pods (de_pods de) sel)) \<and>
     (\<forall>p. keeps view (delete_pod (de_pods de) p) \<and> keeps view (update_pod (de_pods de) p))"

text \<open>
  A step of the operator as OCM sees it: a notification of an event manager made by the builder (a new manager is made for every
  reconciliation), the drain of a node, which notifies a delay on its own after it has deleted pods guarded by a budget, with a
  strategy that either builder has made with a notifier and a metrics client of its own, or anything that leaves the policy states alone.
\<close>

inductive notify_step :: "'w notifier_builder \<Rightarrow> ('w \<Rightarrow> stored_states) \<Rightarrow> 'w sys \<Rightarrow> 'w sys \<Rightarrow> bool" for nb view where
  notify: "eventManager_NewManager nb w = (Ok em, w') \<Longrightarrow> Notify em st s = (r, s') \<Longrightarrow> notify_step nb view s s'"
| notify_result:
    "eventManager_NewManager nb w = (Ok em, w') \<Longrightarrow> NotifyResult em st x s = (r, s') \<Longrightarrow> notify_step nb view s s'"
| drain:
    "new_notifier de = notifier_New nb \<Longrightarrow> new_metrics de = metrics_NewClient (oe_net (nb_ocm nb)) \<Longrightarrow> drain_keeps view de \<Longrightarrow>
     NewNodeDrainStrategy de uc cfg w = (Ok ds, w') \<or> NewDefaultNodeDrainStrategy de uc cfg w = (Ok ds, w') \<Longrightarrow>
     drain_Execute ds node s = (r, s') \<Longrightarrow> notify_step nb view s s'"
| other: "view (ext s') = view (ext s) \<Longrightarrow> notify_step nb view s s'"

lemma strategy_parts:
  assumes "NewNodeDrainStrategy de uc cfg w = (Ok ds, w') \<or> NewDefaultNodeDrainStrategy de uc cfg w = (Ok ds, w')"
  shows "ds_rt ds = de_rt de" "ds_pods ds = de_pods de" "\<exists>t t'. new_notifier de t = (Ok (ds_NotifyState ds), t')"
    "\<exists>t t'. new_metrics de t = (Ok (ds_metrics ds), t')"
proof -
  obtain ts t where "new_strategy de ts uc cfg t = (Ok ds, w')"
    using assms by (auto simp: NewNodeDrainStrategy_def NewDefaultNodeDrainStrategy_def split: prod.splits sum.splits if_splits)
  then show "ds_rt ds = de_rt de" "ds_pods ds = de_pods de" "\<exists>t t'. new_notifier de t = (Ok (ds_NotifyState ds), t')"
    "\<exists>t t'. new_metrics de t = (Ok (ds_metrics ds), t')"
    unfolding new_strategy_def bindO_Ok_iff by (auto, blast+)
qed

context ocm_service
begin

lemma result_is_log: "result_description uc x st = Some d \<Longrightarrow> mapSLState st serviceLogMap \<noteq> None"
  by (cases st) (auto simp: serviceLogMap_def)

lemma prom_keeps:
  assumes "metrics_NewClient (oe_net (nb_ocm nb)) t = (Ok m, t')"
  shows "keeps view (prom_do m u q)"
  using assms http_keeps by (auto simp: metrics_NewClient_def prometheus_RoundTrip_def bindO_Ok_iff)

lemma delay_forward:
  assumes "notifier_New nb t = (Ok notify, t')" "notify MuoStateDelayed d w = (r, w')"
  shows "forward (view w) (view w')"
  using notifier_writes [OF assms] delayed_rank [of _ _ d]
  by (auto simp: forward_def put_state_def policy_rank_def)

lemma drain_forward:
  assumes de: "new_notifier de = notifier_New nb" "new_metrics de = metrics_NewClient (oe_net (nb_ocm nb))" "drain_keeps view de"
    and ds: "NewNodeDrainStrategy de uc cfg w = (Ok ds, w') \<or> NewDefaultNodeDrainStrategy de uc cfg w = (Ok ds, w')"
    and run: "drain_Execute ds node s = (r, s')"
  shows "forward (view (ext s)) (view (ext s'))"
proof -
  let ?I = "\<lambda>w. forward (view (ext s)) (view w)"
  note parts = strategy_parts [OF ds]
  have I: "?I (snd (f w))" if "keeps view f" "?I w" for f :: "_ \<Rightarrow> 'x \<times> _" and w
    using that by (simp add: keeps_def)
  have I2: "?I (snd (ds_NotifyState ds MuoStateDelayed d w))" if "?I w" for d w
    using parts(3) delay_forward that forward_trans unfolding de(1) by (metis prod.collapse)
  have "keeps view (prom_do (ds_metrics ds) u q)" for u q
    using parts(4) prom_keeps unfolding de(2) by blast
  then have "keeps view (IsMetricNotificationEventSentSet (ds_rt ds) (ds_metrics ds) n st v)" for n st v by (rule sent_query_keeps)
  with I2 have safe: "drain_safe ds ?I (\<lambda>_. True)"
    using de(3) by (auto simp: drain_safe_def pod_safe_def parts(1,2) drain_keeps_def intro!: I)
  show ?thesis
    using run execute_loop_safe [OF safe, of "timedDrainStrategies ds" node s]
    by (auto simp: drain_Execute_def Let_def split: if_splits option.splits)
qed

lemma step_forward: "notify_step nb view s s' \<Longrightarrow> forward (view (ext s)) (view (ext s'))"
proof (induction rule: notify_step.induct)
  case (notify w em w' st s r s')
  show ?case
    by (rule advances_forward, rule notify_with_moves [OF notify(1) notify(2) [unfolded Notify_def]]) (simp_all add: gauge_update_defs)
next
  case (notify_result w em w' st x s r s')
  show ?case
    by (rule advances_forward, rule notify_with_moves [OF notify_result(1) notify_result(2) [unfolded NotifyResult_def]])
       (use result_is_log in \<open>auto simp: gauge_update_defs\<close>)
next
  case (drain de uc cfg w ds w' node s r s')
  then show ?case by (rule drain_forward)
qed simp

lemma step_policy:
  "notify_step nb view s s' \<Longrightarrow>
     view (ext s') c p = view (ext s) c p \<or> policy_rank (view (ext s) c p) < policy_rank (view (ext s') c p)"
  using step_forward by (simp add: forward_def)

end

text \<open>A sequence whose measure grows with every change.\<close>

lemma remdups_adj_growing:
  fixes f :: "'a \<Rightarrow> nat"
  assumes "successively (\<lambda>x y. y = x \<or> f x < f y) xs"
  shows "sorted_wrt (\<lambda>x y. f x < f y) (remdups_adj xs)"
proof -
  have "successively (\<lambda>x y. f x < f y) (remdups_adj xs)"
    using assms by (induction xs rule: remdups_adj.induct) (auto simp: successively_Cons)
  then show ?thesis
    by (subst (asm) successively_conv_sorted_wrt) (auto simp: transp_def)
qed

lemma growing_length:
  fixes f :: "'a \<Rightarrow> nat"
  assumes "sorted_wrt (\<lambda>x y. f x < f y) xs" "f ` set xs \<subseteq> R" "finite R"
  shows "length xs \<le> card R"
proof -
  have "sorted_wrt (<) (map f xs)" using assms(1) by (simp add: sorted_wrt_map)
  then have "distinct (map f xs)" by (simp add: strict_sorted_iff)
  then have "length xs = card (f ` set xs)" using distinct_card by fastforce
  with assms(2,3) show ?thesis by (simp add: card_mono)
qed

section \<open>An in-memory service\<close>

definition mem_conn :: "stored_states sdk_conn" where
  "mem_conn =
     \<lparr>search_clusters = (\<lambda>_ _ s. (Inr \<lparr>rStatus = 200, rOperation = [],
        rBody = (1, [\<lparr>ocID = ''c1'', ocChannelGroup = ''stable'', ocNodeDrainGracePeriod = 60\<rparr>])\<rparr>, s)),
      list_policies = (\<lambda>_ _ _ s. (Inr \<lparr>rStatus = 200, rOperation = [], rBody = \<lparr>upTotal = 1, upItems = [sample_policy]\<rparr>\<rparr>, s)),
      get_policy_state = (\<lambda>c p s. (Inr \<lparr>rStatus = 200, rOperation = [], rBody = s c p\<rparr>, s)),
      put_policy_state = (\<lambda>c p st s. (Inr \<lparr>rStatus = 200, rOperation = [], rBody = ()\<rparr>, put_state c p st s)),
      add_log_entry = (\<lambda>_ s. (Inr None, s)), get_root = (\<lambda>s. (Inr \<lparr>rStatus = 200, rOperation = [], rBody = []\<rparr>, s))\<rparr>"

definition mem_net :: "stored_states net_api" where
  "mem_net = (online_net 7)\<lparr>
     get_secret := (\<lambda>_ _ s. (Inr [''.dockerconfigjson'' \<mapsto> ''{}''], s)),
     parse_docker_config := (\<lambda>_. Inr [''auths'' \<mapsto> JObject [(''cloud.openshift.com'', JObject [(''auth'', JString ''t'')])]]),
     http_do := (\<lambda>_ _ _ _ s. (Inr (HttpBody []), s))\<rparr>"

definition served_uc :: "'s uc_api" where
  "served_uc =
     \<lparr>get_uc = (\<lambda>_ _ s. (Inr sample_uc, s)), list_ucs = (\<lambda>_ _ s. (Inr [sample_uc], s)),
      create_uc = (\<lambda>_ s. (Inr (), s)), delete_uc = (\<lambda>_ s. (Inr (), s)),
      update_uc = (\<lambda>uc s. (Inr uc, s)), update_uc_status = (\<lambda>uc s. (Inr uc, s))\<rparr>"

definition mem_ocm :: "stored_states ocm_env" where
  "mem_ocm = (nb_ocm (se_nb (sample_spec_env 7 ''OCM'' served_uc)))\<lparr>oe_net := mem_net, sdk_connect := (\<lambda>_. Inr mem_conn)\<rparr>"

definition mem_nb :: "stored_states notifier_builder" where
  "mem_nb = (se_nb (sample_spec_env 7 ''OCM'' served_uc))\<lparr>nb_ocm := mem_ocm\<rparr>"

interpretation mem_sdk: sdk_service mem_ocm mem_conn "\<lambda>s. s"
  by unfold_locales
     (auto simp: keeps_def mem_conn_def mem_ocm_def mem_net_def sample_spec_env_def online_net_def offline_net_def)

interpretation mem: ocm_service mem_nb "\<lambda>s. s"
proof (rule ocm_service.intro)
  show "sdk_service (nb_ocm mem_nb) conn (\<lambda>s. s)" if "sdk_connect (nb_ocm mem_nb) opts = Inr conn" for opts conn
    using that mem_sdk.sdk_service_axioms by (simp add: mem_nb_def) (simp add: mem_ocm_def)
qed (auto simp: mem_nb_def mem_ocm_def mem_net_def sample_spec_env_def served_uc_def sample_uc_def)

definition mem_em :: "stored_states eventManager" where
  "mem_em =
     \<lparr>em_rt = net_rt mem_net, em_env = net_env mem_net, em_uc = served_uc,
      em_metrics = \<lparr>promTarget = ''prometheus-k8s.openshift-monitoring.svc.cluster.local:9091'',
        request_error = new_request_error mem_net,
        prom_do = prometheus_RoundTrip mem_net ''secret'' (TlsRootCA ''ca''), json_alerts = decode_alerts mem_net\<rparr>,
      em_NotifyState = ocm_NotifyState \<lparr>n_rt = net_rt mem_net, n_env = net_env mem_net, n_uc = served_uc\<rparr>
        (ocm_client mem_ocm \<lparr>uOther = ''https://ocm'', uPath = [], uRawQuery = []\<rparr> mem_conn) False stateMap\<rparr>"

lemma mem_metrics: "metrics_NewClient mem_net s = (Ok (em_metrics mem_em), s)"
proof -
  have "show_int 9091 = ''9091''" by code_simp
  then show ?thesis
    by (simp add: metrics_NewClient_def mem_em_def NetworkTarget_def GetService_def prometheusToken_def token_or_request_def
        client_tls_def MonitoringTLSConfig_def secret_value_def isRunModeLocal_def UseRoutes_def Getenv_def online_net_def
        offline_net_def call_def HasPrefix_def Let_def mem_net_def MonitoringNS_def promApp_def)
qed

lemma mem_client:
  "new_ocm_client mem_ocm \<lparr>uOther = ''https://ocm'', uPath = [], uRawQuery = []\<rparr> s =
     (Ok (ocm_client mem_ocm \<lparr>uOther = ''https://ocm'', uPath = [], uRawQuery = []\<rparr> mem_conn), s)"
proof -
  have "\<not> Contains ''https://ocm'' (OCM_AGENT_SERVICE_URL @ '':'' @ show_int OCM_AGENT_SERVICE_PORT)" by code_simp
  then show ?thesis
    by (simp add: new_ocm_client_def ocm_builder_New_def GetAccessToken_def docker_auth_def
        mem_ocm_def mem_net_def sample_spec_env_def online_net_def offline_net_def call_def)
qed

lemma mem_nb_fields:
  "nb_ocm mem_nb = mem_ocm" "nb_uc mem_nb = served_uc" "oe_net mem_ocm = mem_net" "state_order mem_nb = stateMap"
  "url_parse mem_ocm u = Inr \<lparr>uOther = u, uPath = [], uRawQuery = []\<rparr>" "url_String mem_ocm = uOther"
  "build_state mem_ocm = Inr" "get_cv (net_cv mem_net) s = (Inr sample_cv, s)"
  by (simp_all add: mem_nb_def mem_ocm_def mem_net_def sample_spec_env_def online_net_def offline_net_def)

lemma mem_configs:
  "readNotifierConfig mem_nb s = (Ok ''OCM'', s)" "readOcmFeatureGate mem_nb s = (Ok [], s)"
  "readOcmNotifierConfig mem_nb s = (Ok ''https://ocm'', s)"
  by (simp_all add: readNotifierConfig_def readOcmFeatureGate_def readOcmNotifierConfig_def env_eval mem_nb_fields)
     (simp_all add: mem_nb_def sample_spec_env_def mem_nb_fields base_url_IsValid_def NotifierConfig_IsValid_def ToUpper_def
        to_upper_char_def)

lemma mem_manager: "eventManager_NewManager mem_nb s = (Ok mem_em, s)"
  by (simp add: eventManager_NewManager_def notifier_New_def mem_configs NewOCMNotifier_def mem_nb_fields mem_metrics
      mem_client GetOCMBaseURL_def ToUpper_def to_upper_char_def isOCMFeatureEnabled_def)
     (simp add: mem_em_def)

text \<open>
  C10: Over any run of the operator against OCM, notifications of the event manager and of node drains alike, through either client, whatever
  requests fail or lose their answers, and for every iteration order of Go's map, the stored state of an upgrade policy only moves
  forward: the states that succeed one another have strictly increasing ranks, there are at most five of them, and
  \<open>completed\<close> or \<open>failed\<close> is the last one. The versions are assumed not to contain the word \<open>retry\<close>, by which a delay is
  told from a skipped scale-up.
\<close>

theorem policy_states_forward:
  assumes "ocm_service nb view" "successively (notify_step nb view) ss"
    and "states = remdups_adj (map (\<lambda>s. view (ext s) c p) ss)"
  shows "sorted_wrt (\<lambda>x y. policy_rank x < policy_rank y) states \<and> length states \<le> 5 \<and>
    (\<forall>x\<in>set (butlast states). psValue x \<noteq> ''completed'' \<and> psValue x \<noteq> ''failed'')"
proof -
  let ?p = "\<lambda>s. view (ext s) c p"
  have "successively (\<lambda>s s'. ?p s' = ?p s \<or> policy_rank (?p s) < policy_rank (?p s')) ss"
    using assms(2) ocm_service.step_policy [OF assms(1)] by (rule successively_mono)
  then have sorted: "sorted_wrt (\<lambda>x y. policy_rank x < policy_rank y) states"
    unfolding assms(3) by (intro remdups_adj_growing) (simp add: successively_map)
  have "policy_rank ` set states \<subseteq> {0, 1, 3, 4, 5}" by (rule image_subsetI) (rule policy_rank_values)
  from growing_length [OF sorted this] have "length states \<le> 5" by simp
  moreover have "policy_rank x < 5" if "x \<in> set (butlast states)" for x
  proof -
    have ne: "states \<noteq> []" using that by auto
    then have "policy_rank x < policy_rank (last states)"
      using sorted that by (metis append_butlast_last_id sorted_wrt_append list.set_intros(1))
    then show ?thesis using policy_rank_values [of "last states"] by auto
  qed
  moreover have "policy_rank x = 5" if "psValue x = ''completed'' \<or> psValue x = ''failed''" for x
    using that by (elim disjE) (simp_all add: policy_rank_def muo_current_def stateMap_def OcmStateDelayed_def)
  ultimately show ?thesis using sorted by (metis less_irrefl)
qed

definition started_states :: stored_states where
  "started_states = (\<lambda>_ _. \<lparr>psValue = ''started'', psDescription = []\<rparr>)"

definition completed_state :: UpgradePolicyState where
  "completed_state =
     \<lparr>psValue = ''completed'', psDescription = ''Cluster has been successfully upgraded to version '' @ desired_version sample_uc\<rparr>"

lemma mem_notify:
  "\<exists>s'. Notify mem_em MuoStateCompleted (no_gauges started_states) = (Ok (), s') \<and>
     ext s' = put_state ''c1'' ''p1'' completed_state started_states"
proof -
  have at: "Format_RFC3339 600000000000 0 = ''1970-01-01T00:10:00Z''" by code_simp
  have sl: "\<not> HasSuffix ''StateCompleted'' ''SL''" by code_simp
  have cluster: "ocm_GetCluster mem_ocm b mem_conn s =
      (Ok \<lparr>ocID = ''c1'', ocChannelGroup = ''stable'', ocNodeDrainGracePeriod = 60\<rparr>, s)" for b s
    by (simp add: ocm_GetCluster_def mem_nb_fields call_def mem_conn_def check_status_def)
  have policies: "ocm_GetClusterUpgradePolicies mem_ocm b mem_conn c s = (Ok \<lparr>upTotal = 1, upItems = [sample_policy]\<rparr>, s)" for b c s
    by (simp add: ocm_GetClusterUpgradePolicies_def mem_nb_fields call_def mem_conn_def check_status_def)
  have state: "ocm_GetClusterUpgradePolicyState mem_ocm mem_conn p c s = (Ok (s c p), s)" for p c s
    by (simp add: ocm_GetClusterUpgradePolicyState_def call_def mem_conn_def check_status_def)
  have set: "ocm_SetState mem_ocm b mem_conn v d p c s = (Ok (), put_state c p \<lparr>psValue = v, psDescription = d\<rparr> s)" for b v d p c s
    by (simp add: ocm_SetState_def mem_nb_fields call_def mem_conn_def check_status_def request_failed_def Let_def)
  have notify: "em_NotifyState mem_em MuoStateCompleted d started_states =
      (Ok (), put_state ''c1'' ''p1'' \<lparr>psValue = ''completed'', psDescription = d\<rparr> started_states)" for d
    by (simp add: mem_em_def ocm_NotifyState_def ocm_client_def cluster policies state set sl
        getPolicyIdForUpgradeConfig_def env_eval served_uc_def mem_net_def online_net_def offline_net_def
        sample_policy_def sample_uc_def at muo_current_def started_states_def stateMap_def OcmStateDelayed_def
        validateStateTransition_def)
  have asked: "IsMetricNotificationEventSentSet (em_rt mem_em) (em_metrics mem_em) n ev v s = (Ok False, s)" for n ev v s
    by (simp add: IsMetricNotificationEventSentSet_def Query_def mem_em_def mem_net_def online_net_def offline_net_def
        prometheus_RoundTrip_def call_def)
  have found: "ucm_Get (em_env mem_em) (em_uc mem_em) s = (Ok sample_uc, s)" for s
    by (simp add: mem_em_def served_uc_def mem_net_def online_net_def offline_net_def env_eval)
  show ?thesis
    by (simp add: Notify_def notify_with_def no_gauges_def lift_def found asked notify gauge_update_defs completed_state_def)
qed

theorem policy_states_forward_witness:
  "\<exists>s'. Notify mem_em MuoStateCompleted (no_gauges started_states) = (Ok (), s') \<and>
     remdups_adj (map (\<lambda>s. ext s ''c1'' ''p1'') [no_gauges started_states, s']) = [started_states ''c1'' ''p1'', completed_state] \<and>
     policy_rank (started_states ''c1'' ''p1'') < policy_rank completed_state"
proof -
  obtain s' where run: "Notify mem_em MuoStateCompleted (no_gauges started_states) = (Ok (), s')"
      and s': "ext s' = put_state ''c1'' ''p1'' completed_state started_states"
    using mem_notify by blast
  have "notify_step mem_nb (\<lambda>s. s) (no_gauges started_states) s'"
    using mem_manager run by (rule notify_step.notify)
  then have "successively (notify_step mem_nb (\<lambda>s. s)) [no_gauges started_states, s']" by simp
  note forward = policy_states_forward [OF mem.ocm_service_axioms this refl, of "''c1''" "''p1''"]
  have "remdups_adj (map (\<lambda>s. ext s ''c1'' ''p1'') [no_gauges started_states, s']) = [started_states ''c1'' ''p1'', completed_state]"
    by (simp add: no_gauges_def s' put_state_def started_states_def completed_state_def)
  with forward run show ?thesis by auto
qed

end
