(* ===== verification/Spec2Isabelle.thy ===== *)
theory Spec2Isabelle
  imports Triggers Completion Process_Start Scaler Maintenance Runner_Memory Ocm_Service
begin

text \<open>
  A verification of the managed-upgrade-operator, which upgrades an OpenShift cluster on the schedule of
  an UpgradeConfig. Definitions are translations of the Go sources under \<open>src/\<close>; the names are those
  of the source unless they clash with a name of HOL or of another package (\<open>drain_Execute\<close>,
  \<open>ocm_NotifyState\<close>).

  \<^bold>\<open>The program.\<close> The UpgradeConfig manager (\<open>pkg/upgradeconfigmanager\<close>) pulls upgrade specs from a provider
  (\<open>pkg/specprovider\<close>: OCM policies or the cluster itself) and keeps one UpgradeConfig on the cluster equal to
  them. The UpgradeConfig controller (\<open>controllers/upgradeconfig\<close>) takes that object through the phases New,
  Pending, Upgrading and Upgraded or Failed: it validates it (\<open>pkg/validation\<close>), waits for its time
  (\<open>pkg/scheduler\<close>) and then runs a cluster upgrader (\<open>pkg/upgraders\<close>), an ordered list of steps over the
  step runner (\<open>pkg/upgradesteps\<close>). The steps check the cluster's health, add capacity (\<open>pkg/scaler\<close>),
  silence alerts (\<open>pkg/maintenance\<close>), patch the ClusterVersion (\<open>pkg/clusterversion\<close>), notify
  (\<open>pkg/eventmanager\<close>, \<open>pkg/notifier\<close>, \<open>pkg/ocm\<close>, \<open>pkg/ocmagent\<close>) and report metrics (\<open>pkg/metrics\<close>). Two more
  controllers drain the nodes (\<open>controllers/nodekeeper\<close>, \<open>pkg/drain\<close>) and record the progress of the worker
  pool (\<open>controllers/machineconfigpool\<close>); two collectors answer scrapes (\<open>pkg/collector\<close>,
  \<open>pkg/metrics/collector\<close>).

  \<^bold>\<open>How it is modelled.\<close>
  \<^item> A Go call takes the state and returns an outcome with the new state: \<open>Ok v\<close>, \<open>Err e\<close>, or \<open>Panic\<close> for a nil
    dereference, a failed type assertion or \<open>log.Fatal\<close>. \<open>bindO\<close> is the early return on an error; \<open>tryO\<close> is a
    call whose error the caller looks at.
  \<^item> Code outside the repository is a field of a record of functions per service (\<open>cv_api\<close>, \<open>uc_api\<close>, \<open>pod_api\<close>,
    \<open>machine_api\<close>, \<open>am_api\<close>, \<open>net_api\<close>, \<open>ocm_env\<close>, \<open>semver_lib\<close>, ...), over an arbitrary world that every call may
    change. What a property needs of such a service is a named hypothesis (\<open>cv_store\<close>, \<open>uc_store\<close>,
    \<open>status_store\<close>, \<open>status_echo\<close>, \<open>am_store\<close>, \<open>pod_safe\<close>, \<open>ocm_service\<close>, ...), and the witness of the property
    instantiates it with an in-memory server (\<open>mem_cv\<close>, \<open>mem_uc\<close>, \<open>mem_am\<close>, \<open>mem_pods\<close>, \<open>mem_nb\<close>).
  \<^item> The process-wide gauges are state of their own: \<open>'w sys\<close> is the gauges with the world.
  \<^item> Durations are 64-bit with the wrap-around written out (\<open>wrap64\<close>), \<open>int32\<close> fields wrap at 32 bits, and the
    jitter is computed in IEEE double precision (\<open>round53\<close>). Instants are nanoseconds since the epoch;
    RFC 3339 parsing and formatting are those of Go's \<open>time\<close> package. What else the source uses of Go's library is
    written out too: quoting, paths, query escapes, and the matching of shell patterns.
  \<^item> Most of the model works on values. \<open>Go_Memory\<close> has the memory under them, slices that share arrays and pointers that
    share cells, and \<open>Api_Memory\<close> and \<open>Runner_Memory\<close> show that the operations which write through them do what the
    model on values says. How far \<open>append\<close> grows an array is a parameter.
  \<^item> Random map iteration and the completion order of goroutines are parameters. The checks of the availability targets
    are taken one after the other in that order; the variable they share without a lock is not modelled below that.
  \<^item> Loops are recursive functions. The poll for a deletion is bounded by the field \<open>poll_attempts\<close>, the number
    of attempts its timeout leaves room for; the wait for the configuration, unbounded in the source, takes a
    number of attempts, and \<open>await_config_returns\<close> shows that any number above the first successful attempt
    gives the same result. The synchronisation loop, which does not end, is the relation \<open>sync_step\<close>; it leaves open
    which channel a turn of the loop receives from, so it has more runs than the loop once the stop channel is closed.

  \<^bold>\<open>The theories.\<close>
  \<^item> \<open>Prelude\<close>: outcomes, durations, strings, lists with keys. \<open>Rfc3339\<close>: times and the round trip
    \<open>Parse_Format\<close>. \<open>Go_Std\<close>: double precision, quoting, \<open>path.Join\<close>, \<open>url.QueryEscape\<close>. \<open>Glob\<close>: \<open>path.Match\<close> as Go
    implements it, equal to the grammar of its documentation (\<open>path_Match_glob\<close>).
  \<^item> \<open>Api_Types\<close> (\<open>api/v1alpha1\<close>): the UpgradeConfig; conditions and histories are two interpretations of the
    locale \<open>keyed_store\<close>.
  \<^item> \<open>Steps\<close> (\<open>pkg/upgradesteps\<close>): \<open>Run\<close>, what it may write (\<open>touches_only\<close>) and how far it gets
    (\<open>run_progress\<close>), that it returns what the actions answered (\<open>Run_answers\<close>), and that the conditions keep their
    times (\<open>Run_timed\<close>).
  \<^item> \<open>Go_Memory\<close>, \<open>Api_Memory\<close> (\<open>api/v1alpha1\<close> with the generated deep copies), \<open>Runner_Memory\<close>: the UpgradeConfig in memory.
    The locale \<open>implements\<close> is the contract of a memory operation towards the one on values, and is interpreted on the
    condition setters, the runner and the failure routine; copies and originals do not see each other's changes.
  \<^item> \<open>Cluster_Version\<close> (\<open>pkg/clusterversion\<close>): requests are visible afterwards, only offered versions are
    requested, the current version is the latest completed one.
  \<^item> \<open>Scheduler\<close>, \<open>Config_Manager\<close>, \<open>Metrics\<close>, \<open>Network\<close>: readiness, configuration, gauges and Prometheus queries,
    endpoints and credentials.
  \<^item> \<open>Notifier\<close>, \<open>Event_Manager\<close>, \<open>Ocm_Clients\<close>: notifications, and the two clients of OCM with the options of their
    connections. \<open>Ocm_Service\<close> composes them: the locale \<open>sdk_service\<close> says what the SDK's requests do to the stored policy
    states, \<open>policy_store\<close> what the notifier needs of a client; both clients are sublocales, and over any run
    of the event manager and of node drains (\<open>notify_step\<close>) the state of a policy only moves forward
    (\<open>policy_states_forward\<close>).
  \<^item> \<open>Machinery\<close>, \<open>Drain\<close> (\<open>pkg/drain\<close>): the five drain strategies, instances of the locale \<open>drain_strategy\<close>, which says
    what a strategy may touch.
  \<^item> \<open>Maintenance\<close>, \<open>Scaler\<close>, \<open>Availability\<close>: silences, extra machine sets, HTTP checks.
  \<^item> \<open>Health_Checks\<close>, \<open>Upgrader_Steps\<close>, \<open>Upgraders\<close> (\<open>pkg/upgraders\<close>): every step and both upgraders. The locale
    \<open>cluster_upgrader\<close> is what the controller relies on, interpreted on the OSD and on the ARO upgrader;
    its lemmas on the controller are in \<open>Reconcile\<close>. That a call is made only under conditions is stated as
    noninterference: the result does not depend on the service otherwise (\<open>requesting\<close>). A calculus of operations that
    always succeed (\<open>succeeds\<close>) is there for the steps.
  \<^item> \<open>Validation\<close>, \<open>Providers\<close>, \<open>Uc_Manager\<close>: what is upgraded to, and where it comes from.
  \<^item> \<open>Reconcile\<close>: the controller, as a refinement of the abstract machine of phases \<open>phase_step\<close>, with the gate
    in front of the upgrader (\<open>cleared_to_start\<close>). \<open>Controllers\<close>, \<open>Collector\<close>: the smaller controllers and
    the scrapes. \<open>Triggers\<close>: the event filters of the controllers and the time between two reconciliations; what the work
    queue of controller-runtime promises is the hypothesis \<open>queued\<close>.
  \<^item> \<open>Completion\<close>: the end of an upgrade. The calculus \<open>succeeds\<close> shows every step done on a
    cluster that has arrived (\<open>cluster_arrived\<close>); the locale \<open>finishing_upgrader\<close> extends \<open>cluster_upgrader\<close> and is
    interpreted on both upgraders.
  \<^item> \<open>Process_Start\<close> (\<open>main.go\<close>, \<open>pkg/k8sutil\<close>, \<open>pkg/metrics/collector\<close>): the start of the process, all or nothing and in order: the
    manager and the synchronisation run exactly when every call of \<open>set_up\<close> succeeded (\<open>start_up_sequence\<close>); and the metrics service on a restart.

  \<^bold>\<open>What the theorems show.\<close> The life of an upgrade follows the machine of phases on every outcome; the cluster is asked
  to upgrade only when the UpgradeConfig is valid, due and unchanged, after all preparatory steps of
  the same run, and only to a version it offers; an upgrade that is due does start, and on time, and one whose cluster has arrived is completed; a step run makes
  progress step by step and touches nothing else; a drain evicts only what it may; failures and alerts are
  raised only when their time is up; a refresh makes the cluster agree with the provider; the
  notified states move forward; the patterns of machine pools select what they describe; windows, jitter and timeouts stay in range. Several theorems state behaviour that is not
  what the code means to do: the missing deployment-validation client of ARO, the lost failure condition, the
  two checks of disruption budgets, the local provider, the unsorted drain strategies, by which a drain fails too early,
  the scale-up that is not resumed, the HTTP timeout, and the restart under another operator name.

  \<^bold>\<open>Not modelled.\<close> The set-up of the loggers and \<open>flag.Parse\<close> in \<open>main.go\<close>, the FIPS message, tool imports, the version
  strings that are only logged (\<open>fips.go\<close>, \<open>tools.go\<close>, \<open>version\<close>) and the group and version of the API (\<open>groupversion_info.go\<close>) have no behaviour
  of their own; gomock doubles are test code. Logging is left out. Texts of errors are kept where the code
  or a notification carries them, except for parts rendered by a library.
\<close>

section \<open>Properties that span components\<close>

text \<open>
  C16: The time of an upgrade survives the way from the OCM policy through the text of the UpgradeConfig to the
  scheduler: the provider formats the policy's next run and the scheduler parses it back to the same
  instant, cut to the second, in whatever zone the policy had. So the upgrade is ready exactly when the
  clock is past the policy's time, and breached exactly when the upgrade window has passed as well.
\<close>

theorem schedule_follows_policy:
  assumes spec: "buildUpgradeConfigSpecs lib p cluster ty = Ok specs" "specs = [Spec uc]"
    and zone: "pNextRunZone p mod 60 = 0" "\<bar>pNextRunZone p\<bar> < 25 * 3600"
    and year: "0 \<le> year_of ((pNextRun p div Second + pNextRunZone p) div 86400)"
      "year_of ((pNextRun p div Second + pNextRunZone p) div 86400) < 10000"
    and now: "time_now rt s = (now, s')"
  shows "\<exists>sr. IsReadyToUpgrade rt uc w s = (sr, s') \<and>
    (IsReady sr \<longleftrightarrow> pNextRun p - pNextRun p mod Second < now) \<and>
    (IsBreached sr \<longleftrightarrow> pNextRun p - pNextRun p mod Second < now \<and> pNextRun p - pNextRun p mod Second + w \<le> now)"
proof -
  have "Parse_RFC3339 (UpgradeAt (Spec uc)) = Some (pNextRun p - pNextRun p mod Second)"
    using buildUpgradeConfigSpecs_Ok [OF spec(1)] spec(2) Parse_Format [OF zone year] by simp
  then show ?thesis
    using now by (simp add: IsReadyToUpgrade_def Let_def)
qed

theorem schedule_follows_policy_witness:
  "\<exists>sr. IsReadyToUpgrade still_clock (sample_uc\<lparr>Spec := (Spec sample_uc)\<lparr>UpgradeAt := Format_RFC3339 (600 * Second) 7200\<rparr>\<rparr>) Minute () =
     (sr, ()) \<and> \<not> IsReady sr"
proof -
  let ?lib = "\<lparr>semver_Parse = (\<lambda>_. Inr \<lparr>Major = 4, Minor = 14, svRest = []\<rparr>), semver_Compare = (\<lambda>_ _. 0)\<rparr>"
  let ?p = "sample_policy\<lparr>pNextRunZone := 7200\<rparr>"
  let ?cl = "\<lparr>ocID = ''c1'', ocChannelGroup = ''stable'', ocNodeDrainGracePeriod = 60\<rparr>"
  let ?uc = "sample_uc\<lparr>Spec := (Spec sample_uc)\<lparr>UpgradeAt := Format_RFC3339 (600 * Second) 7200\<rparr>\<rparr>"
  have b: "buildUpgradeConfigSpecs ?lib ?p ?cl OSD = Ok [Spec ?uc]"
    by (simp add: buildUpgradeConfigSpecs_def inferUpgradeChannelFromChannelGroup_def sample_policy_def sample_uc_def show_int_def
        show_pos.simps digit_char_def wrap32_def)
       code_simp
  have y: "year_of ((pNextRun ?p div Second + pNextRunZone ?p) div 86400) = 1970"
    by (simp add: sample_policy_def) code_simp
  have t: "time_now still_clock () = (7, ())" by (simp add: still_clock_def)
  from schedule_follows_policy [OF b refl _ _ _ _ t, of Minute] y show ?thesis
    by (auto simp: sample_policy_def)
qed

text \<open>
  C25: A scrape never panics on what the step runner writes: from an UpgradeConfig whose conditions have their times,
  any run of any steps, complete, stopped or panicking, leaves one that the collector can report.
\<close>

theorem scrape_after_run:
  assumes "Run rt steps (uc, s) = (r, uc', s')" "timed_conditions uc"
  shows "fst (collect_samples bootstrapMetrics uc' v ch) \<noteq> Panic"
  using collect_samples_typed [of uc' v] Run_timed [OF assms] unfolding sends_typed_def
  by (metis prod.collapse)

theorem scrape_after_run_witness:
  "fst (collect_samples bootstrapMetrics (fst (snd (Run still_clock sample_steps (sample_uc, ())))) ''4.14.1'' []) \<noteq> Panic"
proof -
  obtain r uc' s' where r: "Run still_clock sample_steps (sample_uc, ()) = (r, uc', s')" by (metis prod.exhaust)
  have "timed_conditions sample_uc" by (simp add: timed_conditions_def sample_uc_def GetHistory_def)
  from scrape_after_run [OF r this] r show ?thesis by simp
qed

end
